(* ===== verification/Prelude.thy ===== *)
theory Prelude
  imports Complex_Main "HOL-Library.Sublist"
begin

text \<open>
  What the components share: JavaScript strings and numbers, the string functions
  of the standard library the sources call, and generic lemmas on lists.

  A JavaScript string is a list of \<^typ>\<open>char\<close>: the model covers the code units
  U+0000 to U+00FF (a \<^typ>\<open>char\<close> is the code unit of the same number). White space
  and case conversion are those of ECMAScript on that range. The two code units
  whose upper case lies outside the range (U+00B5 and U+00FF) are left unchanged
  by \<open>toUpperCase\<close>. A number is a rational, an infinity or NaN.
\<close>

named_theorems js_simps
named_theorems seg_intros
named_theorems tame_intros
named_theorems send_intros

section \<open>Strings\<close>

definition is_ws :: "char \<Rightarrow> bool" where
  "is_ws c = (of_char c \<in> {9, 10, 11, 12, 13, 32, 160 :: nat})"

definition is_line_end :: "char \<Rightarrow> bool" where
  "is_line_end c = (of_char c \<in> {10, 13 :: nat})"

definition is_digit :: "char \<Rightarrow> bool" where
  "is_digit c = (48 \<le> (of_char c :: nat) \<and> (of_char c :: nat) \<le> 57)"

definition is_upper :: "char \<Rightarrow> bool" where
  "is_upper c = (65 \<le> (of_char c :: nat) \<and> (of_char c :: nat) \<le> 90)"

definition is_lower :: "char \<Rightarrow> bool" where
  "is_lower c = (97 \<le> (of_char c :: nat) \<and> (of_char c :: nat) \<le> 122)"

definition is_alnum :: "char \<Rightarrow> bool" where
  "is_alnum c = (is_upper c \<or> is_lower c \<or> is_digit c)"

definition trim_start :: "string \<Rightarrow> string" where
  "trim_start s = dropWhile is_ws s"

definition trim :: "string \<Rightarrow> string" where
  "trim s = rev (dropWhile is_ws (rev (trim_start s)))"

definition lower_char :: "char \<Rightarrow> char" where
  "lower_char c =
     (let n = (of_char c :: nat)
      in if (65 \<le> n \<and> n \<le> 90) \<or> (192 \<le> n \<and> n \<le> 222 \<and> n \<noteq> 215)
         then char_of (n + 32) else c)"

definition to_lower :: "string \<Rightarrow> string" where
  "to_lower s = map lower_char s"

definition upper_char :: "char \<Rightarrow> string" where
  "upper_char c =
     (let n = (of_char c :: nat)
      in if n = 223 then ''SS''
         else if (97 \<le> n \<and> n \<le> 122) \<or> (224 \<le> n \<and> n \<le> 254 \<and> n \<noteq> 247)
         then [char_of (n - 32)] else [c])"

definition to_upper :: "string \<Rightarrow> string" where
  "to_upper s = concat (map upper_char s)"

fun str_includes :: "string \<Rightarrow> string \<Rightarrow> bool" where
  "str_includes [] needle = (needle = [])"
| "str_includes (c # cs) needle = (take (length needle) (c # cs) = needle \<or> str_includes cs needle)"

fun split_on :: "char \<Rightarrow> string \<Rightarrow> string list" where
  "split_on sep [] = [[]]"
| "split_on sep (c # cs) =
     (if c = sep then [] # split_on sep cs
      else case split_on sep cs of [] \<Rightarrow> [[c]] | w # ws \<Rightarrow> (c # w) # ws)"

fun join_with :: "string \<Rightarrow> string list \<Rightarrow> string" where
  "join_with sep [] = []"
| "join_with sep [w] = w"
| "join_with sep (w # v # ws) = w @ sep @ join_with sep (v # ws)"

definition starts_with :: "string \<Rightarrow> string \<Rightarrow> bool" where
  "starts_with s p = (take (length p) s = p)"

fun show_nat :: "nat \<Rightarrow> string" where
  "show_nat n = (if n < 10 then [char_of (48 + n)] else show_nat (n div 10) @ [char_of (48 + n mod 10)])"

declare show_nat.simps [simp del]

lemma show_nat_nonempty [simp]: "show_nat n \<noteq> []"
  by (subst show_nat.simps) simp

lemma show_nat_digits: "list_all is_digit (show_nat n)"
  by (induction n rule: show_nat.induct) (auto simp: show_nat.simps is_digit_def)

lemma char_of_inject: "m < 256 \<Longrightarrow> n < 256 \<Longrightarrow> (char_of m :: char) = char_of n \<longleftrightarrow> m = (n :: nat)"
  by (metis char_of_eq_iff mod_less of_char_of take_bit_eq_mod)

lemma show_nat_inject [simp]: "show_nat m = show_nat n \<longleftrightarrow> m = n"
proof (induction m arbitrary: n rule: show_nat.induct)
  case (1 m)
  have "m = n" if "show_nat m = show_nat n"
  proof (cases "m < 10 \<longleftrightarrow> n < 10")
    case True
    then have "m = n \<or> m div 10 = n div 10 \<and> m mod 10 = n mod 10" using that 1[of "n div 10"]
      by (auto simp: show_nat.simps[of m] show_nat.simps[of n] char_of_inject)
    then show ?thesis by (metis div_mult_mod_eq)
  next
    case False
    then show ?thesis using that show_nat_nonempty[THEN not_sym, of "m div 10"] show_nat_nonempty[THEN not_sym, of "n div 10"]
      by (auto simp: show_nat.simps[of m] show_nat.simps[of n])
  qed
  then show ?case by auto
qed

text \<open>\<open>x || null\<close> on a string: the empty string is falsy.\<close>

definition or_null :: "string \<Rightarrow> string option" where
  "or_null s = (if s = [] then None else Some s)"

lemma or_null_simps [simp]:
  "or_null [] = None"
  "or_null (c # cs) = Some (c # cs)"
  by (simp_all add: or_null_def)

lemma or_null_Some [simp]: "or_null s = Some t \<longleftrightarrow> s = t \<and> t \<noteq> []"
  by (auto simp: or_null_def)

lemma or_null_None [simp]: "or_null s = None \<longleftrightarrow> s = []"
  by (simp add: or_null_def)

subsection \<open>Trimming and case conversion\<close>

lemma set_trim: "set (trim s) \<subseteq> set s"
  by (auto simp: trim_def trim_start_def dest!: set_dropWhileD)

lemma trim_empty [simp]: "trim [] = []"
  by (simp add: trim_def trim_start_def)

lemma hd_trim: "trim s \<noteq> [] \<Longrightarrow> \<not> is_ws (hd (trim s))"
proof -
  assume ne: "trim s \<noteq> []"
  let ?t = "trim_start s"
  have "?t \<noteq> []" using ne by (auto simp: trim_def)
  then have h: "\<not> is_ws (hd ?t)"
    by (simp add: trim_start_def hd_dropWhile)
  obtain u where u: "?t = trim s @ u"
    using takeWhile_dropWhile_id [of is_ws "rev ?t"]
    by (metis rev_append rev_rev_ident trim_def)
  show ?thesis using h ne u by (metis hd_append2)
qed

lemma last_trim: "trim s \<noteq> [] \<Longrightarrow> \<not> is_ws (last (trim s))"
  by (simp add: trim_def last_rev hd_dropWhile)

lemma trim_id: "s = [] \<or> (\<not> is_ws (hd s) \<and> \<not> is_ws (last s)) \<Longrightarrow> trim s = s"
proof (cases s)
  case (Cons c cs)
  assume "s = [] \<or> (\<not> is_ws (hd s) \<and> \<not> is_ws (last s))"
  with Cons have a: "\<not> is_ws c" and b: "\<not> is_ws (last s)" by auto
  from a Cons have t: "trim_start s = s" by (simp add: trim_start_def)
  obtain d ds where r: "rev s = d # ds" using Cons by (cases "rev s") auto
  then have "d = last s" by (metis hd_rev list.sel(1))
  then have "dropWhile is_ws (rev s) = rev s" unfolding r using b by simp
  then show ?thesis by (simp add: trim_def t)
qed simp

lemma trim_idem [simp]: "trim (trim s) = trim s"
  by (rule trim_id) (auto dest: hd_trim last_trim)

lemma lower_char_idem [simp]: "lower_char (lower_char c) = lower_char c"
proof -
  have "(of_char c :: nat) < 256" by (metis of_char_of of_char_mod_256 mod_less_divisor zero_less_numeral)
  then show ?thesis
    by (auto simp: lower_char_def Let_def of_char_of)
qed

lemma to_lower_idem [simp]: "to_lower (to_lower s) = to_lower s"
  by (simp add: to_lower_def)

lemma length_to_lower [simp]: "length (to_lower s) = length s"
  by (simp add: to_lower_def)

lemma to_lower_Nil [simp]: "to_lower s = [] \<longleftrightarrow> s = []"
  by (simp add: to_lower_def)

lemma is_ws_lower_char [simp]: "is_ws (lower_char c) = is_ws c"
  by (auto simp: lower_char_def is_ws_def Let_def of_char_of)

lemma trim_to_lower: "trim (to_lower s) = to_lower (trim s)"
  by (simp add: trim_def trim_start_def to_lower_def dropWhile_map rev_map comp_def)

text \<open>An address as the pages send it: trimmed, in lower case.\<close>

definition normal_address :: "string \<Rightarrow> bool" where
  "normal_address a = (trim a = a \<and> to_lower a = a)"

lemma normal_address_norm [simp, intro]: "normal_address (to_lower (trim a))"
  by (simp add: normal_address_def trim_to_lower)

subsection \<open>Searching, splitting and joining\<close>

lemma includes_sublist: "str_includes s needle = sublist needle s"
proof (induction s)
  case Nil
  then show ?case by simp
next
  case (Cons c cs)
  have "take (length needle) (c # cs) = needle \<longleftrightarrow> prefix needle (c # cs)"
    by (metis append_eq_conv_conj prefix_def take_is_prefix)
  then show ?case using Cons by (simp add: sublist_Cons_right)
qed

lemma includes_char [simp]: "str_includes s [c] \<longleftrightarrow> c \<in> set s"
  by (induction s) auto

lemma split_on_nonempty [simp]: "split_on sep s \<noteq> []"
  by (induction s) (auto split: list.splits)

lemma split_on_no_sep: "w \<in> set (split_on sep s) \<Longrightarrow> sep \<notin> set w"
  by (induction s arbitrary: w) (auto split: list.splits if_splits)

lemma join_split: "join_with [sep] (split_on sep s) = s"
proof (induction s)
  case (Cons c cs)
  obtain w ws where sp: "split_on sep cs = w # ws"
    using split_on_nonempty by (cases "split_on sep cs") auto
  have "join_with [sep] (w # ws) = cs" using Cons sp by simp
  then show ?case using sp by (cases ws) auto
qed simp

lemma split_on_append: "sep \<notin> set w \<Longrightarrow> split_on sep (w @ sep # s) = w # split_on sep s"
  by (induction w) auto

lemma split_on_single: "sep \<notin> set w \<Longrightarrow> split_on sep w = [w]"
  by (induction w) auto

lemma split_join: "ws \<noteq> [] \<Longrightarrow> \<forall>w \<in> set ws. sep \<notin> set w \<Longrightarrow> split_on sep (join_with [sep] ws) = ws"
  by (induction "[sep]" ws rule: join_with.induct) (auto simp: split_on_append split_on_single)

section \<open>Numbers\<close>

datatype jsnum = NaN | Infinite bool | Num rat

fun is_integer :: "jsnum \<Rightarrow> bool" where
  "is_integer (Num q) = (of_int \<lfloor>q\<rfloor> = q)"
| "is_integer _ = False"

text \<open>The comparisons with a constant: false for NaN, the sign for an infinity.\<close>

fun num_less :: "jsnum \<Rightarrow> rat \<Rightarrow> bool" where
  "num_less NaN b = False"
| "num_less (Infinite pos) b = (\<not> pos)"
| "num_less (Num q) b = (q < b)"

fun num_greater :: "jsnum \<Rightarrow> rat \<Rightarrow> bool" where
  "num_greater NaN b = False"
| "num_greater (Infinite pos) b = pos"
| "num_greater (Num q) b = (b < q)"

fun num_at_least :: "jsnum \<Rightarrow> rat \<Rightarrow> bool" where
  "num_at_least NaN b = False"
| "num_at_least (Infinite pos) b = pos"
| "num_at_least (Num q) b = (b \<le> q)"

text \<open>The numbers that are the integers from \<open>lo\<close> to \<open>hi\<close>.\<close>

definition int_between :: "int \<Rightarrow> int \<Rightarrow> jsnum \<Rightarrow> bool" where
  "int_between lo hi v = (\<exists>n. v = Num (of_int n) \<and> lo \<le> n \<and> n \<le> hi)"

lemma int_betweenI:
  assumes "is_integer v" and "\<not> num_less v (of_int lo)" and "\<not> num_greater v (of_int hi)"
  shows "int_between lo hi v"
proof (cases v)
  case (Num q)
  with assms(1) have q: "q = of_int \<lfloor>q\<rfloor>" by auto
  with assms(2,3) Num have "lo \<le> \<lfloor>q\<rfloor>" and "\<lfloor>q\<rfloor> \<le> hi"
    by (metis num_less.simps(3) not_less of_int_le_iff, metis num_greater.simps(3) not_less of_int_le_iff)
  with q Num show ?thesis by (auto simp: int_between_def)
qed (use assms in auto)

section \<open>Lists updated by position\<close>

text \<open>\<open>list.filter((_, i) => i !== index)\<close>\<close>

definition remove_at :: "nat \<Rightarrow> 'a list \<Rightarrow> 'a list" where
  "remove_at i xs = take i xs @ drop (Suc i) xs"

text \<open>\<open>list.map((o, i) => (i === index ? f(o) : o))\<close>\<close>

definition update_at :: "nat \<Rightarrow> ('a \<Rightarrow> 'a) \<Rightarrow> 'a list \<Rightarrow> 'a list" where
  "update_at i f xs = (if i < length xs then xs[i := f (xs ! i)] else xs)"

lemma length_update_at [simp]: "length (update_at i f xs) = length xs"
  by (simp add: update_at_def)

lemma nth_update_at: "j < length xs \<Longrightarrow> update_at i f xs ! j = (if i = j then f (xs ! j) else xs ! j)"
  by (auto simp: update_at_def)

lemma length_remove_at: "i < length xs \<Longrightarrow> length (remove_at i xs) = length xs - 1"
  by (simp add: remove_at_def)

lemma remove_at_last [simp]: "remove_at (length xs) (xs @ [x]) = xs"
  by (simp add: remove_at_def)

lemma set_remove_at: "set (remove_at i xs) \<subseteq> set xs"
  by (auto simp: remove_at_def dest: in_set_takeD in_set_dropD)

end
