(* ===== verification/Async.thy ===== *)
theory Async
  imports Prelude
begin

text \<open>
  The asynchronous core: what an \<open>async\<close> method of the sources is, how the event loop
  runs several of them, and the three kinds of facts the components prove about
  their methods.

  A method is a \<^emph>\<open>command\<close>: a function from the component's state to the state at its
  first \<open>await\<close> (or at its end) and the process that is left. A process waits for
  the answer to a request, or for two sub-processes (\<open>Promise.all\<close> over two
  methods). Between two awaits nothing else runs, as in JavaScript; at an await the
  event loop may run any other handler and deliver any other answer. The answers
  are arbitrary: any value or any error, in any order.
\<close>

section \<open>Requests, errors, processes\<close>

text \<open>
  A thrown value: an \<open>HttpErrorResponse\<close> with its status and the string under
  \<open>error.detail\<close> (None when that is not a string), or anything else.
\<close>

datatype js_error = HttpError nat "string option" | OtherError

datatype json =
    JNull
  | JBool bool
  | JNum jsnum
  | JStr string
  | JArr "json list"
  | JObj "(string \<times> json) list"

datatype verb = GET | POST | PUT | PATCH | DELETE

text \<open>
  What a method can wait for: an API call (verb, path, query parameters, body), a
  call to another origin, a navigation of the router, a write to the clipboard, and the
  navigation of the whole document to another address, which ends the application.
\<close>

datatype request =
    Api verb string "(string \<times> string) list" "json option"
  | ExternalGet string
  | Navigate string
  | WriteClipboard string
  | Leave string

datatype (dead 's, dead 'r) proc =
    Done
  | Fail js_error
  | Wait "request list" "js_error + 'r list \<Rightarrow> 's \<Rightarrow> 's \<times> ('s, 'r) proc"
  | Both "('s, 'r) proc" "('s, 'r) proc" "js_error option \<Rightarrow> 's \<Rightarrow> 's \<times> ('s, 'r) proc"

type_synonym ('s, 'r) act = "'s \<Rightarrow> 's \<times> ('s, 'r) proc"

text \<open>How a process ended: not yet, without an error, with one.\<close>

fun outcome :: "('s, 'r) proc \<Rightarrow> js_error option option" where
  "outcome Done = Some None"
| "outcome (Fail e) = Some (Some e)"
| "outcome _ = None"

definition pending :: "('s, 'r) proc \<Rightarrow> bool" where
  "pending p = (outcome p = None)"

lemma pending_simps [simp]:
  "\<not> pending Done" "\<not> pending (Fail e)" "pending (Wait q k)" "pending (Both p1 p2 h)"
  by (simp_all add: pending_def)

section \<open>The statements of an asynchronous method\<close>

definition skip :: "('s, 'r) act" where
  "skip s = (s, Done)"

definition throw :: "js_error \<Rightarrow> ('s, 'r) act" where
  "throw e s = (s, Fail e)"

definition assign :: "('s \<Rightarrow> 's) \<Rightarrow> ('s, 'r) act" where
  "assign f s = (f s, Done)"

text \<open>Read the state where the statement runs.\<close>

definition look :: "('s \<Rightarrow> ('s, 'r) act) \<Rightarrow> ('s, 'r) act" where
  "look c s = c s s"

text \<open>Go on with \<open>h\<close> when the process has ended, given how it ended.\<close>

primrec continue :: "('s, 'r) proc \<Rightarrow> (js_error option \<Rightarrow> ('s, 'r) act) \<Rightarrow> ('s, 'r) act" where
  "continue Done = (\<lambda>h s. h None s)"
| "continue (Fail e) = (\<lambda>h s. h (Some e) s)"
| "continue (Wait q k) =
     (\<lambda>h s. (s, Wait q (\<lambda>r s'. case map_prod id continue (k r s') of (s'', f) \<Rightarrow> f h s'')))"
| "continue (Both p1 p2 k) =
     (\<lambda>h s. (s, Both p1 p2 (\<lambda>o' s'. case map_prod id continue (k o' s') of (s'', f) \<Rightarrow> f h s'')))"

definition after :: "('s, 'r) act \<Rightarrow> (js_error option \<Rightarrow> ('s, 'r) act) \<Rightarrow> ('s, 'r) act" where
  "after c h s = (case c s of (s', p) \<Rightarrow> continue p h s')"

definition seq :: "('s, 'r) act \<Rightarrow> ('s, 'r) act \<Rightarrow> ('s, 'r) act" where
  "seq c d = after c (case_option d throw)"

definition try_catch :: "('s, 'r) act \<Rightarrow> (js_error \<Rightarrow> ('s, 'r) act) \<Rightarrow> ('s, 'r) act" where
  "try_catch c h = after c (case_option skip h)"

text \<open>The \<open>finally\<close> blocks of the sources only assign; the error goes on afterwards.\<close>

definition try_finally :: "('s, 'r) act \<Rightarrow> ('s \<Rightarrow> 's) \<Rightarrow> ('s, 'r) act" where
  "try_finally c f = after c (case_option (assign f) (\<lambda>e s. (f s, Fail e)))"

definition await :: "request list \<Rightarrow> ('r list \<Rightarrow> ('s, 'r) act) \<Rightarrow> ('s, 'r) act" where
  "await qs k s = (s, Wait qs (\<lambda>r. case r of Inl e \<Rightarrow> throw e | Inr xs \<Rightarrow> k xs))"

text \<open>
  One call and the value it resolves with; \<open>dec\<close> reads the value at the type the
  source gives the call. A response of another shape ends in an error.
\<close>

definition call :: "request \<Rightarrow> ('r \<Rightarrow> 'a option) \<Rightarrow> ('a \<Rightarrow> ('s, 'r) act) \<Rightarrow> ('s, 'r) act" where
  "call q dec k =
     await [q] (\<lambda>xs. case xs of
        [x] \<Rightarrow> (case dec x of Some v \<Rightarrow> k v | None \<Rightarrow> throw OtherError)
      | _ \<Rightarrow> throw OtherError)"

text \<open>\<open>await Promise.all([a, b])\<close> over two calls: both values, or the first error.\<close>

definition call2 ::
  "request \<Rightarrow> ('r \<Rightarrow> 'a option) \<Rightarrow> request \<Rightarrow> ('r \<Rightarrow> 'b option) \<Rightarrow> ('a \<Rightarrow> 'b \<Rightarrow> ('s, 'r) act) \<Rightarrow> ('s, 'r) act" where
  "call2 q dec q' dec' k =
     await [q, q'] (\<lambda>xs. case xs of
        [x, y] \<Rightarrow> (case (dec x, dec' y) of (Some v, Some w) \<Rightarrow> k v w | _ \<Rightarrow> throw OtherError)
      | _ \<Rightarrow> throw OtherError)"

text \<open>
  \<open>await Promise.all([m1(), m2()])\<close> over two methods of the component: both run, the
  second from the state where the first one stopped. The join is the end of the later
  one; where a method rejects, JavaScript would go on at the first error, and the
  methods the sources combine in this way never reject.
\<close>

definition first_error :: "js_error option \<Rightarrow> js_error option \<Rightarrow> js_error option" where
  "first_error o1 o2 = (case o1 of None \<Rightarrow> o2 | Some e \<Rightarrow> Some e)"

definition join ::
  "('s, 'r) proc \<Rightarrow> ('s, 'r) proc \<Rightarrow> (js_error option \<Rightarrow> ('s, 'r) act) \<Rightarrow> ('s, 'r) act" where
  "join p1 p2 k s =
     (case (outcome p1, outcome p2) of
        (Some o1, Some o2) \<Rightarrow> k (first_error o1 o2) s
      | _ \<Rightarrow> (s, Both p1 p2 k))"

definition all_of :: "('s, 'r) act \<Rightarrow> ('s, 'r) act \<Rightarrow> ('s, 'r) act" where
  "all_of c d s =
     (case c s of (s1, p1) \<Rightarrow> case d s1 of (s2, p2) \<Rightarrow> join p1 p2 (case_option skip throw) s2)"

section \<open>The event loop\<close>

text \<open>
  An answer is delivered to the request at a position of a process: \<open>False\<close> and \<open>True\<close>
  choose the side of a \<^const>\<open>Both\<close>. Nothing happens where no request is waiting.
\<close>

fun deliver :: "bool list \<Rightarrow> js_error + 'r list \<Rightarrow> ('s, 'r) proc \<Rightarrow> ('s, 'r) act" where
  "deliver [] r (Wait q k) s = k r s"
| "deliver (False # pos) r (Both p1 p2 k) s =
     (case deliver pos r p1 s of (s', p1') \<Rightarrow> join p1' p2 k s')"
| "deliver (True # pos) r (Both p1 p2 k) s =
     (case deliver pos r p2 s of (s', p2') \<Rightarrow> join p1 p2' k s')"
| "deliver pos r p s = (s, p)"

text \<open>The requests a process is waiting for.\<close>

primrec outstanding :: "('s, 'r) proc \<Rightarrow> request list" where
  "outstanding Done = []"
| "outstanding (Fail e) = []"
| "outstanding (Wait q k) = q"
| "outstanding (Both p1 p2 k) = outstanding p1 @ outstanding p2"

definition in_flight :: "('s, 'r) proc list \<Rightarrow> request set" where
  "in_flight ps = set (concat (map outstanding ps))"

text \<open>
  The configurations of a component: its state and every process it has started. The
  constructor runs first; then the user's events (handled by \<open>handle\<close>) and the answers
  come in any order.
\<close>

inductive reachable ::
  "('e \<Rightarrow> ('s, 'r) act) \<Rightarrow> ('s, 'r) act \<Rightarrow> 's \<Rightarrow> 's \<Rightarrow> ('s, 'r) proc list \<Rightarrow> bool"
  for handle boot s0 where
  boot: "boot s0 = (s, p) \<Longrightarrow> reachable handle boot s0 s [p]"
| event: "reachable handle boot s0 s ps \<Longrightarrow> handle e s = (s', p) \<Longrightarrow>
     reachable handle boot s0 s' (ps @ [p])"
| answer: "reachable handle boot s0 s ps \<Longrightarrow> i < length ps \<Longrightarrow> deliver pos r (ps ! i) s = (s', p) \<Longrightarrow>
     reachable handle boot s0 s' (ps[i := p])"

text \<open>No request is waiting: every process has ended.\<close>

definition quiescent :: "('s, 'r) proc list \<Rightarrow> bool" where
  "quiescent ps = (\<forall>p \<in> set ps. \<not> pending p)"

text \<open>A run of one method against a list of answers, for concrete executions.\<close>

fun answers :: "(bool list \<times> (js_error + 'r list)) list \<Rightarrow> 's \<times> ('s, 'r) proc \<Rightarrow> 's \<times> ('s, 'r) proc" where
  "answers [] sp = sp"
| "answers ((pos, r) # rs) (s, p) = answers rs (deliver pos r p s)"

section \<open>Induction over processes\<close>

lemma proc_induct [case_names Done Fail Wait Both]:
  assumes "P Done" and "\<And>e. P (Fail e)"
    and W: "\<And>q k. (\<And>r s. P (snd (k r s))) \<Longrightarrow> P (Wait q k)"
    and B: "\<And>p1 p2 k. P p1 \<Longrightarrow> P p2 \<Longrightarrow> (\<And>o' s. P (snd (k o' s))) \<Longrightarrow> P (Both p1 p2 k)"
  shows "P p"
proof (induction p)
  case (Wait q k)
  show ?case
  proof (rule W)
    fix r s
    show "P (snd (k r s))" by (rule Wait) (auto simp: snds.simps)
  qed
next
  case (Both p1 p2 k)
  show ?case
  proof (rule B)
    show "P p1" "P p2" by fact+
    fix o' s
    show "P (snd (k o' s))" by (rule Both(3)) (auto simp: snds.simps)
  qed
qed (use assms in auto)

end
