(* ===== verification/Async_Rules.thy ===== *)
theory Async_Rules
  imports Async
begin

text \<open>
  Three kinds of facts about asynchronous methods, each with one rule per statement,
  and the locales that lift them to every interleaving of a component's handlers:
  \<^item> \<open>segs R c\<close>: every atomic segment of \<open>c\<close> relates the state before it to the state
    after it by \<open>R\<close> (invariants, frames);
  \<^item> \<open>sends P c\<close>: every request \<open>c\<close> can ever issue satisfies \<open>P\<close>;
  \<^item> \<open>tame f c\<close> and \<open>clears f c\<close>: \<open>c\<close> never leaves the busy flag \<open>f\<close> raised behind.
\<close>

section \<open>Segments\<close>

primrec segs_proc :: "('s \<Rightarrow> 's \<Rightarrow> bool) \<Rightarrow> ('s, 'r) proc \<Rightarrow> bool" where
  "segs_proc R Done = True"
| "segs_proc R (Fail e) = True"
| "segs_proc R (Wait q k) =
     (\<forall>r s. case map_prod id (segs_proc R) (k r s) of (s', b) \<Rightarrow> R s s' \<and> b)"
| "segs_proc R (Both p1 p2 k) =
     (segs_proc R p1 \<and> segs_proc R p2 \<and>
      (\<forall>o' s. case map_prod id (segs_proc R) (k o' s) of (s', b) \<Rightarrow> R s s' \<and> b))"

definition segs_at :: "('s \<Rightarrow> 's \<Rightarrow> bool) \<Rightarrow> 's \<Rightarrow> 's \<times> ('s, 'r) proc \<Rightarrow> bool" where
  "segs_at R s sp = (R s (fst sp) \<and> segs_proc R (snd sp))"

definition segs :: "('s \<Rightarrow> 's \<Rightarrow> bool) \<Rightarrow> ('s, 'r) act \<Rightarrow> bool" where
  "segs R c = (\<forall>s. segs_at R s (c s))"

lemma segs_proc_Wait [simp]: "segs_proc R (Wait q k) = (\<forall>r s. segs_at R s (k r s))"
  by (auto simp: segs_at_def split_beta)

lemma segs_proc_Both [simp]:
  "segs_proc R (Both p1 p2 k) = (segs_proc R p1 \<and> segs_proc R p2 \<and> (\<forall>o'. segs R (k o')))"
  by (auto simp: segs_at_def segs_def split_beta)

declare segs_proc.simps(3,4) [simp del]

lemma segsD: "segs R c \<Longrightarrow> segs_at R s (c s)"
  by (simp add: segs_def)

lemma continue_Wait [simp]:
  "continue (Wait q k) h s = (s, Wait q (\<lambda>r s'. after (k r) h s'))"
  by (auto simp: after_def fun_eq_iff split: prod.splits)

lemma continue_Both [simp]:
  "continue (Both p1 p2 k) h s = (s, Both p1 p2 (\<lambda>o' s'. after (k o') h s'))"
  by (auto simp: after_def fun_eq_iff split: prod.splits)

declare continue.simps(3,4) [simp del]

lemma after_eq: "after c h s = continue (snd (c s)) h (fst (c s))"
  by (simp add: after_def split_beta)

text \<open>A relation the segments may satisfy: closed under doing nothing and composition.\<close>

locale step_relation =
  fixes R :: "'s \<Rightarrow> 's \<Rightarrow> bool"
  assumes R_refl: "R s s"
    and R_trans: "R s s' \<Longrightarrow> R s' s'' \<Longrightarrow> R s s''"
begin

lemma segs_at_mono: "R s0 s \<Longrightarrow> segs_at R s sp \<Longrightarrow> segs_at R s0 sp"
  by (auto simp: segs_at_def intro: R_trans)

lemma segs_continue:
  assumes "segs_proc R p" and h: "\<And>o'. segs R (h o')"
  shows "segs_at R s (continue p h s)"
  using assms(1)
proof (induction p arbitrary: s rule: proc_induct)
  case Done
  show ?case using h by (simp add: segs_def)
next
  case (Fail e)
  show ?case using h by (simp add: segs_def)
next
  case (Wait q k)
  have "segs_at R s' (after (k r) h s')" for r s'
  proof -
    have k: "segs_at R s' (k r s')" using Wait.prems by simp
    then have "segs_at R (fst (k r s')) (continue (snd (k r s')) h (fst (k r s')))"
      by (intro Wait.IH) (simp add: segs_at_def)
    with k show ?thesis by (auto simp: after_eq segs_at_def intro: R_trans)
  qed
  then show ?case by (simp add: segs_at_def R_refl)
next
  case (Both p1 p2 k)
  have "segs R (\<lambda>s'. after (k o') h s')" for o'
    unfolding segs_def
  proof
    fix s'
    have k: "segs_at R s' (k o' s')" using Both.prems by (simp add: segs_def)
    then have "segs_at R (fst (k o' s')) (continue (snd (k o' s')) h (fst (k o' s')))"
      by (intro Both.IH) (simp add: segs_at_def)
    with k show "segs_at R s' (after (k o') h s')" by (auto simp: after_eq segs_at_def intro: R_trans)
  qed
  then show ?case using Both.prems by (simp add: segs_at_def R_refl)
qed

lemma segs_after: "segs R c \<Longrightarrow> (\<And>o'. segs R (h o')) \<Longrightarrow> segs R (after c h)"
  unfolding segs_def
proof
  fix s
  assume c: "\<forall>s. segs_at R s (c s)" and h: "\<And>o'. \<forall>s. segs_at R s (h o' s)"
  have "segs_at R (fst (c s)) (after c h s)"
    unfolding after_eq by (rule segs_continue) (use c h in \<open>auto simp: segs_at_def segs_def\<close>)
  moreover have "R s (fst (c s))" using c by (simp add: segs_at_def)
  ultimately show "segs_at R s (after c h s)" by (rule segs_at_mono [rotated])
qed

lemma segs_skip [seg_intros]: "segs R skip"
  by (simp add: segs_def segs_at_def skip_def R_refl)

lemma segs_throw [seg_intros]: "segs R (throw e)"
  by (simp add: segs_def segs_at_def throw_def R_refl)

lemma segs_assign [seg_intros]: "(\<forall>s. R s (f s)) \<Longrightarrow> segs R (assign f)"
  by (simp add: segs_def segs_at_def assign_def)

lemma segs_look [seg_intros]: "(\<forall>s. segs R (c s)) \<Longrightarrow> segs R (look c)"
  by (simp add: segs_def look_def)

lemma segs_if [seg_intros]: "(b \<longrightarrow> segs R c) \<Longrightarrow> (\<not> b \<longrightarrow> segs R d) \<Longrightarrow> segs R (if b then c else d)"
  by simp

lemma segs_seq [seg_intros]: "segs R c \<Longrightarrow> segs R d \<Longrightarrow> segs R (seq c d)"
  unfolding seq_def by (rule segs_after) (auto split: option.splits intro: segs_throw)

lemma segs_try_catch [seg_intros]: "segs R c \<Longrightarrow> (\<forall>e. segs R (h e)) \<Longrightarrow> segs R (try_catch c h)"
  unfolding try_catch_def by (rule segs_after) (auto split: option.splits intro: segs_skip)

lemma segs_try_finally [seg_intros]: "segs R c \<Longrightarrow> (\<forall>s. R s (f s)) \<Longrightarrow> segs R (try_finally c f)"
  unfolding try_finally_def
  by (rule segs_after) (auto split: option.splits simp: segs_def segs_at_def assign_def)

lemma segs_await: "(\<And>xs. segs R (k xs)) \<Longrightarrow> segs R (await qs k)"
  unfolding await_def segs_def segs_at_def
  by (auto simp: R_refl segs_at_def throw_def split: sum.splits)

lemma segs_call [seg_intros]: "(\<forall>v. segs R (k v)) \<Longrightarrow> segs R (call q dec k)"
  unfolding call_def by (rule segs_await) (auto intro: segs_throw split: list.splits option.splits)

lemma segs_call2 [seg_intros]: "(\<forall>v w. segs R (k v w)) \<Longrightarrow> segs R (call2 q dec q' dec' k)"
  unfolding call2_def by (rule segs_await) (auto intro: segs_throw split: list.splits option.splits)

lemma segs_join: "segs_proc R p1 \<Longrightarrow> segs_proc R p2 \<Longrightarrow> (\<And>o'. segs R (k o')) \<Longrightarrow> segs R (join p1 p2 k)"
  by (auto simp: segs_def join_def segs_at_def R_refl split: option.splits)

lemma segs_all_of [seg_intros]: "segs R c \<Longrightarrow> segs R d \<Longrightarrow> segs R (all_of c d)"
  unfolding segs_def
proof
  fix s
  assume c: "\<forall>s. segs_at R s (c s)" and d: "\<forall>s. segs_at R s (d s)"
  let ?s1 = "fst (c s)" and ?s2 = "fst (d (fst (c s)))"
  have "segs R (join (snd (c s)) (snd (d ?s1)) (case_option skip throw))"
    by (rule segs_join) (use c d in \<open>auto simp: segs_at_def intro: segs_skip segs_throw split: option.splits\<close>)
  then have "segs_at R ?s2 (all_of c d s)"
    by (simp add: segs_def all_of_def split_beta)
  moreover have "R s ?s2" using c d by (auto simp: segs_at_def intro: R_trans)
  ultimately show "segs_at R s (all_of c d s)" by (rule segs_at_mono [rotated])
qed

lemma segs_deliver: "segs_proc R p \<Longrightarrow> segs_at R s (deliver pos r p s)"
proof (induction pos r p s rule: deliver.induct)
  case (2 pos r p1 p2 k s)
  let ?d = "deliver pos r p1 s"
  have d: "segs_at R s ?d" using 2 by simp
  have "segs R (join (snd ?d) p2 k)"
    by (rule segs_join) (use 2 d in \<open>auto simp: segs_at_def\<close>)
  then have "segs_at R (fst ?d) (join (snd ?d) p2 k (fst ?d))" by (simp add: segs_def)
  then show ?case using d by (auto simp: split_beta segs_at_def intro: R_trans)
next
  case (3 pos r p1 p2 k s)
  let ?d = "deliver pos r p2 s"
  have d: "segs_at R s ?d" using 3 by simp
  have "segs R (join p1 (snd ?d) k)"
    by (rule segs_join) (use 3 d in \<open>auto simp: segs_at_def\<close>)
  then have "segs_at R (fst ?d) (join p1 (snd ?d) k (fst ?d))" by (simp add: segs_def)
  then show ?case using d by (auto simp: split_beta segs_at_def intro: R_trans)
qed (auto simp: segs_at_def R_refl)

end

text \<open>The two relations the components use: an invariant is kept, an observation is.\<close>

definition keeps :: "('s \<Rightarrow> bool) \<Rightarrow> 's \<Rightarrow> 's \<Rightarrow> bool" where
  "keeps I s s' = (I s \<longrightarrow> I s')"

definition frame :: "('s \<Rightarrow> 'a) \<Rightarrow> 's \<Rightarrow> 's \<Rightarrow> bool" where
  "frame f s s' = (f s' = f s)"

lemma frameI [intro, simp]: "f s' = f s \<Longrightarrow> frame f s s'"
  by (simp add: frame_def)

lemma keepsI [intro]: "(I s \<Longrightarrow> I s') \<Longrightarrow> keeps I s s'"
  by (simp add: keeps_def)

interpretation kept: step_relation "keeps I" for I :: "'s \<Rightarrow> bool"
  by unfold_locales (auto simp: keeps_def)

interpretation framed: step_relation "frame f" for f :: "'s \<Rightarrow> 'a"
  by unfold_locales (auto simp: frame_def)

section \<open>Requests\<close>

primrec sends_proc :: "(request \<Rightarrow> bool) \<Rightarrow> ('s, 'r) proc \<Rightarrow> bool" where
  "sends_proc P Done = True"
| "sends_proc P (Fail e) = True"
| "sends_proc P (Wait q k) =
     (list_all P q \<and> (\<forall>r s. snd (map_prod id (sends_proc P) (k r s))))"
| "sends_proc P (Both p1 p2 k) =
     (sends_proc P p1 \<and> sends_proc P p2 \<and> (\<forall>o' s. snd (map_prod id (sends_proc P) (k o' s))))"

definition sends_at :: "(request \<Rightarrow> bool) \<Rightarrow> 's \<times> ('s, 'r) proc \<Rightarrow> bool" where
  "sends_at P sp = sends_proc P (snd sp)"

definition sends :: "(request \<Rightarrow> bool) \<Rightarrow> ('s, 'r) act \<Rightarrow> bool" where
  "sends P c = (\<forall>s. sends_at P (c s))"

lemma sends_proc_Wait [simp]: "sends_proc P (Wait q k) = (list_all P q \<and> (\<forall>r. sends P (k r)))"
  by (simp add: sends_def sends_at_def)

lemma sends_proc_Both [simp]:
  "sends_proc P (Both p1 p2 k) = (sends_proc P p1 \<and> sends_proc P p2 \<and> (\<forall>o'. sends P (k o')))"
  by (simp add: sends_def sends_at_def)

declare sends_proc.simps(3,4) [simp del]

lemma sends_continue:
  "sends_proc P p \<Longrightarrow> (\<And>o'. sends P (h o')) \<Longrightarrow> sends_at P (continue p h s)"
proof (induction p arbitrary: s rule: proc_induct)
  case (Wait q k)
  then have "sends P (after (k r) h)" for r
    by (auto simp: sends_def after_eq sends_at_def)
  then show ?case using Wait.prems by (simp add: sends_at_def sends_def)
next
  case (Both p1 p2 k)
  then have "sends P (after (k o') h)" for o'
    by (auto simp: sends_def after_eq sends_at_def)
  then show ?case using Both.prems by (simp add: sends_at_def sends_def)
qed (auto simp: sends_def)

lemma sends_after: "sends P c \<Longrightarrow> (\<And>o'. sends P (h o')) \<Longrightarrow> sends P (after c h)"
  by (auto simp: sends_def after_eq sends_at_def intro!: sends_continue[unfolded sends_at_def])

lemma sends_skip [send_intros]: "sends P skip"
  by (simp add: sends_def sends_at_def skip_def)

lemma sends_throw [send_intros]: "sends P (throw e)"
  by (simp add: sends_def sends_at_def throw_def)

lemma sends_assign [send_intros]: "sends P (assign f)"
  by (simp add: sends_def sends_at_def assign_def)

lemma sends_look [send_intros]: "(\<forall>s. sends P (c s)) \<Longrightarrow> sends P (look c)"
  by (simp add: sends_def look_def)

lemma sends_if [send_intros]:
  "(b \<longrightarrow> sends P c) \<Longrightarrow> (\<not> b \<longrightarrow> sends P d) \<Longrightarrow> sends P (if b then c else d)"
  by simp

lemma sends_seq [send_intros]: "sends P c \<Longrightarrow> sends P d \<Longrightarrow> sends P (seq c d)"
  unfolding seq_def by (rule sends_after) (auto split: option.splits intro: sends_throw)

lemma sends_try_catch [send_intros]:
  "sends P c \<Longrightarrow> (\<forall>e. sends P (h e)) \<Longrightarrow> sends P (try_catch c h)"
  unfolding try_catch_def by (rule sends_after) (auto split: option.splits intro: sends_skip)

lemma sends_try_finally [send_intros]: "sends P c \<Longrightarrow> sends P (try_finally c f)"
  unfolding try_finally_def
  by (rule sends_after) (auto split: option.splits simp: sends_def sends_at_def assign_def)

lemma sends_await: "list_all P qs \<Longrightarrow> (\<And>xs. sends P (k xs)) \<Longrightarrow> sends P (await qs k)"
  by (auto simp: await_def sends_def sends_at_def throw_def split: sum.splits)

lemma sends_call [send_intros]: "P q \<Longrightarrow> (\<forall>v. sends P (k v)) \<Longrightarrow> sends P (call q dec k)"
  unfolding call_def by (rule sends_await) (auto intro: sends_throw split: list.splits option.splits)

lemma sends_call2 [send_intros]:
  "P q \<Longrightarrow> P q' \<Longrightarrow> (\<forall>v w. sends P (k v w)) \<Longrightarrow> sends P (call2 q dec q' dec' k)"
  unfolding call2_def by (rule sends_await) (auto intro: sends_throw split: list.splits option.splits)

lemma sends_join:
  "sends_proc P p1 \<Longrightarrow> sends_proc P p2 \<Longrightarrow> (\<And>o'. sends P (k o')) \<Longrightarrow> sends_at P (join p1 p2 k s)"
  by (auto simp: sends_def join_def sends_at_def split: option.splits)

lemma sends_all_of [send_intros]: "sends P c \<Longrightarrow> sends P d \<Longrightarrow> sends P (all_of c d)"
  unfolding sends_def all_of_def split_beta
  by (intro allI sends_join)
    (auto simp: sends_at_def intro: sends_skip sends_throw split: option.splits)

lemma sends_deliver: "sends_proc P p \<Longrightarrow> sends_at P (deliver pos r p s)"
proof (induction pos r p s rule: deliver.induct)
  case (1 r q k s)
  then show ?case by (simp add: sends_def)
next
  case (2 pos r p1 p2 k s)
  then show ?case by (auto simp: split_beta sends_at_def intro!: sends_join[unfolded sends_at_def])
next
  case (3 pos r p1 p2 k s)
  then show ?case by (auto simp: split_beta sends_at_def intro!: sends_join[unfolded sends_at_def])
qed (auto simp: sends_at_def)

lemma sends_outstanding: "sends_proc P p \<Longrightarrow> q \<in> set (outstanding p) \<Longrightarrow> P q"
  by (induction p rule: proc_induct) (auto simp: list_all_iff)

lemma sends_mono: "sends P c \<Longrightarrow> (\<And>q. P q \<Longrightarrow> Q q) \<Longrightarrow> sends Q c"
proof -
  assume c: "sends P c" and PQ: "\<And>q. P q \<Longrightarrow> Q q"
  have "sends_proc P p \<Longrightarrow> sends_proc Q p" for p :: "('a, 'b) proc"
    using PQ by (induction p rule: proc_induct) (auto simp: sends_def sends_at_def list_all_iff)
  then show ?thesis using c by (auto simp: sends_def sends_at_def)
qed

end
