(* ===== verification/Busy_Flags.thy ===== *)
theory Busy_Flags
  imports Async_Rules
begin

text \<open>
  Busy flags (the spinners of the pages). A process \<^emph>\<open>supports\<close> a flag when it will
  have lowered it at the end of one of its later segments. A method is \<^emph>\<open>tame\<close> for a
  flag when it never raises it without supporting it afterwards, and \<^emph>\<open>clears\<close> it when
  the flag is down, or supported, as soon as the method has started.
\<close>

primrec supports :: "('s \<Rightarrow> bool) \<Rightarrow> ('s, 'r) proc \<Rightarrow> bool" where
  "supports f Done = False"
| "supports f (Fail e) = False"
| "supports f (Wait q k) =
     (\<forall>r s. case map_prod id (supports f) (k r s) of (s', b) \<Rightarrow> f s' \<longrightarrow> b)"
| "supports f (Both p1 p2 k) =
     (supports f p1 \<or> supports f p2 \<or>
      (\<forall>o' s. case map_prod id (supports f) (k o' s) of (s', b) \<Rightarrow> f s' \<longrightarrow> b))"

definition settled :: "('s \<Rightarrow> bool) \<Rightarrow> 's \<times> ('s, 'r) proc \<Rightarrow> bool" where
  "settled f sp = (f (fst sp) \<longrightarrow> supports f (snd sp))"

lemma supports_Wait [simp]: "supports f (Wait q k) = (\<forall>r s. settled f (k r s))"
  by (auto simp: settled_def split_beta)

lemma supports_Both [simp]:
  "supports f (Both p1 p2 k) = (supports f p1 \<or> supports f p2 \<or> (\<forall>o' s. settled f (k o' s)))"
  by (auto simp: settled_def split_beta)

declare supports.simps(3,4) [simp del]

lemma supports_pending: "supports f p \<Longrightarrow> pending p"
  by (cases p) auto

primrec tame_proc :: "('s \<Rightarrow> bool) \<Rightarrow> ('s, 'r) proc \<Rightarrow> bool" where
  "tame_proc f Done = True"
| "tame_proc f (Fail e) = True"
| "tame_proc f (Wait q k) =
     (\<forall>r s. (f (fst (k r s)) \<longrightarrow> f s \<or> supports f (snd (k r s))) \<and>
            snd (map_prod id (tame_proc f) (k r s)))"
| "tame_proc f (Both p1 p2 k) =
     (tame_proc f p1 \<and> tame_proc f p2 \<and>
      (\<forall>o' s. (f (fst (k o' s)) \<longrightarrow> f s \<or> supports f (snd (k o' s))) \<and>
              snd (map_prod id (tame_proc f) (k o' s))))"

definition tame_at :: "('s \<Rightarrow> bool) \<Rightarrow> 's \<Rightarrow> 's \<times> ('s, 'r) proc \<Rightarrow> bool" where
  "tame_at f s0 sp = ((f (fst sp) \<longrightarrow> f s0 \<or> supports f (snd sp)) \<and> tame_proc f (snd sp))"

definition tame :: "('s \<Rightarrow> bool) \<Rightarrow> ('s, 'r) act \<Rightarrow> bool" where
  "tame f c = (\<forall>s. tame_at f s (c s))"

definition clears_at :: "('s \<Rightarrow> bool) \<Rightarrow> 's \<times> ('s, 'r) proc \<Rightarrow> bool" where
  "clears_at f sp = (settled f sp \<and> tame_proc f (snd sp))"

definition clears :: "('s \<Rightarrow> bool) \<Rightarrow> ('s, 'r) act \<Rightarrow> bool" where
  "clears f c = (\<forall>s. clears_at f (c s))"

lemma tame_proc_Wait [simp]: "tame_proc f (Wait q k) = (\<forall>r. tame f (k r))"
  by (auto simp: tame_def tame_at_def)

lemma tame_proc_Both [simp]:
  "tame_proc f (Both p1 p2 k) = (tame_proc f p1 \<and> tame_proc f p2 \<and> (\<forall>o'. tame f (k o')))"
  by (auto simp: tame_def tame_at_def)

declare tame_proc.simps(3,4) [simp del]

lemma clears_tame: "clears f c \<Longrightarrow> tame f c"
  by (auto simp: clears_def tame_def clears_at_def tame_at_def settled_def)

lemma clears_tame_at: "clears_at f sp \<Longrightarrow> tame_at f s0 sp"
  by (auto simp: clears_at_def tame_at_def settled_def)

text \<open>The three ways an ended process and its continuation combine.\<close>

lemma continue_tame_settled:
  assumes "tame_proc f p" and h: "\<And>o'. tame f (h o')"
  shows "tame_at f s (continue p h s) \<and> (settled f (s, p) \<longrightarrow> settled f (continue p h s))"
  using assms(1)
proof (induction p arbitrary: s rule: proc_induct)
  case (Wait q k)
  have k: "tame_at f s' (k r s')" for r s' using Wait.prems by (simp add: tame_def)
  have a: "tame_at f s' (after (k r) h s') \<and> (settled f (k r s') \<longrightarrow> settled f (after (k r) h s'))" for r s'
    using Wait.IH[of r s' "fst (k r s')"] k[of s' r]
    by (auto simp: after_eq tame_at_def settled_def)
  then show ?case by (auto simp: tame_at_def tame_def settled_def)
next
  case (Both p1 p2 k)
  have k: "tame_at f s' (k o' s')" for o' s' using Both.prems by (simp add: tame_def)
  have a: "tame_at f s' (after (k o') h s') \<and> (settled f (k o' s') \<longrightarrow> settled f (after (k o') h s'))" for o' s'
    using Both.IH(3)[of o' s' "fst (k o' s')"] k[of s' o']
    by (auto simp: after_eq tame_at_def settled_def)
  then show ?case using Both.prems by (auto simp: tame_at_def tame_def settled_def)
qed (use h in \<open>auto simp: tame_def tame_at_def settled_def\<close>)

lemmas continue_tame = continue_tame_settled [THEN conjunct1]
lemmas continue_settled = continue_tame_settled [THEN conjunct2, rule_format]

lemma continue_clears:
  assumes "tame_proc f p" and h: "\<And>o'. clears f (h o')"
  shows "clears_at f (continue p h s)"
  using assms(1)
proof (induction p arbitrary: s rule: proc_induct)
  case (Wait q k)
  have "clears_at f (after (k r) h s')" for r s'
    using Wait.IH[of r s' "fst (k r s')"] Wait.prems by (simp add: after_eq tame_def tame_at_def)
  then show ?case
    by (auto simp: clears_at_def tame_def settled_def tame_at_def)
next
  case (Both p1 p2 k)
  have "clears_at f (after (k o') h s')" for o' s'
    using Both.IH(3)[of o' s' "fst (k o' s')"] Both.prems by (simp add: after_eq tame_def tame_at_def)
  then show ?case using Both.prems
    by (auto simp: clears_at_def tame_def settled_def tame_at_def)
qed (use h in \<open>auto simp: clears_def\<close>)

text \<open>The rules, one per statement; as rewrite rules they decide both predicates.\<close>

lemma tame_after: "tame f c \<Longrightarrow> (\<And>o'. tame f (h o')) \<Longrightarrow> tame f (after c h)"
proof -
  assume c: "tame f c" and h: "\<And>o'. tame f (h o')"
  have "tame_at f s (after c h s)" for s
    using continue_tame_settled[of f "snd (c s)" h "fst (c s)"] h c
    by (auto simp: after_eq tame_def[of f c] tame_at_def settled_def)
  then show ?thesis by (simp add: tame_def)
qed

lemma clears_after: "tame f c \<Longrightarrow> (\<And>o'. clears f (h o')) \<Longrightarrow> clears f (after c h)"
  by (auto simp: clears_def after_eq tame_def tame_at_def intro!: continue_clears[unfolded clears_def])

lemma clears_after_first: "clears f c \<Longrightarrow> (\<And>o'. tame f (h o')) \<Longrightarrow> clears f (after c h)"
proof -
  assume c: "clears f c" and h: "\<And>o'. tame f (h o')"
  have "clears_at f (after c h s)" for s
    using continue_tame_settled[of f "snd (c s)" h "fst (c s)"] h c
    by (auto simp: after_eq clears_def[of f c] clears_at_def tame_at_def)
  then show ?thesis by (simp add: clears_def)
qed

lemma tame_skip [tame_intros]: "tame f skip"
  by (simp add: tame_def tame_at_def skip_def)

lemma tame_throw [tame_intros]: "tame f (throw e)"
  by (simp add: tame_def tame_at_def throw_def)

lemma tame_assign [tame_intros]: "(\<forall>s. f (g s) \<longrightarrow> f s) \<Longrightarrow> tame f (assign g)"
  by (auto simp: tame_def tame_at_def assign_def)

lemma tame_look [tame_intros]: "(\<forall>s. tame f (c s)) \<Longrightarrow> tame f (look c)"
  by (simp add: tame_def look_def)

lemma tame_if [tame_intros]: "(b \<longrightarrow> tame f c) \<Longrightarrow> (\<not> b \<longrightarrow> tame f d) \<Longrightarrow> tame f (if b then c else d)"
  by simp

lemma tame_seq [tame_intros]: "tame f c \<and> tame f d \<or> clears f (seq c d) \<Longrightarrow> tame f (seq c d)"
proof (elim disjE conjE)
  assume "tame f c" "tame f d"
  then show ?thesis unfolding seq_def
    by (intro tame_after) (auto split: option.splits intro: tame_throw)
qed (rule clears_tame)

lemma tame_try_catch [tame_intros]:
  "tame f c \<Longrightarrow> (\<forall>e. tame f (h e)) \<Longrightarrow> tame f (try_catch c h)"
  unfolding try_catch_def by (intro tame_after) (auto split: option.splits intro: tame_skip)

lemma tame_try_finally [tame_intros]:
  "tame f c \<Longrightarrow> (\<forall>s. f (g s) \<longrightarrow> f s) \<Longrightarrow> tame f (try_finally c g)"
  unfolding try_finally_def
  by (intro tame_after) (auto split: option.splits simp: tame_def tame_at_def assign_def)

lemma tame_await: "(\<And>xs. tame f (k xs)) \<Longrightarrow> tame f (await qs k)"
  unfolding await_def tame_def tame_at_def
  by (auto simp: tame_def tame_at_def throw_def split: sum.splits)

lemma tame_call [tame_intros]: "(\<forall>v. tame f (k v)) \<Longrightarrow> tame f (call q dec k)"
  unfolding call_def by (rule tame_await) (auto intro: tame_throw split: list.splits option.splits)

lemma tame_call2 [tame_intros]: "(\<forall>v w. tame f (k v w)) \<Longrightarrow> tame f (call2 q dec q' dec' k)"
  unfolding call2_def by (rule tame_await) (auto intro: tame_throw split: list.splits option.splits)

lemma clears_assign [tame_intros]: "(\<forall>s. \<not> f (g s)) \<Longrightarrow> clears f (assign g)"
  by (auto simp: clears_def clears_at_def settled_def assign_def)

lemma clears_look [tame_intros]: "(\<forall>s. clears f (c s)) \<Longrightarrow> clears f (look c)"
  by (simp add: clears_def look_def)

lemma clears_if [tame_intros]:
  "(b \<longrightarrow> clears f c) \<Longrightarrow> (\<not> b \<longrightarrow> clears f d) \<Longrightarrow> clears f (if b then c else d)"
  by simp

lemma clears_seq_assign [tame_intros]: "clears f d \<Longrightarrow> clears f (seq (assign g) d)"
  by (simp add: clears_def seq_def after_eq assign_def)

lemma clears_try_finally [tame_intros]:
  "tame f c \<Longrightarrow> (\<forall>s. \<not> f (g s)) \<Longrightarrow> clears f (try_finally c g)"
  unfolding try_finally_def
  by (intro clears_after)
    (auto split: option.splits simp: clears_def clears_at_def assign_def settled_def)

text \<open>A call whose value and whose error both lead to a method that clears the flag.\<close>

lemma clears_try_catch_await:
  assumes "\<forall>xs. clears f (k xs) \<or> (\<exists>e. k xs = throw e)" and h: "\<forall>e. clears f (h e)"
  shows "clears f (try_catch (await qs k) h)"
proof -
  let ?h = "case_option skip h"
  have th: "tame f (?h o')" for o' using h by (auto intro: tame_skip clears_tame split: option.splits)
  have t: "clears f (after (throw e) ?h)" for e
    using h by (simp add: clears_def after_eq throw_def)
  have "clears f (after (k xs) ?h)" for xs
    using assms(1) t by (metis clears_after_first th)
  then have c: "clears f (after (case r of Inl e \<Rightarrow> throw e | Inr xs \<Rightarrow> k xs) ?h)" for r
    using t by (cases r) auto
  have eq: "try_catch (await qs k) h =
      (\<lambda>s. (s, Wait qs (\<lambda>r. after (case r of Inl e \<Rightarrow> throw e | Inr xs \<Rightarrow> k xs) ?h)))"
    by (simp add: fun_eq_iff try_catch_def after_eq[of "await qs k"] await_def)
  show ?thesis
    unfolding eq using c by (auto simp: clears_def clears_at_def settled_def intro: clears_tame[unfolded clears_def clears_at_def settled_def])
qed

lemma clears_try_catch_call [tame_intros]:
  assumes "\<forall>v. clears f (k v)" and "\<forall>e. clears f (h e)"
  shows "clears f (try_catch (call q dec k) h)"
  unfolding call_def by (rule clears_try_catch_await) (use assms in \<open>auto split: list.splits option.splits\<close>)

lemma clears_try_catch_call2 [tame_intros]:
  assumes "\<forall>v w. clears f (k v w)" and "\<forall>e. clears f (h e)"
  shows "clears f (try_catch (call2 q dec q' dec' k) h)"
  unfolding call2_def by (rule clears_try_catch_await) (use assms in \<open>auto split: list.splits option.splits\<close>)

text \<open>Two methods side by side.\<close>

lemma tame_join:
  "tame_proc f p1 \<Longrightarrow> tame_proc f p2 \<Longrightarrow> (\<And>o'. tame f (k o')) \<Longrightarrow> tame_at f s (join p1 p2 k s)"
  by (auto simp: tame_def join_def tame_at_def split: option.splits)

lemma settled_join:
  assumes "\<And>o'. tame f (k o')" and "f s \<Longrightarrow> supports f p1 \<or> supports f p2"
  shows "settled f (join p1 p2 k s)"
proof (cases "f s")
  case True
  then have "pending p1 \<or> pending p2" using assms(2) by (auto dest: supports_pending)
  then show ?thesis using assms(2) True
    by (auto simp: join_def settled_def pending_def split: option.splits)
next
  case False
  then show ?thesis using assms(1)
    by (auto simp: join_def settled_def tame_def tame_at_def split: option.splits)
qed

lemma tame_finish: "tame f (case_option skip throw o')"
  by (auto intro: tame_skip tame_throw split: option.splits)

lemma all_of_tame_settled:
  assumes "tame_at f s0 (c s)" and "tame f d"
  shows "tame_at f s0 (all_of c d s)"
    and "settled f (c s) \<Longrightarrow> settled f (all_of c d s)"
    and "settled f (d (fst (c s))) \<Longrightarrow> settled f (all_of c d s)"
proof -
  let ?s1 = "fst (c s)" and ?p1 = "snd (c s)"
  let ?s2 = "fst (d ?s1)" and ?p2 = "snd (d ?s1)"
  let ?j = "join ?p1 ?p2 (case_option skip throw) ?s2"
  have eq: "all_of c d s = ?j" by (simp add: all_of_def split_beta)
  have d: "tame_at f ?s1 (d ?s1)" using assms(2) by (simp add: tame_def)
  have tj: "tame_at f ?s2 ?j"
    by (rule tame_join) (use assms(1) d in \<open>auto simp: tame_at_def tame_finish\<close>)
  have sj: "settled f ?j" if "f ?s2 \<Longrightarrow> supports f ?p1 \<or> supports f ?p2"
    using that by (intro settled_join tame_finish)
  show "settled f (c s) \<Longrightarrow> settled f (all_of c d s)"
    unfolding eq using d by (intro sj) (auto simp: settled_def tame_at_def)
  show "settled f (d ?s1) \<Longrightarrow> settled f (all_of c d s)"
    unfolding eq by (intro sj) (auto simp: settled_def)
  show "tame_at f s0 (all_of c d s)"
  proof (cases "f s0")
    case True
    then show ?thesis using tj by (auto simp: eq tame_at_def)
  next
    case False
    then have "settled f ?j" using assms(1) d
      by (intro sj) (auto simp: tame_at_def)
    then show ?thesis using tj by (auto simp: eq tame_at_def settled_def)
  qed
qed

lemma tame_all_of [tame_intros]: "tame f c \<Longrightarrow> tame f d \<Longrightarrow> tame f (all_of c d)"
  by (auto simp: tame_def intro!: all_of_tame_settled(1)[unfolded tame_def])

lemma clears_all_of [tame_intros]:
  "clears f c \<and> tame f d \<or> tame f c \<and> clears f d \<Longrightarrow> clears f (all_of c d)"
  unfolding clears_def[of f "all_of c d"] clears_at_def
proof (intro allI conjI)
  fix s
  assume a: "clears f c \<and> tame f d \<or> tame f c \<and> clears f d"
  then have c: "tame_at f s (c s)" and d: "tame f d"
    by (auto simp: tame_def clears_def dest: clears_tame intro: clears_tame_at)
  show "settled f (all_of c d s)"
    using a all_of_tame_settled(2,3)[where c = c and s = s, OF c d] by (auto simp: clears_def clears_at_def)
  show "tame_proc f (snd (all_of c d s))"
    using all_of_tame_settled(1)[where c = c and s = s, OF c d] by (simp add: tame_at_def)
qed

end
