(* ===== verification/Event_Loop.thy ===== *)
theory Event_Loop
  imports Busy_Flags
begin

text \<open>
  From methods to runs: what is proved of the constructor and of each handler of a
  component holds in every configuration the event loop can reach, whatever the order
  of the events and of the answers. Each component interprets these locales on its own
  handlers.
\<close>

section \<open>Delivering an answer\<close>

lemma join_tame:
  assumes "tame_proc f p1" and "tame_proc f p2" and k: "\<And>o'. tame f (k o')"
    and up: "f s' \<Longrightarrow> f s \<or> supports f p1 \<or> supports f p2"
  shows "tame_at f s (join p1 p2 k s')"
proof -
  have t: "tame_at f s' (join p1 p2 k s')" using assms by (intro tame_join)
  show ?thesis
  proof (cases "f s")
    case False
    then have "settled f (join p1 p2 k s')" using k up by (intro settled_join) auto
    then show ?thesis using t by (auto simp: tame_at_def settled_def)
  qed (use t in \<open>auto simp: tame_at_def\<close>)
qed

lemma join_settled:
  assumes "\<And>o'. tame f (k o')"
    and "(f s' \<longrightarrow> supports f p1 \<or> supports f p2) \<or> (\<forall>o' s. settled f (k o' s))"
  shows "settled f (join p1 p2 k s')"
  using assms(2)
proof
  assume "f s' \<longrightarrow> supports f p1 \<or> supports f p2"
  with assms(1) show ?thesis by (intro settled_join) auto
next
  assume "\<forall>o' s. settled f (k o' s)"
  then show ?thesis by (auto simp: join_def settled_def split: option.splits)
qed

lemma deliver_tame:
  "tame_proc f p \<Longrightarrow>
    tame_at f s (deliver pos r p s) \<and> (supports f p \<longrightarrow> settled f (deliver pos r p s))"
proof (induction pos r p s rule: deliver.induct)
  case (1 r q k s)
  then show ?case by (simp add: tame_def)
next
  case (2 pos r p1 p2 k s)
  let ?d = "deliver pos r p1 s"
  have d: "tame_at f s ?d" "supports f p1 \<longrightarrow> settled f ?d" using 2 by auto
  have k: "\<And>o'. tame f (k o')" and p2: "tame_proc f p2" using 2 by auto
  have "tame_at f s (join (snd ?d) p2 k (fst ?d))"
    by (rule join_tame) (use d p2 k in \<open>auto simp: tame_at_def\<close>)
  moreover have "settled f (join (snd ?d) p2 k (fst ?d))" if "supports f (Both p1 p2 k)"
    by (rule join_settled) (use d k that in \<open>auto simp: settled_def\<close>)
  ultimately show ?case by (simp add: split_beta)
next
  case (3 pos r p1 p2 k s)
  let ?d = "deliver pos r p2 s"
  have d: "tame_at f s ?d" "supports f p2 \<longrightarrow> settled f ?d" using 3 by auto
  have k: "\<And>o'. tame f (k o')" and p1: "tame_proc f p1" using 3 by auto
  have "tame_at f s (join p1 (snd ?d) k (fst ?d))"
    by (rule join_tame) (use d p1 k in \<open>auto simp: tame_at_def\<close>)
  moreover have "settled f (join p1 (snd ?d) k (fst ?d))" if "supports f (Both p1 p2 k)"
    by (rule join_settled) (use d k that in \<open>auto simp: settled_def\<close>)
  ultimately show ?case by (simp add: split_beta)
qed (auto simp: tame_at_def settled_def)

section \<open>Invariants of a page\<close>

locale steady_page =
  fixes handle :: "'e \<Rightarrow> ('s, 'r) act" and boot :: "('s, 'r) act" and s0 :: 's
    and I :: "'s \<Rightarrow> bool"
  assumes start: "I s0"
    and boot_keeps: "segs (keeps I) boot"
    and handle_keeps: "segs (keeps I) (handle e)"
begin

lemma reachable_steady:
  "reachable handle boot s0 s ps \<Longrightarrow> I s \<and> (\<forall>p \<in> set ps. segs_proc (keeps I) p)"
proof (induction rule: reachable.induct)
  case (boot s p)
  then show ?case
    using start segsD[OF boot_keeps, of s0] by (auto simp: segs_at_def keeps_def[of I s0])
next
  case (event s ps e s' p)
  then show ?case
    using segsD[OF handle_keeps, of s e] by (auto simp: segs_at_def keeps_def[of I s s'])
next
  case (answer s ps i pos r s' p)
  then have "segs_at (keeps I) s (s', p)"
    using kept.segs_deliver[of I "ps ! i" s pos r] by auto
  then show ?case using answer.IH
    by (auto simp: segs_at_def keeps_def[of I s s'] dest: set_update_subset_insert[THEN subsetD])
qed

lemma invariant: "reachable handle boot s0 s ps \<Longrightarrow> I s"
  using reachable_steady by blast

end

section \<open>Busy flags of a page\<close>

locale quiet_start =
  fixes handle :: "'e \<Rightarrow> ('s, 'r) act" and boot :: "('s, 'r) act" and s0 :: 's
    and flags :: "('s \<Rightarrow> bool) list"
  assumes boot_tame: "list_all (\<lambda>f. clears_at f (boot s0) \<or> (tame_at f s0 (boot s0) \<and> \<not> f s0)) flags"
    and handle_tame: "list_all (\<lambda>f. tame f (handle e)) flags"
begin

lemma reachable_supported:
  assumes f: "f \<in> set flags"
  shows "reachable handle boot s0 s ps \<Longrightarrow>
    (f s \<longrightarrow> (\<exists>p \<in> set ps. supports f p)) \<and> (\<forall>p \<in> set ps. tame_proc f p)"
proof (induction rule: reachable.induct)
  case (boot s p)
  have "clears_at f (boot s0) \<or> (tame_at f s0 (boot s0) \<and> \<not> f s0)"
    using boot_tame f by (auto simp: list_all_iff)
  then show ?case using boot by (auto simp: clears_at_def tame_at_def settled_def)
next
  case (event s ps e s' p)
  have "tame_at f s (handle e s)" using handle_tame[of e] f by (auto simp: list_all_iff tame_def)
  then show ?case using event by (auto simp: tame_at_def)
next
  case (answer s ps i pos r s' p)
  have i: "ps ! i \<in> set ps" using answer by simp
  have d: "tame_at f s (s', p)" "supports f (ps ! i) \<longrightarrow> settled f (s', p)"
    using deliver_tame[of f "ps ! i" s pos r] answer i by auto
  have new: "p \<in> set (ps[i := p])" using answer.hyps by (simp add: set_update_memI)
  have old: "q \<in> set (ps[i := p])" if "q \<in> set ps" "q \<noteq> ps ! i" for q
    using that by (metis in_set_conv_nth length_list_update nth_list_update_neq)
  have "\<exists>q \<in> set (ps[i := p]). supports f q" if fs: "f s'"
  proof (cases "f s")
    case True
    then obtain q where q: "q \<in> set ps" "supports f q" using answer.IH by blast
    show ?thesis
    proof (cases "q = ps ! i")
      case True
      then have "supports f p" using d(2) q fs by (simp add: settled_def)
      then show ?thesis using new by blast
    next
      case False
      then show ?thesis using old q by blast
    qed
  next
    case False
    then have "supports f p" using d(1) fs by (simp add: tame_at_def)
    then show ?thesis using new by blast
  qed
  moreover have "\<forall>q \<in> set (ps[i := p]). tame_proc f q"
    using answer.IH d(1) by (auto simp: tame_at_def dest: set_update_subset_insert[THEN subsetD])
  ultimately show ?case by blast
qed

text \<open>A raised flag has a request behind it: nothing is busy once every request is answered.\<close>

lemma quiet: "reachable handle boot s0 s ps \<Longrightarrow> quiescent ps \<Longrightarrow> list_all (\<lambda>f. \<not> f s) flags"
  using reachable_supported by (fastforce simp: list_all_iff quiescent_def dest: supports_pending)

lemma busy_waits:
  "reachable handle boot s0 s ps \<Longrightarrow> f \<in> set flags \<Longrightarrow> f s \<Longrightarrow> \<exists>p \<in> set ps. pending p"
  using reachable_supported by (blast dest: supports_pending)

end

text \<open>A constructor that does the same from every state: the usual case.\<close>

locale quiet_page =
  fixes handle :: "'e \<Rightarrow> ('s, 'r) act" and boot :: "('s, 'r) act" and s0 :: 's
    and flags :: "('s \<Rightarrow> bool) list"
  assumes boot_clears: "list_all (\<lambda>f. clears f boot \<or> (tame f boot \<and> \<not> f s0)) flags"
    and handlers_tame: "list_all (\<lambda>f. tame f (handle e)) flags"

sublocale quiet_page \<subseteq> quiet_start
proof
  show "list_all (\<lambda>f. clears_at f (boot s0) \<or> (tame_at f s0 (boot s0) \<and> \<not> f s0)) flags"
    using boot_clears by (auto simp: list_all_iff clears_def tame_def)
  show "list_all (\<lambda>f. tame f (handle e)) flags" for e
    by (rule handlers_tame)
qed

section \<open>Requests of a page\<close>

locale guarded_page =
  fixes handle :: "'e \<Rightarrow> ('s, 'r) act" and boot :: "('s, 'r) act" and s0 :: 's
    and P :: "request \<Rightarrow> bool"
  assumes boot_sends: "sends P boot"
    and handle_sends: "sends P (handle e)"
begin

lemma reachable_sends:
  "reachable handle boot s0 s ps \<Longrightarrow> \<forall>p \<in> set ps. sends_proc P p"
proof (induction rule: reachable.induct)
  case (boot s p)
  then show ?case using boot_sends by (metis empty_iff insert_iff list.set sends_at_def sends_def snd_conv)
next
  case (event s ps e s' p)
  then have "sends_proc P p" using handle_sends[of e] by (metis sends_at_def sends_def snd_conv)
  then show ?case using event by auto
next
  case (answer s ps i pos r s' p)
  then have "sends_at P (s', p)" using sends_deliver[of P "ps ! i" pos r s] by auto
  then show ?case using answer.IH
    by (auto simp: sends_at_def dest: set_update_subset_insert[THEN subsetD])
qed

lemma requests:
  "reachable handle boot s0 s ps \<Longrightarrow> p \<in> set ps \<Longrightarrow> q \<in> set (outstanding p) \<Longrightarrow> P q"
  using reachable_sends by (blast intro: sends_outstanding)

lemma sent: "reachable handle boot s0 s ps \<Longrightarrow> q \<in> in_flight ps \<Longrightarrow> P q"
  using requests by (auto simp: in_flight_def)

end

text \<open>Requests that depend on what the state always satisfies: the handlers are only run from such states.\<close>

locale steady_guarded = steady_page handle boot s0 I
  for handle :: "'e \<Rightarrow> ('s, 'r) act" and boot :: "('s, 'r) act" and s0 :: 's and I :: "'s \<Rightarrow> bool" +
  fixes P :: "request \<Rightarrow> bool"
  assumes boot_sends_at: "sends_at P (boot s0)"
    and handle_sends_at: "I s \<Longrightarrow> sends_at P (handle e s)"
begin

lemma reachable_sends_at:
  "reachable handle boot s0 s ps \<Longrightarrow> \<forall>p \<in> set ps. sends_proc P p"
proof (induction rule: reachable.induct)
  case (boot s p)
  then show ?case using boot_sends_at by (simp add: sends_at_def)
next
  case (event s ps e s' p)
  have "I s" by (rule invariant) (rule event.hyps(1))
  then have "sends_proc P p" using handle_sends_at[of s e] event.hyps(2) by (simp add: sends_at_def)
  then show ?case using event.IH by auto
next
  case (answer s ps i pos r s' p)
  then have "sends_at P (s', p)" using sends_deliver[of P "ps ! i" pos r s] by auto
  then show ?case using answer.IH
    by (auto simp: sends_at_def dest: set_update_subset_insert[THEN subsetD])
qed

lemma sent: "reachable handle boot s0 s ps \<Longrightarrow> q \<in> in_flight ps \<Longrightarrow> P q"
  using reachable_sends_at by (auto simp: in_flight_def intro: sends_outstanding)

end

end
