(* ===== verification/Async_Bounds.thy ===== *)
theory Async_Bounds
  imports Event_Loop
begin

text \<open>
  Termination of asynchronous methods. \<open>ends n c\<close>: however \<open>c\<close> is answered, it has ended
  after at most \<open>n\<close> answers, and until then some request of it is waiting. There is one
  rule per statement; the bound of a composed method is computed from those of its parts.
  The locale lifts the bounds of the handlers of a page to its runs: once the events stop,
  only a bounded number of answers can still come, and when none can come any more every
  method has ended.
\<close>

section \<open>Methods\<close>

primrec ends_proc :: "('s, 'r) proc \<Rightarrow> nat \<Rightarrow> bool" where
  "ends_proc Done = (\<lambda>n. True)"
| "ends_proc (Fail e) = (\<lambda>n. True)"
| "ends_proc (Wait q k) =
     (\<lambda>n. \<exists>m. n = Suc m \<and> (\<forall>r s. snd (map_prod id ends_proc (k r s)) m))"
| "ends_proc (Both p1 p2 k) =
     (\<lambda>n. (pending p1 \<or> pending p2) \<and> (\<exists>a b c. n = a + b + c \<and> ends_proc p1 a \<and> ends_proc p2 b \<and>
        (\<forall>o' s. snd (map_prod id ends_proc (k o' s)) c)))"

definition ends :: "nat \<Rightarrow> ('s, 'r) act \<Rightarrow> bool" where
  "ends n c = (\<forall>s. ends_proc (snd (c s)) n)"

lemma ends_proc_Wait [simp]: "ends_proc (Wait q k) n = (\<exists>m. n = Suc m \<and> (\<forall>r. ends m (k r)))"
  by (simp add: ends_def)

lemma ends_proc_Both [simp]:
  "ends_proc (Both p1 p2 k) n = ((pending p1 \<or> pending p2) \<and>
     (\<exists>a b c. n = a + b + c \<and> ends_proc p1 a \<and> ends_proc p2 b \<and> (\<forall>o'. ends c (k o'))))"
  by (simp add: ends_def)

declare ends_proc.simps(3,4) [simp del]

lemma ends_proc_BothI:
  "pending p1 \<or> pending p2 \<Longrightarrow> ends_proc p1 a \<Longrightarrow> ends_proc p2 b \<Longrightarrow> (\<And>o'. ends c (k o')) \<Longrightarrow>
     n = a + b + c \<Longrightarrow> ends_proc (Both p1 p2 k) n"
  by auto

lemma ends_proc_mono: "ends_proc p n \<Longrightarrow> n \<le> m \<Longrightarrow> ends_proc p m"
proof (induction p arbitrary: n m rule: proc_induct)
  case (Wait q k)
  then obtain n' where n: "n = Suc n'" "\<forall>r. ends n' (k r)" by auto
  with Wait.prems obtain m' where "m = Suc m'" "n' \<le> m'" by (cases m) auto
  moreover have "ends m' (k r)" for r
    unfolding ends_def using n(2) \<open>n' \<le> m'\<close> by (blast intro: Wait.IH dest: ends_def[THEN iffD1])
  ultimately show ?case by simp
next
  case (Both p1 p2 k)
  then obtain a b c where n: "n = a + b + c" "ends_proc p1 a" "ends_proc p2 b" "\<forall>o'. ends c (k o')"
    by auto
  then have m: "m = a + b + (m - (a + b))" "c \<le> m - (a + b)" using Both.prems by auto
  have "ends (m - (a + b)) (k o')" for o'
    unfolding ends_def using n(4) m(2) by (blast intro: Both.IH(3) dest: ends_def[THEN iffD1])
  then show ?case using n m(1) Both.prems(1) by (intro ends_proc_BothI) auto
qed auto

lemma ends_mono: "ends n c \<Longrightarrow> n \<le> m \<Longrightarrow> ends m c"
  by (auto simp: ends_def intro: ends_proc_mono)

text \<open>A process and what goes on after it.\<close>

lemma ends_continue:
  "ends_proc p a \<Longrightarrow> (\<And>o'. ends b (h o')) \<Longrightarrow> ends_proc (snd (continue p h s)) (a + b)"
proof (induction p arbitrary: a s rule: proc_induct)
  case (Wait q k)
  then obtain m where m: "a = Suc m" "\<forall>r. ends m (k r)" by auto
  have "ends (m + b) (after (k r) h)" for r
    using Wait.IH[of r _ m] m Wait.prems(2) by (auto simp: ends_def after_eq)
  with m show ?case by simp
next
  case (Both p1 p2 k)
  then obtain n1 n2 c where n: "a = n1 + n2 + c" "ends_proc p1 n1" "ends_proc p2 n2" "\<forall>o'. ends c (k o')"
    by auto
  have "ends (c + b) (after (k o') h)" for o'
    using Both.IH(3)[of o' _ c] n(4) Both.prems(2) by (auto simp: ends_def after_eq)
  moreover have "pending p1 \<or> pending p2" using Both.prems(1) by simp
  ultimately have "ends_proc (Both p1 p2 (\<lambda>o'. after (k o') h)) (a + b)"
    using n by (intro ends_proc_BothI[where c = "c + b"]) auto
  then show ?case by simp
next
  case Done
  then show ?case by (simp add: ends_def ends_proc_mono[of _ b])
next
  case (Fail e)
  then show ?case by (simp add: ends_def ends_proc_mono[of _ b])
qed

lemma ends_after: "ends a c \<Longrightarrow> (\<And>o'. ends b (h o')) \<Longrightarrow> ends (a + b) (after c h)"
  by (simp add: ends_def after_eq ends_continue)

section \<open>One rule per statement\<close>

named_theorems ends_intros

lemma ends_skip [ends_intros]: "ends 0 skip"
  by (simp add: ends_def skip_def)

lemma ends_throw [ends_intros]: "ends 0 (throw e)"
  by (simp add: ends_def throw_def)

lemma ends_assign [ends_intros]: "ends 0 (assign f)"
  by (simp add: ends_def assign_def)

lemma ends_look [ends_intros]: "(\<And>s. ends n (c s)) \<Longrightarrow> ends n (look c)"
  by (simp add: ends_def look_def)

lemma ends_if [ends_intros]: "ends a c \<Longrightarrow> ends b d \<Longrightarrow> ends (max a b) (if x then c else d)"
  by (auto intro: ends_mono)

lemma ends_option [ends_intros]:
  assumes "ends a c" and "\<And>v. ends b (d v)"
  shows "ends (max a b) (case x of None \<Rightarrow> c | Some v \<Rightarrow> d v)"
  using ends_mono[OF assms(1)] ends_mono[OF assms(2)] by (cases x) simp_all

lemma ends_seq [ends_intros]: "ends a c \<Longrightarrow> ends b d \<Longrightarrow> ends (a + b) (seq c d)"
  unfolding seq_def
  by (rule ends_after) (auto split: option.splits intro: ends_mono[OF ends_throw])

lemma ends_try_catch [ends_intros]: "ends a c \<Longrightarrow> (\<And>e. ends b (h e)) \<Longrightarrow> ends (a + b) (try_catch c h)"
  unfolding try_catch_def
  by (rule ends_after) (auto split: option.splits intro: ends_mono[OF ends_skip])

lemma ends_try_finally [ends_intros]: "ends a c \<Longrightarrow> ends a (try_finally c f)"
  using ends_after[of a c 0 "case_option (assign f) (\<lambda>e s. (f s, Fail e))"]
  by (auto simp: try_finally_def ends_def assign_def split: option.splits)

lemma ends_await: "(\<And>xs. ends n (k xs)) \<Longrightarrow> ends (Suc n) (await qs k)"
  by (auto simp: ends_def[of "Suc n"] await_def intro: ends_mono[OF ends_throw] split: sum.splits)

lemma ends_call [ends_intros]: "(\<And>v. ends n (k v)) \<Longrightarrow> ends (Suc n) (call q dec k)"
  unfolding call_def
  by (rule ends_await) (auto intro: ends_mono[OF ends_throw] split: list.splits option.splits)

lemma ends_call2 [ends_intros]: "(\<And>v w. ends n (k v w)) \<Longrightarrow> ends (Suc n) (call2 q dec q' dec' k)"
  unfolding call2_def
  by (rule ends_await) (auto intro: ends_mono[OF ends_throw] split: list.splits option.splits)

lemma ends_join:
  assumes "ends_proc p1 a" and "ends_proc p2 b" and k: "\<And>o'. ends c (k o')"
  shows "ends_proc (snd (join p1 p2 k s)) (a + b + c)"
proof (cases "pending p1 \<or> pending p2")
  case True
  then show ?thesis using assms by (auto simp: join_def pending_def split: option.splits)
next
  case False
  then have "snd (join p1 p2 k s) = snd (k (first_error (the (outcome p1)) (the (outcome p2))) s)"
    by (auto simp: join_def pending_def split: option.splits)
  then show ?thesis using k unfolding ends_def by (auto intro: ends_proc_mono[of _ c])
qed

lemma ends_all_of [ends_intros]: "ends a c \<Longrightarrow> ends b d \<Longrightarrow> ends (a + b) (all_of c d)"
proof -
  assume c: "ends a c" and d: "ends b d"
  have f: "ends 0 (case_option skip throw o')" for o' :: "js_error option"
    by (auto intro: ends_skip ends_throw split: option.splits)
  have "ends_proc (snd (join (snd (c s)) (snd (d s1)) (case_option skip throw) s2)) (a + b + 0)" for s s1 s2
    by (rule ends_join[OF _ _ f]) (use c d in \<open>auto simp: ends_def\<close>)
  then show ?thesis by (simp add: ends_def[of "a + b"] all_of_def split_beta)
qed

section \<open>Answers\<close>

text \<open>The positions of a process where a request is waiting.\<close>

fun waiting :: "bool list \<Rightarrow> ('s, 'r) proc \<Rightarrow> bool" where
  "waiting [] (Wait q k) = True"
| "waiting (False # pos) (Both p1 p2 k) = waiting pos p1"
| "waiting (True # pos) (Both p1 p2 k) = waiting pos p2"
| "waiting pos p = False"

lemma ends_deliver:
  "ends_proc p n \<Longrightarrow> waiting pos p \<Longrightarrow> \<exists>m. n = Suc m \<and> ends_proc (snd (deliver pos r p s)) m"
proof (induction pos r p s arbitrary: n rule: deliver.induct)
  case (2 pos r p1 p2 k s)
  then obtain a b c where n: "n = a + b + c" "ends_proc p1 a" "ends_proc p2 b" "\<forall>o'. ends c (k o')"
    by auto
  with 2 obtain a' where "a = Suc a'" "ends_proc (snd (deliver pos r p1 s)) a'" by auto
  with n show ?case using ends_join[of _ a' p2 b c k] by (auto simp: split_beta)
next
  case (3 pos r p1 p2 k s)
  then obtain a b c where n: "n = a + b + c" "ends_proc p1 a" "ends_proc p2 b" "\<forall>o'. ends c (k o')"
    by auto
  with 3 obtain b' where "b = Suc b'" "ends_proc (snd (deliver pos r p2 s)) b'" by auto
  with n show ?case using ends_join[of p1 a _ b' c k] by (auto simp: split_beta)
qed (auto simp: ends_def)

lemma ends_deliver_any: "ends_proc p n \<Longrightarrow> ends_proc (snd (deliver pos r p s)) n"
proof (cases "waiting pos p")
  case True
  assume "ends_proc p n"
  from ends_deliver[OF this True, of r s] show ?thesis by (auto intro: ends_proc_mono)
next
  case False
  assume e: "ends_proc p n"
  have "snd (deliver pos r p s) = p" if "\<not> waiting pos p" for pos
    using that e
  proof (induction pos r p s arbitrary: n rule: deliver.induct)
    case (2 pos r p1 p2 k s)
    then show ?case by (fastforce simp: split_beta join_def pending_def split: option.splits)
  next
    case (3 pos r p1 p2 k s)
    then show ?case by (fastforce simp: split_beta join_def pending_def split: option.splits)
  qed auto
  with False e show ?thesis by simp
qed

lemma pending_waits: "ends_proc p n \<Longrightarrow> pending p \<Longrightarrow> \<exists>pos. waiting pos p"
proof (induction p arbitrary: n rule: proc_induct)
  case (Wait q k)
  have "waiting [] (Wait q k)" by simp
  then show ?case by blast
next
  case (Both p1 p2 k)
  then consider "\<exists>pos. waiting pos p1" | "\<exists>pos. waiting pos p2" by auto
  then show ?case by cases (metis waiting.simps(2), metis waiting.simps(3))
qed auto

lemma waiting_ended [simp]: "\<not> waiting pos Done" "\<not> waiting pos (Fail e)"
  by (cases "(pos, Done)" rule: waiting.cases; simp) (cases "(pos, Fail e)" rule: waiting.cases; simp)

section \<open>Runs of a page\<close>

text \<open>\<open>n\<close> answers, and no event, lead from one configuration to another.\<close>

inductive answered :: "'s \<times> ('s, 'r) proc list \<Rightarrow> nat \<Rightarrow> 's \<times> ('s, 'r) proc list \<Rightarrow> bool" for c0 where
  none: "answered c0 0 c0"
| more: "answered c0 n (s, ps) \<Longrightarrow> i < length ps \<Longrightarrow> waiting pos (ps ! i) \<Longrightarrow>
     deliver pos r (ps ! i) s = (s', p) \<Longrightarrow> answered c0 (Suc n) (s', ps[i := p])"

text \<open>A script of answers, None where one of them finds no request.\<close>

fun give ::
  "(nat \<times> bool list \<times> (js_error + 'r list)) list \<Rightarrow> 's \<times> ('s, 'r) proc list \<Rightarrow> ('s \<times> ('s, 'r) proc list) option" where
  "give [] c = Some c"
| "give ((i, pos, r) # as) (s, ps) =
     (if i < length ps \<and> waiting pos (ps ! i) then
        (case deliver pos r (ps ! i) s of (s', p) \<Rightarrow> give as (s', ps[i := p]))
      else None)"

lemma answered_first:
  assumes "answered (s', ps[i := p]) n c" and "i < length ps" and "waiting pos (ps ! i)"
    and "deliver pos r (ps ! i) s = (s', p)"
  shows "answered (s, ps) (Suc n) c"
  using assms(1)
proof induction
  case none
  show ?case by (rule answered.more[OF answered.none]) (use assms in auto)
next
  case (more n t qs j pos' r' t' q)
  then show ?case by (intro answered.more)
qed

lemma give_answered: "give as c = Some c' \<Longrightarrow> answered c (length as) c'"
proof (induction as c rule: give.induct)
  case (2 i pos r as s ps)
  then show ?case by (auto split: if_splits prod.splits intro: answered_first)
qed (auto intro: answered.none)

text \<open>No answer can come any more.\<close>

definition exhausted :: "('s, 'r) proc list \<Rightarrow> bool" where
  "exhausted ps = (\<forall>p \<in> set ps. \<forall>pos. \<not> waiting pos p)"

lemma answered_bound:
  assumes "answered (s, ps) n c" and "\<forall>p \<in> set ps. ends_proc p K"
  shows "\<exists>f. (\<forall>j < length (snd c). ends_proc (snd c ! j) (f j)) \<and> length (snd c) = length ps \<and>
    n + (\<Sum>j < length ps. f j) \<le> K * length ps"
  using assms(1)
proof induction
  case none
  show ?case using assms(2) by (intro exI[of _ "\<lambda>_. K"]) (auto simp: mult.commute)
next
  case (more n t qs i pos r t' p)
  then obtain f where f: "\<forall>j < length qs. ends_proc (qs ! j) (f j)" "length qs = length ps"
    "n + (\<Sum>j < length ps. f j) \<le> K * length ps" by auto
  from ends_deliver[of "qs ! i" "f i" pos r t] f more.hyps obtain m
    where m: "f i = Suc m" "ends_proc p m" by auto
  have i: "i \<in> {..<length ps}" using more.hyps f by simp
  have "(\<Sum>j < length ps. (f(i := m)) j) + f i = (\<Sum>j < length ps. f j) + m"
    using i by (simp add: sum.remove[OF _ i] if_distrib cong: if_cong)
  then have "Suc n + (\<Sum>j < length ps. (f(i := m)) j) \<le> K * length ps" using f(3) m(1) by simp
  then show ?case using f m more.hyps
    by (intro exI[of _ "f(i := m)"]) (auto simp: nth_list_update)
qed

lemma answered_reachable:
  "answered (s, ps) n c \<Longrightarrow> reachable handle boot s0 s ps \<Longrightarrow> reachable handle boot s0 (fst c) (snd c)"
  by (induction rule: answered.induct) (auto intro: reachable.answer)

locale bounded_page =
  fixes handle :: "'e \<Rightarrow> ('s, 'r) act" and boot :: "('s, 'r) act" and s0 :: 's and K :: nat
  assumes boot_ends: "ends K boot"
    and handle_ends: "ends K (handle e)"
begin

lemma reachable_ends: "reachable handle boot s0 s ps \<Longrightarrow> \<forall>p \<in> set ps. ends_proc p K"
proof (induction rule: reachable.induct)
  case (boot s p)
  then show ?case using boot_ends by (metis ends_def empty_iff insert_iff list.set snd_conv)
next
  case (event s ps e s' p)
  then have "ends_proc p K" using handle_ends[of e] by (metis ends_def snd_conv)
  then show ?case using event by auto
next
  case (answer s ps i pos r s' p)
  then have "ends_proc p K" using ends_deliver_any[of "ps ! i" K pos r s] by auto
  then show ?case using answer.IH by (auto dest: set_update_subset_insert[THEN subsetD])
qed

lemma answers_bounded:
  "reachable handle boot s0 s ps \<Longrightarrow> answered (s, ps) n c \<Longrightarrow> n \<le> K * length ps"
  using answered_bound[of s ps n c K] reachable_ends by fastforce

lemma exhausted_quiescent: "reachable handle boot s0 s ps \<Longrightarrow> exhausted ps \<Longrightarrow> quiescent ps"
  using reachable_ends by (fastforce simp: exhausted_def quiescent_def dest: pending_waits)

end

text \<open>A page whose methods end and whose flags are supported comes to rest.\<close>

locale settling_page =
  quiet_start handle boot s0 flags + bounded_page handle boot s0 K
  for handle :: "'e \<Rightarrow> ('s, 'r) act" and boot :: "('s, 'r) act" and s0 :: 's
    and flags :: "('s \<Rightarrow> bool) list" and K :: nat
begin

lemma settles:
  assumes "reachable handle boot s0 s ps" and "answered (s, ps) n (t, qs)"
  shows "n \<le> K * length ps \<and> (exhausted qs \<longrightarrow> quiescent qs \<and> list_all (\<lambda>f. \<not> f t) flags)"
proof -
  have "reachable handle boot s0 t qs" using answered_reachable[OF assms(2,1)] by simp
  then show ?thesis using answers_bounded[OF assms] exhausted_quiescent quiet by blast
qed

end

end
