(* ===== verification/Api_Models.thy ===== *)
theory Api_Models
  imports Async_Bounds
begin

text \<open>
  The data of the API, one record per interface of \<open>src/frontend/src/app/core/*.models.ts\<close>:
  a \<open>string | null\<close> is an option, an identifier or a count is an \<^typ>\<open>int\<close>, a
  \<open>Record\<close> is the list of its entries in order, a date is the ISO string the backend
  sends. A field carries a prefix naming its record. The type \<open>payload\<close> is the sum of
  everything a call can resolve with.
\<close>

section \<open>Roles and sessions (auth.models.ts)\<close>

datatype role = Guest | Mailbox_manager | Admin

definition ROLES :: "role list" where
  "ROLES = [Guest, Mailbox_manager, Admin]"

datatype auth_provider = Local | Oidc

fun roleLabel :: "role \<Rightarrow> string" where
  "roleLabel Guest = ''Guest''"
| "roleLabel Mailbox_manager = ''Mailbox manager''"
| "roleLabel Admin = ''Administrator''"

text \<open>\<open>indexOf\<close> on a list: -1 when the element is not there.\<close>

fun index_of :: "'a list \<Rightarrow> 'a \<Rightarrow> int" where
  "index_of [] x = -1"
| "index_of (y # ys) x = (if x = y then 0 else (let i = index_of ys x in if i < 0 then -1 else i + 1))"

definition roleGrants :: "role option \<Rightarrow> role \<Rightarrow> bool" where
  "roleGrants r required =
     (case r of None \<Rightarrow> False | Some role \<Rightarrow> index_of ROLES role \<ge> index_of ROLES required)"

record session_user =
  su_username :: string
  su_display_name :: string
  su_role :: role
  su_provider :: auth_provider

record auth_config =
  ac_local_enabled :: bool
  ac_oidc_enabled :: bool
  ac_pats_enabled :: bool

record user =
  u_id :: int
  u_username :: string
  u_display_name :: string
  u_role :: role
  u_effective_role :: role
  u_provider :: auth_provider
  u_is_active :: bool
  u_created_at :: string
  u_last_login_at :: "string option"

section \<open>Groups (group.models.ts)\<close>

text \<open>\<open>GroupWithMembers\<close>: a group and its number of members, as the list endpoint returns it.\<close>

record group =
  g_id :: int
  g_name :: string
  g_description :: string
  g_role :: role
  g_created_at :: string
  g_updated_at :: string

record group_with_members = group +
  g_member_count :: int

section \<open>Personal access tokens (pat.models.ts)\<close>

record pat =
  pat_id :: int
  pat_name :: string
  pat_token_hint :: string
  pat_created_at :: string
  pat_expires_at :: "string option"
  pat_last_used_at :: "string option"

record pat_created = pat +
  pat_token :: string

section \<open>Mailboxes (mailbox.models.ts)\<close>

record mailbox =
  mb_email :: string
  mb_domain :: string
  mb_quota :: "string option"

record mailbox_usage =
  mu_email :: string
  mu_used_bytes :: int
  mu_limit_bytes :: "int option"
  mu_percent :: "rat option"
  mu_message_count :: int

record mailbox_usage_summary =
  us_mailboxes :: "mailbox_usage list"
  us_total_used_bytes :: int
  us_total_limit_bytes :: "int option"

record mailbox_features =
  mf_quotas_enabled :: bool

record mail_alias =
  al_alias :: string

record mailbox_sieve =
  ms_email :: string
  ms_content :: string
  ms_configured :: bool
  ms_restart_required :: bool

section \<open>Fail2ban (fail2ban.models.ts)\<close>

record fail2ban_jail =
  j_name :: string
  j_currently_failed :: int
  j_total_failed :: int
  j_currently_banned :: int
  j_total_banned :: int
  j_banned_ips :: "string list"
  j_file_list :: "string list"

record fail2ban_status =
  fs_jails :: "fail2ban_jail list"
  fs_fail2ban_enabled :: bool

record banned_ip =
  bi_ip :: string
  bi_jail :: string

record fail2ban_policy =
  fp_bantime :: int
  fp_findtime :: int
  fp_maxretry :: int
  fp_configured :: bool
  fp_restart_required :: bool

record fail2ban_config =
  fc_content :: string
  fc_restart_required :: bool

section \<open>Audit trail and pending actions (audit.models.ts, pending-action.models.ts)\<close>

datatype audit_status = Success | Failure

record audit_entry =
  ae_id :: int
  ae_created_at :: string
  ae_actor :: string
  ae_category :: string
  ae_action :: string
  ae_target :: string
  ae_status :: audit_status
  ae_detail :: string
  ae_ip :: string

record audit_page =
  ap_items :: "audit_entry list"
  ap_total :: int

record pending_action =
  pa_id :: int
  pa_key :: string
  pa_title :: string
  pa_detail :: string
  pa_created_at :: string
  pa_updated_at :: string

record pending_summary =
  ps_items :: "pending_action list"
  ps_count :: int

section \<open>Settings (settings.models.ts)\<close>

record mail_settings =
  st_enabled :: bool
  st_host :: string
  st_port :: int
  st_username :: string
  st_use_tls :: bool
  st_use_ssl :: bool
  st_from_address :: string
  st_recipients :: string
  st_notify_auth_events :: bool
  st_notify_audit_events :: bool
  st_password_set :: bool

record mail_test_result =
  tr_sent :: bool
  tr_detail :: string

record oidc_settings =
  os_enabled :: bool
  os_issuer :: string
  os_client_id :: string
  os_redirect_uri :: string
  os_post_logout_redirect_uri :: string
  os_response_type :: string
  os_scope :: string
  os_oidc_only :: bool
  os_admin_group_claim :: string
  os_admin_group :: string
  os_manager_group_claim :: string
  os_manager_group :: string
  os_restrict_to_groups :: bool
  os_client_secret_set :: bool

end
