(* ===== verification/Mailserver_Models.thy ===== *)
theory Mailserver_Models
  imports Api_Models
begin

text \<open>
  The data of the mailserver API (\<open>src/frontend/src/app/core/mailserver.models.ts\<close>) and
  the sum type of all responses.
\<close>

record relay_host =
  rh_sender :: string
  rh_host :: string
  rh_port :: int
  rh_username :: "string option"
  rh_has_credentials :: bool

record relay_host_create =
  rc_sender :: string
  rc_host :: string
  rc_port :: jsnum
  rc_username :: "string option"
  rc_password :: "string option"

record relay_exclusion =
  rx_sender :: string

text \<open>\<open>PostfixOverride\<close> and \<open>PostfixMasterOverride\<close> have the same two fields.\<close>

record postfix_override =
  po_key :: string
  po_value :: string

record dovecot_config =
  dc_content :: string
  dc_restart_required :: bool

record system_alias =
  sa_name :: string
  sa_targets :: "string list"

record regex_alias =
  ra_pattern :: string
  ra_targets :: "string list"

record dkim_key =
  dk_domain :: string
  dk_selector :: string
  dk_record_name :: string
  dk_public_key :: string
  dk_txt_value :: string

record dkim_generate_request =
  dg_domain :: "string option"
  dg_selector :: string
  dg_key_size :: jsnum

record dkim_migration_status =
  dm_candidates :: "string list"

record dkim_migration_result =
  dr_keys :: "dkim_key list"
  dr_migrated_domains :: "string list"
  dr_restart_required :: bool

datatype restriction_kind = Send | Receive

record restriction =
  rs_kind :: restriction_kind
  rs_address :: string

record dovecot_master =
  ma_name :: string

datatype sieve_scope = Before | After

record sieve_script =
  ss_scope :: sieve_scope
  ss_content :: string
  ss_restart_required :: bool

record queue_message =
  qm_queue_id :: string
  qm_queue_name :: string
  qm_sender :: string
  qm_recipients :: "string list"
  qm_message_size :: int
  qm_arrival_time :: "string option"
  qm_delay_reason :: string

record queue_summary =
  qs_messages :: "queue_message list"
  qs_counts :: "(string \<times> int) list"

record tls_certificate =
  tc_ssl_type :: string
  tc_configured :: bool
  tc_subject :: string
  tc_issuer :: string
  tc_not_before :: "string option"
  tc_not_after :: "string option"
  tc_days_remaining :: "int option"
  tc_domains :: "string list"

datatype dns_type = MX | TXT | A | CNAME

record dns_record =
  dn_name :: string
  dn_type :: dns_type
  dn_value :: string
  dn_suggested :: bool

record domain_dns_records =
  dd_domain :: string
  dd_records :: "dns_record list"

datatype spam_filter = Rspamd | Spamassassin | No_filter

datatype warning_level = Danger | Warning

record environment_warning =
  ew_level :: warning_level
  ew_variables :: "string list"
  ew_message :: string

datatype dkim_backend = Opendkim | Rspamd_backend

record mailserver_environment =
  me_variables :: "(string \<times> string) list"
  me_dkim_backend :: dkim_backend
  me_global_relay_host :: string
  me_postmaster_address :: string
  me_ssl_type :: string
  me_account_provisioner :: string
  me_managesieve_enabled :: bool
  me_quotas_enabled :: bool
  me_spam_filter :: spam_filter
  me_amavis_enabled :: bool
  me_clamav_enabled :: bool
  me_postgrey_enabled :: bool
  me_update_check_enabled :: bool
  me_warnings :: "environment_warning list"

record service_status =
  sv_name :: string
  sv_state :: string
  sv_running :: bool
  sv_failed :: bool
  sv_detail :: string

record mail_stats =
  mt_period_hours :: int
  mt_received :: int
  mt_sent :: int
  mt_rejected :: int
  mt_greylisted :: int
  mt_bounced :: int
  mt_deferred :: int
  mt_spam :: int
  mt_virus :: int
  mt_parsed :: bool
  mt_scanned_lines :: int

datatype spam_config_scope = Rules | Whitelist_clients | Whitelist_recipients | Amavis

record spam_config =
  sc_scope :: spam_config_scope
  sc_content :: string
  sc_feature :: string
  sc_feature_enabled :: bool
  sc_restart_required :: bool

datatype rspamd_command_kind =
    Set_common_option
  | Set_option_for_controller
  | Set_option_for_proxy
  | Enable_module
  | Disable_module
  | Set_option_for_module
  | Add_line

record rspamd_command =
  rm_kind :: rspamd_command_kind
  rm_target :: string
  rm_option :: string
  rm_value :: string

record rspamd_override_file =
  rf_name :: string
  rf_content :: string

record rspamd_overrides =
  ro_commands :: "rspamd_command list"
  ro_rspamd_enabled :: bool
  ro_restart_required :: bool
  ro_override_files :: "rspamd_override_file list"

datatype ldap_scope = Users | Groups | Aliases | Domains

record ldap_config =
  lc_scope :: ldap_scope
  lc_content :: string
  lc_configured :: bool
  lc_provisioner :: string
  lc_ldap_enabled :: bool
  lc_overridden_keys :: "string list"
  lc_restart_required :: bool

section \<open>What a call can resolve with\<close>

datatype account_payload =
    V_Session "session_user"
  | V_Auth_config "auth_config"
  | V_User "user"
  | V_Users "user list"
  | V_Group "group"
  | V_Groups "group_with_members list"
  | V_Pats "pat list"
  | V_Pat_created "pat_created"

datatype mailbox_payload =
    V_Mailbox "mailbox"
  | V_Mailboxes "mailbox list"
  | V_Usage "mailbox_usage_summary"
  | V_Features "mailbox_features"
  | V_Alias "mail_alias"
  | V_Alias_list "mail_alias list"
  | V_Mailbox_sieve "mailbox_sieve"

datatype security_payload =
    V_Jails "fail2ban_status"
  | V_Banned "banned_ip list"
  | V_Output "string"
  | V_Log_lines "string list"
  | V_Policy "fail2ban_policy"
  | V_Daemon_config "fail2ban_config"
  | V_Audit_trail "audit_page"

datatype setting_payload =
    V_Pending_actions "pending_summary"
  | V_Mail_settings "mail_settings"
  | V_Mail_test "mail_test_result"
  | V_Oidc_settings "oidc_settings"
  | V_Health "string option"
  | V_Release "string option"

datatype routing_payload =
    V_Relay "relay_host"
  | V_Relays "relay_host list"
  | V_Exclusion "relay_exclusion"
  | V_Exclusions "relay_exclusion list"
  | V_Overrides "postfix_override list"
  | V_System_alias "system_alias"
  | V_System_aliases "system_alias list"
  | V_Regex_alias "regex_alias"
  | V_Regex_aliases "regex_alias list"
  | V_Restriction "restriction"
  | V_Restrictions "restriction list"

datatype filter_payload =
    V_Dovecot_config "dovecot_config"
  | V_Master "dovecot_master"
  | V_Masters "dovecot_master list"
  | V_Sieve "sieve_script"
  | V_Spam_config "spam_config"
  | V_Rspamd_overrides "rspamd_overrides"
  | V_Override_file "rspamd_override_file"
  | V_Ldap_config "ldap_config"

datatype status_payload =
    V_Dkim_keys "dkim_key list"
  | V_Dkim_status "dkim_migration_status"
  | V_Dkim_result "dkim_migration_result"
  | V_Queue "queue_summary"
  | V_Tls "tls_certificate"
  | V_Dns "domain_dns_records list"
  | V_Environment "mailserver_environment"
  | V_Services "service_status list"
  | V_Stats "mail_stats"

datatype payload =
    P_Void
  | P_Account account_payload
  | P_Mailbox mailbox_payload
  | P_Security security_payload
  | P_Setting setting_payload
  | P_Routing routing_payload
  | P_Filter filter_payload
  | P_Status status_payload

text \<open>
  One reader per response type. A call typed \<open>void\<close> resolves whatever the body is.
\<close>

definition as_void :: "payload \<Rightarrow> unit option" where
  "as_void p = Some ()"

definition as_session :: "payload \<Rightarrow> (session_user) option" where
  "as_session p = (case p of P_Account (V_Session x) \<Rightarrow> Some x | _ \<Rightarrow> None)"

definition as_auth_config :: "payload \<Rightarrow> (auth_config) option" where
  "as_auth_config p = (case p of P_Account (V_Auth_config x) \<Rightarrow> Some x | _ \<Rightarrow> None)"

definition as_user :: "payload \<Rightarrow> (user) option" where
  "as_user p = (case p of P_Account (V_User x) \<Rightarrow> Some x | _ \<Rightarrow> None)"

definition as_users :: "payload \<Rightarrow> (user list) option" where
  "as_users p = (case p of P_Account (V_Users x) \<Rightarrow> Some x | _ \<Rightarrow> None)"

definition as_group :: "payload \<Rightarrow> (group) option" where
  "as_group p = (case p of P_Account (V_Group x) \<Rightarrow> Some x | _ \<Rightarrow> None)"

definition as_groups :: "payload \<Rightarrow> (group_with_members list) option" where
  "as_groups p = (case p of P_Account (V_Groups x) \<Rightarrow> Some x | _ \<Rightarrow> None)"

definition as_pats :: "payload \<Rightarrow> (pat list) option" where
  "as_pats p = (case p of P_Account (V_Pats x) \<Rightarrow> Some x | _ \<Rightarrow> None)"

definition as_pat_created :: "payload \<Rightarrow> (pat_created) option" where
  "as_pat_created p = (case p of P_Account (V_Pat_created x) \<Rightarrow> Some x | _ \<Rightarrow> None)"

definition as_mailbox :: "payload \<Rightarrow> (mailbox) option" where
  "as_mailbox p = (case p of P_Mailbox (V_Mailbox x) \<Rightarrow> Some x | _ \<Rightarrow> None)"

definition as_mailboxes :: "payload \<Rightarrow> (mailbox list) option" where
  "as_mailboxes p = (case p of P_Mailbox (V_Mailboxes x) \<Rightarrow> Some x | _ \<Rightarrow> None)"

definition as_usage :: "payload \<Rightarrow> (mailbox_usage_summary) option" where
  "as_usage p = (case p of P_Mailbox (V_Usage x) \<Rightarrow> Some x | _ \<Rightarrow> None)"

definition as_features :: "payload \<Rightarrow> (mailbox_features) option" where
  "as_features p = (case p of P_Mailbox (V_Features x) \<Rightarrow> Some x | _ \<Rightarrow> None)"

definition as_alias :: "payload \<Rightarrow> (mail_alias) option" where
  "as_alias p = (case p of P_Mailbox (V_Alias x) \<Rightarrow> Some x | _ \<Rightarrow> None)"

definition as_alias_list :: "payload \<Rightarrow> (mail_alias list) option" where
  "as_alias_list p = (case p of P_Mailbox (V_Alias_list x) \<Rightarrow> Some x | _ \<Rightarrow> None)"

definition as_mailbox_sieve :: "payload \<Rightarrow> (mailbox_sieve) option" where
  "as_mailbox_sieve p = (case p of P_Mailbox (V_Mailbox_sieve x) \<Rightarrow> Some x | _ \<Rightarrow> None)"

definition as_jails :: "payload \<Rightarrow> (fail2ban_status) option" where
  "as_jails p = (case p of P_Security (V_Jails x) \<Rightarrow> Some x | _ \<Rightarrow> None)"

definition as_banned :: "payload \<Rightarrow> (banned_ip list) option" where
  "as_banned p = (case p of P_Security (V_Banned x) \<Rightarrow> Some x | _ \<Rightarrow> None)"

definition as_output :: "payload \<Rightarrow> (string) option" where
  "as_output p = (case p of P_Security (V_Output x) \<Rightarrow> Some x | _ \<Rightarrow> None)"

definition as_log_lines :: "payload \<Rightarrow> (string list) option" where
  "as_log_lines p = (case p of P_Security (V_Log_lines x) \<Rightarrow> Some x | _ \<Rightarrow> None)"

definition as_policy :: "payload \<Rightarrow> (fail2ban_policy) option" where
  "as_policy p = (case p of P_Security (V_Policy x) \<Rightarrow> Some x | _ \<Rightarrow> None)"

definition as_daemon_config :: "payload \<Rightarrow> (fail2ban_config) option" where
  "as_daemon_config p = (case p of P_Security (V_Daemon_config x) \<Rightarrow> Some x | _ \<Rightarrow> None)"

definition as_audit_trail :: "payload \<Rightarrow> (audit_page) option" where
  "as_audit_trail p = (case p of P_Security (V_Audit_trail x) \<Rightarrow> Some x | _ \<Rightarrow> None)"

definition as_pending_actions :: "payload \<Rightarrow> (pending_summary) option" where
  "as_pending_actions p = (case p of P_Setting (V_Pending_actions x) \<Rightarrow> Some x | _ \<Rightarrow> None)"

definition as_mail_settings :: "payload \<Rightarrow> (mail_settings) option" where
  "as_mail_settings p = (case p of P_Setting (V_Mail_settings x) \<Rightarrow> Some x | _ \<Rightarrow> None)"

definition as_mail_test :: "payload \<Rightarrow> (mail_test_result) option" where
  "as_mail_test p = (case p of P_Setting (V_Mail_test x) \<Rightarrow> Some x | _ \<Rightarrow> None)"

definition as_oidc_settings :: "payload \<Rightarrow> (oidc_settings) option" where
  "as_oidc_settings p = (case p of P_Setting (V_Oidc_settings x) \<Rightarrow> Some x | _ \<Rightarrow> None)"

definition as_health :: "payload \<Rightarrow> (string option) option" where
  "as_health p = (case p of P_Setting (V_Health x) \<Rightarrow> Some x | _ \<Rightarrow> None)"

definition as_release :: "payload \<Rightarrow> (string option) option" where
  "as_release p = (case p of P_Setting (V_Release x) \<Rightarrow> Some x | _ \<Rightarrow> None)"

definition as_relay :: "payload \<Rightarrow> (relay_host) option" where
  "as_relay p = (case p of P_Routing (V_Relay x) \<Rightarrow> Some x | _ \<Rightarrow> None)"

definition as_relays :: "payload \<Rightarrow> (relay_host list) option" where
  "as_relays p = (case p of P_Routing (V_Relays x) \<Rightarrow> Some x | _ \<Rightarrow> None)"

definition as_exclusion :: "payload \<Rightarrow> (relay_exclusion) option" where
  "as_exclusion p = (case p of P_Routing (V_Exclusion x) \<Rightarrow> Some x | _ \<Rightarrow> None)"

definition as_exclusions :: "payload \<Rightarrow> (relay_exclusion list) option" where
  "as_exclusions p = (case p of P_Routing (V_Exclusions x) \<Rightarrow> Some x | _ \<Rightarrow> None)"

definition as_overrides :: "payload \<Rightarrow> (postfix_override list) option" where
  "as_overrides p = (case p of P_Routing (V_Overrides x) \<Rightarrow> Some x | _ \<Rightarrow> None)"

definition as_system_alias :: "payload \<Rightarrow> (system_alias) option" where
  "as_system_alias p = (case p of P_Routing (V_System_alias x) \<Rightarrow> Some x | _ \<Rightarrow> None)"

definition as_system_aliases :: "payload \<Rightarrow> (system_alias list) option" where
  "as_system_aliases p = (case p of P_Routing (V_System_aliases x) \<Rightarrow> Some x | _ \<Rightarrow> None)"

definition as_regex_alias :: "payload \<Rightarrow> (regex_alias) option" where
  "as_regex_alias p = (case p of P_Routing (V_Regex_alias x) \<Rightarrow> Some x | _ \<Rightarrow> None)"

definition as_regex_aliases :: "payload \<Rightarrow> (regex_alias list) option" where
  "as_regex_aliases p = (case p of P_Routing (V_Regex_aliases x) \<Rightarrow> Some x | _ \<Rightarrow> None)"

definition as_restriction :: "payload \<Rightarrow> (restriction) option" where
  "as_restriction p = (case p of P_Routing (V_Restriction x) \<Rightarrow> Some x | _ \<Rightarrow> None)"

definition as_restrictions :: "payload \<Rightarrow> (restriction list) option" where
  "as_restrictions p = (case p of P_Routing (V_Restrictions x) \<Rightarrow> Some x | _ \<Rightarrow> None)"

definition as_dovecot_config :: "payload \<Rightarrow> (dovecot_config) option" where
  "as_dovecot_config p = (case p of P_Filter (V_Dovecot_config x) \<Rightarrow> Some x | _ \<Rightarrow> None)"

definition as_master :: "payload \<Rightarrow> (dovecot_master) option" where
  "as_master p = (case p of P_Filter (V_Master x) \<Rightarrow> Some x | _ \<Rightarrow> None)"

definition as_masters :: "payload \<Rightarrow> (dovecot_master list) option" where
  "as_masters p = (case p of P_Filter (V_Masters x) \<Rightarrow> Some x | _ \<Rightarrow> None)"

definition as_sieve :: "payload \<Rightarrow> (sieve_script) option" where
  "as_sieve p = (case p of P_Filter (V_Sieve x) \<Rightarrow> Some x | _ \<Rightarrow> None)"

definition as_spam_config :: "payload \<Rightarrow> (spam_config) option" where
  "as_spam_config p = (case p of P_Filter (V_Spam_config x) \<Rightarrow> Some x | _ \<Rightarrow> None)"

definition as_rspamd_overrides :: "payload \<Rightarrow> (rspamd_overrides) option" where
  "as_rspamd_overrides p = (case p of P_Filter (V_Rspamd_overrides x) \<Rightarrow> Some x | _ \<Rightarrow> None)"

definition as_override_file :: "payload \<Rightarrow> (rspamd_override_file) option" where
  "as_override_file p = (case p of P_Filter (V_Override_file x) \<Rightarrow> Some x | _ \<Rightarrow> None)"

definition as_ldap_config :: "payload \<Rightarrow> (ldap_config) option" where
  "as_ldap_config p = (case p of P_Filter (V_Ldap_config x) \<Rightarrow> Some x | _ \<Rightarrow> None)"

definition as_dkim_keys :: "payload \<Rightarrow> (dkim_key list) option" where
  "as_dkim_keys p = (case p of P_Status (V_Dkim_keys x) \<Rightarrow> Some x | _ \<Rightarrow> None)"

definition as_dkim_status :: "payload \<Rightarrow> (dkim_migration_status) option" where
  "as_dkim_status p = (case p of P_Status (V_Dkim_status x) \<Rightarrow> Some x | _ \<Rightarrow> None)"

definition as_dkim_result :: "payload \<Rightarrow> (dkim_migration_result) option" where
  "as_dkim_result p = (case p of P_Status (V_Dkim_result x) \<Rightarrow> Some x | _ \<Rightarrow> None)"

definition as_queue :: "payload \<Rightarrow> (queue_summary) option" where
  "as_queue p = (case p of P_Status (V_Queue x) \<Rightarrow> Some x | _ \<Rightarrow> None)"

definition as_tls :: "payload \<Rightarrow> (tls_certificate) option" where
  "as_tls p = (case p of P_Status (V_Tls x) \<Rightarrow> Some x | _ \<Rightarrow> None)"

definition as_dns :: "payload \<Rightarrow> (domain_dns_records list) option" where
  "as_dns p = (case p of P_Status (V_Dns x) \<Rightarrow> Some x | _ \<Rightarrow> None)"

definition as_environment :: "payload \<Rightarrow> (mailserver_environment) option" where
  "as_environment p = (case p of P_Status (V_Environment x) \<Rightarrow> Some x | _ \<Rightarrow> None)"

definition as_services :: "payload \<Rightarrow> (service_status list) option" where
  "as_services p = (case p of P_Status (V_Services x) \<Rightarrow> Some x | _ \<Rightarrow> None)"

definition as_stats :: "payload \<Rightarrow> (mail_stats) option" where
  "as_stats p = (case p of P_Status (V_Stats x) \<Rightarrow> Some x | _ \<Rightarrow> None)"

lemma as_simps [simp]:
  "as_void p = Some ()"
  "as_session (P_Account (V_Session x0)) = Some x0"
  "as_auth_config (P_Account (V_Auth_config x1)) = Some x1"
  "as_user (P_Account (V_User x2)) = Some x2"
  "as_users (P_Account (V_Users x3)) = Some x3"
  "as_group (P_Account (V_Group x4)) = Some x4"
  "as_groups (P_Account (V_Groups x5)) = Some x5"
  "as_pats (P_Account (V_Pats x6)) = Some x6"
  "as_pat_created (P_Account (V_Pat_created x7)) = Some x7"
  "as_mailbox (P_Mailbox (V_Mailbox x8)) = Some x8"
  "as_mailboxes (P_Mailbox (V_Mailboxes x9)) = Some x9"
  "as_usage (P_Mailbox (V_Usage x10)) = Some x10"
  "as_features (P_Mailbox (V_Features x11)) = Some x11"
  "as_alias (P_Mailbox (V_Alias x12)) = Some x12"
  "as_alias_list (P_Mailbox (V_Alias_list x13)) = Some x13"
  "as_mailbox_sieve (P_Mailbox (V_Mailbox_sieve x14)) = Some x14"
  "as_jails (P_Security (V_Jails x15)) = Some x15"
  "as_banned (P_Security (V_Banned x16)) = Some x16"
  "as_output (P_Security (V_Output x17)) = Some x17"
  "as_log_lines (P_Security (V_Log_lines x18)) = Some x18"
  "as_policy (P_Security (V_Policy x19)) = Some x19"
  "as_daemon_config (P_Security (V_Daemon_config x20)) = Some x20"
  "as_audit_trail (P_Security (V_Audit_trail x21)) = Some x21"
  "as_pending_actions (P_Setting (V_Pending_actions x22)) = Some x22"
  "as_mail_settings (P_Setting (V_Mail_settings x23)) = Some x23"
  "as_mail_test (P_Setting (V_Mail_test x24)) = Some x24"
  "as_oidc_settings (P_Setting (V_Oidc_settings x25)) = Some x25"
  "as_health (P_Setting (V_Health x26)) = Some x26"
  "as_release (P_Setting (V_Release x27)) = Some x27"
  "as_relay (P_Routing (V_Relay x28)) = Some x28"
  "as_relays (P_Routing (V_Relays x29)) = Some x29"
  "as_exclusion (P_Routing (V_Exclusion x30)) = Some x30"
  "as_exclusions (P_Routing (V_Exclusions x31)) = Some x31"
  "as_overrides (P_Routing (V_Overrides x32)) = Some x32"
  "as_system_alias (P_Routing (V_System_alias x33)) = Some x33"
  "as_system_aliases (P_Routing (V_System_aliases x34)) = Some x34"
  "as_regex_alias (P_Routing (V_Regex_alias x35)) = Some x35"
  "as_regex_aliases (P_Routing (V_Regex_aliases x36)) = Some x36"
  "as_restriction (P_Routing (V_Restriction x37)) = Some x37"
  "as_restrictions (P_Routing (V_Restrictions x38)) = Some x38"
  "as_dovecot_config (P_Filter (V_Dovecot_config x39)) = Some x39"
  "as_master (P_Filter (V_Master x40)) = Some x40"
  "as_masters (P_Filter (V_Masters x41)) = Some x41"
  "as_sieve (P_Filter (V_Sieve x42)) = Some x42"
  "as_spam_config (P_Filter (V_Spam_config x43)) = Some x43"
  "as_rspamd_overrides (P_Filter (V_Rspamd_overrides x44)) = Some x44"
  "as_override_file (P_Filter (V_Override_file x45)) = Some x45"
  "as_ldap_config (P_Filter (V_Ldap_config x46)) = Some x46"
  "as_dkim_keys (P_Status (V_Dkim_keys x47)) = Some x47"
  "as_dkim_status (P_Status (V_Dkim_status x48)) = Some x48"
  "as_dkim_result (P_Status (V_Dkim_result x49)) = Some x49"
  "as_queue (P_Status (V_Queue x50)) = Some x50"
  "as_tls (P_Status (V_Tls x51)) = Some x51"
  "as_dns (P_Status (V_Dns x52)) = Some x52"
  "as_environment (P_Status (V_Environment x53)) = Some x53"
  "as_services (P_Status (V_Services x54)) = Some x54"
  "as_stats (P_Status (V_Stats x55)) = Some x55"
  by (simp_all add: as_void_def as_session_def as_auth_config_def as_user_def as_users_def as_group_def as_groups_def as_pats_def as_pat_created_def as_mailbox_def as_mailboxes_def as_usage_def as_features_def as_alias_def as_alias_list_def as_mailbox_sieve_def as_jails_def as_banned_def as_output_def as_log_lines_def as_policy_def as_daemon_config_def as_audit_trail_def as_pending_actions_def as_mail_settings_def as_mail_test_def as_oidc_settings_def as_health_def as_release_def as_relay_def as_relays_def as_exclusion_def as_exclusions_def as_overrides_def as_system_alias_def as_system_aliases_def as_regex_alias_def as_regex_aliases_def as_restriction_def as_restrictions_def as_dovecot_config_def as_master_def as_masters_def as_sieve_def as_spam_config_def as_rspamd_overrides_def as_override_file_def as_ldap_config_def as_dkim_keys_def as_dkim_status_def as_dkim_result_def as_queue_def as_tls_def as_dns_def as_environment_def as_services_def as_stats_def)

end
