(* ===== verification/Urls.thy ===== *)
theory Urls
  imports Mailserver_Models
begin

text \<open>
  Paths of the API: \<open>encodeURIComponent\<close> on the strings of the model (UTF-8 bytes,
  percent-encoded), numbers in templates, and the shape of an endpoint: the request a
  service method sends and the reader of its answer.
\<close>

section \<open>encodeURIComponent\<close>

definition hex_digit :: "nat \<Rightarrow> char" where
  "hex_digit n = char_of (if n < 10 then 48 + n else 55 + n)"

definition unhex :: "char \<Rightarrow> nat" where
  "unhex c = (if is_digit c then of_char c - 48 else of_char c - 55)"

definition percent :: "nat \<Rightarrow> string" where
  "percent n = [CHR ''%'', hex_digit (n div 16), hex_digit (n mod 16)]"

definition unreserved :: "char \<Rightarrow> bool" where
  "unreserved c = (is_alnum c \<or> c \<in> set ''-_.!~*()'' \<or> of_char c = (39 :: nat))"

definition encode_char :: "char \<Rightarrow> string" where
  "encode_char c =
     (let n = (of_char c :: nat)
      in if unreserved c then [c]
         else if n < 128 then percent n
         else percent (192 + n div 64) @ percent (128 + n mod 64))"

definition encodeURIComponent :: "string \<Rightarrow> string" where
  "encodeURIComponent s = concat (map encode_char s)"

text \<open>A decoder, to state that nothing is lost.\<close>

fun decode_uri :: "string \<Rightarrow> string" where
  "decode_uri [] = []"
| "decode_uri (c # cs) =
     (if c \<noteq> CHR ''%'' then c # decode_uri cs
      else case cs of
        a # b # rest \<Rightarrow>
          (let n = 16 * unhex a + unhex b
           in if n < 128 then char_of n # decode_uri rest
              else case rest of
                p # d # e # rest' \<Rightarrow>
                  char_of ((n - 192) * 64 + (16 * unhex d + unhex e - 128)) # decode_uri rest'
              | _ \<Rightarrow> [])
      | _ \<Rightarrow> [])"

lemma of_char_less [simp]: "(of_char c :: nat) < 256"
  by (metis of_char_of of_char_mod_256 mod_less_divisor zero_less_numeral)

lemma unhex_hex [simp]: "n < 16 \<Longrightarrow> unhex (hex_digit n) = n"
  by (auto simp: unhex_def hex_digit_def is_digit_def)

lemma percent_value: "n < 256 \<Longrightarrow> 16 * unhex (hex_digit (n div 16)) + unhex (hex_digit (n mod 16)) = n"
  by (simp add: less_mult_imp_div_less)

lemma not_unreserved_percent [simp]: "\<not> unreserved (CHR ''%'')"
  by (simp add: unreserved_def is_alnum_def is_upper_def is_lower_def is_digit_def)

lemma decode_percent_low: "n < 128 \<Longrightarrow> decode_uri (percent n @ s) = char_of n # decode_uri s"
  by (simp add: percent_def percent_value Let_def)

lemma decode_percent_high:
  assumes "128 \<le> n" "n < 256"
  shows "decode_uri (percent (192 + n div 64) @ percent (128 + n mod 64) @ s) = char_of n # decode_uri s"
proof -
  have a: "192 + n div 64 < 256" "128 + n mod 64 < 256" "\<not> 192 + n div 64 < 128"
    using assms by auto
  have b: "16 * unhex (hex_digit ((192 + n div 64) div 16)) + unhex (hex_digit ((192 + n div 64) mod 16)) = 192 + n div 64"
    and c: "16 * unhex (hex_digit ((128 + n mod 64) div 16)) + unhex (hex_digit ((128 + n mod 64) mod 16)) = 128 + n mod 64"
    using percent_value a by blast+
  show ?thesis
    unfolding percent_def using a b c by (simp only: append.simps decode_uri.simps list.case Let_def if_False if_True) (simp add: Let_def)
qed

lemma decode_encode_char: "decode_uri (encode_char c @ s) = c # decode_uri s"
proof -
  consider "unreserved c" | "\<not> unreserved c" "(of_char c :: nat) < 128"
    | "\<not> unreserved c" "128 \<le> (of_char c :: nat)" by linarith
  then show ?thesis
  proof cases
    case 1
    then have "c \<noteq> CHR ''%''" by auto
    then show ?thesis using 1 by (simp add: encode_char_def)
  next
    case 2
    then show ?thesis using decode_percent_low[of "of_char c" s] by (simp add: encode_char_def)
  next
    case 3
    then show ?thesis using decode_percent_high[of "of_char c" s] by (simp add: encode_char_def Let_def)
  qed
qed

lemma decode_encode: "decode_uri (encodeURIComponent s) = s"
  by (induction s) (simp_all add: encodeURIComponent_def decode_encode_char)

lemma encodeURIComponent_inject [simp]: "encodeURIComponent s = encodeURIComponent t \<longleftrightarrow> s = t"
  by (metis decode_encode)

lemma hex_not_slash: "n < 16 \<Longrightarrow> hex_digit n \<noteq> CHR ''/''"
  by (auto simp: hex_digit_def take_bit_eq_mod dest!: arg_cong[where f = "of_char :: char \<Rightarrow> nat"])

lemma encode_no_slash [simp]: "CHR ''/'' \<notin> set (encodeURIComponent s)"
proof -
  have "CHR ''/'' \<notin> set (encode_char c)" for c
  proof (cases "unreserved c")
    case True
    then have "c \<noteq> CHR ''/''"
      by (auto simp: unreserved_def is_alnum_def is_upper_def is_lower_def is_digit_def)
    then show ?thesis using True by (auto simp: encode_char_def)
  next
    case False
    have "n div 16 < 16" if "n < 256" for n :: nat using that by auto
    then have p: "CHR ''/'' \<notin> set (percent n)" if "n < 256" for n
      using that hex_not_slash[of "n div 16"] hex_not_slash[of "n mod 16"] by (auto simp: percent_def)
    have "(of_char c :: nat) div 64 \<le> 255 div 64"
      by (rule div_le_mono) (use of_char_less[of c] in linarith)
    then have "192 + (of_char c :: nat) div 64 < 256" by simp
    moreover have "(of_char c :: nat) mod 64 < 64" by (rule mod_less_divisor) simp
    then have "128 + (of_char c :: nat) mod 64 < 256" by linarith
    ultimately have "CHR ''/'' \<notin> set (percent (of_char c))"
      "CHR ''/'' \<notin> set (percent (192 + of_char c div 64))"
      "CHR ''/'' \<notin> set (percent (128 + of_char c mod 64))"
      by (simp_all only: p of_char_less not_False_eq_True)
    then show ?thesis using False by (auto simp: encode_char_def Let_def)
  qed
  then show ?thesis by (auto simp: encodeURIComponent_def)
qed

text \<open>
  A text put into a path is safe and recoverable: its encoding consists of unreserved
  characters, percent signs and hexadecimal digits, so no text adds a separator of its own
  to a path or a query, and decoding gives back the text, so no two texts share a path.
\<close>

theorem path_text:
  "decode_uri (encodeURIComponent s) = s \<and>
   list_all (\<lambda>c. unreserved c \<or> c = CHR ''%'') (encodeURIComponent s)"
proof -
  have h: "unreserved (hex_digit n)" if "n < 16" for n
    using that by (auto simp: unreserved_def is_alnum_def is_upper_def is_digit_def hex_digit_def)
  have p: "list_all (\<lambda>c. unreserved c \<or> c = CHR ''%'') (percent n)" if "n < 256" for n
  proof -
    have "n div 16 < 16" using that by auto
    then show ?thesis using h by (simp add: percent_def)
  qed
  have "list_all (\<lambda>c. unreserved c \<or> c = CHR ''%'') (encode_char c)" for c
  proof -
    have "(of_char c :: nat) div 64 \<le> 255 div 64" by (rule div_le_mono) (use of_char_less[of c] in linarith)
    then have "192 + (of_char c :: nat) div 64 < 256" by simp
    moreover have "128 + (of_char c :: nat) mod 64 < 256"
      using mod_less_divisor[of 64 "of_char c :: nat"] by linarith
    ultimately show ?thesis using p of_char_less[of c] by (simp add: encode_char_def Let_def)
  qed
  then have "list_all (\<lambda>c. unreserved c \<or> c = CHR ''%'') (encodeURIComponent s)"
    by (induction s) (simp_all add: encodeURIComponent_def)
  then show ?thesis by (simp add: decode_encode)
qed

text \<open>Two variable segments between fixed parts determine both.\<close>

lemma two_segments:
  assumes "encodeURIComponent a @ CHR ''/'' # u = encodeURIComponent b @ CHR ''/'' # v"
  shows "a = b \<and> u = v"
proof -
  have "takeWhile (\<lambda>c. c \<noteq> CHR ''/'') (encodeURIComponent x @ CHR ''/'' # w) = encodeURIComponent x" for x w
    by (subst takeWhile_append2) (auto dest: encode_no_slash[THEN notE])
  with assms have "encodeURIComponent a = encodeURIComponent b" by metis
  with assms show ?thesis by simp
qed

section \<open>Numbers in a path\<close>

definition show_int :: "int \<Rightarrow> string" where
  "show_int i = (if i < 0 then CHR ''-'' # show_nat (nat (- i)) else show_nat (nat i))"

section \<open>Endpoints\<close>

type_synonym 'a endpoint = "request \<times> (payload \<Rightarrow> 'a option)"
type_synonym 's cmd = "('s, payload) act"

definition fetch :: "'a endpoint \<Rightarrow> ('a \<Rightarrow> 's cmd) \<Rightarrow> 's cmd" where
  "fetch ep k = call (fst ep) (snd ep) k"

definition fetch_both :: "'a endpoint \<Rightarrow> 'b endpoint \<Rightarrow> ('a \<Rightarrow> 'b \<Rightarrow> 's cmd) \<Rightarrow> 's cmd" where
  "fetch_both ep ep' k = call2 (fst ep) (snd ep) (fst ep') (snd ep') k"

text \<open>\<open>await router.navigate([path])\<close>.\<close>

definition navigate :: "string \<Rightarrow> 's cmd" where
  "navigate path = call (Navigate path) as_void (\<lambda>_. skip)"

lemmas endpoint_defs [js_simps] = fetch_def fetch_both_def navigate_def

end
