(* ===== verification/Services.thy ===== *)
theory Services
  imports Urls
begin

text \<open>
  The stateless API services of \<open>src/frontend/src/app/core/*.service.ts\<close>: one definition per
  method, the request it sends (verb, path, body) and the type of the answer. A method
  that resolves with a value the callers ignore keeps its type. The bodies are the
  request interfaces of the models, as JSON.
\<close>

section \<open>JSON of the request bodies\<close>

definition json_or_null :: "string option \<Rightarrow> json" where
  "json_or_null v = (case v of None \<Rightarrow> JNull | Some s \<Rightarrow> JStr s)"

fun role_name :: "role \<Rightarrow> string" where
  "role_name Guest = ''guest''"
| "role_name Mailbox_manager = ''mailbox_manager''"
| "role_name Admin = ''admin''"

fun restriction_kind_name :: "restriction_kind \<Rightarrow> string" where
  "restriction_kind_name Send = ''send''"
| "restriction_kind_name Receive = ''receive''"

fun sieve_scope_name :: "sieve_scope \<Rightarrow> string" where
  "sieve_scope_name Before = ''before''"
| "sieve_scope_name After = ''after''"

fun spam_scope_name :: "spam_config_scope \<Rightarrow> string" where
  "spam_scope_name Rules = ''rules''"
| "spam_scope_name Whitelist_clients = ''whitelist-clients''"
| "spam_scope_name Whitelist_recipients = ''whitelist-recipients''"
| "spam_scope_name Amavis = ''amavis''"

fun ldap_scope_name :: "ldap_scope \<Rightarrow> string" where
  "ldap_scope_name Users = ''users''"
| "ldap_scope_name Groups = ''groups''"
| "ldap_scope_name Aliases = ''aliases''"
| "ldap_scope_name Domains = ''domains''"

fun rspamd_kind_name :: "rspamd_command_kind \<Rightarrow> string" where
  "rspamd_kind_name Set_common_option = ''set-common-option''"
| "rspamd_kind_name Set_option_for_controller = ''set-option-for-controller''"
| "rspamd_kind_name Set_option_for_proxy = ''set-option-for-proxy''"
| "rspamd_kind_name Enable_module = ''enable-module''"
| "rspamd_kind_name Disable_module = ''disable-module''"
| "rspamd_kind_name Set_option_for_module = ''set-option-for-module''"
| "rspamd_kind_name Add_line = ''add-line''"

definition json_override :: "postfix_override \<Rightarrow> json" where
  "json_override ov = JObj [(''key'', JStr (po_key ov)), (''value'', JStr (po_value ov))]"

definition json_rspamd_command :: "rspamd_command \<Rightarrow> json" where
  "json_rspamd_command c =
     JObj [(''kind'', JStr (rspamd_kind_name (rm_kind c))), (''target'', JStr (rm_target c)),
           (''option'', JStr (rm_option c)), (''value'', JStr (rm_value c))]"

definition json_relay_create :: "relay_host_create \<Rightarrow> json" where
  "json_relay_create r =
     JObj [(''sender'', JStr (rc_sender r)), (''host'', JStr (rc_host r)), (''port'', JNum (rc_port r)),
           (''username'', json_or_null (rc_username r)), (''password'', json_or_null (rc_password r))]"

definition json_dkim_generate :: "dkim_generate_request \<Rightarrow> json" where
  "json_dkim_generate r =
     JObj [(''domain'', json_or_null (dg_domain r)), (''selector'', JStr (dg_selector r)),
           (''key_size'', JNum (dg_key_size r))]"

definition json_content :: "string \<Rightarrow> json" where
  "json_content content = JObj [(''content'', JStr content)]"

section \<open>MailboxesService (mailboxes.service.ts)\<close>

definition mailbox_path :: "string \<Rightarrow> string" where
  "mailbox_path email = ''/api/mailboxes/'' @ encodeURIComponent email"

definition mailboxes_list :: "(mailbox list) endpoint" where
  "mailboxes_list =
     (Api GET ''/api/mailboxes'' [] None, as_mailboxes)"

definition mailboxes_features :: "mailbox_features endpoint" where
  "mailboxes_features =
     (Api GET ''/api/mailboxes/features'' [] None, as_features)"

definition mailboxes_usage :: "mailbox_usage_summary endpoint" where
  "mailboxes_usage =
     (Api GET ''/api/mailboxes/usage'' [] None, as_usage)"

definition mailboxes_create :: "string \<Rightarrow> string \<Rightarrow> string option \<Rightarrow> mailbox endpoint" where
  "mailboxes_create email password quota =
     (Api POST ''/api/mailboxes'' [] (Some (JObj [(''email'', JStr email), (''password'', JStr password),
        (''quota'', json_or_null (Option.bind quota or_null))])), as_mailbox)"

definition resetPassword :: "string \<Rightarrow> string \<Rightarrow> mailbox endpoint" where
  "resetPassword email newPassword =
     (Api PATCH (mailbox_path email @ ''/password'') [] (Some (JObj [(''new_password'', JStr newPassword)])), as_mailbox)"

definition setQuota :: "string \<Rightarrow> string option \<Rightarrow> mailbox endpoint" where
  "setQuota email quota =
     (Api PUT (mailbox_path email @ ''/quota'') [] (Some (JObj [(''quota'', json_or_null (Option.bind quota or_null))])), as_mailbox)"

definition mailboxes_delete :: "string \<Rightarrow> unit endpoint" where
  "mailboxes_delete email =
     (Api DELETE (mailbox_path email) [] None, as_void)"

definition listAliases :: "string \<Rightarrow> (mail_alias list) endpoint" where
  "listAliases email =
     (Api GET (mailbox_path email @ ''/aliases'') [] None, as_alias_list)"

definition addAlias :: "string \<Rightarrow> string \<Rightarrow> mail_alias endpoint" where
  "addAlias email alias =
     (Api POST (mailbox_path email @ ''/aliases'') [] (Some (JObj [(''alias'', JStr alias)])), as_alias)"

definition deleteAlias :: "string \<Rightarrow> string \<Rightarrow> unit endpoint" where
  "deleteAlias email alias =
     (Api DELETE (mailbox_path email @ ''/aliases/'' @ encodeURIComponent alias) [] None, as_void)"

definition mailbox_getSieveScript :: "string \<Rightarrow> mailbox_sieve endpoint" where
  "mailbox_getSieveScript email =
     (Api GET (mailbox_path email @ ''/sieve'') [] None, as_mailbox_sieve)"

definition mailbox_setSieveScript :: "string \<Rightarrow> string \<Rightarrow> mailbox_sieve endpoint" where
  "mailbox_setSieveScript email content =
     (Api PUT (mailbox_path email @ ''/sieve'') [] (Some (json_content content)), as_mailbox_sieve)"

definition mailbox_deleteSieveScript :: "string \<Rightarrow> unit endpoint" where
  "mailbox_deleteSieveScript email =
     (Api DELETE (mailbox_path email @ ''/sieve'') [] None, as_void)"

section \<open>UsersService (users.service.ts)\<close>

definition users_me :: "user endpoint" where
  "users_me =
     (Api GET ''/api/users/me'' [] None, as_user)"

definition changeOwnPassword :: "string \<Rightarrow> string \<Rightarrow> user endpoint" where
  "changeOwnPassword currentPassword newPassword =
     (Api PATCH ''/api/users/me/password'' [] (Some (JObj [(''current_password'', JStr currentPassword), (''new_password'', JStr newPassword)])), as_user)"

definition users_list :: "(user list) endpoint" where
  "users_list =
     (Api GET ''/api/users'' [] None, as_users)"

definition users_create :: "string \<Rightarrow> string \<Rightarrow> string \<Rightarrow> user endpoint" where
  "users_create username displayName password =
     (Api POST ''/api/users'' [] (Some (JObj [(''username'', JStr username), (''display_name'', JStr displayName), (''password'', JStr password)])), as_user)"

definition users_delete :: "int \<Rightarrow> unit endpoint" where
  "users_delete userId =
     (Api DELETE (''/api/users/'' @ show_int userId) [] None, as_void)"

definition changePassword :: "int \<Rightarrow> string \<Rightarrow> user endpoint" where
  "changePassword userId newPassword =
     (Api PATCH (''/api/users/'' @ show_int userId @ ''/password'') [] (Some (JObj [(''new_password'', JStr newPassword)])), as_user)"

definition setActive :: "int \<Rightarrow> bool \<Rightarrow> user endpoint" where
  "setActive userId isActive =
     (Api PATCH (''/api/users/'' @ show_int userId @ ''/status'') [] (Some (JObj [(''is_active'', JBool isActive)])), as_user)"

section \<open>GroupsService (groups.service.ts)\<close>

definition groups_list :: "(group_with_members list) endpoint" where
  "groups_list =
     (Api GET ''/api/groups'' [] None, as_groups)"

definition groups_create :: "string \<Rightarrow> string \<Rightarrow> role \<Rightarrow> group endpoint" where
  "groups_create name description role =
     (Api POST ''/api/groups'' [] (Some (JObj [(''name'', JStr name), (''description'', JStr description), (''role'', JStr (role_name role))])), as_group)"

definition groups_update :: "int \<Rightarrow> string \<Rightarrow> string \<Rightarrow> role \<Rightarrow> group endpoint" where
  "groups_update groupId name description role =
     (Api PATCH (''/api/groups/'' @ show_int groupId) [] (Some (JObj [(''name'', JStr name), (''description'', JStr description), (''role'', JStr (role_name role))])), as_group)"

definition groups_delete :: "int \<Rightarrow> unit endpoint" where
  "groups_delete groupId =
     (Api DELETE (''/api/groups/'' @ show_int groupId) [] None, as_void)"

definition getMembers :: "int \<Rightarrow> (user list) endpoint" where
  "getMembers groupId =
     (Api GET (''/api/groups/'' @ show_int groupId @ ''/members'') [] None, as_users)"

definition addMember :: "int \<Rightarrow> int \<Rightarrow> unit endpoint" where
  "addMember groupId userId =
     (Api POST (''/api/groups/'' @ show_int groupId @ ''/members/'' @ show_int userId) [] (Some (JObj [])), as_void)"

definition removeMember :: "int \<Rightarrow> int \<Rightarrow> unit endpoint" where
  "removeMember groupId userId =
     (Api DELETE (''/api/groups/'' @ show_int groupId @ ''/members/'' @ show_int userId) [] None, as_void)"

definition addMembers :: "int \<Rightarrow> int list \<Rightarrow> unit endpoint" where
  "addMembers groupId userIds =
     (Api POST (''/api/groups/'' @ show_int groupId @ ''/members/batch'') [] (Some (JObj [(''user_ids'', JArr (map (\<lambda>i. JNum (Num (of_int i))) userIds))])), as_void)"

section \<open>PatsService (pats.service.ts)\<close>

definition pats_list :: "(pat list) endpoint" where
  "pats_list =
     (Api GET ''/api/users/me/pats'' [] None, as_pats)"

definition pats_create :: "string \<Rightarrow> jsnum option \<Rightarrow> pat_created endpoint" where
  "pats_create name expiresInDays =
     (Api POST ''/api/users/me/pats'' [] (Some (JObj [(''name'', JStr name),
        (''expires_in_days'', case expiresInDays of None \<Rightarrow> JNull | Some n \<Rightarrow> JNum n)])), as_pat_created)"

definition pats_revoke :: "int \<Rightarrow> unit endpoint" where
  "pats_revoke patId =
     (Api DELETE (''/api/users/me/pats/'' @ show_int patId) [] None, as_void)"

section \<open>Fail2banService (fail2ban.service.ts)\<close>

definition getStatus :: "fail2ban_status endpoint" where
  "getStatus =
     (Api GET ''/api/fail2ban/status'' [] None, as_jails)"

definition listBanned :: "(banned_ip list) endpoint" where
  "listBanned =
     (Api GET ''/api/fail2ban/banned'' [] None, as_banned)"

definition banIp :: "string \<Rightarrow> string endpoint" where
  "banIp ip =
     (Api POST ''/api/fail2ban/ban'' [] (Some (JObj [(''ip'', JStr ip)])), as_output)"

definition unbanIp :: "string \<Rightarrow> string endpoint" where
  "unbanIp ip =
     (Api DELETE (''/api/fail2ban/banned/'' @ encodeURIComponent ip) [] None, as_output)"

definition getLog :: "(string list) endpoint" where
  "getLog =
     (Api GET ''/api/fail2ban/log'' [] None, as_log_lines)"

definition getPolicy :: "fail2ban_policy endpoint" where
  "getPolicy =
     (Api GET ''/api/fail2ban/policy'' [] None, as_policy)"

definition setPolicy :: "jsnum \<Rightarrow> jsnum \<Rightarrow> jsnum \<Rightarrow> fail2ban_policy endpoint" where
  "setPolicy bantime findtime maxretry =
     (Api PUT ''/api/fail2ban/policy'' [] (Some (JObj [(''bantime'', JNum bantime), (''findtime'', JNum findtime), (''maxretry'', JNum maxretry)])), as_policy)"

definition getConfig :: "fail2ban_config endpoint" where
  "getConfig =
     (Api GET ''/api/fail2ban/config'' [] None, as_daemon_config)"

definition setConfig :: "string \<Rightarrow> fail2ban_config endpoint" where
  "setConfig content =
     (Api PUT ''/api/fail2ban/config'' [] (Some (json_content content)), as_daemon_config)"

section \<open>A request names its resource\<close>

text \<open>
  The requests on a mailbox name it without ambiguity, whatever characters the address
  and the alias hold: two deletions of an alias with the same path delete the same alias
  of the same mailbox, a deletion of a mailbox is never that of an alias, and passwords,
  quotas and filters are written to the mailbox they were meant for.
\<close>

theorem mailbox_requests_distinct:
  "(fst (deleteAlias e a) = fst (deleteAlias f b) \<longleftrightarrow> e = f \<and> a = b) \<and>
   (fst (mailboxes_delete e) = fst (mailboxes_delete f) \<longleftrightarrow> e = f) \<and>
   fst (mailboxes_delete e) \<noteq> fst (deleteAlias f b) \<and>
   (fst (resetPassword e p) = fst (resetPassword f q) \<longleftrightarrow> e = f \<and> p = q) \<and>
   (fst (mailbox_setSieveScript e c) = fst (mailbox_setSieveScript f d) \<longleftrightarrow> e = f \<and> c = d) \<and>
   fst (setQuota e x) \<noteq> fst (mailbox_setSieveScript f d)"
proof -
  have two: "e = f \<and> u = v" if "encodeURIComponent e @ CHR ''/'' # u = encodeURIComponent f @ CHR ''/'' # v" for u v
    using that by (rule two_segments)
  have "fst (deleteAlias e a) = fst (deleteAlias f b) \<longleftrightarrow> e = f \<and> a = b"
    using two[of "''aliases/'' @ encodeURIComponent a" "''aliases/'' @ encodeURIComponent b"]
    by (auto simp: deleteAlias_def mailbox_path_def)
  moreover have "fst (mailboxes_delete e) \<noteq> fst (deleteAlias f b)"
  proof
    assume "fst (mailboxes_delete e) = fst (deleteAlias f b)"
    then have "encodeURIComponent e = encodeURIComponent f @ ''/aliases/'' @ encodeURIComponent b"
      by (simp add: mailboxes_delete_def deleteAlias_def mailbox_path_def)
    then have "CHR ''/'' \<in> set (encodeURIComponent e)" by simp
    then show False by simp
  qed
  moreover have "fst (setQuota e x) \<noteq> fst (mailbox_setSieveScript f d)"
    using two[of "''quota''" "''sieve''"]
    by (auto simp: setQuota_def mailbox_setSieveScript_def mailbox_path_def)
  ultimately show ?thesis
    by (auto simp: mailboxes_delete_def resetPassword_def mailbox_setSieveScript_def mailbox_path_def json_content_def)
qed

end
