(* ===== verification/Mailserver_Service.thy ===== *)
theory Mailserver_Service
  imports Services
begin

text \<open>
  MailserverService (\<open>src/frontend/src/app/core/mailserver.service.ts\<close>): the requests of the
  mailserver pages, in the order of the source.
\<close>

section \<open>SMTP relays and exclusions\<close>

definition listRelays :: "(relay_host list) endpoint" where
  "listRelays =
     (Api GET ''/api/mailserver/relays'' [] None, as_relays)"

definition createRelay :: "relay_host_create \<Rightarrow> relay_host endpoint" where
  "createRelay body =
     (Api POST ''/api/mailserver/relays'' [] (Some (json_relay_create body)), as_relay)"

definition deleteRelay :: "string \<Rightarrow> unit endpoint" where
  "deleteRelay sender =
     (Api DELETE (''/api/mailserver/relays/'' @ encodeURIComponent sender) [] None, as_void)"

definition listRelayExclusions :: "(relay_exclusion list) endpoint" where
  "listRelayExclusions =
     (Api GET ''/api/mailserver/relay-exclusions'' [] None, as_exclusions)"

definition createRelayExclusion :: "string \<Rightarrow> relay_exclusion endpoint" where
  "createRelayExclusion sender =
     (Api POST ''/api/mailserver/relay-exclusions'' [] (Some (JObj [(''sender'', JStr sender)])), as_exclusion)"

definition deleteRelayExclusion :: "string \<Rightarrow> unit endpoint" where
  "deleteRelayExclusion sender =
     (Api DELETE (''/api/mailserver/relay-exclusions/'' @ encodeURIComponent sender) [] None, as_void)"

section \<open>Postfix and Dovecot\<close>

definition getPostfixOverrides :: "(postfix_override list) endpoint" where
  "getPostfixOverrides =
     (Api GET ''/api/mailserver/postfix'' [] None, as_overrides)"

definition setPostfixOverrides :: "postfix_override list \<Rightarrow> (postfix_override list) endpoint" where
  "setPostfixOverrides overrides =
     (Api PUT ''/api/mailserver/postfix'' [] (Some (JObj [(''overrides'', JArr (map json_override overrides))])), as_overrides)"

definition getPostfixMasterOverrides :: "(postfix_override list) endpoint" where
  "getPostfixMasterOverrides =
     (Api GET ''/api/mailserver/postfix-master'' [] None, as_overrides)"

definition setPostfixMasterOverrides :: "postfix_override list \<Rightarrow> (postfix_override list) endpoint" where
  "setPostfixMasterOverrides overrides =
     (Api PUT ''/api/mailserver/postfix-master'' [] (Some (JObj [(''overrides'', JArr (map json_override overrides))])), as_overrides)"

definition getDovecotConfig :: "dovecot_config endpoint" where
  "getDovecotConfig =
     (Api GET ''/api/mailserver/dovecot-config'' [] None, as_dovecot_config)"

definition setDovecotConfig :: "string \<Rightarrow> dovecot_config endpoint" where
  "setDovecotConfig content =
     (Api PUT ''/api/mailserver/dovecot-config'' [] (Some (json_content content)), as_dovecot_config)"

section \<open>System and regex aliases\<close>

definition listSystemAliases :: "(system_alias list) endpoint" where
  "listSystemAliases =
     (Api GET ''/api/mailserver/system-aliases'' [] None, as_system_aliases)"

definition createSystemAlias :: "string \<Rightarrow> string list \<Rightarrow> system_alias endpoint" where
  "createSystemAlias name targets =
     (Api POST ''/api/mailserver/system-aliases'' [] (Some (JObj [(''name'', JStr name), (''targets'', JArr (map JStr targets))])), as_system_alias)"

definition deleteSystemAlias :: "string \<Rightarrow> unit endpoint" where
  "deleteSystemAlias name =
     (Api DELETE (''/api/mailserver/system-aliases/'' @ encodeURIComponent name) [] None, as_void)"

definition listRegexAliases :: "(regex_alias list) endpoint" where
  "listRegexAliases =
     (Api GET ''/api/mailserver/regex-aliases'' [] None, as_regex_aliases)"

definition createRegexAlias :: "string \<Rightarrow> string list \<Rightarrow> regex_alias endpoint" where
  "createRegexAlias pattern targets =
     (Api POST ''/api/mailserver/regex-aliases'' [] (Some (JObj [(''pattern'', JStr pattern), (''targets'', JArr (map JStr targets))])), as_regex_alias)"

definition deleteRegexAlias :: "string \<Rightarrow> unit endpoint" where
  "deleteRegexAlias pattern =
     (Api DELETE ''/api/mailserver/regex-aliases'' [(''pattern'', pattern)] None, as_void)"

section \<open>DKIM\<close>

definition listDkimKeys :: "(dkim_key list) endpoint" where
  "listDkimKeys =
     (Api GET ''/api/mailserver/dkim'' [] None, as_dkim_keys)"

definition generateDkim :: "dkim_generate_request \<Rightarrow> (dkim_key list) endpoint" where
  "generateDkim body =
     (Api POST ''/api/mailserver/dkim'' [] (Some (json_dkim_generate body)), as_dkim_keys)"

definition getDkimMigrationStatus :: "dkim_migration_status endpoint" where
  "getDkimMigrationStatus =
     (Api GET ''/api/mailserver/dkim/migration'' [] None, as_dkim_status)"

definition migrateDkimToRspamd :: "dkim_migration_result endpoint" where
  "migrateDkimToRspamd =
     (Api POST ''/api/mailserver/dkim/migration'' [] (Some (JObj [])), as_dkim_result)"

section \<open>Restrictions, logs, master accounts\<close>

definition listRestrictions :: "restriction_kind \<Rightarrow> (restriction list) endpoint" where
  "listRestrictions kind =
     (Api GET (''/api/mailserver/restrictions/'' @ restriction_kind_name kind) [] None, as_restrictions)"

definition addRestriction :: "restriction_kind \<Rightarrow> string \<Rightarrow> restriction endpoint" where
  "addRestriction kind address =
     (Api POST (''/api/mailserver/restrictions/'' @ restriction_kind_name kind) [] (Some (JObj [(''address'', JStr address)])), as_restriction)"

definition deleteRestriction :: "restriction_kind \<Rightarrow> string \<Rightarrow> unit endpoint" where
  "deleteRestriction kind address =
     (Api DELETE (''/api/mailserver/restrictions/'' @ restriction_kind_name kind @ ''/'' @ encodeURIComponent address) [] None, as_void)"

definition getMailLogs :: "(string list) endpoint" where
  "getMailLogs =
     (Api GET ''/api/mailserver/logs'' [] None, as_log_lines)"

definition listDovecotMasters :: "(dovecot_master list) endpoint" where
  "listDovecotMasters =
     (Api GET ''/api/mailserver/dovecot-masters'' [] None, as_masters)"

definition createDovecotMaster :: "string \<Rightarrow> string \<Rightarrow> dovecot_master endpoint" where
  "createDovecotMaster name password =
     (Api POST ''/api/mailserver/dovecot-masters'' [] (Some (JObj [(''name'', JStr name), (''password'', JStr password)])), as_master)"

definition deleteDovecotMaster :: "string \<Rightarrow> unit endpoint" where
  "deleteDovecotMaster name =
     (Api DELETE (''/api/mailserver/dovecot-masters/'' @ encodeURIComponent name) [] None, as_void)"

section \<open>Configuration files by scope\<close>

definition getSieveScript :: "sieve_scope \<Rightarrow> sieve_script endpoint" where
  "getSieveScript scope =
     (Api GET (''/api/mailserver/sieve/'' @ sieve_scope_name scope) [] None, as_sieve)"

definition setSieveScript :: "sieve_scope \<Rightarrow> string \<Rightarrow> sieve_script endpoint" where
  "setSieveScript scope content =
     (Api PUT (''/api/mailserver/sieve/'' @ sieve_scope_name scope) [] (Some (json_content content)), as_sieve)"

definition getSpamConfig :: "spam_config_scope \<Rightarrow> spam_config endpoint" where
  "getSpamConfig scope =
     (Api GET (''/api/mailserver/spam/'' @ spam_scope_name scope) [] None, as_spam_config)"

definition setSpamConfig :: "spam_config_scope \<Rightarrow> string \<Rightarrow> spam_config endpoint" where
  "setSpamConfig scope content =
     (Api PUT (''/api/mailserver/spam/'' @ spam_scope_name scope) [] (Some (json_content content)), as_spam_config)"

definition getRspamdOverrides :: "rspamd_overrides endpoint" where
  "getRspamdOverrides =
     (Api GET ''/api/mailserver/rspamd'' [] None, as_rspamd_overrides)"

definition setRspamdOverrides :: "rspamd_command list \<Rightarrow> rspamd_overrides endpoint" where
  "setRspamdOverrides commands =
     (Api PUT ''/api/mailserver/rspamd'' [] (Some (JObj [(''commands'', JArr (map json_rspamd_command commands))])), as_rspamd_overrides)"

definition setRspamdOverrideFile :: "string \<Rightarrow> string \<Rightarrow> rspamd_override_file endpoint" where
  "setRspamdOverrideFile name content =
     (Api PUT (''/api/mailserver/rspamd/override/'' @ encodeURIComponent name) [] (Some (json_content content)), as_override_file)"

definition deleteRspamdOverrideFile :: "string \<Rightarrow> unit endpoint" where
  "deleteRspamdOverrideFile name =
     (Api DELETE (''/api/mailserver/rspamd/override/'' @ encodeURIComponent name) [] None, as_void)"

definition getLdapConfig :: "ldap_scope \<Rightarrow> ldap_config endpoint" where
  "getLdapConfig scope =
     (Api GET (''/api/mailserver/ldap/'' @ ldap_scope_name scope) [] None, as_ldap_config)"

definition setLdapConfig :: "ldap_scope \<Rightarrow> string \<Rightarrow> ldap_config endpoint" where
  "setLdapConfig scope content =
     (Api PUT (''/api/mailserver/ldap/'' @ ldap_scope_name scope) [] (Some (json_content content)), as_ldap_config)"

section \<open>Queue and read-only views\<close>

definition getQueue :: "queue_summary endpoint" where
  "getQueue =
     (Api GET ''/api/mailserver/queue'' [] None, as_queue)"

definition flushQueue :: "string endpoint" where
  "flushQueue =
     (Api POST ''/api/mailserver/queue/flush'' [] (Some (JObj [])), as_output)"

definition deleteQueuedMessage :: "string \<Rightarrow> string endpoint" where
  "deleteQueuedMessage queueId =
     (Api DELETE (''/api/mailserver/queue/'' @ encodeURIComponent queueId) [] None, as_output)"

definition deleteAllQueued :: "string endpoint" where
  "deleteAllQueued =
     (Api DELETE ''/api/mailserver/queue'' [] None, as_output)"

definition getTlsCertificate :: "tls_certificate endpoint" where
  "getTlsCertificate =
     (Api GET ''/api/mailserver/tls'' [] None, as_tls)"

definition listDnsRecords :: "(domain_dns_records list) endpoint" where
  "listDnsRecords =
     (Api GET ''/api/mailserver/dns'' [] None, as_dns)"

definition getEnvironment :: "mailserver_environment endpoint" where
  "getEnvironment =
     (Api GET ''/api/mailserver/environment'' [] None, as_environment)"

definition listServices :: "(service_status list) endpoint" where
  "listServices =
     (Api GET ''/api/mailserver/services'' [] None, as_services)"

definition getMailStats :: "mail_stats endpoint" where
  "getMailStats =
     (Api GET ''/api/mailserver/stats'' [] None, as_stats)"

section \<open>Shared helpers of the mailserver pages (mailserver.utils.ts)\<close>

definition mailserverErrorMessage :: "js_error \<Rightarrow> string" where
  "mailserverErrorMessage err =
     (case err of
        HttpError status detail \<Rightarrow>
          if status = 409 then ''This entry already exists.''
          else if status = 404 then ''This entry no longer exists.''
          else if status = 400 then ''Invalid request. Check the values and the mailserver config volume.''
          else if status = 422 then ''Invalid input. Check the fields and try again.''
          else if status = 502 then ''The mailserver container could not be reached. Check the Docker socket mount.''
          else ''Something went wrong. Please try again.''
      | OtherError \<Rightarrow> ''Something went wrong. Please try again.'')"

definition parseTargets :: "string \<Rightarrow> string list" where
  "parseTargets raw = filter (\<lambda>t. t \<noteq> []) (map trim (split_on (CHR '','') raw))"

definition copyText :: "string \<Rightarrow> 's cmd" where
  "copyText text = try_catch (call (WriteClipboard text) as_void (\<lambda>_. skip)) (\<lambda>_. skip)"

lemma parseTargets_clean:
  "t \<in> set (parseTargets raw) \<Longrightarrow> t \<noteq> [] \<and> trim t = t \<and> CHR '','' \<notin> set t"
  by (auto simp: parseTargets_def dest: split_on_no_sep set_trim[THEN subsetD])

text \<open>
  C32. Reading the destinations of an alias gives back what was joined with commas, for any
  list of texts that are trimmed, not empty and without a comma; and it only ever gives
  such texts, whatever was typed.
\<close>

theorem parseTargets_roundtrip:
  assumes "ts \<noteq> []" and "\<forall>t \<in> set ts. t \<noteq> [] \<and> trim t = t \<and> CHR '','' \<notin> set t"
  shows "parseTargets (join_with '','' ts) = ts \<and>
    (\<forall>t \<in> set (parseTargets raw). t \<noteq> [] \<and> trim t = t \<and> CHR '','' \<notin> set t)"
proof -
  have "split_on (CHR '','') (join_with '','' ts) = ts"
    using assms by (intro split_join) auto
  moreover have "map trim ts = ts" using assms(2) by (intro map_idI) auto
  moreover have "filter (\<lambda>t. t \<noteq> []) ts = ts" using assms(2) by (auto intro: filter_True)
  ultimately have "parseTargets (join_with '','' ts) = ts" by (simp add: parseTargets_def)
  then show ?thesis using parseTargets_clean by blast
qed

theorem parseTargets_roundtrip_witness: "parseTargets ''a@b.c,d@e.f'' = [''a@b.c'', ''d@e.f'']"
  using parseTargets_roundtrip[of "[''a@b.c'', ''d@e.f'']"] by (simp add: trim_def trim_start_def is_ws_def)

end
