(* ===== verification/Pages.thy ===== *)
theory Pages
  imports Mailserver_Service
begin

text \<open>
  What the pages share with the browser and the framework: the form helper \<open>submit\<close>
  and the dialog \<open>confirm\<close>.

  \<open>submit(form, action)\<close> belongs to Angular. Its validators decide whether the form is
  valid, and the action runs at once, at most once, when it is. The decision is the
  parameter \<open>run\<close>, and the model makes no use of what the validators accept. The
  answer of \<open>confirm\<close> is the parameter \<open>ask\<close>, a function of the text that is shown.
\<close>

definition submit :: "bool \<Rightarrow> 's cmd \<Rightarrow> 's cmd" where
  "submit run action = (if run then action else skip)"

text \<open>\<open>try { body } catch (err) { handler } finally { final }\<close>\<close>

definition attempt :: "'s cmd \<Rightarrow> (js_error \<Rightarrow> 's cmd) \<Rightarrow> ('s \<Rightarrow> 's) \<Rightarrow> 's cmd" where
  "attempt body handler final = try_finally (try_catch body handler) final"

lemmas page_defs = submit_def attempt_def endpoint_defs Let_def

text \<open>A signal of type \<open>T | null\<close> used as a busy flag.\<close>

fun is_some :: "'a option \<Rightarrow> bool" where
  "is_some None = False"
| "is_some (Some x) = True"

lemma is_some_iff: "is_some v \<longleftrightarrow> v \<noteq> None"
  by (cases v) auto

text \<open>\<open>if (!value) return;\<close> on a \<open>string | null\<close>: null and the empty string are falsy.\<close>

definition when_text :: "string option \<Rightarrow> (string \<Rightarrow> 's cmd) \<Rightarrow> 's cmd" where
  "when_text v k = (case v of None \<Rightarrow> skip | Some t \<Rightarrow> if t = [] then skip else k t)"

lemma tame_option [tame_intros]:
  "(v = None \<longrightarrow> tame f c) \<Longrightarrow> (\<forall>x. v = Some x \<longrightarrow> tame f (d x)) \<Longrightarrow>
    tame f (case v of None \<Rightarrow> c | Some x \<Rightarrow> d x)"
  by (cases v) auto

lemma clears_option [tame_intros]:
  "(v = None \<longrightarrow> clears f c) \<Longrightarrow> (\<forall>x. v = Some x \<longrightarrow> clears f (d x)) \<Longrightarrow>
    clears f (case v of None \<Rightarrow> c | Some x \<Rightarrow> d x)"
  by (cases v) auto

lemma sends_option [send_intros]:
  "(v = None \<longrightarrow> sends P c) \<Longrightarrow> (\<forall>x. v = Some x \<longrightarrow> sends P (d x)) \<Longrightarrow>
    sends P (case v of None \<Rightarrow> c | Some x \<Rightarrow> d x)"
  by (cases v) auto

lemma segs_option [seg_intros]:
  "(v = None \<longrightarrow> segs R c) \<Longrightarrow> (\<forall>x. v = Some x \<longrightarrow> segs R (d x)) \<Longrightarrow>
    segs R (case v of None \<Rightarrow> c | Some x \<Rightarrow> d x)"
  by (cases v) auto

lemma segs_when_text [seg_intros]:
  "(\<forall>t. v = Some t \<longrightarrow> t \<noteq> [] \<longrightarrow> segs (keeps I) (k t)) \<Longrightarrow> segs (keeps I) (when_text v k)"
  by (auto simp: when_text_def intro: kept.segs_skip split: option.splits)

lemma tame_when_text [tame_intros]:
  "(\<forall>t. v = Some t \<longrightarrow> t \<noteq> [] \<longrightarrow> tame f (k t)) \<Longrightarrow> tame f (when_text v k)"
  by (auto simp: when_text_def intro: tame_skip split: option.splits)

lemma sends_when_text [send_intros]:
  "(\<forall>t. v = Some t \<longrightarrow> t \<noteq> [] \<longrightarrow> sends P (k t)) \<Longrightarrow> sends P (when_text v k)"
  by (auto simp: when_text_def intro: sends_skip split: option.splits)

lemma ends_when_text [ends_intros]: "(\<And>v. ends n (c v)) \<Longrightarrow> ends n (when_text x c)"
  by (auto simp: when_text_def intro: ends_mono ends_skip split: option.splits)

lemma when_text_simps [simp]:
  "when_text None k = skip"
  "when_text (Some []) k = skip"
  "when_text (Some (c # cs)) k = k (c # cs)"
  by (simp_all add: when_text_def)

text \<open>A name between double quotes, as the templates of the messages have it.\<close>

definition quoted :: "string \<Rightarrow> string" where
  "quoted name = CHR 0x22 # name @ [CHR 0x22]"

text \<open>The em dash of some texts, in UTF-8.\<close>

definition em_dash :: string where
  "em_dash = [CHR 0xE2, CHR 0x80, CHR 0x94]"

section \<open>Running a method\<close>

text \<open>How the statements compute, for the executions that are followed step by step.\<close>

lemma seq_assign [simp]: "seq (assign f) d s = d (f s)"
  by (simp add: seq_def after_eq assign_def)

lemma seq_skip [simp]: "seq skip d s = d s"
  by (simp add: seq_def after_eq skip_def)

lemma seq_throw [simp]: "seq (throw e) d s = (s, Fail e)"
  by (simp add: seq_def after_eq throw_def)

lemma seq_look [simp]: "seq (look c) d s = seq (c s) d s"
  by (simp add: seq_def after_eq look_def)

lemma skip_apply [simp]: "skip s = (s, Done)"
  by (simp add: skip_def)

lemma throw_apply [simp]: "throw e s = (s, Fail e)"
  by (simp add: throw_def)

lemma assign_apply [simp]: "assign f s = (f s, Done)"
  by (simp add: assign_def)

lemma look_apply [simp]: "look c s = c s s"
  by (simp add: look_def)

lemma fetch_apply:
  "fetch (q, dec) k s = (s, Wait [q] (\<lambda>r. case r of Inl e \<Rightarrow> throw e
     | Inr [x] \<Rightarrow> (case dec x of Some v \<Rightarrow> k v | None \<Rightarrow> throw OtherError)
     | _ \<Rightarrow> throw OtherError))"
  by (auto simp: fetch_def call_def await_def fun_eq_iff split: sum.splits list.splits)

lemmas run_simps =
  seq_def try_catch_def try_finally_def after_eq fetch_def fetch_both_def call_def call2_def
  await_def submit_def attempt_def navigate_def copyText_def

section \<open>Concrete runs of a page\<close>

text \<open>
  A scripted run: the events and the answers in the order they come. Every scripted
  run is a reachable configuration.
\<close>

datatype ('e, 'r) step =
    Event 'e
  | Answer nat "bool list" "js_error + 'r list"

fun step_run ::
  "('e \<Rightarrow> ('s, 'r) act) \<Rightarrow> ('e, 'r) step \<Rightarrow> 's \<times> ('s, 'r) proc list \<Rightarrow> 's \<times> ('s, 'r) proc list" where
  "step_run handle (Event e) (s, ps) = (case handle e s of (s', p) \<Rightarrow> (s', ps @ [p]))"
| "step_run handle (Answer i pos r) (s, ps) =
     (if i < length ps then case deliver pos r (ps ! i) s of (s', p) \<Rightarrow> (s', ps[i := p]) else (s, ps))"

definition run_page ::
  "('e \<Rightarrow> ('s, 'r) act) \<Rightarrow> ('s, 'r) act \<Rightarrow> 's \<Rightarrow> ('e, 'r) step list \<Rightarrow> 's \<times> ('s, 'r) proc list" where
  "run_page handle boot s0 steps = fold (step_run handle) steps (case boot s0 of (s, p) \<Rightarrow> (s, [p]))"

lemma step_run_reachable:
  "reachable handle boot s0 (fst c) (snd c) \<Longrightarrow>
    reachable handle boot s0 (fst (step_run handle st c)) (snd (step_run handle st c))"
  by (cases c; cases st) (auto split: prod.splits intro: reachable.event reachable.answer)

lemma run_reachable:
  "run_page handle boot s0 steps = (s, ps) \<Longrightarrow> reachable handle boot s0 s ps"
proof -
  have "reachable handle boot s0 (fst (fold (step_run handle) steps c)) (snd (fold (step_run handle) steps c))"
    if "reachable handle boot s0 (fst c) (snd c)" for c
    using that
  proof (induction steps arbitrary: c)
    case (Cons st steps)
    then show ?case using Cons.IH[OF step_run_reachable[OF Cons.prems, of st]] by simp
  qed simp
  from this[of "case boot s0 of (s, p) \<Rightarrow> (s, [p])"] show "run_page handle boot s0 steps = (s, ps) \<Longrightarrow> ?thesis"
    by (auto simp: run_page_def split: prod.splits intro: reachable.boot)
qed

lemma run_reach:
  "reachable handle boot s0 (fst (run_page handle boot s0 steps)) (snd (run_page handle boot s0 steps))"
  by (rule run_reachable) simp

lemma give_run: "give as c = Some d \<Longrightarrow> answered (fst c, snd c) (length as) (fst d, snd d)"
  by (simp add: give_answered)

text \<open>What the events of a script keep holds at its end.\<close>

lemma run_steady:
  assumes "I s0" and "segs (keeps I) boot" and "\<And>e. Event e \<in> set steps \<Longrightarrow> segs (keeps I) (handle e)"
  shows "I (fst (run_page handle boot s0 steps))"
proof -
  let ?h = "\<lambda>e. if Event e \<in> set steps then handle e else skip"
  have "step_run ?h st c = step_run handle st c" if "st \<in> set steps" for st c
    using that by (cases c) (cases st; simp)
  then have "run_page ?h boot s0 steps = run_page handle boot s0 steps"
    unfolding run_page_def by (intro fold_cong) (auto simp: fun_eq_iff)
  moreover have "steady_page ?h boot s0 I"
    by (rule steady_page.intro) (use assms kept.segs_skip in auto)
  then have "I (fst (run_page ?h boot s0 steps))" by (rule steady_page.invariant) (rule run_reach)
  ultimately show ?thesis by simp
qed

lemmas run_defs =
  in_flight_def run_page_def run_simps quiescent_def all_of_def join_def first_error_def

lemma char_of_digits [simp]:
  "char_of (48 :: nat) = CHR ''0''" "char_of (49 :: nat) = CHR ''1''" "char_of (50 :: nat) = CHR ''2''"
  "char_of (51 :: nat) = CHR ''3''" "char_of (52 :: nat) = CHR ''4''" "char_of (53 :: nat) = CHR ''5''"
  "char_of (54 :: nat) = CHR ''6''" "char_of (55 :: nat) = CHR ''7''" "char_of (56 :: nat) = CHR ''8''"
  "char_of (57 :: nat) = CHR ''9''"
  by code_simp+

text \<open>The answers of a script.\<close>

abbreviation ok :: "payload \<Rightarrow> js_error + payload list" where
  "ok v \<equiv> Inr [v]"

abbreviation failed :: "nat \<Rightarrow> js_error + payload list" where
  "failed status \<equiv> Inl (HttpError status None)"

end
