(* ===== verification/Auth_Session.thy ===== *)
theory Auth_Session
  imports Pages
begin

text \<open>
  The session (\<open>src/frontend/src/app/core/auth.service.ts\<close>, \<open>auth.guard.ts\<close>,
  \<open>session-expiry.service.ts\<close>, \<open>session-expiry.interceptor.ts\<close>,
  \<open>credentials.interceptor.ts\<close>) and the components that end it
  (\<open>shared/user-menu/user-menu.ts\<close>, \<open>shared/session-expired-modal/session-expired-modal.ts\<close>).

  The signals of the singleton AuthService are a base record: the state of a page that
  injects the service extends it, and the service's methods work on any extension.
\<close>

section \<open>AuthService\<close>

record auth_state =
  au_user :: "session_user option"
  au_config :: "auth_config option"
  au_loaded :: bool

definition isAuthenticated :: "'a auth_state_scheme \<Rightarrow> bool" where
  "isAuthenticated s = (au_user s \<noteq> None)"

definition patsEnabled :: "'a auth_state_scheme \<Rightarrow> bool" where
  "patsEnabled s = (case au_config s of None \<Rightarrow> False | Some c \<Rightarrow> ac_pats_enabled c)"

definition isAdmin :: "'a auth_state_scheme \<Rightarrow> bool" where
  "isAdmin s = roleGrants (map_option su_role (au_user s)) Admin"

definition canManageMailboxes :: "'a auth_state_scheme \<Rightarrow> bool" where
  "canManageMailboxes s = roleGrants (map_option su_role (au_user s)) Mailbox_manager"

definition auth_config_endpoint :: "auth_config endpoint" where
  "auth_config_endpoint = (Api GET ''/api/auth/config'' [] None, as_auth_config)"

definition auth_me_endpoint :: "session_user endpoint" where
  "auth_me_endpoint = (Api GET ''/api/auth/me'' [] None, as_session)"

definition auth_login_endpoint :: "string \<Rightarrow> string \<Rightarrow> session_user endpoint" where
  "auth_login_endpoint username password =
     (Api POST ''/api/auth/login'' []
        (Some (JObj [(''username'', JStr username), (''password'', JStr password)])), as_session)"

definition auth_logout_endpoint :: "unit endpoint" where
  "auth_logout_endpoint = (Api POST ''/api/auth/logout'' [] (Some (JObj [])), as_void)"

definition loadConfig :: "'a auth_state_scheme cmd" where
  "loadConfig = fetch auth_config_endpoint (\<lambda>config. assign (\<lambda>s. s\<lparr>au_config := Some config\<rparr>))"

definition refreshSession :: "'a auth_state_scheme cmd" where
  "refreshSession =
     attempt (fetch auth_me_endpoint (\<lambda>user. assign (\<lambda>s. s\<lparr>au_user := Some user\<rparr>)))
       (\<lambda>_. assign (\<lambda>s. s\<lparr>au_user := None\<rparr>))
       (\<lambda>s. s\<lparr>au_loaded := True\<rparr>)"

definition auth_login :: "string \<Rightarrow> string \<Rightarrow> 'a auth_state_scheme cmd" where
  "auth_login username password =
     fetch (auth_login_endpoint username password) (\<lambda>user. assign (\<lambda>s. s\<lparr>au_user := Some user\<rparr>))"

definition auth_logout :: "'a auth_state_scheme cmd" where
  "auth_logout = try_finally (fetch auth_logout_endpoint (\<lambda>_. skip)) (\<lambda>s. s\<lparr>au_user := None\<rparr>)"

text \<open>
  \<open>window.location.href = ...\<close>: the document is replaced, so nothing that the application
  still waits for is answered; the state is as it was until then.
\<close>

definition loginWithOidc :: "'a auth_state_scheme cmd" where
  "loginWithOidc = call (Leave ''/api/auth/oidc/login'') as_void (\<lambda>_. skip)"

lemmas auth_defs =
  loginWithOidc_def loadConfig_def refreshSession_def auth_login_def auth_logout_def auth_config_endpoint_def
  auth_me_endpoint_def auth_login_endpoint_def auth_logout_endpoint_def

section \<open>Guards (auth.guard.ts)\<close>

text \<open>What a guard returns: \<open>true\<close>, or the tree of another path.\<close>

datatype verdict = Allowed | Redirect string

text \<open>A guard in continuation style: \<open>k\<close> is what the router does with the verdict.\<close>

definition ensureLoaded :: "'a auth_state_scheme cmd" where
  "ensureLoaded = look (\<lambda>s. if \<not> au_loaded s then refreshSession else skip)"

definition requireRole :: "role \<Rightarrow> (verdict \<Rightarrow> 'a auth_state_scheme cmd) \<Rightarrow> 'a auth_state_scheme cmd" where
  "requireRole required k =
     seq ensureLoaded
     (look (\<lambda>s.
       if \<not> isAuthenticated s then k (Redirect ''/login'')
       else if roleGrants (map_option su_role (au_user s)) required then k Allowed
       else k (Redirect ''/dashboard'')))"

definition authGuard :: "(verdict \<Rightarrow> 'a auth_state_scheme cmd) \<Rightarrow> 'a auth_state_scheme cmd" where
  "authGuard k =
     seq ensureLoaded
     (look (\<lambda>s. if isAuthenticated s then k Allowed else k (Redirect ''/login'')))"

definition adminGuard :: "(verdict \<Rightarrow> 'a auth_state_scheme cmd) \<Rightarrow> 'a auth_state_scheme cmd" where
  "adminGuard = requireRole Admin"

definition mailboxManagerGuard :: "(verdict \<Rightarrow> 'a auth_state_scheme cmd) \<Rightarrow> 'a auth_state_scheme cmd" where
  "mailboxManagerGuard = requireRole Mailbox_manager"

definition guestGuard :: "(verdict \<Rightarrow> 'a auth_state_scheme cmd) \<Rightarrow> 'a auth_state_scheme cmd" where
  "guestGuard k =
     seq ensureLoaded
     (look (\<lambda>s. if isAuthenticated s then k (Redirect ''/dashboard'') else k Allowed))"

lemmas guard_defs =
  ensureLoaded_def requireRole_def authGuard_def adminGuard_def mailboxManagerGuard_def guestGuard_def

section \<open>Session expiry\<close>

record session_state = auth_state +
  expired :: bool

definition notifyExpired :: "'a session_state_scheme \<Rightarrow> 'a session_state_scheme" where
  "notifyExpired s = s\<lparr>expired := True\<rparr>"

definition clear_expired :: "'a session_state_scheme \<Rightarrow> 'a session_state_scheme" where
  "clear_expired s = s\<lparr>expired := False\<rparr>"

definition IGNORED_PATHS :: "string list" where
  "IGNORED_PATHS = [''/api/auth/login'', ''/api/auth/me'', ''/api/auth/config'', ''/api/auth/logout'']"

definition isIgnored :: "string \<Rightarrow> bool" where
  "isIgnored url = list_ex (\<lambda>path. starts_with url path) IGNORED_PATHS"

text \<open>
  \<open>catchError\<close> of the interceptor on the answer of a request: what it does to the state and
  what the caller receives.
\<close>

definition expiryCatchError ::
  "string \<Rightarrow> js_error + 'r list \<Rightarrow> 'a session_state_scheme \<Rightarrow> 'a session_state_scheme \<times> (js_error + 'r list)" where
  "expiryCatchError url answer s =
     (case answer of
        Inl (HttpError status detail) \<Rightarrow>
          (if status = 401 \<and> \<not> isIgnored url then notifyExpired s else s, Inl (HttpError status detail))
      | _ \<Rightarrow> (s, answer))"

record outgoing =
  og_request :: request
  og_withCredentials :: bool

text \<open>
  What a handler makes of a request: the request that leaves, and how its answer comes
  back. An interceptor is given the request and the next handler of the chain;
  \<open>withInterceptors\<close> calls them in the order of the list, the backend last.
\<close>

type_synonym 'a exchange =
  "outgoing \<times> (js_error + payload list \<Rightarrow> 'a session_state_scheme \<Rightarrow> 'a session_state_scheme \<times> (js_error + payload list))"

type_synonym 'a interceptor = "outgoing \<Rightarrow> (outgoing \<Rightarrow> 'a exchange) \<Rightarrow> 'a exchange"

definition req_url :: "outgoing \<Rightarrow> string" where
  "req_url req = (case og_request req of Api v url query body \<Rightarrow> url | ExternalGet url \<Rightarrow> url | _ \<Rightarrow> [])"

definition credentialsInterceptor :: "'a interceptor" where
  "credentialsInterceptor req next_handler = next_handler (req\<lparr>og_withCredentials := True\<rparr>)"

definition sessionExpiryInterceptor :: "'a interceptor" where
  "sessionExpiryInterceptor req next_handler =
     (case next_handler req of
        (out, observe) \<Rightarrow>
          (out, \<lambda>answer s. case observe answer s of (s', answer') \<Rightarrow> expiryCatchError (req_url req) answer' s'))"

fun withInterceptors :: "'a interceptor list \<Rightarrow> outgoing \<Rightarrow> 'a exchange" where
  "withInterceptors [] req = (req, \<lambda>answer s. (s, answer))"
| "withInterceptors (i # rest) req = i req (withInterceptors rest)"

text \<open>\<open>provideHttpClient\<close> of \<open>app.config.ts\<close>: a call of the client.\<close>

definition http_client :: "request \<Rightarrow> 'a exchange" where
  "http_client q =
     withInterceptors [credentialsInterceptor, sessionExpiryInterceptor]
       \<lparr>og_request = q, og_withCredentials = False\<rparr>"

lemma http_client_eq:
  "http_client q =
     (\<lparr>og_request = q, og_withCredentials = True\<rparr>,
      expiryCatchError (req_url \<lparr>og_request = q, og_withCredentials = True\<rparr>))"
  by (simp add: http_client_def credentialsInterceptor_def sessionExpiryInterceptor_def)

section \<open>The dialog of an expired session and the sign-out of the menu\<close>

record modal_state = session_state +
  signingIn :: bool

definition onSignIn :: "modal_state cmd" where
  "onSignIn =
     seq (assign (\<lambda>s. s\<lparr>signingIn := True\<rparr>))
     (try_finally
       (seq auth_logout (navigate ''/login''))
       (\<lambda>s. (clear_expired s)\<lparr>signingIn := False\<rparr>))"

definition menu_onLogout :: "'a auth_state_scheme cmd" where
  "menu_onLogout = seq auth_logout (navigate ''/login'')"

text \<open>
  The effects of the dialog on the document: the class that stops the page behind it from
  scrolling follows the flag, and the only button of the dialog, which is in the document
  while the dialog is open, takes the focus.
\<close>

record modal_document =
  body_classes :: "string list"
  focused :: "string option"

definition BODY_MODAL_CLASS :: string where
  "BODY_MODAL_CLASS = ''modal-open''"

definition signInButton :: "modal_state \<Rightarrow> string option" where
  "signInButton s = (if expired s then Some ''signIn'' else None)"

definition toggle_class :: "string \<Rightarrow> bool \<Rightarrow> string list \<Rightarrow> string list" where
  "toggle_class c force classes =
     (if force then (if c \<in> set classes then classes else classes @ [c]) else filter (\<lambda>d. d \<noteq> c) classes)"

definition modal_body_effect :: "modal_state \<Rightarrow> modal_document \<Rightarrow> modal_document" where
  "modal_body_effect s d = d\<lparr>body_classes := toggle_class BODY_MODAL_CLASS (expired s) (body_classes d)\<rparr>"

definition modal_focus_effect :: "modal_state \<Rightarrow> modal_document \<Rightarrow> modal_document" where
  "modal_focus_effect s d =
     (case signInButton s of None \<Rightarrow> d | Some button \<Rightarrow> d\<lparr>focused := Some button\<rparr>)"

definition modal_effects :: "modal_state \<Rightarrow> modal_document \<Rightarrow> modal_document" where
  "modal_effects s d = modal_focus_effect s (modal_body_effect s d)"

text \<open>
  The events of the dialog: the button, and the answers that come back through the
  interceptor to any other component.
\<close>

datatype modal_event =
    Sign_in
  | Menu_logout
  | Answered string "js_error + payload list"

fun modal_handle :: "modal_event \<Rightarrow> modal_state cmd" where
  "modal_handle Sign_in = onSignIn"
| "modal_handle Menu_logout = menu_onLogout"
| "modal_handle (Answered url r) = assign (\<lambda>s. fst (expiryCatchError url r s))"

definition modal_start :: "modal_state" where
  "modal_start = \<lparr>au_user = None, au_config = None, au_loaded = False, expired = False, signingIn = False\<rparr>"

lemma expired_interceptor [simp]:
  "expired (fst (expiryCatchError url r s)) =
     (expired s \<or> (\<exists>d. r = Inl (HttpError 401 d)) \<and> \<not> isIgnored url)"
  by (cases r) (auto simp: expiryCatchError_def notifyExpired_def split: js_error.splits)

lemma interceptor_frame [simp]:
  "signingIn (fst (expiryCatchError url r s)) = signingIn s"
  "au_user (fst (expiryCatchError url r t)) = au_user t"
  "au_loaded (fst (expiryCatchError url r t)) = au_loaded t"
  "snd (expiryCatchError url r t) = r"
  by (auto simp: expiryCatchError_def notifyExpired_def split: sum.splits js_error.splits)

lemmas modal_defs = onSignIn_def menu_onLogout_def clear_expired_def

interpretation modal_quiet: quiet_page modal_handle skip modal_start "[signingIn]"
proof
  show "list_all (\<lambda>f. clears f skip \<or> tame f skip \<and> \<not> f modal_start) [signingIn]"
    by (simp add: tame_intros modal_start_def)
  show "list_all (\<lambda>f. tame f (modal_handle e)) [signingIn]" for e
    by (cases e) (simp_all add: modal_defs auth_defs page_defs tame_intros)
qed

text \<open>A guard decides on the session the state holds at that moment.\<close>

lemma ensureLoaded_loaded: "au_loaded s \<Longrightarrow> seq ensureLoaded c s = c s"
  by (simp add: ensureLoaded_def)

lemma role_order: "roleGrants (Some r) required \<longleftrightarrow> r = required \<or> r = Admin \<or> required = Guest"
  by (cases r; cases required) (simp_all add: roleGrants_def ROLES_def)

section \<open>The document behind the dialog\<close>

lemma set_toggle_class: "set (toggle_class c force cs) = (if force then insert c (set cs) else set cs - {c})"
  by (auto simp: toggle_class_def)

lemma classes_modal_effects:
  "set (body_classes (modal_effects s d)) =
     (if expired s then insert BODY_MODAL_CLASS (set (body_classes d)) else set (body_classes d) - {BODY_MODAL_CLASS})"
  by (simp add: modal_effects_def modal_focus_effect_def modal_body_effect_def signInButton_def set_toggle_class)

lemma classes_modal_others:
  "c \<noteq> BODY_MODAL_CLASS \<Longrightarrow> c \<in> set (body_classes (fold modal_effects ss d)) \<longleftrightarrow> c \<in> set (body_classes d)"
  by (induction ss arbitrary: d) (auto simp: classes_modal_effects)

text \<open>
  After the effects have run on the states the dialog went through, the page is kept from
  scrolling exactly when the dialog is open in the last one, every other class of the body
  is as it was, and an open dialog has the focus on its button.
\<close>

theorem modal_document_follows:
  "let d' = fold modal_effects (ss @ [s]) d
   in (BODY_MODAL_CLASS \<in> set (body_classes d') \<longleftrightarrow> expired s) \<and>
      (\<forall>c. c \<noteq> BODY_MODAL_CLASS \<longrightarrow> (c \<in> set (body_classes d') \<longleftrightarrow> c \<in> set (body_classes d))) \<and>
      (if expired s then focused d' = Some ''signIn'' else focused d' = focused (fold modal_effects ss d))"
  by (auto simp: Let_def classes_modal_effects classes_modal_others)
    (simp_all add: modal_effects_def modal_focus_effect_def modal_body_effect_def signInButton_def)

section \<open>The end of a session\<close>

text \<open>
  C9. The dialog of an expired session opens for one reason only: whatever the user does
  and whatever comes back in which order, the session is marked as expired only if some
  answer was a 401 to a request outside the four authentication paths. A failed sign-in, a
  missing session at start or another error never open it.
\<close>

theorem expiry_needs_401:
  assumes "expired (fst (run_page modal_handle skip modal_start steps))"
  shows "\<exists>url detail. Event (Answered url (Inl (HttpError 401 detail))) \<in> set steps \<and> \<not> isIgnored url"
proof (rule ccontr)
  assume none: "\<not> ?thesis"
  have "\<not> expired (fst (run_page modal_handle skip modal_start steps))"
  proof (rule run_steady)
    show "\<not> expired modal_start" by (simp add: modal_start_def)
    show "segs (keeps (\<lambda>s. \<not> expired s)) skip" by (rule kept.segs_skip)
    show "segs (keeps (\<lambda>s. \<not> expired s)) (modal_handle e)" if "Event e \<in> set steps" for e
    proof (cases e)
      case (Answered url r)
      have "\<not> (\<exists>d. r = Inl (HttpError 401 d)) \<or> isIgnored url" using that none Answered by auto
      then show ?thesis unfolding Answered modal_handle.simps
        by (intro kept.segs_assign) (auto simp: keeps_def)
    qed (simp_all add: modal_defs auth_defs page_defs seg_intros keeps_def)
  qed
  then show False using assms by simp
qed

theorem expiry_needs_401_witness:
  "\<exists>url detail. Event (Answered url (Inl (HttpError 401 detail))) \<in>
     set [Event Sign_in, Answer 1 [] (failed 401), Event (Answered ''/api/users'' (Inl (HttpError 401 None)))]
     \<and> \<not> isIgnored url"
  by (rule expiry_needs_401)
    (simp add: run_defs modal_defs modal_start_def auth_defs endpoint_defs isIgnored_def IGNORED_PATHS_def starts_with_def)

text \<open>
  Signing in again from the dialog: it asks the backend to end the session; when that
  succeeds it forgets the user, goes to the login page and only then closes the dialog;
  when it fails it forgets the user and closes the dialog at once, and stays on the page.
\<close>

theorem sign_in_again:
  "fst (onSignIn s) = s\<lparr>signingIn := True\<rparr> \<and>
   outstanding (snd (onSignIn s)) = [Api POST ''/api/auth/logout'' [] (Some (JObj []))] \<and>
   (\<forall>e t. deliver [] (Inl e) (snd (onSignIn s)) t =
      (t\<lparr>au_user := None, expired := False, signingIn := False\<rparr>, Fail e)) \<and>
   (\<forall>v t. fst (deliver [] (ok v) (snd (onSignIn s)) t) = t\<lparr>au_user := None\<rparr> \<and>
      outstanding (snd (deliver [] (ok v) (snd (onSignIn s)) t)) = [Navigate ''/login''] \<and>
      (\<forall>r u. fst (deliver [] r (snd (deliver [] (ok v) (snd (onSignIn s)) t)) u) =
         u\<lparr>expired := False, signingIn := False\<rparr>))"
  by (auto simp: modal_defs auth_defs run_simps endpoint_defs skip_def throw_def as_void_def
      split: sum.splits list.splits)

end
