(* ===== verification/App_Shell.thy ===== *)
theory App_Shell
  imports Auth_Session
begin

text \<open>
  The root component (\<open>src/frontend/src/app/app.ts\<close>): the sidebar and the provisioner link.
\<close>

datatype app_section = Mailbox_section | Mailserver_section | Fail2ban_section | Settings_section

record sidebar_sections =
  mailbox_open :: bool
  mailserver_open :: bool
  fail2ban_open :: bool
  settings_open :: bool

fun section_open :: "app_section \<Rightarrow> sidebar_sections \<Rightarrow> bool" where
  "section_open Mailbox_section = mailbox_open"
| "section_open Mailserver_section = mailserver_open"
| "section_open Fail2ban_section = fail2ban_open"
| "section_open Settings_section = settings_open"

fun set_section :: "app_section \<Rightarrow> bool \<Rightarrow> sidebar_sections \<Rightarrow> sidebar_sections" where
  "set_section Mailbox_section b x = x\<lparr>mailbox_open := b\<rparr>"
| "set_section Mailserver_section b x = x\<lparr>mailserver_open := b\<rparr>"
| "set_section Fail2ban_section b x = x\<lparr>fail2ban_open := b\<rparr>"
| "set_section Settings_section b x = x\<lparr>settings_open := b\<rparr>"

text \<open>\<open>sidebarStorage\<close> is the entry of the local storage.\<close>

record app_state = auth_state +
  usesLdap :: bool
  sections :: sidebar_sections
  sidebarCollapsed :: bool
  sidebarStorage :: "string option"

definition DESKTOP_MIN_WIDTH :: nat where
  "DESKTOP_MIN_WIDTH = 768"

text \<open>\<open>blocked\<close>: the access to the local storage throws.\<close>

definition readCollapsed :: "nat option \<Rightarrow> bool \<Rightarrow> string option \<Rightarrow> bool" where
  "readCollapsed innerWidth blocked stored =
     (let width = (case innerWidth of None \<Rightarrow> DESKTOP_MIN_WIDTH | Some w \<Rightarrow> w)
      in if width < DESKTOP_MIN_WIDTH then True
         else if blocked then False else stored = Some ''true'')"

definition persistCollapsed :: "bool \<Rightarrow> bool \<Rightarrow> app_state \<Rightarrow> app_state" where
  "persistCollapsed blocked collapsed s =
     (if blocked then s else s\<lparr>sidebarStorage := Some (if collapsed then ''true'' else ''false'')\<rparr>)"

definition toggleSidebar :: "bool \<Rightarrow> app_state \<Rightarrow> app_state" where
  "toggleSidebar blocked s =
     (let collapsed = (\<not> sidebarCollapsed s)
      in persistCollapsed blocked collapsed (s\<lparr>sidebarCollapsed := collapsed\<rparr>))"

definition toggleSection :: "bool \<Rightarrow> app_section \<Rightarrow> app_state \<Rightarrow> app_state" where
  "toggleSection blocked sec s =
     (if sidebarCollapsed s then
        (let s1 = toggleSidebar blocked s in s1\<lparr>sections := set_section sec True (sections s1)\<rparr>)
      else s\<lparr>sections := set_section sec (\<not> section_open sec (sections s)) (sections s)\<rparr>)"

definition loadProvisioner :: "app_state cmd" where
  "loadProvisioner =
     try_catch
       (fetch getEnvironment (\<lambda>environment.
          assign (\<lambda>s. s\<lparr>usesLdap := (to_upper (me_account_provisioner environment) = ''LDAP'')\<rparr>)))
       (\<lambda>_. assign (\<lambda>s. s\<lparr>usesLdap := False\<rparr>))"

text \<open>The effect of the constructor: it runs once at start and after \<open>isAdmin\<close> changed.\<close>

definition admin_effect :: "app_state cmd" where
  "admin_effect =
     look (\<lambda>s. if \<not> isAdmin s then assign (\<lambda>s. s\<lparr>usesLdap := False\<rparr>) else loadProvisioner)"

definition app_start :: "session_user option \<Rightarrow> nat option \<Rightarrow> bool \<Rightarrow> string option \<Rightarrow> app_state" where
  "app_start user innerWidth blocked stored =
     \<lparr>au_user = user, au_config = None, au_loaded = False, usesLdap = False,
      sections = \<lparr>mailbox_open = True, mailserver_open = False, fail2ban_open = False, settings_open = False\<rparr>,
      sidebarCollapsed = readCollapsed innerWidth blocked stored, sidebarStorage = stored\<rparr>"

text \<open>The entry of the local storage: what \<open>app_start\<close> is given when the component is constructed.\<close>

definition SIDEBAR_STORAGE_KEY :: string where
  "SIDEBAR_STORAGE_KEY = ''mailserver-ui-sidebar-collapsed''"

definition app_component ::
  "session_user option \<Rightarrow> nat option \<Rightarrow> bool \<Rightarrow> (string \<Rightarrow> string option) \<Rightarrow> app_state" where
  "app_component user innerWidth blocked localStorage =
     app_start user innerWidth blocked (localStorage SIDEBAR_STORAGE_KEY)"

datatype app_event =
    Toggle_section bool app_section
  | Toggle_sidebar bool
  | Session_changed "session_user option"
  | Admin_effect

fun app_handle :: "app_event \<Rightarrow> app_state cmd" where
  "app_handle (Toggle_section blocked sec) = assign (toggleSection blocked sec)"
| "app_handle (Toggle_sidebar blocked) = assign (toggleSidebar blocked)"
| "app_handle (Session_changed u) = assign (\<lambda>s. s\<lparr>au_user := u\<rparr>)"
| "app_handle Admin_effect = admin_effect"

lemmas sidebar_defs = toggleSection_def toggleSidebar_def persistCollapsed_def Let_def

lemma section_open_set: "section_open a (set_section b v x) = (if a = b then v else section_open a x)"
  by (cases a; cases b) simp_all

lemma sections_ext: "(\<And>a. section_open a x = section_open a y) \<Longrightarrow> x = (y :: sidebar_sections)"
proof -
  assume a: "\<And>a. section_open a x = section_open a y"
  show "x = y"
    using a[of Mailbox_section] a[of Mailserver_section] a[of Fail2ban_section] a[of Settings_section] by simp
qed

section \<open>Bootstrap (app.config.ts)\<close>

text \<open>The initializer that fetches the capabilities: \<open>auth.loadConfig().catch(() => null)\<close>.\<close>

definition app_initializer :: "'a auth_state_scheme cmd" where
  "app_initializer = try_catch loadConfig (\<lambda>_. skip)"

text \<open>The application starts whatever the backend answers, with its capabilities or without.\<close>

lemma app_initializer_ends:
  "outstanding (snd (app_initializer s)) = [fst auth_config_endpoint] \<and>
   deliver [] (Inl e) (snd (app_initializer s)) t = (t, Done) \<and>
   (as_auth_config v = Some c \<longrightarrow>
     deliver [] (Inr [v]) (snd (app_initializer s)) t = (t\<lparr>au_config := Some c\<rparr>, Done))"
  by (simp add: app_initializer_def loadConfig_def auth_config_endpoint_def run_simps endpoint_defs)

section \<open>Routes (app.routes.ts)\<close>

datatype guard = Auth_guard | Guest_guard | Manager_guard | Admin_guard

datatype component =
    C_login | C_dashboard | C_about | C_profile | C_mailboxes | C_relay | C_postfix | C_dovecot
  | C_aliases | C_sieve | C_spam | C_rspamd | C_ldap | C_dkim | C_dns | C_restrictions | C_queue
  | C_tls | C_environment | C_logs | C_fail2ban | C_users | C_audit | C_oidc | C_mail

text \<open>A route: a page, a redirection, or a parent with children, each with its path and guards.\<close>

datatype route =
    Page string "guard list" component
  | Redirect_to string string
  | Parent string "guard list" "route list"

definition mailserver_routes :: "route list" where
  "mailserver_routes =
     [Redirect_to '''' ''relay'',
      Page ''relay'' [] C_relay, Page ''postfix'' [] C_postfix, Page ''dovecot'' [] C_dovecot,
      Page ''aliases'' [] C_aliases, Page ''sieve'' [] C_sieve, Page ''spam'' [] C_spam,
      Page ''rspamd'' [] C_rspamd, Page ''ldap'' [] C_ldap, Page ''dkim'' [] C_dkim,
      Page ''dns'' [] C_dns, Page ''restrictions'' [] C_restrictions, Page ''queue'' [] C_queue,
      Page ''tls'' [] C_tls, Page ''environment'' [] C_environment, Page ''logs'' [] C_logs,
      Redirect_to ''**'' ''relay'']"

definition settings_routes :: "route list" where
  "settings_routes =
     [Redirect_to '''' ''oidc'', Page ''oidc'' [] C_oidc, Page ''mail'' [] C_mail,
      Redirect_to ''**'' ''oidc'']"

definition routes :: "route list" where
  "routes =
     [Redirect_to '''' ''dashboard'',
      Page ''login'' [Guest_guard] C_login,
      Page ''dashboard'' [Auth_guard] C_dashboard,
      Page ''about'' [Auth_guard] C_about,
      Page ''profile'' [Auth_guard] C_profile,
      Page ''mailboxes'' [Manager_guard] C_mailboxes,
      Parent ''mailserver'' [Admin_guard] mailserver_routes,
      Page ''fail2ban'' [Admin_guard] C_fail2ban,
      Page ''users'' [Admin_guard] C_users,
      Page ''audit'' [Admin_guard] C_audit,
      Parent ''settings'' [Admin_guard] settings_routes,
      Redirect_to ''**'' ''dashboard'']"

text \<open>
  Every page of the table with its path and the guards on the way to it: a guard of a
  parent is asked before its children are reached.
\<close>

fun route_pages :: "string list \<Rightarrow> guard list \<Rightarrow> route \<Rightarrow> (string list \<times> guard list \<times> component) list" where
  "route_pages path gs (Page p g c) = [(path @ [p], gs @ g, c)]"
| "route_pages path gs (Redirect_to p target) = []"
| "route_pages path gs (Parent p g children) = concat (map (route_pages (path @ [p]) (gs @ g)) children)"

definition all_pages :: "(string list \<times> guard list \<times> component) list" where
  "all_pages = concat (map (route_pages [] []) routes)"

text \<open>What a guard answers when the session is known.\<close>

fun guard_cmd :: "guard \<Rightarrow> (verdict \<Rightarrow> 'a auth_state_scheme cmd) \<Rightarrow> 'a auth_state_scheme cmd" where
  "guard_cmd Auth_guard k = authGuard k"
| "guard_cmd Guest_guard k = guestGuard k"
| "guard_cmd Manager_guard k = mailboxManagerGuard k"
| "guard_cmd Admin_guard k = adminGuard k"

definition role_verdict :: "session_user option \<Rightarrow> role \<Rightarrow> verdict" where
  "role_verdict user required =
     (case user of None \<Rightarrow> Redirect ''/login''
      | Some u \<Rightarrow> if su_role u = required \<or> su_role u = Admin then Allowed else Redirect ''/dashboard'')"

fun guard_verdict :: "guard \<Rightarrow> session_user option \<Rightarrow> verdict" where
  "guard_verdict Auth_guard user = (if user = None then Redirect ''/login'' else Allowed)"
| "guard_verdict Guest_guard user = (if user = None then Allowed else Redirect ''/dashboard'')"
| "guard_verdict Manager_guard user = role_verdict user Mailbox_manager"
| "guard_verdict Admin_guard user = role_verdict user Admin"

lemma guard_loaded: "au_loaded s \<Longrightarrow> guard_cmd g k s = k (guard_verdict g (au_user s)) s"
  by (cases g)
    (auto simp: guard_defs role_verdict_def isAuthenticated_def role_order
      split: option.splits)

lemmas route_defs = all_pages_def routes_def mailserver_routes_def settings_routes_def

section \<open>Access\<close>

text \<open>The session an answer to \<open>/api/auth/me\<close> stands for.\<close>

definition session_answer :: "js_error + payload list \<Rightarrow> session_user option" where
  "session_answer r = (case r of Inr [v] \<Rightarrow> as_session v | _ \<Rightarrow> None)"

text \<open>
  C2. What every guard of the route table does, for any continuation of the router. With
  the session known, it decides at once on the role, without a request. Otherwise it asks
  \<open>/api/auth/me\<close>: the user of the answer is the session the decision is made on, any
  error means that there is no session, and in both cases the question is not asked again.
\<close>

theorem guard_decides:
  "if au_loaded s then guard_cmd g k s = k (guard_verdict g (au_user s)) s
   else fst (guard_cmd g k s) = s \<and>
     outstanding (snd (guard_cmd g k s)) = [Api GET ''/api/auth/me'' [] None] \<and>
     (\<forall>r t. deliver [] r (snd (guard_cmd g k s)) t =
        k (guard_verdict g (session_answer r)) (t\<lparr>au_user := session_answer r, au_loaded := True\<rparr>))"
proof (cases "au_loaded s")
  case True
  then show ?thesis by (simp add: guard_loaded)
next
  case False
  then show ?thesis
    by (cases g)
      (auto simp: guard_defs auth_defs run_simps endpoint_defs session_answer_def skip_def throw_def look_def
        assign_def fun_eq_iff role_verdict_def isAuthenticated_def role_order
        split: sum.splits list.splits option.splits)
qed

text \<open>
  C1. No page of the route table can be activated without the session it needs: for every
  page and every session that all the guards on the way to it allow, there is no session
  on the login page, a session on the dashboard, the about page and the profile, a mailbox
  manager or an administrator on the mailboxes, and an administrator on everything else.
\<close>

theorem routes_protected:
  assumes "(path, gs, c) \<in> set all_pages"
    and "\<forall>g \<in> set gs. guard_verdict g user = Allowed"
  shows "case c of
      C_login \<Rightarrow> user = None
    | C_dashboard \<Rightarrow> user \<noteq> None
    | C_about \<Rightarrow> user \<noteq> None
    | C_profile \<Rightarrow> user \<noteq> None
    | C_mailboxes \<Rightarrow> map_option su_role user \<in> {Some Mailbox_manager, Some Admin}
    | _ \<Rightarrow> map_option su_role user = Some Admin"
  using assms
  by (auto simp: route_defs role_verdict_def split: option.splits if_splits)

theorem routes_protected_witness:
  "([''mailserver'', ''relay''], [Admin_guard], C_relay) \<in> set all_pages \<and>
   guard_verdict Admin_guard (Some \<lparr>su_username = ''root'', su_display_name = ''Root'', su_role = Admin, su_provider = Local\<rparr>) = Allowed"
proof -
  let ?u = "Some \<lparr>su_username = ''root'', su_display_name = ''Root'', su_role = Admin, su_provider = Local\<rparr>"
  have a: "([''mailserver'', ''relay''], [Admin_guard], C_relay) \<in> set all_pages"
    by (simp add: route_defs)
  have b: "\<forall>g \<in> set [Admin_guard]. guard_verdict g ?u = Allowed"
    by (simp add: role_verdict_def)
  show ?thesis using routes_protected[OF a b] a b by simp
qed

text \<open>
  C8. A redirection of a guard always arrives: the path it names is a page of the table
  whose own guards allow the same session, so guards never send a session round in circles.
\<close>

theorem redirect_settles:
  assumes "guard_verdict g user = Redirect target"
  shows "\<exists>segment gs c. target = CHR ''/'' # segment \<and> ([segment], gs, c) \<in> set all_pages \<and>
    (\<forall>g' \<in> set gs. guard_verdict g' user = Allowed)"
proof -
  have "(target = ''/login'' \<and> user = None) \<or> (target = ''/dashboard'' \<and> user \<noteq> None)"
    using assms by (cases g) (auto simp: role_verdict_def split: option.splits if_splits)
  moreover have "([''login''], [Guest_guard], C_login) \<in> set all_pages"
    "([''dashboard''], [Auth_guard], C_dashboard) \<in> set all_pages"
    by (simp_all add: route_defs)
  ultimately show ?thesis by fastforce
qed

theorem redirect_settles_witness:
  "\<exists>segment gs c. ''/login'' = CHR ''/'' # segment \<and> ([segment], gs, c) \<in> set all_pages \<and>
    (\<forall>g' \<in> set gs. guard_verdict g' None = Allowed)"
  by (rule redirect_settles[of Admin_guard]) (simp add: role_verdict_def)

section \<open>Sidebar\<close>

text \<open>
  The sidebar. On the collapsed rail a click on a section expands the sidebar onto that
  section and leaves the others; on the open sidebar a click opens or closes that section
  only, and a second click takes the first back. After any click of the toggle, an
  application that starts later on a wide screen finds the sidebar as it was left, and on a
  narrow one it always starts collapsed.
\<close>

theorem sidebar_sections:
  "(let t = toggleSection blocked sec s in
      (if sidebarCollapsed s then \<not> sidebarCollapsed t \<and> section_open sec (sections t)
       else sidebarCollapsed t = sidebarCollapsed s \<and> toggleSection blocked sec t = s \<and>
         section_open sec (sections t) = (\<not> section_open sec (sections s))) \<and>
      (\<forall>other. other = sec \<or> section_open other (sections t) = section_open other (sections s))) \<and>
   readCollapsed (Some 768) False (sidebarStorage (toggleSidebar False s)) = sidebarCollapsed (toggleSidebar False s) \<and>
   readCollapsed (Some 767) blocked stored"
proof -
  have "set_section sec (section_open sec x) (set_section sec b x) = x" for b x
    by (rule sections_ext) (simp add: section_open_set)
  then show ?thesis
    by (auto simp: sidebar_defs section_open_set readCollapsed_def DESKTOP_MIN_WIDTH_def)
qed

end
