(* ===== verification/Theme.thy ===== *)
theory Theme
  imports Prelude
begin

text \<open>
  The colour scheme (\<open>src/frontend/src/app/core/theme.service.ts\<close>) and its selectors
  (\<open>shared/theme-toggle/theme-toggle.ts\<close>, \<open>shared/user-menu/user-menu.ts\<close>): a state machine
  over the service, the document it paints, the local storage and one timer. The effect
  of the service runs at its first render and then, some time after a change, when the
  resolved theme is another one than at its last run.
\<close>

datatype theme_mode = Light | Dark | Auto
datatype resolved_theme = Light_theme | Dark_theme

fun mode_name :: "theme_mode \<Rightarrow> string" where
  "mode_name Light = ''light''"
| "mode_name Dark = ''dark''"
| "mode_name Auto = ''auto''"

fun theme_name :: "resolved_theme \<Rightarrow> string" where
  "theme_name Light_theme = ''light''"
| "theme_name Dark_theme = ''dark''"

fun THEME_COLOR :: "resolved_theme \<Rightarrow> string" where
  "THEME_COLOR Light_theme = ''#eef1f6''"
| "THEME_COLOR Dark_theme = ''#0d1220''"

definition THEME_MODES :: "theme_mode list" where
  "THEME_MODES = [Light, Dark, Auto]"

record theme_option =
  to_mode :: theme_mode
  to_label :: string
  to_icon :: string

definition THEME_OPTIONS :: "theme_option list" where
  "THEME_OPTIONS =
     [\<lparr>to_mode = Light, to_label = ''Light'', to_icon = ''bi-sun-fill''\<rparr>,
      \<lparr>to_mode = Dark, to_label = ''Dark'', to_icon = ''bi-moon-stars-fill''\<rparr>,
      \<lparr>to_mode = Auto, to_label = ''System'', to_icon = ''bi-circle-half''\<rparr>]"

text \<open>\<open>isThemeMode\<close>: the mode a stored text names, if it names one.\<close>

definition themeMode_of :: "string option \<Rightarrow> theme_mode option" where
  "themeMode_of v = find (\<lambda>m. v = Some (mode_name m)) THEME_MODES"

section \<open>State\<close>

text \<open>
  \<open>storage\<close> is the entry of the local storage, \<open>attribute\<close> the attribute of the root
  element, \<open>meta_color\<close> the content of the meta element (None when the document has
  none), \<open>fading\<close> the transition class, \<open>timer\<close> whether the timeout that removes it is
  running, \<open>painted\<close> the theme the effect saw at its last run, \<open>media\<close> whether the
  browser has \<open>matchMedia\<close>, \<open>alive\<close> whether the service has not been destroyed.
\<close>

record theme_state =
  media :: bool
  systemPrefersDark :: bool
  mode :: theme_mode
  storage :: "string option"
  attribute :: "string option"
  meta_color :: "string option"
  fading :: bool
  timer :: bool
  painted :: "resolved_theme option"
  alive :: bool

definition resolvedTheme :: "theme_state \<Rightarrow> resolved_theme" where
  "resolvedTheme s =
     (case mode s of
        Auto \<Rightarrow> if systemPrefersDark s then Dark_theme else Light_theme
      | Light \<Rightarrow> Light_theme
      | Dark \<Rightarrow> Dark_theme)"

definition isDarkMode :: "theme_state \<Rightarrow> bool" where
  "isDarkMode s = (resolvedTheme s = Dark_theme)"

section \<open>Operations\<close>

text \<open>An access to the local storage throws when \<open>blocked\<close>.\<close>

definition readStoredMode :: "bool \<Rightarrow> string option \<Rightarrow> theme_mode" where
  "readStoredMode blocked stored =
     (if blocked then Auto else case themeMode_of stored of Some m \<Rightarrow> m | None \<Rightarrow> Auto)"

definition persistMode :: "bool \<Rightarrow> theme_mode \<Rightarrow> theme_state \<Rightarrow> theme_state" where
  "persistMode blocked m s = (if blocked then s else s\<lparr>storage := Some (mode_name m)\<rparr>)"

definition setThemeMode :: "bool \<Rightarrow> theme_mode \<Rightarrow> theme_state \<Rightarrow> theme_state" where
  "setThemeMode blocked m s = persistMode blocked m (s\<lparr>mode := m\<rparr>)"

definition theme_toggle :: "bool \<Rightarrow> theme_state \<Rightarrow> theme_state" where
  "theme_toggle blocked s = setThemeMode blocked (if isDarkMode s then Light else Dark) s"

definition playTransition :: "theme_state \<Rightarrow> theme_state" where
  "playTransition s = s\<lparr>fading := True, timer := True\<rparr>"

definition syncThemeColor :: "resolved_theme \<Rightarrow> theme_state \<Rightarrow> theme_state" where
  "syncThemeColor theme s = s\<lparr>meta_color := map_option (\<lambda>_. THEME_COLOR theme) (meta_color s)\<rparr>"

definition applyTheme :: "resolved_theme \<Rightarrow> bool \<Rightarrow> theme_state \<Rightarrow> theme_state" where
  "applyTheme theme animate s =
     (let s1 = (if animate then playTransition s else s)
      in syncThemeColor theme (s1\<lparr>attribute := Some (theme_name theme)\<rparr>))"

text \<open>One run of the effect: the first one does not animate.\<close>

definition run_effect :: "theme_state \<Rightarrow> theme_state" where
  "run_effect s =
     (let theme = resolvedTheme s
      in if painted s = Some theme then s
         else (applyTheme theme (painted s \<noteq> None) s)\<lparr>painted := Some theme\<rparr>)"

text \<open>
  The constructor: the system preference of the browser, the stored mode, the document
  as \<open>index.html\<close> left it. Without \<open>matchMedia\<close> the preference is light.
\<close>

definition theme_boot ::
  "bool option \<Rightarrow> bool \<Rightarrow> string option \<Rightarrow> string option \<Rightarrow> string option \<Rightarrow> theme_state" where
  "theme_boot matches blocked stored attr meta =
     \<lparr>media = (matches \<noteq> None), systemPrefersDark = (matches = Some True),
      mode = readStoredMode blocked stored, storage = stored, attribute = attr, meta_color = meta,
      fading = False, timer = False, painted = None, alive = True\<rparr>"

section \<open>Steps\<close>

inductive theme_step :: "theme_state \<Rightarrow> theme_state \<Rightarrow> bool" where
  select: "theme_step s (setThemeMode blocked m s)"
| toggle: "theme_step s (theme_toggle blocked s)"
| system: "media s \<Longrightarrow> alive s \<Longrightarrow> theme_step s (s\<lparr>systemPrefersDark := dark\<rparr>)"
| render: "alive s \<Longrightarrow> theme_step s (run_effect s)"
| timeout: "timer s \<Longrightarrow> theme_step s (s\<lparr>fading := False, timer := False\<rparr>)"
| destroy: "media s \<Longrightarrow> alive s \<Longrightarrow> theme_step s (s\<lparr>alive := False, timer := False\<rparr>)"

inductive_simps theme_step_iff: "theme_step s t"

lemmas theme_defs =
  setThemeMode_def theme_toggle_def persistMode_def run_effect_def applyTheme_def
  playTransition_def syncThemeColor_def Let_def

definition theme_inv :: "theme_state \<Rightarrow> bool" where
  "theme_inv s =
     ((alive s \<longrightarrow> fading s \<longrightarrow> timer s) \<and>
      (\<forall>t. painted s = Some t \<longrightarrow>
         attribute s = Some (theme_name t) \<and> (meta_color s \<noteq> None \<longrightarrow> meta_color s = Some (THEME_COLOR t))) \<and>
      (\<not> media s \<longrightarrow> \<not> systemPrefersDark s))"

lemma theme_inv_boot: "theme_inv (theme_boot matches blocked stored attr meta)"
  by (auto simp: theme_inv_def theme_boot_def)

lemma theme_inv_step: "theme_step s t \<Longrightarrow> theme_inv s \<Longrightarrow> theme_inv t"
  by (induction rule: theme_step.induct) (auto simp: theme_inv_def theme_defs)

inductive theme_run :: "theme_state \<Rightarrow> theme_state \<Rightarrow> bool" where
  start: "theme_run s s"
| next_step: "theme_run s t \<Longrightarrow> theme_step t u \<Longrightarrow> theme_run s u"

lemma theme_inv_run: "theme_run s t \<Longrightarrow> theme_inv s \<Longrightarrow> theme_inv t"
  by (induction rule: theme_run.induct) (auto intro: theme_inv_step)

lemma painted_render: "painted (run_effect s) = Some (resolvedTheme s)"
  by (simp add: theme_defs)

lemma resolved_render: "resolvedTheme (run_effect s) = resolvedTheme s"
  by (simp add: theme_defs resolvedTheme_def)

lemma stored_mode: "readStoredMode False (Some (mode_name m)) = m"
  by (cases m) (simp_all add: readStoredMode_def themeMode_of_def THEME_MODES_def)

section \<open>Selectors\<close>

definition triggerIcon :: "theme_state \<Rightarrow> string" where
  "triggerIcon s =
     (case mode s of
        Auto \<Rightarrow> if isDarkMode s then ''bi-moon-stars-fill'' else ''bi-sun-fill''
      | m \<Rightarrow> if m = Dark then ''bi-moon-stars-fill'' else ''bi-sun-fill'')"

definition triggerLabel :: "theme_state \<Rightarrow> string" where
  "triggerLabel s =
     ''Theme: '' @ (case find (\<lambda>option. to_mode option = mode s) THEME_OPTIONS of
        Some option \<Rightarrow> to_label option | None \<Rightarrow> ''System'')"

definition selectTheme :: "bool \<Rightarrow> theme_mode \<Rightarrow> theme_state \<Rightarrow> theme_state" where
  "selectTheme = setThemeMode"

lemma triggerIcon_resolved:
  "triggerIcon s = (if resolvedTheme s = Dark_theme then ''bi-moon-stars-fill'' else ''bi-sun-fill'')"
  by (cases "mode s") (simp_all add: triggerIcon_def isDarkMode_def resolvedTheme_def)

section \<open>Properties\<close>

text \<open>
  C37. In every run of the theme service from its start, whatever is selected, toggled or
  preferred by the system and whenever renders and timeouts come: what the last render
  painted is on the document, in the attribute and in the address-bar colour; the
  transition class is only there while the timeout that removes it is running; and after
  one more render the document shows the resolved theme.
\<close>

theorem theme_applied:
  assumes "theme_run (theme_boot matches blocked stored attr meta) s"
  shows "(\<forall>t. painted s = Some t \<longrightarrow> attribute s = Some (theme_name t) \<and>
      meta_color s = map_option (\<lambda>_. THEME_COLOR t) (meta_color s)) \<and>
    (alive s \<longrightarrow> fading s \<longrightarrow> timer s) \<and>
    attribute (run_effect s) = Some (theme_name (resolvedTheme s)) \<and>
    resolvedTheme (run_effect s) = resolvedTheme s"
proof -
  have inv: "theme_inv s" by (rule theme_inv_run[OF assms theme_inv_boot])
  have "theme_inv (run_effect s)" using inv by (auto simp: theme_inv_def theme_defs)
  then have "attribute (run_effect s) = Some (theme_name (resolvedTheme s))"
    using painted_render[of s] by (auto simp: theme_inv_def)
  then show ?thesis using inv resolved_render by (cases "meta_color s") (auto simp: theme_inv_def)
qed

theorem theme_applied_witness:
  "attribute (run_effect (setThemeMode False Dark (theme_boot None False None None None))) = Some ''dark''"
proof -
  have "theme_run (theme_boot None False None None None) (setThemeMode False Dark (theme_boot None False None None None))"
    by (rule theme_run.next_step[OF theme_run.start]) (rule theme_step.select)
  from theme_applied[OF this] show ?thesis
    by (simp add: setThemeMode_def persistMode_def theme_boot_def resolvedTheme_def)
qed

text \<open>
  A choice survives a reload: whatever mode is selected, a service constructed later on
  what the storage then holds starts in that mode, unless the storage is blocked at
  either time, and then it starts in the mode of the system. The toggle always leads to
  the other theme than the one on display, and away from the mode of the system.
\<close>

theorem theme_persisted:
  "mode (theme_boot matches False (storage (setThemeMode False m s)) attr meta) = m \<and>
   mode (theme_boot matches True stored attr meta) = Auto \<and>
   storage (setThemeMode True m s) = storage s \<and> mode (setThemeMode blocked m s) = m \<and>
   resolvedTheme (theme_toggle blocked s) \<noteq> resolvedTheme s \<and> mode (theme_toggle blocked s) \<noteq> Auto"
proof (intro conjI)
  show "mode (theme_boot matches False (storage (setThemeMode False m s)) attr meta) = m"
    by (simp add: theme_boot_def setThemeMode_def persistMode_def stored_mode)
  show "mode (theme_boot matches True stored attr meta) = Auto"
    by (simp add: theme_boot_def readStoredMode_def)
  show "resolvedTheme (theme_toggle blocked s) \<noteq> resolvedTheme s"
    by (simp add: theme_toggle_def setThemeMode_def persistMode_def isDarkMode_def resolvedTheme_def
        split: theme_mode.splits)
qed (simp_all add: setThemeMode_def persistMode_def theme_toggle_def)

section \<open>The script of the page\<close>

text \<open>
  The entries of the local storage and the media queries the service asks for. What the
  local storage holds and what the browser answers are functions of these texts.
\<close>

definition STORAGE_KEY :: string where
  "STORAGE_KEY = ''mailserver-ui-theme''"

definition DARK_MEDIA_QUERY :: string where
  "DARK_MEDIA_QUERY = ''(prefers-color-scheme: dark)''"

definition theme_service ::
  "(string \<Rightarrow> bool) option \<Rightarrow> bool \<Rightarrow> (string \<Rightarrow> string option) \<Rightarrow> string option \<Rightarrow> string option \<Rightarrow> theme_state" where
  "theme_service matchMedia blocked localStorage attr meta =
     theme_boot (map_option (\<lambda>m. m DARK_MEDIA_QUERY) matchMedia) blocked (localStorage STORAGE_KEY) attr meta"

text \<open>
  The script in the head of \<open>index.html\<close>, which runs before the first paint: the attribute of
  the root element and the content of the meta element after it. A blocked storage, a
  missing \<open>matchMedia\<close> and a missing meta element throw where they are used, and the
  handler sets the attribute to light.
\<close>

definition index_script ::
  "(string \<Rightarrow> bool) option \<Rightarrow> bool \<Rightarrow> (string \<Rightarrow> string option) \<Rightarrow> string option \<Rightarrow> string option \<times> string option" where
  "index_script matchMedia blocked localStorage meta =
     (let caught = (Some ''light'', meta)
      in if blocked then caught
         else
           let stored = localStorage ''mailserver-ui-theme'';
               mode = (if stored = Some ''light'' \<or> stored = Some ''dark'' then the stored else ''auto'');
               theme = (if mode = ''auto'' then
                          map_option (\<lambda>m. if m ''(prefers-color-scheme: dark)'' then ''dark'' else ''light'') matchMedia
                        else Some mode)
           in case theme of
                None \<Rightarrow> caught
              | Some t \<Rightarrow>
                  (case meta of
                     None \<Rightarrow> caught
                   | Some _ \<Rightarrow> (Some t, Some (if t = ''dark'' then ''#0d1220'' else ''#eef1f6''))))"

text \<open>The meta element of \<open>index.html\<close>.\<close>

definition index_meta :: "string option" where
  "index_meta = Some ''#eef1f6''"

text \<open>
  C36. The script paints what the service paints. On the document that \<open>index.html\<close> leaves, the
  first render of the service changes neither the attribute nor the colour of the address
  bar, whatever the storage holds and whether or not the browser has media queries, with one
  exception: a browser that blocks the storage and prefers the dark theme is painted light
  by the script and dark by the service.
\<close>

theorem script_mirrors_service:
  "case index_script matchMedia blocked localStorage index_meta of
     (attr, meta) \<Rightarrow>
       (let first = run_effect (theme_service matchMedia blocked localStorage attr meta)
        in (attribute first = attr \<and> meta_color first = meta) \<longleftrightarrow>
           \<not> (blocked \<and> (\<exists>m. matchMedia = Some m \<and> m ''(prefers-color-scheme: dark)'')))"
proof -
  have names: "themeMode_of stored = (if stored = Some ''light'' then Some Light else if stored = Some ''dark'' then Some Dark
      else if stored = Some ''auto'' then Some Auto else None)" for stored
    by (simp add: themeMode_of_def THEME_MODES_def)
  show ?thesis
    by (cases matchMedia)
      (auto simp: index_script_def index_meta_def theme_service_def theme_boot_def readStoredMode_def names theme_defs
        resolvedTheme_def STORAGE_KEY_def DARK_MEDIA_QUERY_def)
qed

end
