(* ===== verification/Pending_Actions.thy ===== *)
theory Pending_Actions
  imports Pages
begin

text \<open>
  The settings changes that wait for a restart of the mailserver
  (\<open>src/frontend/src/app/core/pending-actions.service.ts\<close>) and the bell that shows them
  (\<open>shared/pending-actions-bell/pending-actions-bell.ts\<close>). The timer of the bell is an event;
  a rejected refresh is left unhandled by the bell and ends its process with the error.
\<close>

record bell_state =
  pending_items :: "pending_action list"
  restarting :: bool
  restartError :: "string option"

definition bell_start :: bell_state where
  "bell_start = \<lparr>pending_items = [], restarting = False, restartError = None\<rparr>"

definition bell_count :: "bell_state \<Rightarrow> nat" where
  "bell_count s = length (pending_items s)"

section \<open>PendingActionsService\<close>

definition pending_list_endpoint :: "pending_summary endpoint" where
  "pending_list_endpoint = (Api GET ''/api/pending-actions'' [] None, as_pending_actions)"

definition pending_dismiss_endpoint :: "string \<Rightarrow> unit endpoint" where
  "pending_dismiss_endpoint key =
     (Api DELETE (''/api/pending-actions/'' @ encodeURIComponent key) [] None, as_void)"

definition pending_dismiss_all_endpoint :: "unit endpoint" where
  "pending_dismiss_all_endpoint = (Api DELETE ''/api/pending-actions'' [] None, as_void)"

definition pending_restart_endpoint :: "pending_summary endpoint" where
  "pending_restart_endpoint = (Api POST ''/api/mailserver/restart'' [] (Some (JObj [])), as_pending_actions)"

definition pending_refresh :: "bell_state cmd" where
  "pending_refresh =
     fetch pending_list_endpoint (\<lambda>summary. assign (\<lambda>s. s\<lparr>pending_items := ps_items summary\<rparr>))"

definition pending_dismiss :: "string \<Rightarrow> bell_state cmd" where
  "pending_dismiss key =
     fetch (pending_dismiss_endpoint key) (\<lambda>_.
       assign (\<lambda>s. s\<lparr>pending_items := filter (\<lambda>item. pa_key item \<noteq> key) (pending_items s)\<rparr>))"

definition pending_dismissAll :: "bell_state cmd" where
  "pending_dismissAll =
     fetch pending_dismiss_all_endpoint (\<lambda>_. assign (\<lambda>s. s\<lparr>pending_items := []\<rparr>))"

definition pending_restart :: "bell_state cmd" where
  "pending_restart =
     fetch pending_restart_endpoint (\<lambda>summary. assign (\<lambda>s. s\<lparr>pending_items := ps_items summary\<rparr>))"

section \<open>The bell\<close>

definition restartErrorMessage :: "js_error \<Rightarrow> string" where
  "restartErrorMessage err =
     (case err of
        HttpError status _ \<Rightarrow>
          if status = 502 then ''The mailserver container could not be reached. Check the Docker socket mount.''
          else ''Failed to restart the mailserver. Please try again.''
      | OtherError \<Rightarrow> ''Failed to restart the mailserver. Please try again.'')"

definition onRestart :: "bell_state cmd" where
  "onRestart =
     seq (assign (\<lambda>s. s\<lparr>restarting := True, restartError := None\<rparr>))
     (attempt pending_restart
       (\<lambda>err. assign (\<lambda>s. s\<lparr>restartError := Some (restartErrorMessage err)\<rparr>))
       (\<lambda>s. s\<lparr>restarting := False\<rparr>))"

datatype bell_event =
    Poll
  | Open
  | Dismiss string
  | Dismiss_all
  | Restart

fun bell_handle :: "bell_event \<Rightarrow> bell_state cmd" where
  "bell_handle Poll = pending_refresh"
| "bell_handle Open = pending_refresh"
| "bell_handle (Dismiss key) = pending_dismiss key"
| "bell_handle Dismiss_all = pending_dismissAll"
| "bell_handle Restart = onRestart"

lemmas bell_defs =
  pending_refresh_def pending_dismiss_def pending_dismissAll_def pending_restart_def onRestart_def

lemmas bell_endpoint_defs =
  pending_list_endpoint_def pending_dismiss_endpoint_def pending_dismiss_all_endpoint_def
  pending_restart_endpoint_def

interpretation bell_quiet: quiet_page bell_handle pending_refresh bell_start "[restarting]"
proof
  show "list_all (\<lambda>f. clears f pending_refresh \<or> tame f pending_refresh \<and> \<not> f bell_start) [restarting]"
    by (simp add: bell_defs bell_start_def page_defs tame_intros)
  show "list_all (\<lambda>f. tame f (bell_handle e)) [restarting]" for e
    by (cases e) (simp_all add: bell_defs page_defs tame_intros)
qed

interpretation bell_bounded: bounded_page bell_handle pending_refresh bell_start 1
proof
  show "ends 1 pending_refresh"
    unfolding bell_defs page_defs by (rule ends_mono, (rule ends_intros)+, simp)
  show "ends 1 (bell_handle e)" for e
    by (cases e; simp only: bell_handle.simps bell_defs page_defs;
        rule ends_mono, (rule ends_intros)+, simp)
qed

section \<open>Properties\<close>



text \<open>
  A poll that was on its way before a dismissal brings the dismissed entry back: its answer
  was made before the backend removed the entry.
\<close>

lemma dismissed_reappears:
  "pending_items (fst (run_page bell_handle pending_refresh bell_start
     [Answer 0 [] (ok (P_Setting (V_Pending_actions \<lparr>ps_items = [a], ps_count = 1\<rparr>))),
      Event Poll, Event (Dismiss (pa_key a)), Answer 2 [] (ok P_Void),
      Answer 1 [] (ok (P_Setting (V_Pending_actions \<lparr>ps_items = [a], ps_count = 1\<rparr>)))])) = [a]"
  by (simp add: run_defs bell_defs bell_start_def bell_endpoint_defs endpoint_defs as_pending_actions_def as_void_def)

end
