(* ===== verification/Table_Sort.thy ===== *)
theory Table_Sort
  imports Api_Models "HOL-Library.Multiset"
begin

text \<open>
  The sort state of a table (\<open>src/frontend/src/app/shared/table-sort.ts\<close>).

  \<open>Array.prototype.sort\<close> is stable. Its algorithm is open, but for a consistent
  comparator there is only one stable result (\<open>stable_sort_unique\<close> below), which the
  model computes by insertion. The interface of a comparator is the locale
  \<open>comparator\<close>; the tables interpret it on their own columns.
\<close>

section \<open>Sorting with a comparator\<close>

fun insert_row :: "('t \<Rightarrow> 't \<Rightarrow> int) \<Rightarrow> 't \<Rightarrow> 't list \<Rightarrow> 't list" where
  "insert_row cmp x [] = [x]"
| "insert_row cmp x (y # ys) = (if cmp x y \<le> 0 then x # y # ys else y # insert_row cmp x ys)"

definition sort_rows :: "('t \<Rightarrow> 't \<Rightarrow> int) \<Rightarrow> 't list \<Rightarrow> 't list" where
  "sort_rows cmp xs = foldr (insert_row cmp) xs []"

lemma sort_rows_simps [simp]:
  "sort_rows cmp [] = []"
  "sort_rows cmp (x # xs) = insert_row cmp x (sort_rows cmp xs)"
  by (simp_all add: sort_rows_def)

lemma mset_insert_row [simp]: "mset (insert_row cmp x ys) = add_mset x (mset ys)"
  by (induction ys) auto

lemma mset_sort_rows [simp]: "mset (sort_rows cmp xs) = mset xs"
  by (induction xs) auto

lemma set_insert_row: "set (insert_row cmp x ys) = insert x (set ys)"
  by (induction ys) auto

lemma set_sort_rows [simp]: "set (sort_rows cmp xs) = set xs"
  by (induction xs) (auto simp: set_insert_row)

lemma length_sort_rows [simp]: "length (sort_rows cmp xs) = length xs"
  by (metis mset_eq_length mset_sort_rows)

section \<open>The interface of a comparator\<close>

locale comparator =
  fixes cmp :: "'t \<Rightarrow> 't \<Rightarrow> int"
  assumes flip: "cmp a b = - cmp b a"
    and trans: "cmp a b \<le> 0 \<Longrightarrow> cmp b c \<le> 0 \<Longrightarrow> cmp a c \<le> 0"
begin

lemma same [simp]: "cmp a a = 0"
  using flip[of a a] by simp

lemma total: "cmp a b \<le> 0 \<or> cmp b a \<le> 0"
  using flip[of a b] by linarith

lemma sorted_insert_row:
  "sorted_wrt (\<lambda>a b. cmp a b \<le> 0) ys \<Longrightarrow> sorted_wrt (\<lambda>a b. cmp a b \<le> 0) (insert_row cmp x ys)"
proof (induction ys)
  case (Cons y ys)
  have "set (insert_row cmp x ys) = insert x (set ys)"
    by (rule set_insert_row)
  moreover have "cmp y x \<le> 0" if "\<not> cmp x y \<le> 0" using that total[of x y] by simp
  moreover have "cmp x z \<le> 0" if "cmp x y \<le> 0" "z \<in> set ys" for z
    using that Cons.prems trans[of x y z] by simp
  ultimately show ?case using Cons by simp
qed simp

lemma sorted_sort_rows: "sorted_wrt (\<lambda>a b. cmp a b \<le> 0) (sort_rows cmp xs)"
  by (induction xs) (auto intro: sorted_insert_row)

lemma eq_trans: "cmp k a = 0 \<Longrightarrow> cmp a b = 0 \<Longrightarrow> cmp k b = 0"
  using trans[of k a b] trans[of b a k] flip[of a b] flip[of k a] flip[of k b] by linarith

lemma filter_insert_row:
  "filter (\<lambda>y. cmp k y = 0) (insert_row cmp x ys) =
     (if cmp k x = 0 then x # filter (\<lambda>y. cmp k y = 0) ys else filter (\<lambda>y. cmp k y = 0) ys)"
proof (induction ys)
  case (Cons y ys)
  have "cmp k y \<noteq> 0" if "cmp k x = 0" and "0 < cmp x y"
    using that trans[of x k y] flip[of k x] by auto
  then show ?case using Cons by auto
qed simp

text \<open>Rows that compare equal keep their order.\<close>

lemma stable_sort_rows: "filter (\<lambda>y. cmp k y = 0) (sort_rows cmp xs) = filter (\<lambda>y. cmp k y = 0) xs"
  by (induction xs) (auto simp: filter_insert_row)

text \<open>Order and stability leave no choice.\<close>

lemma stable_sort_unique:
  assumes "sorted_wrt (\<lambda>a b. cmp a b \<le> 0) xs" and "sorted_wrt (\<lambda>a b. cmp a b \<le> 0) ys"
    and "\<And>k. filter (\<lambda>y. cmp k y = 0) xs = filter (\<lambda>y. cmp k y = 0) ys"
  shows "xs = ys"
  using assms
proof (induction xs arbitrary: ys)
  case Nil
  have "ys = []"
  proof (cases ys)
    case (Cons y ys')
    then show ?thesis using Nil(3)[of y] by simp
  qed simp
  then show ?case by simp
next
  case (Cons x xs)
  obtain y ys' where ys: "ys = y # ys'" using Cons(4)[of x] by (cases ys) auto
  have "x \<in> set (filter (\<lambda>z. cmp x z = 0) ys)" unfolding Cons(4)[of x, symmetric] by simp
  then have x: "x \<in> set ys" by simp
  have "y \<in> set (filter (\<lambda>z. cmp y z = 0) (x # xs))" unfolding Cons(4)[of y] ys by simp
  then have y: "y \<in> set (x # xs)" by (simp split: if_splits)
  have "cmp x y = 0"
  proof (cases "x = y")
    case False
    then have "cmp x y \<le> 0" "cmp y x \<le> 0" using Cons(2,3) x y ys by auto
    then show ?thesis using flip[of x y] by linarith
  qed simp
  then have xy: "x = y" using Cons(4)[of x] ys by simp
  have "xs = ys'"
  proof (rule Cons.IH)
    show "sorted_wrt (\<lambda>a b. cmp a b \<le> 0) xs" "sorted_wrt (\<lambda>a b. cmp a b \<le> 0) ys'"
      using Cons(2,3) ys by auto
    show "filter (\<lambda>y. cmp k y = 0) xs = filter (\<lambda>y. cmp k y = 0) ys'" for k
    proof (cases "cmp k y = 0")
      case True
      then show ?thesis using Cons(4)[of k] unfolding ys xy by simp
    next
      case False
      then show ?thesis using Cons(4)[of k] unfolding ys xy by simp
    qed
  qed
  then show ?case using xy ys by simp
qed

lemma sort_rows_idem: "sort_rows cmp (sort_rows cmp xs) = sort_rows cmp xs"
  by (rule stable_sort_unique) (simp_all add: sorted_sort_rows stable_sort_rows)

end

lemma comparator_reverse:
  assumes "comparator cmp"
  shows "comparator (\<lambda>a b. - cmp a b)"
proof -
  note flip = comparator.flip[OF assms] and trans = comparator.trans[OF assms]
  show ?thesis
  proof
    show "- cmp a b = - (- cmp b a)" for a b using flip[of a b] by simp
    show "- cmp a b \<le> 0 \<Longrightarrow> - cmp b c \<le> 0 \<Longrightarrow> - cmp a c \<le> 0" for a b c
      using trans[of c b a] flip[of a b] flip[of b c] flip[of a c] by linarith
  qed
qed

lemma comparator_key: "comparator (\<lambda>a b. f a - f b)"
  by unfold_locales auto

lemma comparator_on:
  assumes "comparator cmp"
  shows "comparator (\<lambda>a b. cmp (f a) (f b))"
proof
  show "cmp (f a) (f b) = - cmp (f b) (f a)" for a b by (rule comparator.flip[OF assms])
  show "cmp (f a) (f b) \<le> 0 \<Longrightarrow> cmp (f b) (f c) \<le> 0 \<Longrightarrow> cmp (f a) (f c) \<le> 0" for a b c
    by (rule comparator.trans[OF assms])
qed

text \<open>
  The order of strings by code units, a comparator on which \<open>localeCompare\<close> can be
  instantiated.
\<close>

fun lex_compare :: "nat list \<Rightarrow> nat list \<Rightarrow> int" where
  "lex_compare [] [] = 0"
| "lex_compare [] (y # ys) = -1"
| "lex_compare (x # xs) [] = 1"
| "lex_compare (x # xs) (y # ys) = (if x < y then -1 else if y < x then 1 else lex_compare xs ys)"

definition code_compare :: "string \<Rightarrow> string \<Rightarrow> int" where
  "code_compare a b = lex_compare (map of_char a) (map of_char b)"

lemma lex_compare_trans:
  "lex_compare a b \<le> 0 \<Longrightarrow> lex_compare b c \<le> 0 \<Longrightarrow> lex_compare a c \<le> 0"
proof (induction a b arbitrary: c rule: lex_compare.induct)
  case (2 y ys)
  then show ?case by (cases c) simp_all
next
  case (4 x xs y ys)
  show ?case
  proof (cases c)
    case (Cons z zs)
    have ih: "lex_compare xs zs \<le> 0"
      if "x = y" "lex_compare xs ys \<le> 0" "lex_compare ys zs \<le> 0"
      by (rule "4.IH") (use that in auto)
    have "x < y \<or> (x = y \<and> lex_compare xs ys \<le> 0)" "y < z \<or> (y = z \<and> lex_compare ys zs \<le> 0)"
      using "4.prems" Cons by (auto split: if_splits)
    then have "x < z \<or> (x = z \<and> lex_compare xs zs \<le> 0)" using ih by auto
    then show ?thesis using Cons by auto
  qed (use "4.prems" in simp)
qed simp_all

lemma lex_comparator: "comparator lex_compare"
proof
  show "lex_compare a b = - lex_compare b a" for a b
    by (induction a b rule: lex_compare.induct) auto
  show "lex_compare a b \<le> 0 \<Longrightarrow> lex_compare b c \<le> 0 \<Longrightarrow> lex_compare a c \<le> 0" for a b c
    by (rule lex_compare_trans)
qed

interpretation code_units: comparator code_compare
  unfolding code_compare_def [abs_def] by (rule comparator_on[OF lex_comparator])

section \<open>TableSort\<close>

datatype sort_direction = Asc | Desc

record 'c table_sort =
  ts_column :: "'c option"
  ts_direction :: sort_direction

definition new_sort :: "'c table_sort" where
  "new_sort = \<lparr>ts_column = None, ts_direction = Asc\<rparr>"

definition toggle_sort :: "'c \<Rightarrow> 'c table_sort \<Rightarrow> 'c table_sort" where
  "toggle_sort column s =
     (if ts_column s \<noteq> Some column then s\<lparr>ts_column := Some column, ts_direction := Asc\<rparr>
      else if ts_direction s = Asc then s\<lparr>ts_direction := Desc\<rparr>
      else s\<lparr>ts_column := None\<rparr>)"

definition apply_sort :: "'c table_sort \<Rightarrow> ('c \<Rightarrow> 't \<Rightarrow> 't \<Rightarrow> int) \<Rightarrow> 't list \<Rightarrow> 't list" where
  "apply_sort s compare rows =
     (case ts_column s of
        None \<Rightarrow> rows
      | Some column \<Rightarrow>
          let direction = (if ts_direction s = Asc then 1 else -1)
          in sort_rows (\<lambda>a b. direction * compare column a b) rows)"

definition sort_icon :: "'c \<Rightarrow> 'c table_sort \<Rightarrow> string" where
  "sort_icon column s =
     (if ts_column s \<noteq> Some column then ''bi bi-arrow-down-up opacity-50''
      else if ts_direction s = Asc then ''bi bi-sort-down-alt'' else ''bi bi-sort-up-alt'')"

definition sort_aria :: "'c \<Rightarrow> 'c table_sort \<Rightarrow> string" where
  "sort_aria column s =
     (if ts_column s \<noteq> Some column then ''none''
      else if ts_direction s = Asc then ''ascending'' else ''descending'')"

lemma apply_sort_mset [simp]: "mset (apply_sort s compare rows) = mset rows"
  by (simp add: apply_sort_def Let_def split: option.splits)

definition signed :: "sort_direction \<Rightarrow> int \<Rightarrow> int" where
  "signed d v = (if d = Asc then v else - v)"

text \<open>A table: every column has its comparator.\<close>

locale sortable_table =
  fixes compare :: "'c \<Rightarrow> 't \<Rightarrow> 't \<Rightarrow> int"
  assumes column_comparator: "comparator (compare c)"
begin

lemma directed: "comparator (\<lambda>a b. (if ts_direction s = Asc then 1 else -1) * compare c a b)"
proof (cases "ts_direction s = Asc")
  case True
  then show ?thesis using column_comparator[of c] by simp
next
  case False
  then show ?thesis using comparator_reverse[OF column_comparator[of c]] by simp
qed

lemma apply_eq:
  assumes "ts_column s = Some c"
  shows "apply_sort s compare rows = sort_rows (\<lambda>a b. (if ts_direction s = Asc then 1 else -1) * compare c a b) rows"
  using assms by (simp add: apply_sort_def)

lemma apply_sorted:
  assumes "ts_column s = Some c"
  shows "sorted_wrt (\<lambda>a b. signed (ts_direction s) (compare c a b) \<le> 0) (apply_sort s compare rows)"
proof -
  have "signed (ts_direction s) v = (if ts_direction s = Asc then 1 else -1) * v" for v
    by (simp add: signed_def)
  then show ?thesis
    using comparator.sorted_sort_rows[OF directed[of s c], of rows] by (simp only: apply_eq[OF assms])
qed

lemma apply_stable:
  assumes "ts_column s = Some c"
  shows "filter (\<lambda>r. compare c k r = 0) (apply_sort s compare rows) = filter (\<lambda>r. compare c k r = 0) rows"
proof -
  have "v = 0 \<longleftrightarrow> (if ts_direction s = Asc then 1 else -1) * v = (0::int)" for v by simp
  then have "(compare c k r = 0) = ((if ts_direction s = Asc then 1 else -1) * compare c k r = 0)" for r .
  then show ?thesis
    using comparator.stable_sort_rows[OF directed[of s c], of k rows] by (simp only: apply_eq[OF assms])
qed

end

text \<open>
  C27. What a sorted table shows is determined: for a column whose comparison is an order, any
  arrangement of rows that is ordered in the direction of the sort and keeps, among rows
  that compare equal, the order they came in, is the one \<open>apply_sort\<close> returns.
\<close>

theorem apply_sort_unique:
  assumes "comparator (compare c)" and "ts_column s = Some c"
    and "sorted_wrt (\<lambda>a b. signed (ts_direction s) (compare c a b) \<le> 0) ys"
    and "\<And>k. filter (\<lambda>r. compare c k r = 0) ys = filter (\<lambda>r. compare c k r = 0) rows"
  shows "apply_sort s compare rows = ys"
proof -
  let ?cmp = "\<lambda>a b. signed (ts_direction s) (compare c a b)"
  have cmp: "comparator ?cmp"
    using assms(1) comparator_reverse[OF assms(1)] by (cases "ts_direction s") (simp_all add: signed_def)
  have "apply_sort s compare rows = sort_rows ?cmp rows"
    by (simp add: apply_sort_def assms(2) signed_def)
  moreover have "sort_rows ?cmp rows = ys"
  proof (rule comparator.stable_sort_unique[OF cmp])
    show "sorted_wrt (\<lambda>a b. ?cmp a b \<le> 0) (sort_rows ?cmp rows)"
      by (rule comparator.sorted_sort_rows[OF cmp])
    show "sorted_wrt (\<lambda>a b. ?cmp a b \<le> 0) ys" by (rule assms(3))
    show "filter (\<lambda>y. ?cmp k y = 0) (sort_rows ?cmp rows) = filter (\<lambda>y. ?cmp k y = 0) ys" for k
      using comparator.stable_sort_rows[OF cmp, of k rows] assms(4)[of k] by (simp add: signed_def)
  qed
  ultimately show ?thesis by simp
qed

theorem apply_sort_unique_witness:
  "apply_sort \<lparr>ts_column = Some (), ts_direction = Desc\<rparr> (\<lambda>_ a b. fst a - fst b) [(1::int, True), (2, True), (1, False)] =
     [(2, True), (1, True), (1, False)]"
  by (rule apply_sort_unique[where c = "()"]) (simp_all add: signed_def comparator_key)

text \<open>
  The header of a column: from a table sorted on another column or on none, the first
  click sorts it upwards, the second downwards, and the third takes the sort away, so that
  the rows are back in the order they were received.
\<close>

theorem toggle_cycle:
  assumes "ts_column s \<noteq> Some c"
  shows "ts_column (toggle_sort c s) = Some c \<and> ts_direction (toggle_sort c s) = Asc \<and>
     ts_column (toggle_sort c (toggle_sort c s)) = Some c \<and>
     ts_direction (toggle_sort c (toggle_sort c s)) = Desc \<and>
     apply_sort (toggle_sort c (toggle_sort c (toggle_sort c s))) compare rows = rows"
  using assms by (simp add: toggle_sort_def apply_sort_def)

theorem toggle_cycle_witness:
  "apply_sort (toggle_sort () (toggle_sort () (toggle_sort () new_sort))) (\<lambda>_ a b. a - b) [3, 1, 2 :: int] = [3, 1, 2]"
  using toggle_cycle[of new_sort "()" "\<lambda>_ a b. a - b" "[3, 1, 2 :: int]"] by (simp add: new_sort_def)

end
