(* ===== verification/Format.thy ===== *)
theory Format
  imports Prelude
begin

text \<open>
  Numbers as text: \<open>parseInt\<close> and \<open>toFixed\<close> of the standard library, and the two
  formatters of \<open>src/frontend/src/app/shared/format.ts\<close>.

  Arithmetic is exact here: a byte count below 2^53 divided by a power of 1024 is exact
  in JavaScript too. The floor of the quotient of logarithms is the parameter
  \<open>log_floor\<close>; the lemmas that need its value state it.
\<close>

section \<open>parseInt\<close>

definition hex_value :: "char \<Rightarrow> nat option" where
  "hex_value c =
     (let n = (of_char c :: nat)
      in if 48 \<le> n \<and> n \<le> 57 then Some (n - 48)
         else if 65 \<le> n \<and> n \<le> 70 then Some (n - 55)
         else if 97 \<le> n \<and> n \<le> 102 then Some (n - 87) else None)"

text \<open>The longest prefix of digits in a base up to 16, and its value.\<close>

fun digits :: "nat \<Rightarrow> string \<Rightarrow> nat list" where
  "digits radix [] = []"
| "digits radix (c # cs) =
     (case hex_value c of Some d \<Rightarrow> if d < radix then d # digits radix cs else [] | None \<Rightarrow> [])"

definition value_of :: "nat \<Rightarrow> nat list \<Rightarrow> nat" where
  "value_of radix ds = foldl (\<lambda>acc d. acc * radix + d) 0 ds"

text \<open>Without a radix a hexadecimal prefix counts; with radix 10 it does not.\<close>

definition parse_number :: "bool \<Rightarrow> string \<Rightarrow> jsnum" where
  "parse_number radix_ten s =
     (let t = trim_start s;
          negative = (t \<noteq> [] \<and> hd t = CHR ''-'');
          body = (if t \<noteq> [] \<and> (hd t = CHR ''-'' \<or> hd t = CHR ''+'') then tl t else t);
          hex = (\<not> radix_ten \<and> (take 2 body = ''0x'' \<or> take 2 body = ''0X''));
          radix = (if hex then 16 else 10);
          ds = digits radix (if hex then drop 2 body else body)
      in if ds = [] then NaN
         else Num ((if negative then -1 else 1) * of_nat (value_of radix ds)))"

definition parseInt :: "string \<Rightarrow> jsnum" where
  "parseInt s = parse_number False s"

section \<open>Byte counts\<close>

definition units :: "string list" where
  "units = [''B'', ''KB'', ''MB'', ''GB'', ''TB'', ''PB'']"

text \<open>\<open>Math.round\<close>: halves upwards.\<close>

definition round_half_up :: "rat \<Rightarrow> int" where
  "round_half_up x = \<lfloor>x + 1 / 2\<rfloor>"

text \<open>\<open>toFixed(0)\<close> and \<open>toFixed(1)\<close> of a number that is not negative.\<close>

definition toFixed :: "rat \<Rightarrow> nat \<Rightarrow> string" where
  "toFixed x decimals =
     (let n = nat (round_half_up (x * 10 ^ decimals))
      in if decimals = 0 then show_nat n else show_nat (n div 10) @ ''.'' @ show_nat (n mod 10))"

definition formatBytes :: "(int \<Rightarrow> nat) \<Rightarrow> int \<Rightarrow> string" where
  "formatBytes log_floor bytes =
     (if bytes \<le> 0 then ''0 B''
      else
        let exponent = min (log_floor bytes) (length units - 1);
            v = (of_int bytes :: rat) / 1024 ^ exponent;
            decimals = (if exponent = 0 \<or> v \<ge> 100 then 0 else 1)
        in toFixed v decimals @ '' '' @ units ! exponent)"

text \<open>The exponent as it is meant: the largest power of 1024 that fits.\<close>

fun log1024 :: "nat \<Rightarrow> int \<Rightarrow> nat" where
  "log1024 0 b = 0"
| "log1024 (Suc fuel) b = (if b < 1024 then 0 else Suc (log1024 fuel (b div 1024)))"

lemma log1024_bounds:
  "0 < b \<Longrightarrow> b < 1024 ^ Suc fuel \<Longrightarrow> 1024 ^ log1024 fuel b \<le> b \<and> b < 1024 ^ Suc (log1024 fuel b)"
proof (induction fuel b rule: log1024.induct)
  case (2 fuel b)
  show ?case
  proof (cases "b < 1024")
    case False
    let ?q = "b div 1024" and ?e = "log1024 fuel (b div 1024)"
    have "0 < ?q" using False by linarith
    moreover have "?q < 1024 ^ Suc fuel" using 2(3) by (simp add: div_less_iff_less_mult)
    ultimately have "1024 ^ ?e \<le> ?q" "?q < 1024 ^ Suc ?e" using 2(1) False by auto
    then have "1024 ^ ?e * 1024 \<le> b" "b < 1024 ^ Suc ?e * 1024"
      by (auto simp: div_less_iff_less_mult intro: order_trans[OF mult_right_mono[of "1024 ^ ?e" ?q 1024]])
    then show ?thesis using False by simp
  qed (use 2 in simp)
qed simp

section \<open>Ages\<close>

text \<open>\<open>now\<close> and the parsed instant are milliseconds; an unreadable date is None.\<close>

definition no_age :: string where
  "no_age = [CHR 0xE2, CHR 0x80, CHR 0x94]"

definition formatAge :: "int \<Rightarrow> (string \<Rightarrow> int option) \<Rightarrow> string option \<Rightarrow> string" where
  "formatAge now parse_date stamp =
     (case Option.bind (Option.bind stamp or_null) parse_date of
        None \<Rightarrow> no_age
      | Some t \<Rightarrow>
          let minutes = (now - t) div 60000 in
          if minutes < 1 then ''just now''
          else if minutes < 60 then show_nat (nat minutes) @ ''m ago''
          else
            let hours = minutes div 60 in
            if hours < 24 then show_nat (nat hours) @ ''h ago''
            else show_nat (nat (hours div 24)) @ ''d ago'')"

section \<open>Properties\<close>

lemma round_quotient:
  fixes x p :: rat
  assumes "0 \<le> x" and "0 < p"
  shows "\<bar>of_nat (nat (round_half_up (x * p))) / p - x\<bar> \<le> 1 / (2 * p)"
proof -
  define n where "n = (of_nat (nat (round_half_up (x * p))) :: rat)"
  have "0 \<le> x * p" using assms by simp
  then have "n = of_int \<lfloor>x * p + 1 / 2\<rfloor>" unfolding n_def round_half_up_def by simp
  then have "\<bar>n - x * p\<bar> \<le> 1 / 2" by linarith
  then have "\<bar>n - x * p\<bar> / p \<le> 1 / 2 / p" using assms(2) by (intro divide_right_mono) auto
  moreover have "\<bar>n - x * p\<bar> / p = \<bar>(n - x * p) / p\<bar>" using assms(2) by simp
  moreover have "(n - x * p) / p = n / p - x" using assms(2) by (simp add: diff_divide_distrib)
  ultimately show ?thesis unfolding n_def by simp
qed



end
