(* ===== verification/Dashboard_Page.thy ===== *)
theory Dashboard_Page
  imports Auth_Session Table_Sort Format
begin

text \<open>
  The dashboard (\<open>src/frontend/src/app/features/dashboard/dashboard.ts\<close>): ten tiles, each with
  its own data, error and spinner, and the views derived from them. The percentage of
  the storage is computed exactly, where JavaScript divides floating-point numbers.
\<close>

record 'd tile =
  t_data :: "'d option"
  t_error :: "string option"
  t_loading :: bool

record accounts_overview =
  ao_users :: "user list"
  ao_groupCount :: nat

record dashboard = auth_state +
  refreshing :: bool
  d_mailboxes :: "mailbox list tile"
  d_usage :: "mailbox_usage_summary tile"
  d_queue :: "queue_summary tile"
  d_fail2ban :: "fail2ban_status tile"
  d_tls :: "tls_certificate tile"
  d_dkim :: "dkim_key list tile"
  d_services :: "service_status list tile"
  d_stats :: "mail_stats tile"
  d_environment :: "mailserver_environment tile"
  d_accounts :: "accounts_overview tile"

definition new_tile :: "'d tile" where
  "new_tile = \<lparr>t_data = None, t_error = None, t_loading = True\<rparr>"

definition dashboard_start :: "session_user option \<Rightarrow> dashboard" where
  "dashboard_start user =
     \<lparr>au_user = user, au_config = None, au_loaded = True, refreshing = False,
      d_mailboxes = new_tile, d_usage = new_tile, d_queue = new_tile, d_fail2ban = new_tile,
      d_tls = new_tile, d_dkim = new_tile, d_services = new_tile, d_stats = new_tile,
      d_environment = new_tile, d_accounts = new_tile\<rparr>"

section \<open>Derived views\<close>

definition TOP_MAILBOXES :: nat where "TOP_MAILBOXES = 5"
definition TLS_CRITICAL_DAYS :: int where "TLS_CRITICAL_DAYS = 15"
definition TLS_WARNING_DAYS :: int where "TLS_WARNING_DAYS = 30"

text \<open>\<open>[...new Set(xs)]\<close>: the first occurrences, in order.\<close>

definition js_set :: "'a list \<Rightarrow> 'a list" where
  "js_set xs = rev (remdups (rev xs))"

lemma set_js_set [simp]: "set (js_set xs) = set xs"
  by (simp add: js_set_def)

lemma distinct_js_set [simp]: "distinct (js_set xs)"
  by (simp add: js_set_def)

definition domains :: "dashboard \<Rightarrow> string list" where
  "domains s =
     (case t_data (d_mailboxes s) of
        None \<Rightarrow> [] | Some ms \<Rightarrow> sort_rows code_compare (js_set (map mb_domain ms)))"

definition topMailboxes :: "dashboard \<Rightarrow> mailbox_usage list" where
  "topMailboxes s =
     (case t_data (d_usage s) of None \<Rightarrow> [] | Some u \<Rightarrow> take TOP_MAILBOXES (us_mailboxes u))"

definition storagePercent :: "dashboard \<Rightarrow> int option" where
  "storagePercent s =
     (case t_data (d_usage s) of
        None \<Rightarrow> None
      | Some summary \<Rightarrow>
          (case us_total_limit_bytes summary of
             None \<Rightarrow> None
           | Some limit \<Rightarrow>
               if limit = 0 then None
               else Some (min (round_half_up ((of_int (us_total_used_bytes summary) / of_int limit) * 100)) 100)))"

record dkim_coverage =
  cv_signed :: nat
  cv_total :: nat
  cv_missing :: "string list"

definition dkimCoverage :: "dashboard \<Rightarrow> dkim_coverage option" where
  "dkimCoverage s =
     (case t_data (d_dkim s) of
        None \<Rightarrow> None
      | Some ks \<Rightarrow>
          let ds = domains s in
          if length ds = 0 then None
          else
            let signed_domains = set (map dk_domain ks);
                missing = filter (\<lambda>d. d \<notin> signed_domains) ds
            in Some \<lparr>cv_signed = length ds - length missing, cv_total = length ds, cv_missing = missing\<rparr>)"

definition deferredCount :: "dashboard \<Rightarrow> int" where
  "deferredCount s =
     (case t_data (d_queue s) of
        None \<Rightarrow> 0
      | Some q \<Rightarrow> (case map_of (qs_counts q) ''deferred'' of None \<Rightarrow> 0 | Some n \<Rightarrow> n))"

text \<open>\<open>reduce((a, b) => (a < b ? a : b))\<close>\<close>

definition reduce_min :: "string list \<Rightarrow> string option" where
  "reduce_min xs =
     (case xs of [] \<Rightarrow> None
      | a # as \<Rightarrow> Some (foldl (\<lambda>a b. if code_compare a b < 0 then a else b) a as))"

definition oldestQueued :: "dashboard \<Rightarrow> string option" where
  "oldestQueued s =
     reduce_min (case t_data (d_queue s) of
       None \<Rightarrow> [] | Some q \<Rightarrow> List.map_filter qm_arrival_time (qs_messages q))"

definition queueCountEntries :: "dashboard \<Rightarrow> (string \<times> int) list" where
  "queueCountEntries s = (case t_data (d_queue s) of None \<Rightarrow> [] | Some q \<Rightarrow> qs_counts q)"

definition dashboard_jails :: "dashboard \<Rightarrow> fail2ban_jail list" where
  "dashboard_jails s = (case t_data (d_fail2ban s) of None \<Rightarrow> [] | Some f \<Rightarrow> fs_jails f)"

definition bannedIpsCount :: "dashboard \<Rightarrow> int" where
  "bannedIpsCount s = foldl (\<lambda>total jail. total + j_currently_banned jail) 0 (dashboard_jails s)"

definition activeJails :: "dashboard \<Rightarrow> fail2ban_jail list" where
  "activeJails s =
     sort_rows (\<lambda>a b. j_currently_banned b - j_currently_banned a)
       (filter (\<lambda>jail. j_currently_banned jail > 0) (dashboard_jails s))"

definition tlsClass :: "dashboard \<Rightarrow> string" where
  "tlsClass s =
     (case Option.bind (t_data (d_tls s)) tc_days_remaining of
        None \<Rightarrow> ''text-body-secondary''
      | Some days \<Rightarrow>
          if days < 0 then ''text-danger''
          else if days < TLS_CRITICAL_DAYS then ''text-danger''
          else if days < TLS_WARNING_DAYS then ''text-warning'' else ''text-success'')"

definition dashboard_services :: "dashboard \<Rightarrow> service_status list" where
  "dashboard_services s = (case t_data (d_services s) of None \<Rightarrow> [] | Some xs \<Rightarrow> xs)"

definition servicesFailed :: "dashboard \<Rightarrow> service_status list" where
  "servicesFailed s = filter sv_failed (dashboard_services s)"

definition servicesRunning :: "dashboard \<Rightarrow> service_status list" where
  "servicesRunning s = filter sv_running (dashboard_services s)"

definition service_rank :: "service_status \<Rightarrow> int" where
  "service_rank x = (if sv_running x then 0 else if sv_failed x then 1 else 2)"

definition service_compare :: "(string \<Rightarrow> string \<Rightarrow> int) \<Rightarrow> service_status \<Rightarrow> service_status \<Rightarrow> int" where
  "service_compare lc a b =
     (if service_rank a - service_rank b \<noteq> 0 then service_rank a - service_rank b
      else lc (sv_name a) (sv_name b))"

definition sortedServices :: "(string \<Rightarrow> string \<Rightarrow> int) \<Rightarrow> dashboard \<Rightarrow> service_status list" where
  "sortedServices lc s = sort_rows (service_compare lc) (dashboard_services s)"

definition environmentWarnings :: "dashboard \<Rightarrow> environment_warning list" where
  "environmentWarnings s = (case t_data (d_environment s) of None \<Rightarrow> [] | Some e \<Rightarrow> me_warnings e)"

definition hasDangerWarning :: "dashboard \<Rightarrow> bool" where
  "hasDangerWarning s = list_ex (\<lambda>w. ew_level w = Danger) (environmentWarnings s)"

definition oidcUserCount :: "dashboard \<Rightarrow> nat" where
  "oidcUserCount s =
     length (filter (\<lambda>u. u_provider u = Oidc) (case t_data (d_accounts s) of None \<Rightarrow> [] | Some a \<Rightarrow> ao_users a))"

definition adminCount :: "dashboard \<Rightarrow> nat" where
  "adminCount s =
     length (filter (\<lambda>u. u_effective_role u = Admin) (case t_data (d_accounts s) of None \<Rightarrow> [] | Some a \<Rightarrow> ao_users a))"

section \<open>Loading\<close>

text \<open>
  A tile as a signal: \<open>put\<close> writes it. \<open>run_fetch\<close> is the function that fetches, in
  continuation style.
\<close>

definition load_tile ::
  "('d tile \<Rightarrow> dashboard \<Rightarrow> dashboard) \<Rightarrow> (('d \<Rightarrow> dashboard cmd) \<Rightarrow> dashboard cmd) \<Rightarrow> dashboard cmd" where
  "load_tile put run_fetch =
     seq (assign (put \<lparr>t_data = None, t_error = None, t_loading = True\<rparr>))
     (try_catch
       (run_fetch (\<lambda>d. assign (put \<lparr>t_data = Some d, t_error = None, t_loading = False\<rparr>)))
       (\<lambda>err. assign (put \<lparr>t_data = None, t_error = Some (mailserverErrorMessage err), t_loading = False\<rparr>)))"

definition all_of_list :: "'s cmd list \<Rightarrow> 's cmd" where
  "all_of_list cs = foldr all_of cs skip"

definition mailbox_tiles :: "dashboard cmd list" where
  "mailbox_tiles =
     [load_tile (\<lambda>t s. s\<lparr>d_mailboxes := t\<rparr>) (fetch mailboxes_list),
      load_tile (\<lambda>t s. s\<lparr>d_usage := t\<rparr>) (fetch mailboxes_usage)]"

definition admin_tiles :: "dashboard cmd list" where
  "admin_tiles =
     [load_tile (\<lambda>t s. s\<lparr>d_queue := t\<rparr>) (fetch getQueue),
      load_tile (\<lambda>t s. s\<lparr>d_fail2ban := t\<rparr>) (fetch getStatus),
      load_tile (\<lambda>t s. s\<lparr>d_tls := t\<rparr>) (fetch getTlsCertificate),
      load_tile (\<lambda>t s. s\<lparr>d_dkim := t\<rparr>) (fetch listDkimKeys),
      load_tile (\<lambda>t s. s\<lparr>d_services := t\<rparr>) (fetch listServices),
      load_tile (\<lambda>t s. s\<lparr>d_stats := t\<rparr>) (fetch getMailStats),
      load_tile (\<lambda>t s. s\<lparr>d_environment := t\<rparr>) (fetch getEnvironment),
      load_tile (\<lambda>t s. s\<lparr>d_accounts := t\<rparr>) (\<lambda>k. fetch_both users_list groups_list (\<lambda>us gs.
        k \<lparr>ao_users = us, ao_groupCount = length gs\<rparr>))]"

definition loadAll :: "dashboard cmd" where
  "loadAll =
     look (\<lambda>s. all_of_list ((if canManageMailboxes s then mailbox_tiles else []) @
                            (if isAdmin s then admin_tiles else [])))"

definition dashboard_refresh :: "unit \<Rightarrow> dashboard cmd" where
  "dashboard_refresh _ =
     seq (assign (\<lambda>s. s\<lparr>refreshing := True\<rparr>))
     (try_finally loadAll (\<lambda>s. s\<lparr>refreshing := False\<rparr>))"

section \<open>No tile and no refresh is left spinning\<close>

lemma all_of_list_simps [simp]:
  "all_of_list [] = skip"
  "all_of_list (c # cs) = all_of c (all_of_list cs)"
  by (simp_all add: all_of_list_def)

lemma tame_all_of_list: "list_all (tame f) cs \<Longrightarrow> tame f (all_of_list cs)"
  by (induction cs) (simp_all add: tame_intros)

lemma clears_all_of_list:
  "list_all (tame f) cs \<Longrightarrow> list_ex (clears f) cs \<Longrightarrow> clears f (all_of_list cs)"
  by (induction cs) (auto intro!: clears_all_of tame_all_of_list)

lemma sends_all_of_list: "list_all (sends P) cs \<Longrightarrow> sends P (all_of_list cs)"
  by (induction cs) (simp_all add: send_intros)

lemma ends_all_of_list: "list_all (ends k) cs \<Longrightarrow> ends (k * length cs) (all_of_list cs)"
  by (induction cs) (auto intro: ends_skip ends_all_of)

definition manager_flags :: "(dashboard \<Rightarrow> bool) list" where
  "manager_flags = [refreshing, \<lambda>s. t_loading (d_mailboxes s), \<lambda>s. t_loading (d_usage s)]"

definition admin_flags :: "(dashboard \<Rightarrow> bool) list" where
  "admin_flags =
     [\<lambda>s. t_loading (d_queue s), \<lambda>s. t_loading (d_fail2ban s), \<lambda>s. t_loading (d_tls s),
      \<lambda>s. t_loading (d_dkim s), \<lambda>s. t_loading (d_services s), \<lambda>s. t_loading (d_stats s),
      \<lambda>s. t_loading (d_environment s), \<lambda>s. t_loading (d_accounts s)]"

text \<open>The spinners of the tiles a role is shown; the others stay as constructed.\<close>

definition shown_flags :: "session_user option \<Rightarrow> (dashboard \<Rightarrow> bool) list" where
  "shown_flags user =
     (if roleGrants (map_option su_role user) Mailbox_manager then manager_flags else [refreshing]) @
     (if roleGrants (map_option su_role user) Admin then admin_flags else [])"

lemmas dashboard_defs = load_tile_def mailbox_tiles_def admin_tiles_def

lemma tame_tiles:
  "f \<in> set (manager_flags @ admin_flags) \<Longrightarrow> list_all (tame f) (mailbox_tiles @ admin_tiles)"
  by (auto simp: manager_flags_def admin_flags_def dashboard_defs page_defs tame_intros)

lemma tame_loadAll: "f \<in> set (manager_flags @ admin_flags) \<Longrightarrow> tame f loadAll"
  using tame_tiles[of f] unfolding loadAll_def
  by (intro tame_look allI tame_all_of_list) (auto simp: list_all_iff)

lemma tame_dashboard_refresh: "f \<in> set (manager_flags @ admin_flags) \<Longrightarrow> tame f (dashboard_refresh u)"
  using tame_loadAll[of f]
  by (auto simp: dashboard_refresh_def manager_flags_def admin_flags_def tame_intros)

lemma clears_tiles:
  "f \<in> {\<lambda>s. t_loading (d_mailboxes s), \<lambda>s. t_loading (d_usage s)} \<Longrightarrow> list_ex (clears f) mailbox_tiles"
  "f \<in> set admin_flags \<Longrightarrow> list_ex (clears f) admin_tiles"
  by (auto simp: admin_flags_def dashboard_defs page_defs tame_intros)

lemma role_of_start [simp]:
  "canManageMailboxes (dashboard_start user) = roleGrants (map_option su_role user) Mailbox_manager"
  "isAdmin (dashboard_start user) = roleGrants (map_option su_role user) Admin"
  by (simp_all add: canManageMailboxes_def isAdmin_def dashboard_start_def)

interpretation dashboard_quiet: quiet_start dashboard_refresh loadAll "dashboard_start user" "shown_flags user" for user
proof
  let ?m = "roleGrants (map_option su_role user) Mailbox_manager" and ?a = "roleGrants (map_option su_role user) Admin"
  have boot: "clears_at f (loadAll (dashboard_start user)) \<or>
      (tame_at f (dashboard_start user) (loadAll (dashboard_start user)) \<and> \<not> f (dashboard_start user))"
    if f: "f \<in> set (shown_flags user)" for f
  proof -
    let ?cs = "(if ?m then mailbox_tiles else []) @ (if ?a then admin_tiles else [])"
    have all: "f \<in> set (manager_flags @ admin_flags)"
      using f by (auto simp: shown_flags_def manager_flags_def split: if_splits)
    have t: "list_all (tame f) ?cs" using tame_tiles[OF all] by auto
    show ?thesis
    proof (cases "f = refreshing")
      case True
      have "tame f loadAll" by (rule tame_loadAll[OF all])
      then show ?thesis using True by (simp add: tame_def dashboard_start_def)
    next
      case False
      then have "list_ex (clears f) ?cs"
        using f clears_tiles[of f] by (auto simp: shown_flags_def manager_flags_def split: if_splits)
      then have "clears f (all_of_list ?cs)" using t by (rule clears_all_of_list[rotated])
      then show ?thesis by (simp add: loadAll_def clears_def)
    qed
  qed
  then show "list_all (\<lambda>f. clears_at f (loadAll (dashboard_start user)) \<or>
      (tame_at f (dashboard_start user) (loadAll (dashboard_start user)) \<and> \<not> f (dashboard_start user))) (shown_flags user)"
    by (simp add: list_all_iff)
  show "list_all (\<lambda>f. tame f (dashboard_refresh e)) (shown_flags user)" for e
    using tame_dashboard_refresh[of _ e]
    by (auto simp: list_all_iff shown_flags_def manager_flags_def split: if_splits)
qed

section \<open>Requests by role\<close>

text \<open>The endpoints open to a mailbox manager, and those only an administrator may call.\<close>

definition manager_endpoint :: "request \<Rightarrow> bool" where
  "manager_endpoint q = (q = fst mailboxes_list \<or> q = fst mailboxes_usage)"

definition admin_endpoint :: "request \<Rightarrow> bool" where
  "admin_endpoint q =
     (q \<in> {fst getQueue, fst getStatus, fst getTlsCertificate, fst listDkimKeys, fst listServices,
            fst getMailStats, fst getEnvironment, fst users_list, fst groups_list})"

definition permitted :: "session_user option \<Rightarrow> request \<Rightarrow> bool" where
  "permitted user q =
     (manager_endpoint q \<and> roleGrants (map_option su_role user) Mailbox_manager \<or>
      admin_endpoint q \<and> roleGrants (map_option su_role user) Admin)"

lemma tiles_permitted:
  "roleGrants (map_option su_role user) Mailbox_manager \<Longrightarrow> list_all (sends (permitted user)) mailbox_tiles"
  "roleGrants (map_option su_role user) Admin \<Longrightarrow> list_all (sends (permitted user)) admin_tiles"
  by (simp_all add: dashboard_defs page_defs send_intros permitted_def manager_endpoint_def admin_endpoint_def)

section \<open>The derived views\<close>

lemma foldl_min:
  "foldl (\<lambda>a b. if code_compare a b < 0 then a else b) a as \<in> set (a # as) \<and>
   (\<forall>x \<in> set (a # as). code_compare (foldl (\<lambda>a b. if code_compare a b < 0 then a else b) a as) x \<le> 0)"
proof (induction as arbitrary: a)
  case (Cons b bs)
  let ?m = "if code_compare a b < 0 then a else b"
  let ?r = "foldl (\<lambda>a b. if code_compare a b < 0 then a else b) ?m bs"
  have r: "?r \<in> set (?m # bs)" "\<forall>x \<in> set (?m # bs). code_compare ?r x \<le> 0" using Cons[of ?m] by auto
  have "code_compare ?m a \<le> 0" "code_compare ?m b \<le> 0"
    using code_units.flip[of a b] by (auto split: if_splits)
  then have "code_compare ?r a \<le> 0" "code_compare ?r b \<le> 0"
    using r(2) code_units.trans by (meson list.set_intros(1))+
  moreover have "?r \<in> set (a # b # bs)" using r(1) by (auto split: if_splits)
  ultimately show ?case using r(2) by simp
qed simp

lemma reduce_min_Some:
  "reduce_min xs = Some m \<Longrightarrow> m \<in> set xs \<and> (\<forall>x \<in> set xs. code_compare m x \<le> 0)"
  using foldl_min by (auto simp: reduce_min_def split: list.splits)

lemma service_comparator:
  assumes "comparator lc"
  shows "comparator (service_compare lc)"
proof
  note f = comparator.flip[OF assms] and t = comparator.trans[OF assms]
  show "service_compare lc a b = - service_compare lc b a" for a b
    using f[of "sv_name a" "sv_name b"] by (simp add: service_compare_def)
  show "service_compare lc a b \<le> 0 \<Longrightarrow> service_compare lc b c \<le> 0 \<Longrightarrow> service_compare lc a c \<le> 0" for a b c
    using t[of "sv_name a" "sv_name b" "sv_name c"]
    unfolding service_compare_def by (simp split: if_splits)
qed

interpretation dashboard_services: comparator "service_compare code_compare"
  by (rule service_comparator) (rule code_units.comparator_axioms)

interpretation jails_by_bans: comparator "\<lambda>a b. j_currently_banned b - j_currently_banned a"
  by unfold_locales auto

section \<open>Properties\<close>

interpretation dashboard_guarded:
  steady_guarded dashboard_refresh loadAll "dashboard_start user" "\<lambda>s. au_user s = user" "permitted user" for user
proof
  have all: "sends_at (permitted user) (loadAll s)" if "au_user s = user" for s
  proof -
    have "canManageMailboxes s = roleGrants (map_option su_role user) Mailbox_manager"
      "isAdmin s = roleGrants (map_option su_role user) Admin"
      using that by (simp_all add: canManageMailboxes_def isAdmin_def)
    then have "sends (permitted user) (all_of_list ((if canManageMailboxes s then mailbox_tiles else []) @
        (if isAdmin s then admin_tiles else [])))"
      using tiles_permitted[of user] by (intro sends_all_of_list) auto
    then show ?thesis by (simp add: loadAll_def sends_def)
  qed
  have tiles: "list_all (segs (keeps (\<lambda>s. au_user s = user))) (mailbox_tiles @ admin_tiles)"
    by (simp add: dashboard_defs page_defs seg_intros keeps_def)
  have list: "segs (keeps (\<lambda>s. au_user s = user)) (all_of_list cs)"
    if "list_all (segs (keeps (\<lambda>s. au_user s = user))) cs" for cs
    using that by (induction cs) (simp_all add: seg_intros)
  have boot: "segs (keeps (\<lambda>s. au_user s = user)) loadAll"
    unfolding loadAll_def by (intro kept.segs_look allI list) (use tiles in auto)
  show "au_user (dashboard_start user) = user" by (simp add: dashboard_start_def)
  show "segs (keeps (\<lambda>s. au_user s = user)) loadAll" by (rule boot)
  show "segs (keeps (\<lambda>s. au_user s = user)) (dashboard_refresh e)" for e
    using boot by (simp add: dashboard_refresh_def seg_intros keeps_def)
  show "sends_at (permitted user) (loadAll (dashboard_start user))"
    by (rule all) (simp add: dashboard_start_def)
  show "sends_at (permitted user) (dashboard_refresh e s)" if "au_user s = user" for s e
  proof -
    let ?l = "loadAll (s\<lparr>refreshing := True\<rparr>)"
    let ?h = "case_option (assign (refreshing_update (\<lambda>_. False))) (\<lambda>e s. (s\<lparr>refreshing := False\<rparr>, Fail e))"
    have "sends_proc (permitted user) (snd ?l)" using all[of "s\<lparr>refreshing := True\<rparr>"] that by (simp add: sends_at_def)
    then have "sends_at (permitted user) (continue (snd ?l) ?h (fst ?l))"
      by (rule sends_continue) (auto simp: sends_def sends_at_def assign_def split: option.splits)
    then show ?thesis by (simp add: dashboard_refresh_def try_finally_def after_eq)
  qed
qed

text \<open>A tile takes one answer, so a load takes as many as there are tiles: ten at most.\<close>

lemma tile_ends: "ends 1 (load_tile put (fetch ep))"
    "ends 1 (load_tile put (\<lambda>k. fetch_both ep1 ep2 (\<lambda>x y. k (g x y))))"
  unfolding load_tile_def endpoint_defs by (rule ends_mono, (rule ends_intros)+, simp)+

lemma tiles_end: "list_all (ends 1) mailbox_tiles" "list_all (ends 1) admin_tiles"
  unfolding mailbox_tiles_def admin_tiles_def by (simp_all only: list.pred_inject tile_ends simp_thms)

lemma loadAll_ends: "ends 10 loadAll"
  unfolding loadAll_def
proof (rule ends_look)
  fix s :: dashboard
  let ?cs = "(if canManageMailboxes s then mailbox_tiles else []) @ (if isAdmin s then admin_tiles else [])"
  have "ends (1 * length ?cs) (all_of_list ?cs)"
    by (rule ends_all_of_list) (use tiles_end in auto)
  then show "ends 10 (all_of_list ?cs)"
    by (rule ends_mono) (simp add: mailbox_tiles_def admin_tiles_def)
qed

interpretation dashboard_settling:
  settling_page dashboard_refresh loadAll "dashboard_start user" "shown_flags user" 10 for user
proof unfold_locales
  show "ends 10 loadAll" by (rule loadAll_ends)
  show "ends 10 (dashboard_refresh e)" for e
    unfolding dashboard_refresh_def
    by (rule ends_mono, (rule ends_seq ends_assign ends_try_finally loadAll_ends)+, simp)
qed

lemma granted_role:
  "roleGrants r Mailbox_manager \<longleftrightarrow> r \<in> {Some Mailbox_manager, Some Admin}"
  "roleGrants r Admin \<longleftrightarrow> r = Some Admin"
  by (cases r; cases "the r"; simp add: roleGrants_def ROLES_def)+

text \<open>
  The dashboard only asks for what the role of the session may read, at any moment and
  after any number of refreshes: the mailboxes and their usage for a mailbox manager, the
  nine administration endpoints for an administrator, and nothing at all for a guest.
\<close>

theorem dashboard_requests_permitted:
  assumes "reachable dashboard_refresh loadAll (dashboard_start user) s ps"
    and "q \<in> in_flight ps"
  shows "(q \<in> {fst mailboxes_list, fst mailboxes_usage} \<and>
      map_option su_role user \<in> {Some Mailbox_manager, Some Admin}) \<or>
    (q \<in> {fst getQueue, fst getStatus, fst getTlsCertificate, fst listDkimKeys, fst listServices,
            fst getMailStats, fst getEnvironment, fst users_list, fst groups_list} \<and>
      map_option su_role user = Some Admin)"
  using dashboard_guarded.sent[OF assms]
  by (auto simp: permitted_def manager_endpoint_def admin_endpoint_def granted_role)

theorem dashboard_requests_permitted_witness:
  "map_option su_role (Some \<lparr>su_username = ''m'', su_display_name = ''M'', su_role = Mailbox_manager, su_provider = Local\<rparr>)
     \<in> {Some Mailbox_manager, Some Admin}"
proof -
  let ?u = "Some \<lparr>su_username = ''m'', su_display_name = ''M'', su_role = Mailbox_manager, su_provider = Local\<rparr>"
  have "fst mailboxes_list \<in> in_flight (snd (run_page dashboard_refresh loadAll (dashboard_start ?u) []))"
    by (simp add: run_defs loadAll_def dashboard_defs endpoint_defs roleGrants_def ROLES_def)
  from dashboard_requests_permitted[OF run_reach this]
  show ?thesis by (auto simp: mailboxes_list_def getQueue_def getStatus_def getTlsCertificate_def listDkimKeys_def
      listServices_def getMailStats_def getEnvironment_def users_list_def groups_list_def)
qed

text \<open>
  The dashboard comes to rest: once the refresh button is left alone, at most ten answers
  can still come for the first load and for each refresh, and when none is left the button
  is free and every tile the role is shown has its data or its error, not a spinner.
\<close>

theorem dashboard_settles:
  assumes "reachable dashboard_refresh loadAll (dashboard_start user) s ps"
    and "answered (s, ps) n (t, qs)"
  shows "n \<le> 10 * length ps \<and>
    (exhausted qs \<longrightarrow> \<not> refreshing t \<and>
      (map_option su_role user \<in> {Some Mailbox_manager, Some Admin} \<longrightarrow>
        \<not> t_loading (d_mailboxes t) \<and> \<not> t_loading (d_usage t)) \<and>
      (map_option su_role user = Some Admin \<longrightarrow>
        \<not> t_loading (d_queue t) \<and> \<not> t_loading (d_fail2ban t) \<and> \<not> t_loading (d_tls t) \<and>
        \<not> t_loading (d_dkim t) \<and> \<not> t_loading (d_services t) \<and> \<not> t_loading (d_stats t) \<and>
        \<not> t_loading (d_environment t) \<and> \<not> t_loading (d_accounts t)))"
  using dashboard_settling.settles[OF assms]
  by (auto simp: shown_flags_def manager_flags_def admin_flags_def granted_role split: if_splits)

theorem dashboard_settles_witness:
  "\<not> t_loading (d_usage (fst (the (give [(0, [True, False], failed 502), (0, [False], failed 500)]
      (run_page dashboard_refresh loadAll (dashboard_start
        (Some \<lparr>su_username = ''m'', su_display_name = ''M'', su_role = Mailbox_manager, su_provider = Local\<rparr>)) [])))))"
proof -
  let ?u = "Some \<lparr>su_username = ''m'', su_display_name = ''M'', su_role = Mailbox_manager, su_provider = Local\<rparr>"
  let ?c = "run_page dashboard_refresh loadAll (dashboard_start ?u) []"
  let ?as = "[(0, [True, False], failed 502), (0, [False], failed 500)]"
  have "\<exists>d. give ?as ?c = Some d \<and> exhausted (snd d)"
    by (simp add: run_defs loadAll_def dashboard_defs endpoint_defs roleGrants_def ROLES_def exhausted_def)
  then obtain d where g: "give ?as ?c = Some d" and e: "exhausted (snd d)" by blast
  from dashboard_settles[OF run_reach give_run[OF g]] show ?thesis using e g by simp
qed

text \<open>
  The DKIM tile, when it has something to say, counts every domain of the mailboxes
  once: the domains it names as missing are exactly those without a key, and the number
  signed and the number missing add up to the total.
\<close>

theorem dkim_coverage_complete:
  assumes "dkimCoverage s = Some c"
  shows "\<exists>ms ks. t_data (d_mailboxes s) = Some ms \<and> t_data (d_dkim s) = Some ks \<and>
    set (cv_missing c) = mb_domain ` set ms - dk_domain ` set ks \<and> distinct (cv_missing c) \<and>
    cv_signed c + length (cv_missing c) = cv_total c \<and> cv_total c = card (mb_domain ` set ms)"
proof -
  obtain ks where ks: "t_data (d_dkim s) = Some ks" and ne: "domains s \<noteq> []"
    and c: "c = \<lparr>cv_signed = length (domains s) - length (filter (\<lambda>d. d \<notin> dk_domain ` set ks) (domains s)),
      cv_total = length (domains s), cv_missing = filter (\<lambda>d. d \<notin> dk_domain ` set ks) (domains s)\<rparr>"
    using assms by (auto simp: dkimCoverage_def Let_def split: option.splits if_splits)
  obtain ms where ms: "t_data (d_mailboxes s) = Some ms" and d: "domains s = sort_rows code_compare (js_set (map mb_domain ms))"
    using ne by (auto simp: domains_def split: option.splits)
  have m: "mset (domains s) = mset (js_set (map mb_domain ms))" by (simp add: d)
  have set: "set (domains s) = mb_domain ` set ms" using mset_eq_setD[OF m] by simp
  have dist: "distinct (domains s)" using mset_eq_imp_distinct_iff[OF m] by simp
  have "length (filter p (domains s)) \<le> length (domains s)" for p by simp
  then show ?thesis using ks ms c set dist distinct_card[OF dist] by auto
qed

theorem dkim_coverage_complete_witness:
  "mb_domain ` {\<lparr>mb_email = ''a@x'', mb_domain = ''x'', mb_quota = None\<rparr>, \<lparr>mb_email = ''b@y'', mb_domain = ''y'', mb_quota = None\<rparr>}
     - {} = {''x'', ''y''}"
proof -
  let ?ms = "[\<lparr>mb_email = ''a@x'', mb_domain = ''x'', mb_quota = None\<rparr>, \<lparr>mb_email = ''b@y'', mb_domain = ''y'', mb_quota = None\<rparr>]"
  let ?s = "(dashboard_start None)\<lparr>d_mailboxes := new_tile\<lparr>t_data := Some ?ms\<rparr>, d_dkim := new_tile\<lparr>t_data := Some []\<rparr>\<rparr>"
  have "dkimCoverage ?s = Some \<lparr>cv_signed = 0, cv_total = 2, cv_missing = [''x'', ''y'']\<rparr>"
    by (simp add: dkimCoverage_def domains_def js_set_def code_compare_def)
  from dkim_coverage_complete[OF this] show ?thesis by simp
qed

end
