(* ===== verification/User_Multi_Select.thy ===== *)
theory User_Multi_Select
  imports Api_Models
begin

text \<open>
  The searchable multiple choice of users
  (\<open>src/frontend/src/app/shared/user-multi-select/user-multi-select.ts\<close>). The inputs of the
  component (users, disabled) are part of the state; the selected identifiers belong to
  the parent and are written through the same functions. Focusing the search field and
  scrolling to an option are the elements the control asks the browser to act on.
\<close>

record multi_select =
  ms_uid :: nat
  ms_users :: "user list"
  ms_selectedIds :: "int list"
  ms_disabled :: bool
  ms_open :: bool
  ms_query :: string
  ms_activeIndex :: int

definition selectedUsers :: "multi_select \<Rightarrow> user list" where
  "selectedUsers s = filter (\<lambda>u. u_id u \<in> set (ms_selectedIds s)) (ms_users s)"

definition filtered :: "multi_select \<Rightarrow> user list" where
  "filtered s =
     (let needle = to_lower (trim (ms_query s))
      in if needle = [] then ms_users s
         else filter (\<lambda>u. str_includes (to_lower (u_username u)) needle \<or>
                          str_includes (to_lower (u_display_name u)) needle) (ms_users s))"

definition isSelected :: "int \<Rightarrow> multi_select \<Rightarrow> bool" where
  "isSelected userId s = (userId \<in> set (ms_selectedIds s))"

text \<open>\<open>toggle\<close>, \<open>remove\<close> and \<open>clear\<close> on the bound list.\<close>

definition toggle_ids :: "int \<Rightarrow> int list \<Rightarrow> int list" where
  "toggle_ids userId current =
     (if userId \<in> set current then filter (\<lambda>i. i \<noteq> userId) current else current @ [userId])"

definition remove_ids :: "int \<Rightarrow> int list \<Rightarrow> int list" where
  "remove_ids userId current = filter (\<lambda>i. i \<noteq> userId) current"

definition toggle_user :: "int \<Rightarrow> multi_select \<Rightarrow> multi_select" where
  "toggle_user userId s = s\<lparr>ms_selectedIds := toggle_ids userId (ms_selectedIds s)\<rparr>"

definition remove_user :: "int \<Rightarrow> multi_select \<Rightarrow> multi_select" where
  "remove_user userId s = s\<lparr>ms_selectedIds := remove_ids userId (ms_selectedIds s)\<rparr>"

definition clear_users :: "multi_select \<Rightarrow> multi_select" where
  "clear_users s = s\<lparr>ms_selectedIds := []\<rparr>"

definition openDropdown :: "multi_select \<Rightarrow> multi_select" where
  "openDropdown s = (if \<not> ms_disabled s then s\<lparr>ms_open := True\<rparr> else s)"

definition close_dropdown :: "multi_select \<Rightarrow> multi_select" where
  "close_dropdown s = s\<lparr>ms_open := False, ms_activeIndex := -1\<rparr>"

text \<open>The new state, and whether the search field is focused.\<close>

definition focusSearch :: "multi_select \<Rightarrow> multi_select \<times> bool" where
  "focusSearch s = (if \<not> ms_disabled s then (openDropdown s, True) else (s, False))"

definition onQueryInput :: "string \<Rightarrow> multi_select \<Rightarrow> multi_select" where
  "onQueryInput value s = openDropdown (s\<lparr>ms_query := value, ms_activeIndex := -1\<rparr>)"

text \<open>The remainder of JavaScript: the sign of the dividend.\<close>

definition js_rem :: "int \<Rightarrow> int \<Rightarrow> int" where
  "js_rem a b = (if 0 \<le> a then a mod \<bar>b\<bar> else - ((- a) mod \<bar>b\<bar>))"

definition moveActive :: "int \<Rightarrow> nat \<Rightarrow> multi_select \<Rightarrow> multi_select" where
  "moveActive delta count s =
     (if count = 0 then s\<lparr>ms_activeIndex := -1\<rparr>
      else if ms_activeIndex s < 0 then s\<lparr>ms_activeIndex := (if delta > 0 then 0 else int count - 1)\<rparr>
      else s\<lparr>ms_activeIndex := js_rem (ms_activeIndex s + delta + int count) (int count)\<rparr>)"

text \<open>\<open>options[index]\<close>: undefined out of range.\<close>

definition at_index :: "'a list \<Rightarrow> int \<Rightarrow> 'a option" where
  "at_index xs i = (if 0 \<le> i \<and> i < int (length xs) then Some (xs ! nat i) else None)"

datatype key = ArrowDown | ArrowUp | Enter | Backspace | Other_key

fun onKeydown :: "key \<Rightarrow> multi_select \<Rightarrow> multi_select" where
  "onKeydown ArrowDown s = moveActive 1 (length (filtered s)) (openDropdown s)"
| "onKeydown ArrowUp s = moveActive (-1) (length (filtered s)) s"
| "onKeydown Enter s =
     (case at_index (filtered s) (ms_activeIndex s) of
        None \<Rightarrow> s
      | Some active \<Rightarrow> toggle_user (u_id active) s)"
| "onKeydown Backspace s =
     (if ms_query s \<noteq> [] then s
      else if 0 < length (ms_selectedIds s) then remove_user (last (ms_selectedIds s)) s
      else s)"
| "onKeydown Other_key s = s"

text \<open>\<open>inside\<close>: whether the click was inside the control.\<close>

definition onDocumentClick :: "bool \<Rightarrow> multi_select \<Rightarrow> multi_select" where
  "onDocumentClick inside s = (if ms_open s \<and> \<not> inside then close_dropdown s else s)"

text \<open>
  The identifiers in the document. \<open>nextUid\<close> is a variable of the module: every control
  that is created takes its value and increments it.
\<close>

definition listboxId :: "multi_select \<Rightarrow> string" where
  "listboxId s = ''user-multi-select-list-'' @ show_nat (ms_uid s)"

definition optionId :: "nat \<Rightarrow> multi_select \<Rightarrow> string" where
  "optionId index s = ''user-multi-select-'' @ show_nat (ms_uid s) @ ''-option-'' @ show_nat index"

definition activeOptionId :: "multi_select \<Rightarrow> string option" where
  "activeOptionId s =
     (if 0 \<le> ms_activeIndex s then Some (optionId (nat (ms_activeIndex s)) s) else None)"

text \<open>
  \<open>optionRefs\<close>: the options in the document, one per displayed user while the list is
  open. The effect after rendering scrolls to the marked one.
\<close>

definition optionRefs :: "multi_select \<Rightarrow> user list" where
  "optionRefs s = (if ms_open s then filtered s else [])"

definition scrolled_option :: "multi_select \<Rightarrow> user option" where
  "scrolled_option s =
     (let index = ms_activeIndex s in if 0 \<le> index then at_index (optionRefs s) index else None)"

text \<open>Every operation of the control, for the invariants.\<close>

datatype select_event =
    Key key
  | Query string
  | Toggle_user int
  | Remove_user int
  | Clear_users
  | Focus_search
  | Close_dropdown
  | Document_click bool
  | Users_changed "user list"
  | Disabled_changed bool

fun select_step :: "select_event \<Rightarrow> multi_select \<Rightarrow> multi_select" where
  "select_step (Key k) s = onKeydown k s"
| "select_step (Query v) s = onQueryInput v s"
| "select_step (Toggle_user i) s = toggle_user i s"
| "select_step (Remove_user i) s = remove_user i s"
| "select_step Clear_users s = clear_users s"
| "select_step Focus_search s = fst (focusSearch s)"
| "select_step Close_dropdown s = close_dropdown s"
| "select_step (Document_click inside) s = onDocumentClick inside s"
| "select_step (Users_changed us) s = s\<lparr>ms_users := us\<rparr>"
| "select_step (Disabled_changed d) s = s\<lparr>ms_disabled := d\<rparr>"

text \<open>A new control, and the next value of \<open>nextUid\<close>; then the controls of a page.\<close>

definition select_start :: "nat \<Rightarrow> user list \<Rightarrow> multi_select" where
  "select_start nextUid us = \<lparr>ms_uid = nextUid, ms_users = us, ms_selectedIds = [], ms_disabled = False,
     ms_open = False, ms_query = [], ms_activeIndex = -1\<rparr>"

fun new_selects :: "user list list \<Rightarrow> nat \<Rightarrow> multi_select list \<times> nat" where
  "new_selects [] nextUid = ([], nextUid)"
| "new_selects (us # rest) nextUid =
     (let (ss, n) = new_selects rest (nextUid + 1) in (select_start nextUid us # ss, n))"

lemmas select_defs =
  toggle_user_def remove_user_def clear_users_def openDropdown_def close_dropdown_def onQueryInput_def
  moveActive_def onDocumentClick_def focusSearch_def

section \<open>Facts\<close>

lemma toggle_ids_distinct [simp]: "distinct current \<Longrightarrow> distinct (toggle_ids i current)"
  by (auto simp: toggle_ids_def)

lemma remove_ids_distinct [simp]: "distinct current \<Longrightarrow> distinct (remove_ids i current)"
  by (simp add: remove_ids_def)

lemma set_toggle_ids: "set (toggle_ids i current) = (if i \<in> set current then set current - {i} else insert i (set current))"
  by (auto simp: toggle_ids_def)

lemma toggle_ids_twice: "i \<notin> set current \<Longrightarrow> toggle_ids i (toggle_ids i current) = current"
  by (auto simp: toggle_ids_def filter_id_conv)

lemma js_rem_bounds: "0 \<le> a \<Longrightarrow> 0 < b \<Longrightarrow> 0 \<le> js_rem a b \<and> js_rem a b < b"
  by (simp add: js_rem_def)

lemma moveActive_bounds:
  assumes "-1 \<le> ms_activeIndex s" and "\<bar>delta\<bar> = 1"
  shows "if count = 0 then ms_activeIndex (moveActive delta count s) = -1
         else 0 \<le> ms_activeIndex (moveActive delta count s) \<and> ms_activeIndex (moveActive delta count s) < int count"
  using assms js_rem_bounds[of "ms_activeIndex s + delta + int count" "int count"]
  by (auto simp: moveActive_def)

definition select_inv :: "multi_select \<Rightarrow> bool" where
  "select_inv s = (distinct (ms_selectedIds s) \<and> -1 \<le> ms_activeIndex s)"

lemma select_step_inv: "select_inv s \<Longrightarrow> select_inv (select_step e s)"
proof (cases e)
  case (Key k)
  assume "select_inv s"
  then show ?thesis using Key moveActive_bounds[of "openDropdown s" 1 "length (filtered s)"]
      moveActive_bounds[of s "-1" "length (filtered s)"]
    by (cases k) (auto simp: select_inv_def toggle_user_def remove_user_def openDropdown_def
        moveActive_def split: option.splits if_splits)
qed (auto simp: select_inv_def select_defs)

section \<open>Properties\<close>

lemma select_fold: "select_inv s \<Longrightarrow> select_inv (fold select_step es s)"
  by (induction es arbitrary: s) (simp_all add: select_step_inv)

lemma filtered_move [simp]: "filtered (moveActive delta count s) = filtered s"
  by (simp add: moveActive_def filtered_def Let_def)

lemma open_move [simp]: "ms_open (moveActive delta count s) = ms_open s"
  by (simp add: moveActive_def)

lemma filtered_open [simp]: "filtered (openDropdown s) = filtered s"
  by (simp add: openDropdown_def filtered_def Let_def)

lemma active_open [simp]: "ms_activeIndex (openDropdown s) = ms_activeIndex s"
  by (simp add: openDropdown_def)

text \<open>Every control keeps the number it was created with, and numbers are never reused.\<close>

lemma uid_moveActive [simp]: "ms_uid (moveActive d n s) = ms_uid s"
  by (simp add: moveActive_def)

lemma uid_step [simp]: "ms_uid (select_step e s) = ms_uid s"
proof (cases e)
  case (Key k)
  then show ?thesis by (cases k) (auto simp: select_defs split: option.splits)
qed (auto simp: select_defs)

lemma uid_fold [simp]: "ms_uid (fold select_step es s) = ms_uid s"
  by (induction es arbitrary: s) simp_all

lemma uid_new_selects:
  "new_selects uss n = (ss, m) \<Longrightarrow> map ms_uid ss = [n..<m] \<and> m = n + length uss"
proof (induction uss arbitrary: n ss m)
  case (Cons us uss)
  obtain r k where r: "new_selects uss (Suc n) = (r, k)" by force
  with Cons.prems have "ss = select_start n us # r" and "m = k" by auto
  with Cons.IH[OF r] show ?case by (simp add: select_start_def upt_conv_Cons del: upt_Suc)
qed simp

lemma digits_before_dash:
  assumes "show_nat m @ CHR ''-'' # xs = show_nat n @ CHR ''-'' # ys"
  shows "m = n \<and> xs = ys"
proof -
  have d: "takeWhile is_digit (show_nat k @ CHR ''-'' # zs) = show_nat k" for k zs
    using show_nat_digits[of k] by (subst takeWhile_append2) (simp_all add: list_all_iff is_digit_def)
  from arg_cong[OF assms, of "takeWhile is_digit"] have "m = n" unfolding d by simp
  then show ?thesis using assms by simp
qed

lemma optionId_inject: "optionId i s = optionId j t \<longleftrightarrow> ms_uid s = ms_uid t \<and> i = j"
  using digits_before_dash[of "ms_uid s" "''option-'' @ show_nat i" "ms_uid t" "''option-'' @ show_nat j"]
  by (fastforce simp: optionId_def)

lemma listboxId_inject: "listboxId s = listboxId t \<longleftrightarrow> ms_uid s = ms_uid t"
  by (simp add: listboxId_def)

lemma listbox_not_option: "listboxId s \<noteq> optionId i t"
proof
  assume "listboxId s = optionId i t"
  then have "hd (show_nat (ms_uid t)) = CHR ''l''"
    by (cases "show_nat (ms_uid t)") (auto simp: listboxId_def optionId_def)
  then show False using show_nat_digits[of "ms_uid t"]
    by (cases "show_nat (ms_uid t)") (auto simp: is_digit_def)
qed

text \<open>
  The identifiers in the document are unambiguous: the controls of a page, whatever
  has been done to each, have pairwise different list boxes, an option identifier names one
  option of one control, and no option has the identifier of a list box.
\<close>

theorem select_ids_unique:
  assumes "new_selects uss n = (ss, m)" and "i < length ss" and "j < length ss"
  shows "(listboxId (fold select_step es (ss ! i)) = listboxId (fold select_step fs (ss ! j)) \<longleftrightarrow> i = j) \<and>
    (optionId a (fold select_step es (ss ! i)) = optionId b (fold select_step fs (ss ! j)) \<longleftrightarrow> i = j \<and> a = b) \<and>
    listboxId (fold select_step es (ss ! i)) \<noteq> optionId b (fold select_step fs (ss ! j))"
proof -
  from uid_new_selects[OF assms(1)] have u: "map ms_uid ss = [n..<m]" by simp
  have "ms_uid (ss ! i) = ms_uid (ss ! j) \<longleftrightarrow> i = j"
    using arg_cong[OF u, of "\<lambda>xs. xs ! i"] arg_cong[OF u, of "\<lambda>xs. xs ! j"] arg_cong[OF u, of length] assms(2,3)
    by simp
  then show ?thesis
    by (simp add: optionId_inject listboxId_inject listbox_not_option)
qed

lemma arrow_key:
  assumes "k = ArrowDown \<or> k = ArrowUp" and "select_inv s" and t: "t = select_step (Key k) s"
  shows "ms_open t = (ms_open s \<or> k = ArrowDown \<and> \<not> ms_disabled s)"
    and "filtered t = [] \<Longrightarrow> ms_activeIndex t = -1"
    and "filtered t \<noteq> [] \<Longrightarrow> 0 \<le> ms_activeIndex t \<and> ms_activeIndex t < int (length (filtered t))"
proof -
  show "ms_open t = (ms_open s \<or> k = ArrowDown \<and> \<not> ms_disabled s)"
    using assms(1) by (auto simp: t openDropdown_def)
  have b: "-1 \<le> ms_activeIndex s" "-1 \<le> ms_activeIndex (openDropdown s)"
    using assms(2) by (simp_all add: select_inv_def)
  have f: "filtered t = filtered s" using assms(1) by (auto simp: t)
  note moves = moveActive_bounds[OF b(2), of 1 "length (filtered s)"]
    moveActive_bounds[OF b(1), of "-1" "length (filtered s)"]
  show "ms_activeIndex t = -1" if "filtered t = []"
    using assms(1) moves that unfolding f by (auto simp: t)
  show "0 \<le> ms_activeIndex t \<and> ms_activeIndex t < int (length (filtered t))" if "filtered t \<noteq> []"
    using assms(1) moves that unfolding f by (auto simp: t)
qed

lemma enter_nothing: "ms_activeIndex t = -1 \<Longrightarrow> select_step (Key Enter) t = t"
  by (simp add: at_index_def)

lemma enter_marked:
  assumes "0 \<le> ms_activeIndex t \<and> ms_activeIndex t < int (length (filtered t))"
  shows "\<exists>u \<in> set (filtered t). at_index (filtered t) (ms_activeIndex t) = Some u \<and>
    select_step (Key Enter) t = toggle_user (u_id u) t \<and>
    scrolled_option t = (if ms_open t then Some u else None)"
  using assms by (auto simp: at_index_def scrolled_option_def optionRefs_def)

text \<open>
  C31. After any sequence of keys, clicks and changes of its inputs, the selection of the
  multiple choice holds no user twice, and an arrow key puts the mark on a user that matches
  the query (on none when nobody does), which the Enter key after it adds or removes. The
  marked option is scrolled into view exactly when the list is open: the down arrow opens it
  unless the control is disabled, the up arrow leaves it as it was, so that on a closed list
  it marks, and Enter takes, a user that is not displayed.
\<close>

theorem select_keyboard:
  assumes "k = ArrowDown \<or> k = ArrowUp"
  shows "let s0 = fold select_step es (select_start n us); s = select_step (Key k) s0 in
    distinct (ms_selectedIds s0) \<and>
    ms_open s = (ms_open s0 \<or> k = ArrowDown \<and> \<not> ms_disabled s0) \<and>
    (if filtered s = [] then ms_activeIndex s = -1 \<and> select_step (Key Enter) s = s
     else \<exists>u \<in> set (filtered s). at_index (filtered s) (ms_activeIndex s) = Some u \<and>
       select_step (Key Enter) s = toggle_user (u_id u) s \<and>
       scrolled_option s = (if ms_open s then Some u else None))"
proof -
  let ?s = "fold select_step es (select_start n us)"
  have inv: "select_inv ?s" by (rule select_fold) (simp add: select_inv_def select_start_def)
  note key = arrow_key[OF assms inv refl]
  show ?thesis using inv key(1) key(2)[THEN enter_nothing] key(2) enter_marked[OF key(3)]
    unfolding Let_def select_inv_def by presburger
qed

theorem select_keyboard_witness:
  "distinct (ms_selectedIds (fold select_step [Toggle_user 4, Toggle_user 4, Toggle_user 2] (select_start 0 [])))"
  using select_keyboard[of ArrowDown "[Toggle_user 4, Toggle_user 4, Toggle_user 2]" 0 "[]"] by (simp add: Let_def)

end
