(* ===== verification/Users_Page.thy ===== *)
theory Users_Page
  imports Auth_Session User_Multi_Select
begin

text \<open>
  The users page (\<open>src/frontend/src/app/features/users/users.ts\<close>): the accounts (creation,
  deletion, activation, password), the groups, and the members of one group, picked with
  the multiple choice of \<open>User_Multi_Select\<close>.
\<close>

record user_form =
  uf_username :: string
  uf_display_name :: string
  uf_password :: string
  uf_confirm :: string

record group_form =
  gf_name :: string
  gf_description :: string
  gf_role :: role

record new_password =
  np_password :: string
  np_confirm :: string

datatype users_tab = Users_tab | Groups_tab

record users_accounts = auth_state +
  users :: "user list"
  known_groups :: "group_with_members list"
  loading :: bool
  loadError :: "string option"
  loggingOut :: bool
  showUserForm :: bool
  creatingUser :: bool
  userCreationError :: "string option"
  deletingUserId :: "int option"
  togglingUserId :: "int option"
  userModel :: user_form
  editingId :: "int option"
  saving :: bool
  formError :: "string option"
  successMessage :: "string option"
  pw_model :: new_password

record users_page = users_accounts +
  activeTab :: users_tab
  savingGroup :: bool
  groupFormError :: "string option"
  groupModel :: group_form
  showGroupForm :: bool
  editedGroupId :: "int option"
  editingGroupId :: "int option"
  selectedUserIds :: "int list"
  addingMembers :: bool
  groupMembers :: "user list"
  loadingMembers :: bool
  membersError :: "string option"
  removingMemberId :: "int option"

definition users_MIN_PASSWORD_LENGTH :: nat where
  "users_MIN_PASSWORD_LENGTH = 8"

definition no_user :: user_form where
  "no_user = \<lparr>uf_username = [], uf_display_name = [], uf_password = [], uf_confirm = []\<rparr>"

definition no_group :: group_form where
  "no_group = \<lparr>gf_name = [], gf_description = [], gf_role = Guest\<rparr>"

definition users_start :: "session_user option \<Rightarrow> users_page" where
  "users_start user =
     \<lparr>au_user = user, au_config = None, au_loaded = True,
      users = [], known_groups = [], loading = True, loadError = None, loggingOut = False,
      showUserForm = False, creatingUser = False, userCreationError = None, deletingUserId = None,
      togglingUserId = None, userModel = no_user, editingId = None, saving = False, formError = None,
      successMessage = None, pw_model = \<lparr>np_password = [], np_confirm = []\<rparr>,
      activeTab = Users_tab, savingGroup = False, groupFormError = None, groupModel = no_group,
      showGroupForm = False, editedGroupId = None, editingGroupId = None, selectedUserIds = [],
      addingMembers = False, groupMembers = [], loadingMembers = False, membersError = None,
      removingMemberId = None\<rparr>"

fun roleBadge :: "role \<Rightarrow> string" where
  "roleBadge Admin = ''text-bg-danger''"
| "roleBadge Mailbox_manager = ''text-bg-primary''"
| "roleBadge Guest = ''text-bg-secondary''"

definition roleOptions :: "role list" where
  "roleOptions = rev ROLES"

definition assignableUsers :: "users_page \<Rightarrow> user list" where
  "assignableUsers s =
     (let memberIds = set (map u_id (groupMembers s)) in filter (\<lambda>u. u_id u \<notin> memberIds) (users s))"

definition editingUser :: "users_page \<Rightarrow> user option" where
  "editingUser s = find (\<lambda>u. Some (u_id u) = editingId s) (users s)"

definition editingGroup :: "users_page \<Rightarrow> group_with_members option" where
  "editingGroup s = find (\<lambda>g. Some (g_id g) = editingGroupId s) (known_groups s)"

definition users_messageFor :: "js_error \<Rightarrow> string" where
  "users_messageFor err =
     (case err of
        HttpError status detail \<Rightarrow>
          if status = 409 then ''This account is managed by the identity provider.''
          else if status = 422 then
            ''Password must be at least '' @ show_nat users_MIN_PASSWORD_LENGTH @ '' characters.''
          else ''Unable to update the password. Please try again.''
      | OtherError \<Rightarrow> ''Unable to update the password. Please try again.'')"

definition apiErrorFor :: "js_error \<Rightarrow> string \<Rightarrow> string" where
  "apiErrorFor err fallback =
     (case err of
        HttpError status (Some detail) \<Rightarrow> if detail \<noteq> [] then detail else fallback
      | _ \<Rightarrow> fallback)"

section \<open>Loading\<close>

definition loadGroupMembers :: "int \<Rightarrow> users_page cmd" where
  "loadGroupMembers groupId =
     seq (assign (\<lambda>s. s\<lparr>loadingMembers := True\<rparr>))
     (attempt
       (fetch (getMembers groupId) (\<lambda>ms. assign (\<lambda>s. s\<lparr>groupMembers := ms\<rparr>)))
       (\<lambda>_. assign (\<lambda>s. s\<lparr>groupMembers := [], membersError := Some ''Unable to load the group members.''\<rparr>))
       (\<lambda>s. s\<lparr>loadingMembers := False\<rparr>))"

definition loadGroups :: "users_page cmd" where
  "loadGroups =
     try_catch
       (fetch groups_list (\<lambda>gs. assign (\<lambda>s. s\<lparr>known_groups := gs\<rparr>)))
       (\<lambda>_. assign (\<lambda>s. s\<lparr>loadError := Some ''Unable to load groups.''\<rparr>))"

definition loadUsers :: "users_page cmd" where
  "loadUsers =
     seq (assign (\<lambda>s. s\<lparr>loading := True, loadError := None\<rparr>))
     (attempt
       (fetch users_list (\<lambda>us. assign (\<lambda>s. s\<lparr>users := us\<rparr>)))
       (\<lambda>_. assign (\<lambda>s. s\<lparr>loadError := Some ''Unable to load users.''\<rparr>))
       (\<lambda>s. s\<lparr>loading := False\<rparr>))"

definition users_boot :: "users_page cmd" where
  "users_boot = all_of loadUsers loadGroups"

section \<open>Groups\<close>

definition closeGroupForm :: "users_page \<Rightarrow> users_page" where
  "closeGroupForm s =
     s\<lparr>showGroupForm := False, editedGroupId := None, groupModel := no_group, groupFormError := None\<rparr>"

definition startCreateGroup :: "users_page \<Rightarrow> users_page" where
  "startCreateGroup s =
     s\<lparr>editedGroupId := None, groupModel := no_group, groupFormError := None, showGroupForm := True\<rparr>"

definition startEditGroup :: "group_with_members \<Rightarrow> users_page \<Rightarrow> users_page" where
  "startEditGroup g s =
     s\<lparr>editedGroupId := Some (g_id g),
       groupModel := \<lparr>gf_name = g_name g, gf_description = g_description g, gf_role = g_role g\<rparr>,
       groupFormError := None, successMessage := None, showGroupForm := True\<rparr>"

definition submitGroup :: "bool \<Rightarrow> users_page cmd" where
  "submitGroup run =
     seq (assign (\<lambda>s. s\<lparr>groupFormError := None\<rparr>))
     (submit run
       (look (\<lambda>s0.
         let m = groupModel s0; name = gf_name m; groupId = editedGroupId s0 in
         if trim name = [] then
           assign (\<lambda>s. s\<lparr>groupFormError := Some ''Group name is required''\<rparr>)
         else
           seq (assign (\<lambda>s. s\<lparr>savingGroup := True\<rparr>))
           (attempt
             (seq
               (case groupId of
                  None \<Rightarrow>
                    fetch (groups_create name (gf_description m) (gf_role m)) (\<lambda>_.
                      assign (\<lambda>s. s\<lparr>successMessage := Some (''Group '' @ quoted name @ '' created successfully.'')\<rparr>))
                | Some gid \<Rightarrow>
                    fetch (groups_update gid name (gf_description m) (gf_role m)) (\<lambda>_.
                      assign (\<lambda>s. s\<lparr>successMessage := Some (''Group '' @ quoted name @ '' updated successfully.'')\<rparr>)))
               (seq (assign closeGroupForm) loadGroups))
             (\<lambda>err. assign (\<lambda>s. s\<lparr>groupFormError := Some (apiErrorFor err
                (if groupId = None then ''Unable to create the group.'' else ''Unable to update the group.''))\<rparr>))
             (\<lambda>s. s\<lparr>savingGroup := False\<rparr>)))))"

definition cancelEditingGroup :: "users_page \<Rightarrow> users_page" where
  "cancelEditingGroup s =
     s\<lparr>editingGroupId := None, selectedUserIds := [], groupMembers := [], membersError := None\<rparr>"

definition startEditingGroup :: "int \<Rightarrow> users_page cmd" where
  "startEditingGroup groupId =
     look (\<lambda>s0.
       if editingGroupId s0 = Some groupId then assign cancelEditingGroup
       else
         seq (assign (\<lambda>s. s\<lparr>editingGroupId := Some groupId, selectedUserIds := [], membersError := None,
                           successMessage := None\<rparr>))
         (loadGroupMembers groupId))"

definition addSelectedUsersToGroup :: "users_page cmd" where
  "addSelectedUsersToGroup =
     look (\<lambda>s0.
       let userIds = selectedUserIds s0 in
       case editingGroupId s0 of
         None \<Rightarrow> skip
       | Some groupId \<Rightarrow>
           if userIds = [] then skip
           else
             seq (assign (\<lambda>s. s\<lparr>membersError := None, addingMembers := True\<rparr>))
             (attempt
               (fetch (addMembers groupId userIds) (\<lambda>_.
                 seq (assign (\<lambda>s. s\<lparr>successMessage := Some
                        (''Added '' @ show_nat (length userIds) @ '' user(s) to the group.''),
                        selectedUserIds := []\<rparr>))
                 (all_of (loadGroupMembers groupId) loadGroups)))
               (\<lambda>err. assign (\<lambda>s. s\<lparr>membersError := Some (apiErrorFor err ''Unable to add the selected users.'')\<rparr>))
               (\<lambda>s. s\<lparr>addingMembers := False\<rparr>)))"

definition users_removeMember :: "user \<Rightarrow> users_page cmd" where
  "users_removeMember member =
     look (\<lambda>s0.
       case editingGroupId s0 of
         None \<Rightarrow> skip
       | Some groupId \<Rightarrow>
           seq (assign (\<lambda>s. s\<lparr>membersError := None, removingMemberId := Some (u_id member)\<rparr>))
           (attempt
             (fetch (removeMember groupId (u_id member)) (\<lambda>_.
               seq (assign (\<lambda>s. s\<lparr>successMessage := Some (''Removed '' @ u_username member @ '' from the group.'')\<rparr>))
               (all_of (loadGroupMembers groupId) loadGroups)))
             (\<lambda>err. assign (\<lambda>s. s\<lparr>membersError := Some
                (apiErrorFor err (''Unable to remove '' @ u_username member @ ''.''))\<rparr>))
             (\<lambda>s. s\<lparr>removingMemberId := None\<rparr>)))"

definition deleteGroup :: "(string \<Rightarrow> bool) \<Rightarrow> group_with_members \<Rightarrow> users_page cmd" where
  "deleteGroup ask g =
     (if \<not> ask (''Are you sure you want to delete the group '' @ quoted (g_name g) @ ''?'') then skip
      else
        seq (assign (\<lambda>s. s\<lparr>saving := True\<rparr>))
        (attempt
          (fetch (groups_delete (g_id g)) (\<lambda>_.
            seq (assign (\<lambda>s. s\<lparr>successMessage := Some (''Group '' @ quoted (g_name g) @ '' deleted.'')\<rparr>))
            (seq (assign (\<lambda>s. if editingGroupId s = Some (g_id g) then cancelEditingGroup s else s))
            (seq (assign (\<lambda>s. if editedGroupId s = Some (g_id g) then closeGroupForm s else s))
            loadGroups))))
          (\<lambda>err. assign (\<lambda>s. s\<lparr>loadError := Some
             (apiErrorFor err (''Unable to delete '' @ quoted (g_name g) @ ''.''))\<rparr>))
          (\<lambda>s. s\<lparr>saving := False\<rparr>)))"

section \<open>Accounts\<close>

definition startCreateUser :: "users_page \<Rightarrow> users_page" where
  "startCreateUser s = s\<lparr>userCreationError := None, successMessage := None, showUserForm := True\<rparr>"

definition cancelCreateUser :: "users_page \<Rightarrow> users_page" where
  "cancelCreateUser s = s\<lparr>showUserForm := False, userCreationError := None, userModel := no_user\<rparr>"

definition createUser :: "bool \<Rightarrow> users_page cmd" where
  "createUser run =
     seq (assign (\<lambda>s. s\<lparr>userCreationError := None, successMessage := None\<rparr>))
     (submit run
       (look (\<lambda>s0.
         let m = userModel s0 in
         if length (uf_password m) < users_MIN_PASSWORD_LENGTH then
           assign (\<lambda>s. s\<lparr>userCreationError := Some
             (''Password must be at least '' @ show_nat users_MIN_PASSWORD_LENGTH @ '' characters.'')\<rparr>)
         else if uf_password m \<noteq> uf_confirm m then
           assign (\<lambda>s. s\<lparr>userCreationError := Some ''Passwords do not match.''\<rparr>)
         else
           seq (assign (\<lambda>s. s\<lparr>creatingUser := True\<rparr>))
           (attempt
             (fetch (users_create (uf_username m) (uf_display_name m) (uf_password m)) (\<lambda>_.
               seq (assign (\<lambda>s. s\<lparr>successMessage := Some
                      (''User '' @ quoted (uf_username m) @ '' created. Add it to a group to grant a role.'')\<rparr>))
               (seq (assign cancelCreateUser) loadUsers)))
             (\<lambda>err. assign (\<lambda>s. s\<lparr>userCreationError := Some (apiErrorFor err ''Unable to create the user.'')\<rparr>))
             (\<lambda>s. s\<lparr>creatingUser := False\<rparr>)))))"

definition users_startEdit :: "user \<Rightarrow> users_page \<Rightarrow> users_page" where
  "users_startEdit u s =
     s\<lparr>editingId := Some (u_id u), formError := None, successMessage := None,
       pw_model := \<lparr>np_password = [], np_confirm = []\<rparr>\<rparr>"

definition users_cancelEdit :: "users_page \<Rightarrow> users_page" where
  "users_cancelEdit s = s\<lparr>editingId := None, formError := None\<rparr>"

definition deleteUser :: "(string \<Rightarrow> bool) \<Rightarrow> user \<Rightarrow> users_page cmd" where
  "deleteUser ask u =
     (if \<not> ask (''Are you sure you want to delete the account '' @ quoted (u_username u) @ ''?'') then skip
      else
        seq (assign (\<lambda>s. s\<lparr>loadError := None, successMessage := None, deletingUserId := Some (u_id u)\<rparr>))
        (attempt
          (fetch (users_delete (u_id u)) (\<lambda>_.
            seq (assign (\<lambda>s. s\<lparr>successMessage := Some (''User '' @ quoted (u_username u) @ '' deleted.'')\<rparr>))
            (seq (assign (\<lambda>s. if editingId s = Some (u_id u) then users_cancelEdit s else s))
            (all_of loadUsers loadGroups))))
          (\<lambda>err. assign (\<lambda>s. s\<lparr>loadError := Some
             (apiErrorFor err (''Unable to delete '' @ quoted (u_username u) @ ''.''))\<rparr>))
          (\<lambda>s. s\<lparr>deletingUserId := None\<rparr>)))"

definition toggleActive :: "(string \<Rightarrow> bool) \<Rightarrow> user \<Rightarrow> users_page cmd" where
  "toggleActive ask u =
     (let target = (\<not> u_is_active u) in
      if \<not> target \<and> \<not> ask (''Deactivate '' @ quoted (u_username u) @ ''? They will no longer be able to sign in.'') then skip
      else
        seq (assign (\<lambda>s. s\<lparr>loadError := None, successMessage := None, togglingUserId := Some (u_id u)\<rparr>))
        (attempt
          (fetch (setActive (u_id u) target) (\<lambda>_.
            seq (assign (\<lambda>s. s\<lparr>successMessage := Some
                   (''User '' @ quoted (u_username u) @ '' '' @ (if target then ''activated'' else ''deactivated'') @ ''.'')\<rparr>))
            loadUsers))
          (\<lambda>err. assign (\<lambda>s. s\<lparr>loadError := Some (apiErrorFor err
             (''Unable to '' @ (if target then ''activate'' else ''deactivate'') @ '' '' @ quoted (u_username u) @ ''.''))\<rparr>))
          (\<lambda>s. s\<lparr>togglingUserId := None\<rparr>)))"

definition users_onSubmit :: "bool \<Rightarrow> users_page cmd" where
  "users_onSubmit run =
     seq (assign (\<lambda>s. s\<lparr>formError := None, successMessage := None\<rparr>))
     (submit run
       (look (\<lambda>s0.
         let m = pw_model s0 in
         if length (np_password m) < users_MIN_PASSWORD_LENGTH then
           assign (\<lambda>s. s\<lparr>formError := Some
             (''Password must be at least '' @ show_nat users_MIN_PASSWORD_LENGTH @ '' characters.'')\<rparr>)
         else if np_password m \<noteq> np_confirm m then
           assign (\<lambda>s. s\<lparr>formError := Some ''Passwords do not match.''\<rparr>)
         else
           (case editingUser s0 of
              None \<Rightarrow> skip
            | Some target \<Rightarrow>
                seq (assign (\<lambda>s. s\<lparr>saving := True\<rparr>))
                (attempt
                  (fetch (changePassword (u_id target) (np_password m)) (\<lambda>_.
                    assign (\<lambda>s. s\<lparr>successMessage := Some (''Password updated for '' @ u_username target @ ''.''),
                                 editingId := None\<rparr>)))
                  (\<lambda>err. assign (\<lambda>s. s\<lparr>formError := Some (users_messageFor err)\<rparr>))
                  (\<lambda>s. s\<lparr>saving := False\<rparr>))))))"

definition users_onLogout :: "users_page cmd" where
  "users_onLogout =
     seq (assign (\<lambda>s. s\<lparr>loggingOut := True\<rparr>))
     (try_finally (seq auth_logout (navigate ''/login'')) (\<lambda>s. s\<lparr>loggingOut := False\<rparr>))"

section \<open>Events\<close>

datatype users_event =
    Show_tab users_tab
  | Type_user user_form
  | Type_group group_form
  | Type_password new_password
  | Submit_group bool
  | Start_create_group
  | Start_edit_group group_with_members
  | Close_group_form
  | Start_editing_group int
  | Cancel_editing_group
  | Select_toggle int
  | Select_remove int
  | Select_clear
  | Add_selected
  | Remove_member user
  | Delete_group "string \<Rightarrow> bool" group_with_members
  | Create_user bool
  | Start_create_user
  | Cancel_create_user
  | Delete_user "string \<Rightarrow> bool" user
  | Toggle_active "string \<Rightarrow> bool" user
  | Start_edit user
  | Cancel_edit
  | Submit_password bool
  | Sign_out

fun users_handle :: "users_event \<Rightarrow> users_page cmd" where
  "users_handle (Show_tab t) = assign (\<lambda>s. s\<lparr>activeTab := t\<rparr>)"
| "users_handle (Type_user m) = assign (\<lambda>s. s\<lparr>userModel := m\<rparr>)"
| "users_handle (Type_group m) = assign (\<lambda>s. s\<lparr>groupModel := m\<rparr>)"
| "users_handle (Type_password m) = assign (\<lambda>s. s\<lparr>pw_model := m\<rparr>)"
| "users_handle (Submit_group run) = submitGroup run"
| "users_handle Start_create_group = assign startCreateGroup"
| "users_handle (Start_edit_group g) = assign (startEditGroup g)"
| "users_handle Close_group_form = assign closeGroupForm"
| "users_handle (Start_editing_group i) = startEditingGroup i"
| "users_handle Cancel_editing_group = assign cancelEditingGroup"
| "users_handle (Select_toggle i) = assign (\<lambda>s. s\<lparr>selectedUserIds := toggle_ids i (selectedUserIds s)\<rparr>)"
| "users_handle (Select_remove i) = assign (\<lambda>s. s\<lparr>selectedUserIds := remove_ids i (selectedUserIds s)\<rparr>)"
| "users_handle Select_clear = assign (\<lambda>s. s\<lparr>selectedUserIds := []\<rparr>)"
| "users_handle Add_selected = addSelectedUsersToGroup"
| "users_handle (Remove_member u) = users_removeMember u"
| "users_handle (Delete_group ask g) = deleteGroup ask g"
| "users_handle (Create_user run) = createUser run"
| "users_handle Start_create_user = assign startCreateUser"
| "users_handle Cancel_create_user = assign cancelCreateUser"
| "users_handle (Delete_user ask u) = deleteUser ask u"
| "users_handle (Toggle_active ask u) = toggleActive ask u"
| "users_handle (Start_edit u) = assign (users_startEdit u)"
| "users_handle Cancel_edit = assign users_cancelEdit"
| "users_handle (Submit_password run) = users_onSubmit run"
| "users_handle Sign_out = users_onLogout"

lemmas users_defs =
  loadGroupMembers_def loadGroups_def loadUsers_def users_boot_def closeGroupForm_def
  startCreateGroup_def startEditGroup_def submitGroup_def cancelEditingGroup_def startEditingGroup_def
  addSelectedUsersToGroup_def users_removeMember_def deleteGroup_def startCreateUser_def
  cancelCreateUser_def createUser_def users_startEdit_def users_cancelEdit_def deleteUser_def
  toggleActive_def users_onSubmit_def users_onLogout_def

section \<open>Busy flags, requests, the selection\<close>

definition users_flags :: "(users_page \<Rightarrow> bool) list" where
  "users_flags =
     [loading, loggingOut, creatingUser, saving, savingGroup, addingMembers, loadingMembers,
      \<lambda>s. is_some (deletingUserId s), \<lambda>s. is_some (togglingUserId s), \<lambda>s. is_some (removingMemberId s)]"

interpretation users_quiet: quiet_page users_handle users_boot "users_start user" users_flags for user
proof
  show "list_all (\<lambda>f. clears f users_boot \<or> tame f users_boot \<and> \<not> f (users_start user)) users_flags"
    by (simp add: users_flags_def users_start_def users_defs page_defs tame_intros)
  show "list_all (\<lambda>f. tame f (users_handle e)) users_flags" for e
    by (cases e) (simp_all add: users_flags_def users_defs auth_defs page_defs tame_intros)
qed

interpretation users_settling: settling_page users_handle users_boot "users_start user" users_flags 3 for user
proof unfold_locales
  show "ends 3 users_boot"
    unfolding users_defs page_defs by (rule ends_mono, (rule ends_intros)+, simp)
  show "ends 3 (users_handle e)" for e
    by (cases e; simp only: users_handle.simps users_defs auth_defs page_defs;
        rule ends_mono, (rule ends_intros)+, simp)
qed

inductive users_request :: "request \<Rightarrow> bool" where
  "users_request (fst users_list)"
| "users_request (fst groups_list)"
| "users_request (fst (getMembers g))"
| "users_MIN_PASSWORD_LENGTH \<le> length pw \<Longrightarrow> users_request (fst (users_create n d pw))"
| "users_MIN_PASSWORD_LENGTH \<le> length pw \<Longrightarrow> users_request (fst (changePassword i pw))"
| "users_request (fst (users_delete i))"
| "users_request (fst (setActive i b))"
| "trim n \<noteq> [] \<Longrightarrow> users_request (fst (groups_create n d r))"
| "trim n \<noteq> [] \<Longrightarrow> users_request (fst (groups_update g n d r))"
| "users_request (fst (groups_delete g))"
| "ids \<noteq> [] \<Longrightarrow> users_request (fst (addMembers g ids))"
| "users_request (fst (removeMember g i))"
| "users_request (fst auth_logout_endpoint)"
| "users_request (Navigate ''/login'')"

interpretation users_guarded:
  guarded_page users_handle users_boot "users_start user" users_request for user
proof
  show "sends users_request users_boot"
    by (simp add: users_defs page_defs send_intros users_request.intros)
  show "sends users_request (users_handle e)" for e
    by (cases e) (simp_all add: users_defs auth_logout_def page_defs send_intros users_request.intros)
qed

text \<open>The selection never holds a user twice.\<close>

definition users_inv :: "users_page \<Rightarrow> bool" where
  "users_inv s = distinct (selectedUserIds s)"

interpretation users_steady:
  steady_page users_handle users_boot "users_start user" users_inv for user
proof
  show "users_inv (users_start user)" by (simp add: users_inv_def users_start_def)
  show "segs (keeps users_inv) users_boot"
    by (simp add: users_defs page_defs seg_intros users_inv_def keeps_def)
  show "segs (keeps users_inv) (users_handle e)" for e
    by (cases e) (simp_all add: users_defs auth_logout_def page_defs seg_intros users_inv_def keeps_def)
qed

section \<open>Properties\<close>

lemmas users_run =
  run_defs users_defs endpoint_defs users_start_def no_user_def no_group_def users_MIN_PASSWORD_LENGTH_def
  users_list_def groups_list_def as_users_def as_groups_def Let_def

text \<open>
  C18. Every request the users page is waiting for, in every interleaving, is one of those of
  \<open>users_request\<close>: an account is created and a password set only with at least eight
  characters, a group is only saved with a name that is not blank, and members are only
  added when some are selected.
\<close>

theorem users_requests_valid:
  assumes "reachable users_handle users_boot (users_start user) s ps"
    and "q \<in> in_flight ps"
  shows "users_request q"
  using assms by (rule users_guarded.sent)

theorem users_requests_valid_witness:
  "users_request (Api POST ''/api/users'' [] (Some (JObj
     [(''username'', JStr ''ann''), (''display_name'', JStr ''Ann''), (''password'', JStr ''longenough'')])))"
  by (rule users_requests_valid[OF run_reach[where steps =
        "[Event (Type_user \<lparr>uf_username = ''ann'', uf_display_name = ''Ann'', uf_password = ''longenough'',
            uf_confirm = ''longenough''\<rparr>), Event (Create_user True)]"]])
    (simp add: users_run users_create_def)

text \<open>
  C19. Adding the selected users to the group on display: one request carries exactly the
  selection. On an error the selection stays, the message is the one of the backend when
  it sends one, and the button is free again. On success the selection is empty and both the
  members and the groups are read again.
\<close>

theorem add_members_flow:
  assumes "editingGroupId s = Some g" and "selectedUserIds s = ids" and "ids \<noteq> []"
  shows "fst (addSelectedUsersToGroup s) = s\<lparr>membersError := None, addingMembers := True\<rparr> \<and>
    outstanding (snd (addSelectedUsersToGroup s)) = [fst (addMembers g ids)] \<and>
    (\<forall>e t. deliver [] (Inl e) (snd (addSelectedUsersToGroup s)) t =
       (t\<lparr>membersError := Some (apiErrorFor e ''Unable to add the selected users.''), addingMembers := False\<rparr>, Done)) \<and>
    (\<forall>v t. fst (deliver [] (ok v) (snd (addSelectedUsersToGroup s)) t) =
         t\<lparr>successMessage := Some (''Added '' @ show_nat (length ids) @ '' user(s) to the group.''),
           selectedUserIds := [], loadingMembers := True\<rparr> \<and>
       outstanding (snd (deliver [] (ok v) (snd (addSelectedUsersToGroup s)) t)) =
         [fst (getMembers g), fst groups_list])"
  using assms
proof -
  have "snd (addMembers g ids) v = Some ()" for v by (simp add: addMembers_def as_void_def)
  then show ?thesis using assms
    by (simp add: addSelectedUsersToGroup_def loadGroupMembers_def loadGroups_def run_defs endpoint_defs)
qed

theorem add_members_flow_witness:
  "outstanding (snd (addSelectedUsersToGroup ((users_start None)\<lparr>editingGroupId := Some 3, selectedUserIds := [5, 8]\<rparr>))) =
     [Api POST ''/api/groups/3/members/batch'' [] (Some (JObj [(''user_ids'', JArr [JNum (Num 5), JNum (Num 8)])]))]"
  using add_members_flow[of "(users_start None)\<lparr>editingGroupId := Some 3, selectedUserIds := [5, 8]\<rparr>" 3 "[5, 8]"]
  unfolding addMembers_def show_int_def show_nat.simps[of "nat 3"] by simp

text \<open>
  C20. The users page comes to rest: once the user stops, at most three answers can still come
  for each method that was started, and when none is left no busy flag of accounts,
  groups and members is raised.
\<close>

theorem users_settles:
  assumes "reachable users_handle users_boot (users_start user) s ps"
    and "answered (s, ps) n (t, qs)"
  shows "n \<le> 3 * length ps \<and>
    (exhausted qs \<longrightarrow>
      \<not> loading t \<and> \<not> loggingOut t \<and> \<not> creatingUser t \<and> \<not> saving t \<and> \<not> savingGroup t \<and>
      \<not> addingMembers t \<and> \<not> loadingMembers t \<and> deletingUserId t = None \<and> togglingUserId t = None \<and>
      removingMemberId t = None)"
  using users_settling.settles[OF assms] by (simp add: users_flags_def is_some_iff)

theorem users_settles_witness:
  "\<not> loadingMembers (fst (the (give [(0, [True], failed 500), (1, [], failed 404),
     (0, [False], ok (P_Account (V_Users [])))]
     (run_page users_handle users_boot (users_start None) [Event (Start_editing_group 7)]))))"
proof -
  let ?c = "run_page users_handle users_boot (users_start None) [Event (Start_editing_group 7)]"
  let ?as = "[(0, [True], failed 500), (1, [], failed 404), (0, [False], ok (P_Account (V_Users [])))]"
  have "\<exists>d. give ?as ?c = Some d \<and> exhausted (snd d)"
    by (simp add: users_run getMembers_def exhausted_def)
  then obtain d where g: "give ?as ?c = Some d" and e: "exhausted (snd d)" by blast
  from users_settles[OF run_reach give_run[OF g]] show ?thesis using e g by simp
qed

end
