(* ===== verification/Mailboxes_Page.thy ===== *)
theory Mailboxes_Page
  imports Auth_Session
begin

text \<open>
  The mailboxes page (\<open>src/frontend/src/app/features/mailboxes/mailboxes.ts\<close>): the list,
  the creation form, and the panel of one mailbox (password, quota, aliases, Sieve
  filter).
\<close>

definition MIN_PASSWORD_LENGTH :: nat where
  "MIN_PASSWORD_LENGTH = 8"

text \<open>\<open>/^\d+[KMGT]$/\<close>\<close>

definition QUOTA_PATTERN :: "string \<Rightarrow> bool" where
  "QUOTA_PATTERN s =
     (2 \<le> length s \<and> list_all is_digit (butlast s) \<and> last s \<in> set ''KMGT'')"

record create_form =
  cm_email :: string
  cm_password :: string
  cm_confirm :: string
  cm_quota :: string

record password_form =
  pm_password :: string
  pm_confirm :: string

record mailboxes_overview = auth_state +
  mailboxes :: "mailbox list"
  loading :: bool
  loadError :: "string option"
  loggingOut :: bool
  quotasEnabled :: bool
  successMessage :: "string option"
  creating :: bool
  createError :: "string option"
  createModel :: create_form
  managingEmail :: "string option"
  deletingEmail :: "string option"

record mailboxes_page = mailboxes_overview +
  saving :: bool
  formError :: "string option"
  pwModel :: password_form
  quotaValue :: string
  savingQuota :: bool
  quotaError :: "string option"
  aliases :: "mail_alias list"
  aliasesLoading :: bool
  aliasError :: "string option"
  addingAlias :: bool
  removingAlias :: "string option"
  aliasModel :: string
  sieveContent :: string
  sieveConfigured :: bool
  sieveLoading :: bool
  savingSieve :: bool
  removingSieve :: bool
  sieveError :: "string option"

definition no_create :: create_form where
  "no_create = \<lparr>cm_email = [], cm_password = [], cm_confirm = [], cm_quota = []\<rparr>"

definition no_password :: password_form where
  "no_password = \<lparr>pm_password = [], pm_confirm = []\<rparr>"

text \<open>The page as constructed, over the session it finds.\<close>

definition mailboxes_start :: "session_user option \<Rightarrow> mailboxes_page" where
  "mailboxes_start user =
     \<lparr>au_user = user, au_config = None, au_loaded = True,
      mailboxes = [], loading = True, loadError = None, loggingOut = False, quotasEnabled = True,
      successMessage = None, creating = False, createError = None, createModel = no_create,
      managingEmail = None, deletingEmail = None,
      saving = False, formError = None, pwModel = no_password, quotaValue = [], savingQuota = False,
      quotaError = None, aliases = [], aliasesLoading = False, aliasError = None, addingAlias = False,
      removingAlias = None, aliasModel = [], sieveContent = [], sieveConfigured = False,
      sieveLoading = False, savingSieve = False, removingSieve = False, sieveError = None\<rparr>"

definition mailboxes_messageFor :: "js_error \<Rightarrow> string" where
  "mailboxes_messageFor err =
     (case err of
        HttpError status detail \<Rightarrow>
          if status = 409 then ''This address is already in use (mailbox or alias).''
          else if status = 404 then ''This mailbox or alias no longer exists.''
          else if status = 400 then ''Invalid request. Check the address and the mailserver config volume.''
          else if status = 422 then ''Invalid input. Check the email, password (min 8 chars) and quota format.''
          else ''Something went wrong. Please try again.''
      | OtherError \<Rightarrow> ''Something went wrong. Please try again.'')"

definition quota_message :: string where
  "quota_message = ''Quota must be a number followed by K, M, G or T (e.g. 5G).''"

definition password_message :: string where
  "password_message = ''Password must be at least '' @ show_nat MIN_PASSWORD_LENGTH @ '' characters.''"

section \<open>Loading\<close>

definition loadMailboxes :: "mailboxes_page cmd" where
  "loadMailboxes =
     seq (assign (\<lambda>s. s\<lparr>loading := True, loadError := None\<rparr>))
     (attempt
       (fetch mailboxes_list (\<lambda>list. assign (\<lambda>s. s\<lparr>mailboxes := list\<rparr>)))
       (\<lambda>_. assign (\<lambda>s. s\<lparr>loadError := Some ''Unable to load mailboxes.''\<rparr>))
       (\<lambda>s. s\<lparr>loading := False\<rparr>))"

definition loadFeatures :: "mailboxes_page cmd" where
  "loadFeatures =
     try_catch
       (fetch mailboxes_features (\<lambda>f. assign (\<lambda>s. s\<lparr>quotasEnabled := mf_quotas_enabled f\<rparr>)))
       (\<lambda>_. assign (\<lambda>s. s\<lparr>quotasEnabled := True\<rparr>))"

text \<open>\<open>void this.loadMailboxes(); void this.loadFeatures();\<close>: both start, neither is awaited.\<close>

definition mailboxes_boot :: "mailboxes_page cmd" where
  "mailboxes_boot = all_of loadMailboxes loadFeatures"

definition loadAliases :: "string \<Rightarrow> mailboxes_page cmd" where
  "loadAliases email =
     seq (assign (\<lambda>s. s\<lparr>aliasesLoading := True, aliases := []\<rparr>))
     (attempt
       (fetch (listAliases email) (\<lambda>list. assign (\<lambda>s. s\<lparr>aliases := list\<rparr>)))
       (\<lambda>_. assign (\<lambda>s. s\<lparr>aliasError := Some ''Unable to load aliases.''\<rparr>))
       (\<lambda>s. s\<lparr>aliasesLoading := False\<rparr>))"

definition loadSieve :: "string \<Rightarrow> mailboxes_page cmd" where
  "loadSieve email =
     seq (assign (\<lambda>s. s\<lparr>sieveLoading := True, sieveContent := [], sieveConfigured := False\<rparr>))
     (attempt
       (fetch (mailbox_getSieveScript email) (\<lambda>script.
          assign (\<lambda>s. s\<lparr>sieveContent := ms_content script, sieveConfigured := ms_configured script\<rparr>)))
       (\<lambda>_. assign (\<lambda>s. s\<lparr>sieveError := Some ''Unable to load the Sieve filter.''\<rparr>))
       (\<lambda>s. s\<lparr>sieveLoading := False\<rparr>))"

section \<open>Creation, deletion, sign-out\<close>

definition mailboxes_onCreate :: "bool \<Rightarrow> mailboxes_page cmd" where
  "mailboxes_onCreate run =
     seq (assign (\<lambda>s. s\<lparr>createError := None, successMessage := None\<rparr>))
     (submit run
       (look (\<lambda>s0.
         let m = createModel s0 in
         if length (cm_password m) < MIN_PASSWORD_LENGTH then
           assign (\<lambda>s. s\<lparr>createError := Some password_message\<rparr>)
         else if cm_password m \<noteq> cm_confirm m then
           assign (\<lambda>s. s\<lparr>createError := Some ''Passwords do not match.''\<rparr>)
         else
           let cleanQuota = to_upper (trim (cm_quota m)) in
           if cleanQuota \<noteq> [] \<and> \<not> QUOTA_PATTERN cleanQuota then
             assign (\<lambda>s. s\<lparr>createError := Some quota_message\<rparr>)
           else
             let address = to_lower (trim (cm_email m)) in
             seq (assign (\<lambda>s. s\<lparr>creating := True\<rparr>))
             (attempt
               (fetch (mailboxes_create address (cm_password m) (or_null cleanQuota)) (\<lambda>_.
                 seq (assign (\<lambda>s. s\<lparr>successMessage := Some (''Mailbox '' @ address @ '' created.''),
                                   createModel := no_create\<rparr>))
                 loadMailboxes))
               (\<lambda>err. assign (\<lambda>s. s\<lparr>createError := Some (mailboxes_messageFor err)\<rparr>))
               (\<lambda>s. s\<lparr>creating := False\<rparr>)))))"

definition mailboxes_onDelete :: "(string \<Rightarrow> bool) \<Rightarrow> mailbox \<Rightarrow> mailboxes_page cmd" where
  "mailboxes_onDelete ask mailbox =
     (if \<not> ask (''Delete mailbox '' @ mb_email mailbox @ ''? The stored mail is left on disk.'') then skip
      else
        seq (assign (\<lambda>s. s\<lparr>successMessage := None, loadError := None,
                          deletingEmail := Some (mb_email mailbox)\<rparr>))
        (attempt
          (fetch (mailboxes_delete (mb_email mailbox)) (\<lambda>_.
            seq (assign (\<lambda>s. if managingEmail s = Some (mb_email mailbox) then s\<lparr>managingEmail := None\<rparr> else s))
            (seq (assign (\<lambda>s. s\<lparr>successMessage := Some (''Mailbox '' @ mb_email mailbox @ '' deleted.'')\<rparr>))
            loadMailboxes)))
          (\<lambda>err. assign (\<lambda>s. s\<lparr>loadError := Some (mailboxes_messageFor err)\<rparr>))
          (\<lambda>s. s\<lparr>deletingEmail := None\<rparr>)))"

definition mailboxes_onLogout :: "mailboxes_page cmd" where
  "mailboxes_onLogout =
     seq (assign (\<lambda>s. s\<lparr>loggingOut := True\<rparr>))
     (try_finally (seq auth_logout (navigate ''/login'')) (\<lambda>s. s\<lparr>loggingOut := False\<rparr>))"

section \<open>The panel of a mailbox\<close>

definition toggleManage :: "mailbox \<Rightarrow> mailboxes_page cmd" where
  "toggleManage mailbox =
     look (\<lambda>s0.
       if managingEmail s0 = Some (mb_email mailbox) then assign (\<lambda>s. s\<lparr>managingEmail := None\<rparr>)
       else
         seq (assign (\<lambda>s. s\<lparr>managingEmail := Some (mb_email mailbox), formError := None, quotaError := None,
                           aliasError := None, sieveError := None, successMessage := None,
                           pwModel := no_password, aliasModel := [],
                           quotaValue := (case mb_quota mailbox of None \<Rightarrow> [] | Some q \<Rightarrow> q)\<rparr>))
         (all_of (loadAliases (mb_email mailbox)) (loadSieve (mb_email mailbox))))"

definition onResetPassword :: "bool \<Rightarrow> mailboxes_page cmd" where
  "onResetPassword run =
     seq (assign (\<lambda>s. s\<lparr>formError := None, successMessage := None\<rparr>))
     (submit run
       (look (\<lambda>s0.
         let m = pwModel s0 in
         when_text (managingEmail s0) (\<lambda>email.
           if length (pm_password m) < MIN_PASSWORD_LENGTH then
             assign (\<lambda>s. s\<lparr>formError := Some password_message\<rparr>)
           else if pm_password m \<noteq> pm_confirm m then
             assign (\<lambda>s. s\<lparr>formError := Some ''Passwords do not match.''\<rparr>)
           else
             seq (assign (\<lambda>s. s\<lparr>saving := True\<rparr>))
             (attempt
               (fetch (resetPassword email (pm_password m)) (\<lambda>_.
                 assign (\<lambda>s. s\<lparr>successMessage := Some (''Password updated for '' @ email @ ''.''),
                              pwModel := no_password\<rparr>)))
               (\<lambda>err. assign (\<lambda>s. s\<lparr>formError := Some (mailboxes_messageFor err)\<rparr>))
               (\<lambda>s. s\<lparr>saving := False\<rparr>))))))"

definition onSaveQuota :: "mailboxes_page cmd" where
  "onSaveQuota =
     look (\<lambda>s0.
       when_text (managingEmail s0) (\<lambda>email.
         let value = to_upper (trim (quotaValue s0)) in
         if value \<noteq> [] \<and> \<not> QUOTA_PATTERN value then
           assign (\<lambda>s. s\<lparr>quotaError := Some quota_message\<rparr>)
         else
           seq (assign (\<lambda>s. s\<lparr>quotaError := None, successMessage := None, savingQuota := True\<rparr>))
           (attempt
             (fetch (setQuota email (or_null value)) (\<lambda>_.
               seq (assign (\<lambda>s. s\<lparr>successMessage := Some
                     (if value \<noteq> [] then ''Quota set to '' @ value @ '' for '' @ email @ ''.''
                      else ''Quota cleared for '' @ email @ ''.'')\<rparr>))
               loadMailboxes))
             (\<lambda>err. assign (\<lambda>s. s\<lparr>quotaError := Some (mailboxes_messageFor err)\<rparr>))
             (\<lambda>s. s\<lparr>savingQuota := False\<rparr>))))"

definition onAddAlias :: "bool \<Rightarrow> mailboxes_page cmd" where
  "onAddAlias run =
     seq (assign (\<lambda>s. s\<lparr>aliasError := None\<rparr>))
     (submit run
       (look (\<lambda>s0.
         let alias = to_lower (trim (aliasModel s0)) in
         when_text (managingEmail s0) (\<lambda>email.
           if alias = [] then skip
           else
             seq (assign (\<lambda>s. s\<lparr>addingAlias := True\<rparr>))
             (attempt
               (fetch (addAlias email alias) (\<lambda>_.
                 seq (assign (\<lambda>s. s\<lparr>aliasModel := []\<rparr>)) (loadAliases email)))
               (\<lambda>err. assign (\<lambda>s. s\<lparr>aliasError := Some (mailboxes_messageFor err)\<rparr>))
               (\<lambda>s. s\<lparr>addingAlias := False\<rparr>))))))"

definition onRemoveAlias :: "string \<Rightarrow> mailboxes_page cmd" where
  "onRemoveAlias alias =
     look (\<lambda>s0.
       when_text (managingEmail s0) (\<lambda>email.
         seq (assign (\<lambda>s. s\<lparr>aliasError := None, removingAlias := Some alias\<rparr>))
         (attempt
           (fetch (deleteAlias email alias) (\<lambda>_. loadAliases email))
           (\<lambda>err. assign (\<lambda>s. s\<lparr>aliasError := Some (mailboxes_messageFor err)\<rparr>))
           (\<lambda>s. s\<lparr>removingAlias := None\<rparr>))))"

definition onSaveSieve :: "mailboxes_page cmd" where
  "onSaveSieve =
     look (\<lambda>s0.
       when_text (managingEmail s0) (\<lambda>email.
         seq (assign (\<lambda>s. s\<lparr>sieveError := None, successMessage := None, savingSieve := True\<rparr>))
         (attempt
           (fetch (mailbox_setSieveScript email (sieveContent s0)) (\<lambda>script.
             assign (\<lambda>s. s\<lparr>sieveContent := ms_content script, sieveConfigured := ms_configured script,
                          successMessage := Some
                            (if ms_configured script
                             then ''Sieve filter saved for '' @ email @ ''. Restart the mailserver to apply it.''
                             else ''Sieve filter removed for '' @ email @ ''.'')\<rparr>)))
           (\<lambda>err. assign (\<lambda>s. s\<lparr>sieveError := Some (mailboxes_messageFor err)\<rparr>))
           (\<lambda>s. s\<lparr>savingSieve := False\<rparr>))))"

definition onRemoveSieve :: "(string \<Rightarrow> bool) \<Rightarrow> mailboxes_page cmd" where
  "onRemoveSieve ask =
     look (\<lambda>s0.
       when_text (managingEmail s0) (\<lambda>email.
         if \<not> ask (''Remove the Sieve filter of '' @ email @ ''?'') then skip
         else
           seq (assign (\<lambda>s. s\<lparr>sieveError := None, successMessage := None, removingSieve := True\<rparr>))
           (attempt
             (fetch (mailbox_deleteSieveScript email) (\<lambda>_.
               assign (\<lambda>s. s\<lparr>sieveContent := [], sieveConfigured := False,
                            successMessage := Some (''Sieve filter removed for '' @ email @ ''.'')\<rparr>)))
             (\<lambda>err. assign (\<lambda>s. s\<lparr>sieveError := Some (mailboxes_messageFor err)\<rparr>))
             (\<lambda>s. s\<lparr>removingSieve := False\<rparr>))))"

section \<open>Events\<close>

datatype mailboxes_event =
    Type_create create_form
  | Type_password password_form
  | Type_alias string
  | Quota_input string
  | Sieve_input string
  | Create_mailbox bool
  | Toggle_manage mailbox
  | Reset_password bool
  | Save_quota
  | Add_alias bool
  | Remove_alias string
  | Save_sieve
  | Remove_sieve "string \<Rightarrow> bool"
  | Delete_mailbox "string \<Rightarrow> bool" mailbox
  | Sign_out

fun mailboxes_handle :: "mailboxes_event \<Rightarrow> mailboxes_page cmd" where
  "mailboxes_handle (Type_create m) = assign (\<lambda>s. s\<lparr>createModel := m\<rparr>)"
| "mailboxes_handle (Type_password m) = assign (\<lambda>s. s\<lparr>pwModel := m\<rparr>)"
| "mailboxes_handle (Type_alias v) = assign (\<lambda>s. s\<lparr>aliasModel := v\<rparr>)"
| "mailboxes_handle (Quota_input v) = assign (\<lambda>s. s\<lparr>quotaValue := v\<rparr>)"
| "mailboxes_handle (Sieve_input v) = assign (\<lambda>s. s\<lparr>sieveContent := v\<rparr>)"
| "mailboxes_handle (Create_mailbox run) = mailboxes_onCreate run"
| "mailboxes_handle (Toggle_manage m) = toggleManage m"
| "mailboxes_handle (Reset_password run) = onResetPassword run"
| "mailboxes_handle Save_quota = onSaveQuota"
| "mailboxes_handle (Add_alias run) = onAddAlias run"
| "mailboxes_handle (Remove_alias a) = onRemoveAlias a"
| "mailboxes_handle Save_sieve = onSaveSieve"
| "mailboxes_handle (Remove_sieve ask) = onRemoveSieve ask"
| "mailboxes_handle (Delete_mailbox ask m) = mailboxes_onDelete ask m"
| "mailboxes_handle Sign_out = mailboxes_onLogout"

lemmas mailboxes_defs =
  loadMailboxes_def loadFeatures_def mailboxes_boot_def loadAliases_def loadSieve_def
  mailboxes_onCreate_def mailboxes_onDelete_def mailboxes_onLogout_def toggleManage_def
  onResetPassword_def onSaveQuota_def onAddAlias_def onRemoveAlias_def onSaveSieve_def
  onRemoveSieve_def

section \<open>Busy flags and requests in every interleaving\<close>

definition mailboxes_flags :: "(mailboxes_page \<Rightarrow> bool) list" where
  "mailboxes_flags =
     [loading, loggingOut, creating, saving, savingQuota, aliasesLoading, addingAlias,
      sieveLoading, savingSieve, removingSieve,
      \<lambda>s. is_some (deletingEmail s), \<lambda>s. is_some (removingAlias s)]"

interpretation mailboxes_quiet:
  quiet_page mailboxes_handle mailboxes_boot "mailboxes_start user" mailboxes_flags for user
proof
  show "list_all (\<lambda>f. clears f mailboxes_boot \<or> tame f mailboxes_boot \<and> \<not> f (mailboxes_start user)) mailboxes_flags"
    by (simp add: mailboxes_flags_def mailboxes_start_def mailboxes_defs page_defs tame_intros)
  show "list_all (\<lambda>f. tame f (mailboxes_handle e)) mailboxes_flags" for e
    by (cases e) (simp_all add: mailboxes_flags_def mailboxes_defs auth_defs page_defs tame_intros)
qed

interpretation mailboxes_settling: settling_page mailboxes_handle mailboxes_boot "mailboxes_start user" mailboxes_flags 2 for user
proof unfold_locales
  show "ends 2 mailboxes_boot"
    unfolding mailboxes_defs page_defs by (rule ends_mono, (rule ends_intros)+, simp)
  show "ends 2 (mailboxes_handle e)" for e
    by (cases e; simp only: mailboxes_handle.simps mailboxes_defs auth_defs page_defs;
        rule ends_mono, (rule ends_intros)+, simp)
qed

definition good_quota :: "string option \<Rightarrow> bool" where
  "good_quota q = (case q of None \<Rightarrow> True | Some v \<Rightarrow> QUOTA_PATTERN v)"

lemma good_quota_or_null: "\<not> (v \<noteq> [] \<and> \<not> QUOTA_PATTERN v) \<Longrightarrow> good_quota (or_null v)"
  by (cases v) (auto simp: good_quota_def)

inductive mailboxes_request :: "request \<Rightarrow> bool" where
  "mailboxes_request (fst mailboxes_list)"
| "mailboxes_request (fst mailboxes_features)"
| "normal_address a \<Longrightarrow> MIN_PASSWORD_LENGTH \<le> length pw \<Longrightarrow> good_quota q \<Longrightarrow>
     mailboxes_request (fst (mailboxes_create a pw q))"
| "e \<noteq> [] \<Longrightarrow> MIN_PASSWORD_LENGTH \<le> length pw \<Longrightarrow> mailboxes_request (fst (resetPassword e pw))"
| "e \<noteq> [] \<Longrightarrow> good_quota q \<Longrightarrow> mailboxes_request (fst (setQuota e q))"
| "mailboxes_request (fst (mailboxes_delete e))"
| "mailboxes_request (fst (listAliases e))"
| "e \<noteq> [] \<Longrightarrow> a \<noteq> [] \<Longrightarrow> normal_address a \<Longrightarrow> mailboxes_request (fst (addAlias e a))"
| "e \<noteq> [] \<Longrightarrow> mailboxes_request (fst (deleteAlias e a))"
| "mailboxes_request (fst (mailbox_getSieveScript e))"
| "e \<noteq> [] \<Longrightarrow> mailboxes_request (fst (mailbox_setSieveScript e c))"
| "e \<noteq> [] \<Longrightarrow> mailboxes_request (fst (mailbox_deleteSieveScript e))"
| "mailboxes_request (fst auth_logout_endpoint)"
| "mailboxes_request (Navigate ''/login'')"

interpretation mailboxes_guarded:
  guarded_page mailboxes_handle mailboxes_boot "mailboxes_start user" mailboxes_request for user
proof
  show "sends mailboxes_request mailboxes_boot"
    by (simp add: mailboxes_defs page_defs send_intros mailboxes_request.intros)
  show "sends mailboxes_request (mailboxes_handle e)" for e
    by (cases e) (simp_all add: mailboxes_defs auth_logout_def page_defs send_intros
        mailboxes_request.intros good_quota_or_null)
qed

section \<open>The page in every interleaving\<close>

lemmas mailboxes_run =
  run_defs mailboxes_defs endpoint_defs mailboxes_start_def no_create_def no_password_def
  mailboxes_list_def mailboxes_features_def mailboxes_create_def as_mailboxes_def as_features_def
  MIN_PASSWORD_LENGTH_def QUOTA_PATTERN_def trim_def trim_start_def to_lower_def to_upper_def lower_char_def upper_char_def is_ws_def is_digit_def Let_def



text \<open>
  C17. The mailboxes page comes to rest. From any configuration it can be in, once the user
  stops, at most two answers can still come for each method that was started, whatever
  they are and in whatever order; and when none is left to come, no spinner turns and no
  button is locked: no failure of the backend leaves the page stuck.
\<close>

theorem mailboxes_settles:
  assumes "reachable mailboxes_handle mailboxes_boot (mailboxes_start user) s ps"
    and "answered (s, ps) n (t, qs)"
  shows "n \<le> 2 * length ps \<and>
    (exhausted qs \<longrightarrow>
      \<not> loading t \<and> \<not> loggingOut t \<and> \<not> creating t \<and> \<not> saving t \<and> \<not> savingQuota t \<and>
      \<not> aliasesLoading t \<and> \<not> addingAlias t \<and> \<not> sieveLoading t \<and> \<not> savingSieve t \<and>
      \<not> removingSieve t \<and> deletingEmail t = None \<and> removingAlias t = None)"
  using mailboxes_settling.settles[OF assms] by (simp add: mailboxes_flags_def is_some_iff)

theorem mailboxes_settles_witness:
  "\<not> creating (fst (the (give [(0, [True], failed 500), (2, [], failed 409), (0, [False], failed 500)]
     (run_page mailboxes_handle mailboxes_boot (mailboxes_start None)
       [Event (Type_create \<lparr>cm_email = ''a@b.c'', cm_password = ''longenough'', cm_confirm = ''longenough'', cm_quota = []\<rparr>),
        Event (Create_mailbox True)]))))"
proof -
  let ?c = "run_page mailboxes_handle mailboxes_boot (mailboxes_start None)
       [Event (Type_create \<lparr>cm_email = ''a@b.c'', cm_password = ''longenough'', cm_confirm = ''longenough'', cm_quota = []\<rparr>),
        Event (Create_mailbox True)]"
  let ?as = "[(0, [True], failed 500), (2, [], failed 409), (0, [False], failed 500)]"
  have "\<exists>d. give ?as ?c = Some d \<and> exhausted (snd d)"
    by (simp add: mailboxes_run exhausted_def)
  then obtain d where g: "give ?as ?c = Some d" and e: "exhausted (snd d)" by blast
  from mailboxes_settles[OF run_reach give_run[OF g]] show ?thesis using e g by simp
qed

end
