(* ===== verification/Profile_Page.thy ===== *)
theory Profile_Page
  imports Auth_Session Format
begin

text \<open>
  The profile page (\<open>src/frontend/src/app/features/profile/profile.ts\<close>): the account of the
  signed-in user, the change of its password, and its personal access tokens. The secret
  of a token is in the state only between its creation and its dismissal.
\<close>

record profile_form =
  pf_current :: string
  pf_password :: string
  pf_confirm :: string

record profile_page = auth_state +
  profile :: "user option"
  loading :: bool
  loadError :: "string option"
  saving :: bool
  formError :: "string option"
  successMessage :: "string option"
  pw_model :: profile_form
  pats :: "pat list"
  loadingPats :: bool
  patsError :: "string option"
  showPatForm :: bool
  creatingPat :: bool
  patFormError :: "string option"
  revokingPatId :: "int option"
  expiresInDays :: "jsnum option"
  newPat :: "pat_created option"
  copiedSecret :: bool
  pat_model_name :: string

definition profile_MIN_PASSWORD_LENGTH :: nat where
  "profile_MIN_PASSWORD_LENGTH = 8"

definition EXPIRY_OPTIONS :: "(string \<times> nat option) list" where
  "EXPIRY_OPTIONS = [(''30 days'', Some 30), (''90 days'', Some 90), (''1 year'', Some 365), (''Never'', None)]"

definition first_expiry :: "jsnum option" where
  "first_expiry = map_option (\<lambda>n. Num (of_nat n)) (snd (hd EXPIRY_OPTIONS))"

definition empty_profile_form :: profile_form where
  "empty_profile_form = \<lparr>pf_current = [], pf_password = [], pf_confirm = []\<rparr>"

definition profile_start :: "session_user option \<Rightarrow> auth_config option \<Rightarrow> profile_page" where
  "profile_start user config =
     \<lparr>au_user = user, au_config = config, au_loaded = True,
      profile = None, loading = True, loadError = None, saving = False, formError = None,
      successMessage = None, pw_model = empty_profile_form, pats = [], loadingPats = True,
      patsError = None, showPatForm = False, creatingPat = False, patFormError = None,
      revokingPatId = None, expiresInDays = first_expiry, newPat = None, copiedSecret = False,
      pat_model_name = []\<rparr>"

fun profile_roleBadge :: "role \<Rightarrow> string" where
  "profile_roleBadge Admin = ''text-bg-danger''"
| "profile_roleBadge Mailbox_manager = ''text-bg-primary''"
| "profile_roleBadge Guest = ''text-bg-secondary''"

definition isLocalAccount :: "profile_page \<Rightarrow> bool" where
  "isLocalAccount s = (map_option u_provider (profile s) = Some Local)"

text \<open>A comparison with an invalid date is false.\<close>

definition isExpired :: "(string \<Rightarrow> int option) \<Rightarrow> int \<Rightarrow> pat \<Rightarrow> bool" where
  "isExpired parse_date now p =
     (case pat_expires_at p of None \<Rightarrow> False
      | Some t \<Rightarrow> (case parse_date t of None \<Rightarrow> False | Some d \<Rightarrow> d \<le> now))"

definition profile_messageFor :: "js_error \<Rightarrow> string" where
  "profile_messageFor err =
     (case err of
        HttpError status detail \<Rightarrow>
          if detail \<noteq> None \<and> detail \<noteq> Some [] then the detail
          else if status = 422 then
            ''Password must be at least '' @ show_nat profile_MIN_PASSWORD_LENGTH @ '' characters.''
          else ''Unable to update the password. Please try again.''
      | OtherError \<Rightarrow> ''Unable to update the password. Please try again.'')"

definition profile_apiErrorFor :: "js_error \<Rightarrow> string \<Rightarrow> string" where
  "profile_apiErrorFor err fallback =
     (case err of
        HttpError status (Some detail) \<Rightarrow> if detail \<noteq> [] then detail else fallback
      | _ \<Rightarrow> fallback)"

section \<open>Loading\<close>

definition loadPats :: "profile_page cmd" where
  "loadPats =
     seq (assign (\<lambda>s. s\<lparr>loadingPats := True\<rparr>))
     (attempt
       (fetch pats_list (\<lambda>ps. assign (\<lambda>s. s\<lparr>pats := ps\<rparr>)))
       (\<lambda>_. assign (\<lambda>s. s\<lparr>patsError := Some ''Unable to load your access tokens.''\<rparr>))
       (\<lambda>s. s\<lparr>loadingPats := False\<rparr>))"

definition loadProfile :: "profile_page cmd" where
  "loadProfile =
     seq (assign (\<lambda>s. s\<lparr>loading := True, loadError := None\<rparr>))
     (attempt
       (fetch users_me (\<lambda>u. assign (\<lambda>s. s\<lparr>profile := Some u\<rparr>)))
       (\<lambda>_. assign (\<lambda>s. s\<lparr>loadError := Some ''Unable to load your profile.''\<rparr>))
       (\<lambda>s. s\<lparr>loading := False\<rparr>))"

text \<open>The constructor starts the two loads and waits for neither.\<close>

definition profile_boot :: "profile_page cmd" where
  "profile_boot =
     all_of loadProfile (look (\<lambda>s. if patsEnabled s then loadPats else skip))"

section \<open>Access tokens\<close>

text \<open>\<open>Number(raw)\<close> on the values of the select: the empty text or decimal digits.\<close>

definition number_of_digits :: "string \<Rightarrow> jsnum" where
  "number_of_digits raw = (if list_all is_digit raw then Num (of_nat (value_of 10 (digits 10 raw))) else NaN)"

definition onExpiryChange :: "string \<Rightarrow> profile_page cmd" where
  "onExpiryChange raw =
     assign (\<lambda>s. s\<lparr>expiresInDays := (if raw = [] then None else Some (number_of_digits raw))\<rparr>)"

definition startCreatePat :: "profile_page cmd" where
  "startCreatePat =
     assign (\<lambda>s. s\<lparr>newPat := None, patFormError := None, pat_model_name := [],
                    expiresInDays := first_expiry, showPatForm := True\<rparr>)"

definition cancelCreatePat :: "profile_page cmd" where
  "cancelCreatePat = assign (\<lambda>s. s\<lparr>showPatForm := False, patFormError := None, pat_model_name := []\<rparr>)"

definition createPat :: "bool \<Rightarrow> profile_page cmd" where
  "createPat run =
     seq (assign (\<lambda>s. s\<lparr>patFormError := None\<rparr>))
     (submit run
       (look (\<lambda>s0.
         let name = trim (pat_model_name s0)
         in if name = [] then assign (\<lambda>s. s\<lparr>patFormError := Some ''A name is required.''\<rparr>)
            else
              seq (assign (\<lambda>s. s\<lparr>creatingPat := True\<rparr>))
              (attempt
                (fetch (pats_create name (expiresInDays s0)) (\<lambda>created.
                  seq (assign (\<lambda>s. s\<lparr>newPat := Some created, copiedSecret := False,
                                    showPatForm := False, pat_model_name := []\<rparr>))
                  loadPats))
                (\<lambda>err. assign (\<lambda>s. s\<lparr>patFormError := Some (profile_apiErrorFor err ''Unable to create the token.'')\<rparr>))
                (\<lambda>s. s\<lparr>creatingPat := False\<rparr>)))))"

definition revokePat :: "(string \<Rightarrow> bool) \<Rightarrow> pat \<Rightarrow> profile_page cmd" where
  "revokePat ask p =
     (if \<not> ask (''Revoke the token '' @ quoted (pat_name p) @ ''? Calls using it will stop working.'') then skip
      else
        seq (assign (\<lambda>s. s\<lparr>patsError := None, revokingPatId := Some (pat_id p)\<rparr>))
        (attempt
          (fetch (pats_revoke (pat_id p)) (\<lambda>_.
            seq (assign (\<lambda>s. if map_option pat_id (newPat s) = Some (pat_id p) then s\<lparr>newPat := None\<rparr> else s))
            loadPats))
          (\<lambda>err. assign (\<lambda>s. s\<lparr>patsError :=
             Some (profile_apiErrorFor err (''Unable to revoke '' @ quoted (pat_name p) @ ''.''))\<rparr>))
          (\<lambda>s. s\<lparr>revokingPatId := None\<rparr>)))"

definition copySecret :: "profile_page cmd" where
  "copySecret =
     look (\<lambda>s0. when_text (map_option pat_token (newPat s0)) (\<lambda>secret.
       try_catch
         (call (WriteClipboard secret) as_void (\<lambda>_. assign (\<lambda>s. s\<lparr>copiedSecret := True\<rparr>)))
         (\<lambda>_. assign (\<lambda>s. s\<lparr>patsError := Some ''Unable to copy the token. Select it and copy it manually.''\<rparr>))))"

definition dismissNewPat :: "profile_page cmd" where
  "dismissNewPat = assign (\<lambda>s. s\<lparr>newPat := None, copiedSecret := False\<rparr>)"

section \<open>Password\<close>

definition profile_onSubmit :: "bool \<Rightarrow> profile_page cmd" where
  "profile_onSubmit run =
     seq (assign (\<lambda>s. s\<lparr>formError := None, successMessage := None\<rparr>))
     (submit run
       (look (\<lambda>s0.
         let form = pw_model s0
         in if length (pf_password form) < profile_MIN_PASSWORD_LENGTH then
              assign (\<lambda>s. s\<lparr>formError := Some (''Password must be at least '' @
                show_nat profile_MIN_PASSWORD_LENGTH @ '' characters.'')\<rparr>)
            else if pf_password form \<noteq> pf_confirm form then
              assign (\<lambda>s. s\<lparr>formError := Some ''Passwords do not match.''\<rparr>)
            else
              seq (assign (\<lambda>s. s\<lparr>saving := True\<rparr>))
              (attempt
                (fetch (changeOwnPassword (pf_current form) (pf_password form)) (\<lambda>_.
                  assign (\<lambda>s. s\<lparr>successMessage := Some ''Your password has been updated.'',
                                 pw_model := empty_profile_form\<rparr>)))
                (\<lambda>err. assign (\<lambda>s. s\<lparr>formError := Some (profile_messageFor err)\<rparr>))
                (\<lambda>s. s\<lparr>saving := False\<rparr>)))))"

datatype profile_event =
    Type_password profile_form
  | Type_pat_name string
  | Expiry_change string
  | Start_create_pat
  | Cancel_create_pat
  | Create_pat bool
  | Revoke_pat "string \<Rightarrow> bool" pat
  | Copy_secret
  | Dismiss_new_pat
  | Submit_password bool

fun profile_handle :: "profile_event \<Rightarrow> profile_page cmd" where
  "profile_handle (Type_password v) = assign (\<lambda>s. s\<lparr>pw_model := v\<rparr>)"
| "profile_handle (Type_pat_name v) = assign (\<lambda>s. s\<lparr>pat_model_name := v\<rparr>)"
| "profile_handle (Expiry_change raw) = onExpiryChange raw"
| "profile_handle Start_create_pat = startCreatePat"
| "profile_handle Cancel_create_pat = cancelCreatePat"
| "profile_handle (Create_pat run) = createPat run"
| "profile_handle (Revoke_pat ask p) = revokePat ask p"
| "profile_handle Copy_secret = copySecret"
| "profile_handle Dismiss_new_pat = dismissNewPat"
| "profile_handle (Submit_password run) = profile_onSubmit run"

lemmas profile_defs =
  loadPats_def loadProfile_def profile_boot_def onExpiryChange_def startCreatePat_def
  cancelCreatePat_def createPat_def revokePat_def copySecret_def dismissNewPat_def
  profile_onSubmit_def

section \<open>Busy flags\<close>

text \<open>
  \<open>loadingPats\<close> starts raised and stays so when the tokens are disabled: the page does
  not show the section then.
\<close>

definition profile_flags :: "(profile_page \<Rightarrow> bool) list" where
  "profile_flags = [loading, saving, creatingPat, \<lambda>s. is_some (revokingPatId s)]"

interpretation profile_quiet:
  quiet_page profile_handle profile_boot "profile_start user config" profile_flags
  for user config
proof
  show "list_all (\<lambda>f. clears f profile_boot \<or> tame f profile_boot \<and> \<not> f (profile_start user config)) profile_flags"
    by (simp add: profile_flags_def profile_defs page_defs tame_intros profile_start_def)
  show "list_all (\<lambda>f. tame f (profile_handle e)) profile_flags" for e
    by (cases e) (simp_all add: profile_flags_def profile_defs page_defs tame_intros)
qed

section \<open>Requests\<close>

inductive profile_request :: "request \<Rightarrow> bool" where
  "profile_request (fst users_me)"
| "profile_request (fst pats_list)"
| "name \<noteq> [] \<Longrightarrow> trim name = name \<Longrightarrow> profile_request (fst (pats_create name days))"
| "profile_request (fst (pats_revoke i))"
| "secret \<noteq> [] \<Longrightarrow> profile_request (WriteClipboard secret)"
| "8 \<le> length new \<Longrightarrow> profile_request (fst (changeOwnPassword current new))"

interpretation profile_guarded:
  guarded_page profile_handle profile_boot "profile_start user config" profile_request
  for user config
proof
  show "sends profile_request profile_boot"
    by (simp add: profile_defs page_defs send_intros profile_request.intros)
  show "sends profile_request (profile_handle e)" for e
    by (cases e) (simp_all add: profile_defs page_defs send_intros profile_request.intros
        profile_MIN_PASSWORD_LENGTH_def)
qed

section \<open>Properties\<close>

text \<open>
  In every interleaving, the profile page only sends a password change with a new
  password of at least eight characters, only creates a token under a trimmed name that is
  not empty, and only copies a secret that is not empty; besides, it reads the account and
  the tokens and revokes tokens.
\<close>

theorem profile_requests_valid:
  assumes "reachable profile_handle profile_boot (profile_start user config) s ps"
    and "q \<in> in_flight ps"
  shows "profile_request q"
  using assms by (rule profile_guarded.sent)

theorem profile_requests_valid_witness:
  "profile_request (fst (changeOwnPassword ''old'' ''longenough''))"
  by (rule profile_requests_valid[where user = None and config = None, OF run_reach[where steps =
        "[Event (Type_password \<lparr>pf_current = ''old'', pf_password = ''longenough'', pf_confirm = ''longenough''\<rparr>),
          Event (Submit_password True)]"]])
    (simp add: run_defs profile_defs profile_start_def endpoint_defs profile_MIN_PASSWORD_LENGTH_def patsEnabled_def Let_def)

text \<open>
  The life of a new secret. Creating a token puts its secret on display, not marked as
  copied, closes the form and reads the list again; an error keeps the form and what was
  typed. Revoking the token on display, opening the form again and dismissing it each take
  the secret off the page; revoking another token leaves it.
\<close>

theorem new_secret_flow:
  assumes "trim (pat_model_name s) = name" and "name \<noteq> []"
  shows "outstanding (snd (createPat True s)) = [fst (pats_create name (expiresInDays s))] \<and>
    (\<forall>e t. deliver [] (Inl e) (snd (createPat True s)) t =
       (t\<lparr>patFormError := Some (profile_apiErrorFor e ''Unable to create the token.''), creatingPat := False\<rparr>, Done)) \<and>
    (\<forall>v created t. as_pat_created v = Some created \<longrightarrow>
       fst (deliver [] (ok v) (snd (createPat True s)) t) =
         t\<lparr>newPat := Some created, copiedSecret := False, showPatForm := False, pat_model_name := [],
           loadingPats := True\<rparr> \<and>
       outstanding (snd (deliver [] (ok v) (snd (createPat True s)) t)) = [fst pats_list]) \<and>
    newPat (fst (startCreatePat t)) = None \<and> newPat (fst (dismissNewPat t)) = None \<and>
    (\<forall>v u. newPat (fst (deliver [] (ok v) (snd (revokePat (\<lambda>_. True) p t)) u)) =
       (if map_option pat_id (newPat u) = Some (pat_id p) then None else newPat u))"
proof -
  have "snd (pats_create n d) = as_pat_created" for n d by (simp add: pats_create_def)
  moreover have "snd (pats_revoke i) v = Some ()" for i v by (simp add: pats_revoke_def as_void_def)
  ultimately show ?thesis using assms
    by (auto simp add: createPat_def revokePat_def startCreatePat_def dismissNewPat_def loadPats_def run_defs endpoint_defs)
qed

theorem new_secret_flow_witness:
  "outstanding (snd (createPat True ((profile_start None None)\<lparr>pat_model_name := ''ci ''\<rparr>))) =
     [fst (pats_create ''ci'' (Some (Num 30)))]"
proof -
  have "trim (pat_model_name ((profile_start None None)\<lparr>pat_model_name := ''ci ''\<rparr>)) = ''ci''"
    by (simp add: trim_def trim_start_def is_ws_def)
  from new_secret_flow[OF this, THEN conjunct1] show ?thesis
    by (simp add: profile_start_def first_expiry_def EXPIRY_OPTIONS_def)
qed

end
