(* ===== verification/Login_Page.thy ===== *)
theory Login_Page
  imports Auth_Session
begin

text \<open>
  The login page (\<open>src/frontend/src/app/features/login/login.ts\<close>).
\<close>

record login_form =
  lf_username :: string
  lf_password :: string

record login_page = auth_state +
  loadingConfig :: bool
  submitting :: bool
  error :: "string option"
  login_model :: login_form

definition login_start :: login_page where
  "login_start =
     \<lparr>au_user = None, au_config = None, au_loaded = False, loadingConfig = True, submitting = False,
      error = None, login_model = \<lparr>lf_username = [], lf_password = []\<rparr>\<rparr>"

definition login_loadConfig :: "login_page cmd" where
  "login_loadConfig =
     attempt loadConfig
       (\<lambda>_. assign (\<lambda>s. s\<lparr>error := Some ''Unable to load authentication configuration.''\<rparr>))
       (\<lambda>s. s\<lparr>loadingConfig := False\<rparr>)"

definition oidc_messages :: "(string \<times> string) list" where
  "oidc_messages =
     [(''oidc'', ''OIDC sign-in failed. Please try again.''),
      (''state'', ''OIDC session expired. Please retry.''),
      (''forbidden'', ''Your account is not allowed to access this application.''),
      (''conflict'', ''A local account already uses this username. Contact an administrator.''),
      (''disabled'', ''Your account has been deactivated. Contact an administrator.'')]"

text \<open>\<open>reason\<close> is the value of the query parameter \<open>error\<close>, null when there is none.\<close>

definition readOidcError :: "string option \<Rightarrow> login_page cmd" where
  "readOidcError reason =
     when_text reason (\<lambda>r.
       assign (\<lambda>s. s\<lparr>error := Some (case map_of oidc_messages r of None \<Rightarrow> ''Sign-in failed.'' | Some m \<Rightarrow> m)\<rparr>))"

definition login_boot :: "string option \<Rightarrow> login_page cmd" where
  "login_boot reason = seq (readOidcError reason) login_loadConfig"

definition login_messageFor :: "js_error \<Rightarrow> string" where
  "login_messageFor err =
     (case err of
        HttpError status _ \<Rightarrow>
          if status = 401 then ''Invalid username or password.''
          else if status = 429 then ''Too many attempts. Please try again later.''
          else ''Unable to sign in. Please try again.''
      | OtherError \<Rightarrow> ''Unable to sign in. Please try again.'')"

definition login_onSubmit :: "bool \<Rightarrow> login_page cmd" where
  "login_onSubmit run =
     seq (assign (\<lambda>s. s\<lparr>error := None\<rparr>))
     (submit run
       (seq (assign (\<lambda>s. s\<lparr>submitting := True\<rparr>))
       (attempt
         (seq (look (\<lambda>s. auth_login (lf_username (login_model s)) (lf_password (login_model s))))
         (navigate ''/dashboard''))
         (\<lambda>err. assign (\<lambda>s. s\<lparr>error := Some (login_messageFor err)\<rparr>))
         (\<lambda>s. s\<lparr>submitting := False\<rparr>))))"

definition onOidcLogin :: "login_page cmd" where
  "onOidcLogin = loginWithOidc"

datatype login_event =
    Type_login login_form
  | Submit_login bool
  | Oidc_login

fun login_handle :: "login_event \<Rightarrow> login_page cmd" where
  "login_handle (Type_login v) = assign (\<lambda>s. s\<lparr>login_model := v\<rparr>)"
| "login_handle (Submit_login run) = login_onSubmit run"
| "login_handle Oidc_login = onOidcLogin"

lemma readOidcError_assign:
  obtains g where "readOidcError reason = assign g" and "\<And>s. submitting (g s) = submitting s"
proof (cases "reason = None \<or> reason = Some []")
  case True
  then have "readOidcError reason = assign (\<lambda>s. s)"
    by (auto simp: readOidcError_def when_text_def fun_eq_iff)
  then show ?thesis by (rule that) simp
next
  case False
  then obtain r where "reason = Some r" and "r \<noteq> []" by auto
  then show ?thesis
    by (intro that[of "\<lambda>s. s\<lparr>error := Some (case map_of oidc_messages r of None \<Rightarrow> ''Sign-in failed.'' | Some m \<Rightarrow> m)\<rparr>"])
      (simp_all add: readOidcError_def when_text_def)
qed

lemmas login_defs = login_loadConfig_def login_onSubmit_def onOidcLogin_def

interpretation login_quiet:
  quiet_page login_handle "login_boot reason" login_start "[loadingConfig, submitting]"
  for reason
proof
  show "list_all (\<lambda>f. clears f (login_boot reason) \<or> tame f (login_boot reason) \<and> \<not> f login_start)
      [loadingConfig, submitting]"
    by (rule readOidcError_assign[of reason])
      (simp add: login_boot_def login_defs auth_defs page_defs tame_intros login_start_def)
  show "list_all (\<lambda>f. tame f (login_handle e)) [loadingConfig, submitting]" for e
    by (cases e) (simp_all add: login_defs auth_defs page_defs tame_intros)
qed

section \<open>Requests\<close>

inductive login_request :: "request \<Rightarrow> bool" where
  "login_request (fst auth_config_endpoint)"
| "login_request (fst (auth_login_endpoint u p))"
| "login_request (Navigate ''/dashboard'')"
| "login_request (Leave ''/api/auth/oidc/login'')"

interpretation login_guarded:
  guarded_page login_handle "login_boot reason" login_start login_request
  for reason
proof
  show "sends login_request (login_boot reason)"
    by (rule readOidcError_assign[of reason])
      (simp add: login_boot_def login_defs loadConfig_def page_defs send_intros login_request.intros)
  show "sends login_request (login_handle e)" for e
    by (cases e) (simp_all add: login_defs auth_login_def loginWithOidc_def page_defs send_intros login_request.intros)
qed

section \<open>Properties\<close>

text \<open>
  Signing in. The credentials of the form are sent, and nothing else happens to the
  session until they are answered. A refusal leaves the session as it was and a message
  that tells wrong credentials, throttling and any other failure apart; a session in the
  answer becomes the session of the application, and only then the page is left, the
  button being free again when the navigation has ended, however it ends.
\<close>

theorem login_flow:
  "let p = snd (login_onSubmit True s) in
   outstanding p = [fst (auth_login_endpoint (lf_username (login_model s)) (lf_password (login_model s)))] \<and>
   au_user (fst (login_onSubmit True s)) = au_user s \<and>
   (\<forall>e t. deliver [] (Inl e) p t = (t\<lparr>error := Some (login_messageFor e), submitting := False\<rparr>, Done)) \<and>
   (\<forall>v u t. as_session v = Some u \<longrightarrow>
      fst (deliver [] (ok v) p t) = t\<lparr>au_user := Some u\<rparr> \<and>
      outstanding (snd (deliver [] (ok v) p t)) = [Navigate ''/dashboard''] \<and>
      (\<forall>r x. \<not> submitting (fst (deliver [] r (snd (deliver [] (ok v) p t)) x)) \<and>
         au_user (fst (deliver [] r (snd (deliver [] (ok v) p t)) x)) = au_user x))"
  by (auto simp: Let_def login_onSubmit_def auth_login_def auth_login_endpoint_def run_simps endpoint_defs
      skip_def throw_def assign_def as_void_def split: sum.splits list.splits)

theorem login_flow_witness:
  "error (fst (deliver [] (failed 429) (snd (login_onSubmit True login_start)) login_start)) =
     Some ''Too many attempts. Please try again later.''"
  using login_flow[of login_start] by (simp add: Let_def login_messageFor_def)

end
