(* ===== verification/Log_Lines.thy ===== *)
theory Log_Lines
  imports Pages Table_Sort "HOL-Library.Monad_Syntax"
begin

text \<open>
  The log lines of the two log tables: the parsers \<open>parseLogLine\<close> and the comparators
  \<open>compareOn\<close> of \<open>src/frontend/src/app/features/mailserver/logs/logs.ts\<close> and
  \<open>features/fail2ban/fail2ban.ts\<close>.

  In both regular expressions every class is disjoint from what follows it, so greedy
  matching never has to give a character back: they are read from left to right by the
  scanners below. The trailing \<open>.*\<close> stops at a line end, which \<open>$\<close> then refuses.

  \<open>new Date(text).getTime()\<close> is the parameter \<open>parse_date\<close> (None for NaN),
  \<open>localeCompare\<close> the parameter \<open>lc\<close>. A process number is read exactly, where JavaScript
  rounds beyond 2^53.
\<close>

section \<open>Scanning\<close>

definition span1 :: "(char \<Rightarrow> bool) \<Rightarrow> string \<Rightarrow> (string \<times> string) option" where
  "span1 p s = (if takeWhile p s = [] then None else Some (takeWhile p s, dropWhile p s))"

definition expect :: "char \<Rightarrow> string \<Rightarrow> string option" where
  "expect c s = (case s of [] \<Rightarrow> None | d # r \<Rightarrow> if d = c then Some r else None)"

definition rest_of_line :: "string \<Rightarrow> string option" where
  "rest_of_line s =
     (let m = dropWhile is_ws s in if list_all (\<lambda>c. \<not> is_line_end c) m then Some m else None)"

definition non_ws :: "char \<Rightarrow> bool" where
  "non_ws c = (\<not> is_ws c)"

definition stops :: "(char \<Rightarrow> bool) \<Rightarrow> string \<Rightarrow> bool" where
  "stops p r = (case r of [] \<Rightarrow> True | c # cs \<Rightarrow> \<not> p c)"

lemma stops_simps [simp]: "stops p []" "stops p (c # cs) = (\<not> p c)"
  by (simp_all add: stops_def)

lemma span1_append:
  "a \<noteq> [] \<Longrightarrow> list_all p a \<Longrightarrow> stops p r \<Longrightarrow> span1 p (a @ r) = Some (a, r)"
proof -
  assume a: "a \<noteq> []" "list_all p a" "stops p r"
  then have "takeWhile p a = a" by (simp add: takeWhile_eq_all_conv list_all_iff)
  then have "takeWhile p (a @ r) = a" "dropWhile p (a @ r) = r"
    using a by (cases r; auto simp: list_all_iff takeWhile_append2 dropWhile_append2)+
  then show ?thesis using a by (simp add: span1_def)
qed

lemma span1_all: "a \<noteq> [] \<Longrightarrow> list_all p a \<Longrightarrow> span1 p a = Some (a, [])"
  using span1_append[of a p "[]"] by simp

lemma span1_Some:
  "span1 p s = Some (a, r) \<longleftrightarrow> s = a @ r \<and> a \<noteq> [] \<and> list_all p a \<and> stops p r"
proof
  assume "span1 p s = Some (a, r)"
  then have a: "a = takeWhile p s" "r = dropWhile p s" "a \<noteq> []"
    by (auto simp: span1_def split: if_splits)
  have "stops p (dropWhile p s)"
    by (auto simp: stops_def dropWhile_eq_Cons_conv split: list.split)
  then show "s = a @ r \<and> a \<noteq> [] \<and> list_all p a \<and> stops p r"
    using a by (auto simp: list_all_iff dest: set_takeWhileD)
qed (auto simp: span1_append)

lemma expect_Some: "expect c s = Some r \<longleftrightarrow> s = c # r"
  by (cases s) (auto simp: expect_def)

lemma expect_Cons [simp]: "expect c (d # r) = (if d = c then Some r else None)"
  by (simp add: expect_def)

lemma rest_of_line_id:
  "stops is_ws m \<Longrightarrow> list_all (\<lambda>c. \<not> is_line_end c) m \<Longrightarrow> list_all is_ws w \<Longrightarrow> rest_of_line (w @ m) = Some m"
proof -
  assume a: "stops is_ws m" "list_all (\<lambda>c. \<not> is_line_end c) m" "list_all is_ws w"
  then have "dropWhile is_ws (w @ m) = m"
    by (cases m) (auto simp: list_all_iff dropWhile_append2)
  then show ?thesis using a by (simp add: rest_of_line_def)
qed

fun number_of :: "string \<Rightarrow> int" where
  "number_of s = foldl (\<lambda>acc c. acc * 10 + (of_char c - 48)) 0 s"

section \<open>The mail log (logs.ts)\<close>

record mail_entry =
  me_date :: "int option"
  me_timestamp :: string
  me_product :: string
  me_process :: string
  me_pid :: string
  me_message :: string
  me_raw :: string

definition product_char :: "char \<Rightarrow> bool" where
  "product_char c = (\<not> is_ws c \<and> c \<notin> {CHR '':'', CHR ''['', CHR ''/''})"

definition process_char :: "char \<Rightarrow> bool" where
  "process_char c = (\<not> is_ws c \<and> c \<notin> {CHR '':'', CHR ''[''})"

definition scan_process :: "string \<Rightarrow> (string \<times> string) option" where
  "scan_process s = (case expect (CHR ''/'') s of None \<Rightarrow> Some ([], s) | Some r \<Rightarrow> span1 process_char r)"

definition scan_pid :: "string \<Rightarrow> (string \<times> string) option" where
  "scan_pid s =
     (case expect (CHR ''['') s of
        None \<Rightarrow> Some ([], s)
      | Some r \<Rightarrow> do { (d, r') \<leftarrow> span1 is_digit r; r'' \<leftarrow> expect (CHR '']'') r'; Some (d, r'') })"

text \<open>\<open>/^(\S+)\s+\S+\s+([^\s:[/]+)(?:\/([^\s:[]+))?(?:\[(\d+)\])?:\s*(.*)$/\<close>\<close>

definition mail_LOG_LINE :: "string \<Rightarrow> (string \<times> string \<times> string \<times> string \<times> string) option" where
  "mail_LOG_LINE raw = do {
     (timestamp, r) \<leftarrow> span1 non_ws raw;
     (_, r) \<leftarrow> span1 is_ws r;
     (_, r) \<leftarrow> span1 non_ws r;
     (_, r) \<leftarrow> span1 is_ws r;
     (product, r) \<leftarrow> span1 product_char r;
     (process, r) \<leftarrow> scan_process r;
     (pid, r) \<leftarrow> scan_pid r;
     r \<leftarrow> expect (CHR '':'') r;
     message \<leftarrow> rest_of_line r;
     Some (timestamp, product, process, pid, message) }"

definition mail_parseLogLine :: "(string \<Rightarrow> int option) \<Rightarrow> string \<Rightarrow> mail_entry" where
  "mail_parseLogLine parse_date raw =
     (case mail_LOG_LINE raw of
        None \<Rightarrow> \<lparr>me_date = None, me_timestamp = [], me_product = [], me_process = [], me_pid = [],
                 me_message = raw, me_raw = raw\<rparr>
      | Some (timestamp, product, process, pid, message) \<Rightarrow>
          \<lparr>me_date = parse_date timestamp, me_timestamp = timestamp, me_product = product,
           me_process = process, me_pid = pid, me_message = message, me_raw = raw\<rparr>)"

datatype mail_column = Mail_date | Mail_product | Mail_process | Mail_pid

definition time_or_zero :: "int option \<Rightarrow> int" where
  "time_or_zero d = (case d of None \<Rightarrow> 0 | Some t \<Rightarrow> t)"

definition pid_or_zero :: "string \<Rightarrow> int" where
  "pid_or_zero p = (if p = [] then 0 else number_of p)"

fun mail_compareOn :: "(string \<Rightarrow> string \<Rightarrow> int) \<Rightarrow> mail_column \<Rightarrow> mail_entry \<Rightarrow> mail_entry \<Rightarrow> int" where
  "mail_compareOn lc Mail_date a b = time_or_zero (me_date a) - time_or_zero (me_date b)"
| "mail_compareOn lc Mail_pid a b = pid_or_zero (me_pid a) - pid_or_zero (me_pid b)"
| "mail_compareOn lc Mail_product a b = lc (me_product a) (me_product b)"
| "mail_compareOn lc Mail_process a b = lc (me_process a) (me_process b)"

lemma mail_table:
  assumes "comparator lc"
  shows "sortable_table (mail_compareOn lc)"
proof (rule sortable_table.intro)
  show "comparator (mail_compareOn lc c)" for c
    by (cases c) (simp_all add: comparator_key comparator_on[OF assms] mail_compareOn.simps[abs_def])
qed

interpretation mail_log: sortable_table "mail_compareOn code_compare"
  by (rule mail_table) (rule code_units.comparator_axioms)

text \<open>A line as syslog writes it.\<close>

definition mail_line :: "string \<Rightarrow> string \<Rightarrow> string \<Rightarrow> string \<Rightarrow> string \<Rightarrow> string \<Rightarrow> string" where
  "mail_line timestamp host product process pid message =
     timestamp @ '' '' @ host @ '' '' @ product @
     (if process = [] then [] else CHR ''/'' # process) @
     (if pid = [] then [] else CHR ''['' # pid @ '']'') @ '': '' @ message"

definition mail_fields_ok :: "string \<Rightarrow> string \<Rightarrow> string \<Rightarrow> string \<Rightarrow> string \<Rightarrow> string \<Rightarrow> bool" where
  "mail_fields_ok timestamp host product process pid message =
     (timestamp \<noteq> [] \<and> list_all non_ws timestamp \<and> host \<noteq> [] \<and> list_all non_ws host \<and>
      product \<noteq> [] \<and> list_all product_char product \<and> list_all process_char process \<and>
      list_all is_digit pid \<and> stops is_ws message \<and> list_all (\<lambda>c. \<not> is_line_end c) message)"

lemma ws_space [simp]: "is_ws (CHR '' '')"
  by (simp add: is_ws_def)

lemma scan_facts [simp]:
  "\<not> non_ws (CHR '' '')" "\<not> product_char (CHR '':'')" "\<not> product_char (CHR ''['')"
  "\<not> product_char (CHR ''/'')" "\<not> process_char (CHR '':'')" "\<not> process_char (CHR ''['')"
  "\<not> is_digit (CHR '']'')"
  by (simp_all add: non_ws_def product_char_def process_char_def is_digit_def)

lemma stops_ws: "list_all p s \<Longrightarrow> (\<And>c. p c \<Longrightarrow> \<not> is_ws c) \<Longrightarrow> stops is_ws (s @ r) \<or> s = []"
  by (cases s) auto

lemma span1_space: "stops is_ws r \<Longrightarrow> span1 is_ws (CHR '' '' # r) = Some ('' '', r)"
  using span1_append[of "'' ''" is_ws r] by simp

lemma scan_process_line:
  "list_all process_char process \<Longrightarrow> stops process_char r \<Longrightarrow> stops (\<lambda>c. c = CHR ''/'') r \<Longrightarrow>
    scan_process ((if process = [] then [] else CHR ''/'' # process) @ r) = Some (process, r)"
  by (cases r) (auto simp: scan_process_def span1_append span1_all expect_def split: option.splits)

lemma scan_pid_line:
  "list_all is_digit pid \<Longrightarrow> stops (\<lambda>c. c = CHR ''['') r \<Longrightarrow>
    scan_pid ((if pid = [] then [] else CHR ''['' # pid @ '']'') @ r) = Some (pid, r)"
  by (cases r) (auto simp: scan_pid_def span1_append expect_def split: option.splits)

text \<open>
  C28. The parser of the mail log inverts the writer: for any time stamp, host, service,
  process, process number and message that can occur in a line of syslog, the entry of the
  line holds exactly these fields, whether or not the line has a process and a number.
\<close>

theorem mail_line_parsed:
  assumes "mail_fields_ok timestamp host product process pid message"
  shows "mail_parseLogLine parse_date (mail_line timestamp host product process pid message) =
    \<lparr>me_date = parse_date timestamp, me_timestamp = timestamp, me_product = product, me_process = process,
     me_pid = pid, me_message = message, me_raw = mail_line timestamp host product process pid message\<rparr>"
proof -
  let ?r5 = "'': '' @ message"
  let ?r4 = "(if pid = [] then [] else CHR ''['' # pid @ '']'') @ ?r5"
  let ?r3 = "(if process = [] then [] else CHR ''/'' # process) @ ?r4"
  let ?r2 = "host @ '' '' @ product @ ?r3"
  note ok = assms[unfolded mail_fields_ok_def]
  have s1: "span1 non_ws (timestamp @ CHR '' '' # ?r2) = Some (timestamp, CHR '' '' # ?r2)"
    using ok by (intro span1_append) auto
  have s2: "span1 is_ws (CHR '' '' # ?r2) = Some ('' '', ?r2)"
    using ok by (intro span1_space) (cases host; auto simp: non_ws_def)
  have s3: "span1 non_ws ?r2 = Some (host, CHR '' '' # product @ ?r3)"
    using ok span1_append[of host non_ws "CHR '' '' # product @ ?r3"] by auto
  have s4: "span1 is_ws (CHR '' '' # product @ ?r3) = Some ('' '', product @ ?r3)"
    using ok by (intro span1_space) (cases product; auto simp: product_char_def)
  have s5: "span1 product_char (product @ ?r3) = Some (product, ?r3)"
    using ok by (intro span1_append) auto
  have s6: "scan_process ?r3 = Some (process, ?r4)"
    using ok by (intro scan_process_line) auto
  have s7: "scan_pid ?r4 = Some (pid, ?r5)"
    using ok by (intro scan_pid_line) auto
  have s8: "rest_of_line (CHR '' '' # message) = Some message"
    using ok rest_of_line_id[of message "'' ''"] by simp
  have "mail_line timestamp host product process pid message = timestamp @ CHR '' '' # ?r2"
    by (simp add: mail_line_def)
  then have "mail_LOG_LINE (mail_line timestamp host product process pid message) =
      Some (timestamp, product, process, pid, message)"
    unfolding mail_LOG_LINE_def using s1 s2 s3 s4 s5 s6 s7 s8 by simp
  then show ?thesis by (simp add: mail_parseLogLine_def)
qed

theorem mail_line_parsed_witness:
  "me_process (mail_parseLogLine (\<lambda>_. None) (mail_line ''T'' ''mx'' ''postfix'' ''smtpd'' ''42'' ''connect'')) = ''smtpd''"
proof -
  have "mail_fields_ok ''T'' ''mx'' ''postfix'' ''smtpd'' ''42'' ''connect''"
    by (simp add: mail_fields_ok_def non_ws_def product_char_def process_char_def is_ws_def is_digit_def is_line_end_def)
  from mail_line_parsed[OF this] show ?thesis by simp
qed

section \<open>The fail2ban log (fail2ban.ts)\<close>

record ban_entry =
  be_date :: "int option"
  be_timestamp :: string
  be_logger :: string
  be_pid :: string
  be_level :: string
  be_message :: string
  be_raw :: string

definition LOGGER_PREFIX :: string where
  "LOGGER_PREFIX = ''fail2ban.''"

text \<open>The ranks of the known levels.\<close>

definition LEVEL_RANK :: "string \<Rightarrow> int option" where
  "LEVEL_RANK level =
     map_of [(''DEBUG'', 0), (''INFO'', 1), (''NOTICE'', 2), (''WARNING'', 3), (''ERROR'', 4), (''CRITICAL'', 5)] level"

text \<open>\<open>\d{4}-\d{2}-\d{2} \d{2}:\d{2}:\d{2},\d{3}\<close>: a digit where the template has d.\<close>

definition stamp_ok :: "string \<Rightarrow> bool" where
  "stamp_ok t = list_all2 (\<lambda>p c. if p = CHR ''d'' then is_digit c else c = p) ''dddd-dd-dd dd:dd:dd,ddd'' t"

text \<open>\<open>/^(stamp)\s+(\S+)\s+\[(\d+)\]:\s+(\S+)\s+(.*)$/\<close>\<close>

definition ban_LOG_LINE :: "string \<Rightarrow> (string \<times> string \<times> string \<times> string \<times> string) option" where
  "ban_LOG_LINE raw = do {
     (timestamp, r) \<leftarrow> (if stamp_ok (take 23 raw) then Some (take 23 raw, drop 23 raw) else None);
     (_, r) \<leftarrow> span1 is_ws r;
     (logger, r) \<leftarrow> span1 non_ws r;
     (_, r) \<leftarrow> span1 is_ws r;
     r \<leftarrow> expect (CHR ''['') r;
     (pid, r) \<leftarrow> span1 is_digit r;
     r \<leftarrow> expect (CHR '']'') r;
     r \<leftarrow> expect (CHR '':'') r;
     (_, r) \<leftarrow> span1 is_ws r;
     (level, r) \<leftarrow> span1 non_ws r;
     (_, r) \<leftarrow> span1 is_ws r;
     message \<leftarrow> rest_of_line r;
     Some (timestamp, logger, pid, level, message) }"

fun replace_first :: "char \<Rightarrow> char \<Rightarrow> string \<Rightarrow> string" where
  "replace_first c d [] = []"
| "replace_first c d (x # xs) = (if x = c then d # xs else x # replace_first c d xs)"

definition strip_logger :: "string \<Rightarrow> string" where
  "strip_logger logger =
     (if starts_with logger LOGGER_PREFIX then drop (length LOGGER_PREFIX) logger else logger)"

definition ban_parseLogLine :: "(string \<Rightarrow> int option) \<Rightarrow> string \<Rightarrow> ban_entry" where
  "ban_parseLogLine parse_date raw =
     (case ban_LOG_LINE raw of
        None \<Rightarrow> \<lparr>be_date = None, be_timestamp = [], be_logger = [], be_pid = [], be_level = [],
                 be_message = raw, be_raw = raw\<rparr>
      | Some (timestamp, logger, pid, level, message) \<Rightarrow>
          \<lparr>be_date = parse_date (replace_first (CHR '','') (CHR ''.'') (replace_first (CHR '' '') (CHR ''T'') timestamp)),
           be_timestamp = timestamp, be_logger = strip_logger logger, be_pid = pid, be_level = level,
           be_message = message, be_raw = raw\<rparr>)"

datatype ban_column = Ban_date | Ban_logger | Ban_pid | Ban_level

definition rank_of :: "string \<Rightarrow> int" where
  "rank_of level = (case LEVEL_RANK level of None \<Rightarrow> -1 | Some n \<Rightarrow> n)"

fun ban_compareOn :: "(string \<Rightarrow> string \<Rightarrow> int) \<Rightarrow> ban_column \<Rightarrow> ban_entry \<Rightarrow> ban_entry \<Rightarrow> int" where
  "ban_compareOn lc Ban_date a b = time_or_zero (be_date a) - time_or_zero (be_date b)"
| "ban_compareOn lc Ban_pid a b = pid_or_zero (be_pid a) - pid_or_zero (be_pid b)"
| "ban_compareOn lc Ban_level a b = rank_of (be_level a) - rank_of (be_level b)"
| "ban_compareOn lc Ban_logger a b = lc (be_logger a) (be_logger b)"

lemma ban_table:
  assumes "comparator lc"
  shows "sortable_table (ban_compareOn lc)"
proof (rule sortable_table.intro)
  show "comparator (ban_compareOn lc c)" for c
    by (cases c) (simp_all add: comparator_key comparator_on[OF assms] ban_compareOn.simps[abs_def])
qed

interpretation ban_log: sortable_table "ban_compareOn code_compare"
  by (rule ban_table) (rule code_units.comparator_axioms)

definition levelBadgeClass :: "string \<Rightarrow> string" where
  "levelBadgeClass level =
     (if level = ''CRITICAL'' \<or> level = ''ERROR'' then ''text-bg-danger''
      else if level = ''WARNING'' then ''text-bg-warning''
      else if level = ''NOTICE'' then ''text-bg-info''
      else ''text-bg-light'')"

definition ban_line :: "string \<Rightarrow> string \<Rightarrow> string \<Rightarrow> string \<Rightarrow> string \<Rightarrow> string" where
  "ban_line timestamp logger pid level message =
     timestamp @ '' '' @ logger @ '' ['' @ pid @ '']: '' @ level @ '' '' @ message"

definition ban_fields_ok :: "string \<Rightarrow> string \<Rightarrow> string \<Rightarrow> string \<Rightarrow> string \<Rightarrow> bool" where
  "ban_fields_ok timestamp logger pid level message =
     (stamp_ok timestamp \<and> logger \<noteq> [] \<and> list_all non_ws logger \<and> pid \<noteq> [] \<and> list_all is_digit pid \<and>
      level \<noteq> [] \<and> list_all non_ws level \<and> stops is_ws message \<and> list_all (\<lambda>c. \<not> is_line_end c) message)"

lemma stamp_length: "stamp_ok t \<Longrightarrow> length t = 23"
  by (auto simp: stamp_ok_def dest: list_all2_lengthD)

text \<open>
  C29. The parser of the fail2ban log inverts the writer: an entry holds the time stamp, the
  logger without its prefix, the process number, the level and the message of the line,
  and its date is read from the stamp in ISO form.
\<close>

theorem ban_line_parsed:
  assumes "ban_fields_ok timestamp logger pid level message"
  shows "ban_parseLogLine parse_date (ban_line timestamp logger pid level message) =
    \<lparr>be_date = parse_date (replace_first (CHR '','') (CHR ''.'') (replace_first (CHR '' '') (CHR ''T'') timestamp)),
     be_timestamp = timestamp, be_logger = strip_logger logger, be_pid = pid, be_level = level,
     be_message = message, be_raw = ban_line timestamp logger pid level message\<rparr>"
proof -
  let ?r5 = "CHR '' '' # message"
  let ?r4 = "level @ ?r5"
  let ?r3 = "pid @ '']: '' @ ?r4"
  let ?r2 = "logger @ '' ['' @ ?r3"
  note ok = assms[unfolded ban_fields_ok_def]
  have line: "ban_line timestamp logger pid level message = timestamp @ CHR '' '' # ?r2"
    by (simp add: ban_line_def)
  have t: "take 23 (timestamp @ CHR '' '' # ?r2) = timestamp" "drop 23 (timestamp @ CHR '' '' # ?r2) = CHR '' '' # ?r2"
    using ok stamp_length[of timestamp] by auto
  have s2: "span1 is_ws (CHR '' '' # ?r2) = Some ('' '', ?r2)"
    using ok by (intro span1_space) (cases logger; auto simp: non_ws_def)
  have s3: "span1 non_ws ?r2 = Some (logger, '' ['' @ ?r3)"
    using ok by (intro span1_append) auto
  have s4: "span1 is_ws ('' ['' @ ?r3) = Some ('' '', CHR ''['' # ?r3)"
    using span1_space[of "CHR ''['' # ?r3"] by (simp add: is_ws_def)
  have s5: "span1 is_digit ?r3 = Some (pid, '']: '' @ ?r4)"
    using ok by (intro span1_append) auto
  have s6: "span1 is_ws (CHR '' '' # ?r4) = Some ('' '', ?r4)"
    using ok by (intro span1_space) (cases level; auto simp: non_ws_def)
  have s7: "span1 non_ws ?r4 = Some (level, ?r5)"
    using ok by (intro span1_append) auto
  have s8: "span1 is_ws ?r5 = Some ('' '', message)" using ok by (intro span1_space) simp
  have s9: "rest_of_line message = Some message" using ok rest_of_line_id[of message "[]"] by simp
  have "ban_LOG_LINE (ban_line timestamp logger pid level message) = Some (timestamp, logger, pid, level, message)"
    unfolding line ban_LOG_LINE_def t using ok s2 s3 s4 s5 s6 s7 s8 s9 by simp
  then show ?thesis by (simp add: ban_parseLogLine_def)
qed

theorem ban_line_parsed_witness:
  "be_logger (ban_parseLogLine (\<lambda>_. None) (ban_line ''2024-05-01 10:20:30,123'' ''fail2ban.actions'' ''7'' ''NOTICE'' ''Ban 1.2.3.4'')) = ''actions''"
proof -
  have "ban_fields_ok ''2024-05-01 10:20:30,123'' ''fail2ban.actions'' ''7'' ''NOTICE'' ''Ban 1.2.3.4''"
    by (simp add: ban_fields_ok_def stamp_ok_def non_ws_def is_ws_def is_digit_def is_line_end_def)
  from ban_line_parsed[OF this] show ?thesis
    by (simp add: strip_logger_def LOGGER_PREFIX_def starts_with_def)
qed

end
