(* ===== verification/Fail2ban_Page.thy ===== *)
theory Fail2ban_Page
  imports Auth_Session Log_Lines
begin

text \<open>
  The Fail2ban page (\<open>src/frontend/src/app/features/fail2ban/fail2ban.ts\<close>): the jails and the
  banned addresses, the ban policy and the daemon configuration, and the log.
\<close>

datatype tab = Overview | Policy | Log

record policy_form =
  qf_bantime :: jsnum
  qf_findtime :: jsnum
  qf_maxretry :: jsnum

record fail2ban_overview = auth_state +
  loggingOut :: bool
  activeTab :: tab
  jails :: "fail2ban_jail list"
  fail2banEnabled :: bool
  statusLoading :: bool
  statusError :: "string option"
  actionSuccess :: "string option"
  actionError :: "string option"
  banning :: bool
  unbanningIp :: "string option"
  banModel :: string

record fail2ban_page = fail2ban_overview +
  policyLoading :: bool
  policyLoaded :: bool
  policyError :: "string option"
  policySuccess :: "string option"
  savingPolicy :: bool
  policyConfigured :: bool
  policyModel :: policy_form
  daemonConfig :: string
  savingConfig :: bool
  logLines :: "string list"
  logLoading :: bool
  logLoaded :: bool
  logError :: "string option"
  logFilter :: string
  logSort :: "ban_column table_sort"

definition fail2ban_start :: "session_user option \<Rightarrow> fail2ban_page" where
  "fail2ban_start user =
     \<lparr>au_user = user, au_config = None, au_loaded = True,
      loggingOut = False, activeTab = Overview, jails = [], fail2banEnabled = True, statusLoading = True,
      statusError = None, actionSuccess = None, actionError = None, banning = False, unbanningIp = None,
      banModel = [],
      policyLoading = False, policyLoaded = False, policyError = None, policySuccess = None,
      savingPolicy = False, policyConfigured = False,
      policyModel = \<lparr>qf_bantime = Num 604800, qf_findtime = Num 604800, qf_maxretry = Num 6\<rparr>,
      daemonConfig = [], savingConfig = False,
      logLines = [], logLoading = False, logLoaded = False, logError = None, logFilter = [],
      logSort = new_sort\<rparr>"

definition bannedIps :: "fail2ban_page \<Rightarrow> banned_ip list" where
  "bannedIps s = concat (map (\<lambda>jail. map (\<lambda>ip. \<lparr>bi_ip = ip, bi_jail = j_name jail\<rparr>) (j_banned_ips jail)) (jails s))"

definition totalBanned :: "fail2ban_page \<Rightarrow> nat" where
  "totalBanned s = length (bannedIps s)"

definition logEntries :: "(string \<Rightarrow> int option) \<Rightarrow> fail2ban_page \<Rightarrow> ban_entry list" where
  "logEntries parse_date s = map (ban_parseLogLine parse_date) (logLines s)"

definition filteredLog :: "(string \<Rightarrow> int option) \<Rightarrow> fail2ban_page \<Rightarrow> ban_entry list" where
  "filteredLog parse_date s =
     (let needle = to_lower (trim (logFilter s)); es = logEntries parse_date s
      in if needle = [] then es else filter (\<lambda>e. str_includes (to_lower (be_raw e)) needle) es)"

definition visibleLog :: "(string \<Rightarrow> string \<Rightarrow> int) \<Rightarrow> (string \<Rightarrow> int option) \<Rightarrow> fail2ban_page \<Rightarrow> ban_entry list" where
  "visibleLog lc parse_date s = apply_sort (logSort s) (ban_compareOn lc) (filteredLog parse_date s)"

definition fail2ban_messageFor :: "js_error \<Rightarrow> string" where
  "fail2ban_messageFor err =
     (case err of
        HttpError status detail \<Rightarrow>
          if status = 400 then
            ''Invalid request. Fail2ban may be disabled '' @ em_dash @ '' check ENABLE_FAIL2BAN and the IP.''
          else if status = 502 then ''The mailserver container could not be reached. Check the Docker socket mount.''
          else if status = 422 then ''Invalid input. Check the IP address and try again.''
          else ''Something went wrong. Please try again.''
      | OtherError \<Rightarrow> ''Something went wrong. Please try again.'')"

section \<open>Loading and tabs\<close>

definition loadStatus :: "fail2ban_page cmd" where
  "loadStatus =
     seq (assign (\<lambda>s. s\<lparr>statusLoading := True, statusError := None\<rparr>))
     (attempt
       (fetch getStatus (\<lambda>status. assign (\<lambda>s. s\<lparr>jails := fs_jails status,
          fail2banEnabled := fs_fail2ban_enabled status\<rparr>)))
       (\<lambda>err. assign (\<lambda>s. s\<lparr>statusError := Some (fail2ban_messageFor err)\<rparr>))
       (\<lambda>s. s\<lparr>statusLoading := False\<rparr>))"

definition loadPolicy :: "fail2ban_page cmd" where
  "loadPolicy =
     seq (assign (\<lambda>s. s\<lparr>policyLoading := True, policyError := None\<rparr>))
     (attempt
       (fetch_both getPolicy getConfig (\<lambda>policy config.
          assign (\<lambda>s. s\<lparr>policyModel := \<lparr>qf_bantime = Num (of_int (fp_bantime policy)),
                                      qf_findtime = Num (of_int (fp_findtime policy)),
                                      qf_maxretry = Num (of_int (fp_maxretry policy))\<rparr>,
                       policyConfigured := fp_configured policy, daemonConfig := fc_content config,
                       policyLoaded := True\<rparr>)))
       (\<lambda>err. assign (\<lambda>s. s\<lparr>policyError := Some (fail2ban_messageFor err)\<rparr>))
       (\<lambda>s. s\<lparr>policyLoading := False\<rparr>))"

definition loadLog :: "fail2ban_page cmd" where
  "loadLog =
     seq (assign (\<lambda>s. s\<lparr>logLoading := True, logError := None\<rparr>))
     (attempt
       (fetch getLog (\<lambda>ls. assign (\<lambda>s. s\<lparr>logLines := ls, logLoaded := True\<rparr>)))
       (\<lambda>err. assign (\<lambda>s. s\<lparr>logError := Some (fail2ban_messageFor err)\<rparr>))
       (\<lambda>s. s\<lparr>logLoading := False\<rparr>))"

definition setTab :: "tab \<Rightarrow> fail2ban_page cmd" where
  "setTab t =
     seq (assign (\<lambda>s. s\<lparr>activeTab := t\<rparr>))
     (look (\<lambda>s.
       if t = Log \<and> \<not> logLoaded s then loadLog
       else if t = Policy \<and> \<not> policyLoaded s then loadPolicy
       else skip))"

definition fail2ban_refresh :: "fail2ban_page cmd" where
  "fail2ban_refresh =
     look (\<lambda>s. case activeTab s of Log \<Rightarrow> loadLog | Policy \<Rightarrow> loadPolicy | Overview \<Rightarrow> loadStatus)"

section \<open>Bans\<close>

definition onBan :: "bool \<Rightarrow> fail2ban_page cmd" where
  "onBan run =
     seq (assign (\<lambda>s. s\<lparr>actionError := None, actionSuccess := None\<rparr>))
     (submit run
       (look (\<lambda>s0.
         let ip = trim (banModel s0) in
         seq (assign (\<lambda>s. s\<lparr>banning := True\<rparr>))
         (attempt
           (fetch (banIp ip) (\<lambda>_.
             seq (assign (\<lambda>s. s\<lparr>actionSuccess := Some (''IP '' @ ip @ '' banned.''), banModel := []\<rparr>))
             loadStatus))
           (\<lambda>err. assign (\<lambda>s. s\<lparr>actionError := Some (fail2ban_messageFor err)\<rparr>))
           (\<lambda>s. s\<lparr>banning := False\<rparr>)))))"

definition onUnban :: "(string \<Rightarrow> bool) \<Rightarrow> string \<Rightarrow> fail2ban_page cmd" where
  "onUnban ask ip =
     (if \<not> ask (''Unban '' @ ip @ ''?'') then skip
      else
        seq (assign (\<lambda>s. s\<lparr>actionError := None, actionSuccess := None, unbanningIp := Some ip\<rparr>))
        (attempt
          (fetch (unbanIp ip) (\<lambda>_.
            seq (assign (\<lambda>s. s\<lparr>actionSuccess := Some (''IP '' @ ip @ '' unbanned.'')\<rparr>))
            loadStatus))
          (\<lambda>err. assign (\<lambda>s. s\<lparr>actionError := Some (fail2ban_messageFor err)\<rparr>))
          (\<lambda>s. s\<lparr>unbanningIp := None\<rparr>)))"

section \<open>Policy and daemon configuration\<close>

definition onSavePolicy :: "bool \<Rightarrow> fail2ban_page cmd" where
  "onSavePolicy run =
     seq (assign (\<lambda>s. s\<lparr>policyError := None, policySuccess := None\<rparr>))
     (submit run
       (look (\<lambda>s0.
         let bantime = qf_bantime (policyModel s0);
             findtime = qf_findtime (policyModel s0);
             maxretry = qf_maxretry (policyModel s0) in
         if \<not> list_all (\<lambda>seconds. is_integer seconds \<and> num_at_least seconds 60) [bantime, findtime] then
           assign (\<lambda>s. s\<lparr>policyError := Some ''The ban duration and detection window must be at least 60 seconds.''\<rparr>)
         else if \<not> is_integer maxretry \<or> num_less maxretry 1 \<or> num_greater maxretry 100 then
           assign (\<lambda>s. s\<lparr>policyError := Some ''The retry count must be between 1 and 100.''\<rparr>)
         else
           seq (assign (\<lambda>s. s\<lparr>savingPolicy := True\<rparr>))
           (attempt
             (fetch (setPolicy bantime findtime maxretry) (\<lambda>policy.
               assign (\<lambda>s. s\<lparr>policyConfigured := fp_configured policy,
                 policySuccess := Some ''Policy saved. Restart the mailserver to apply it.''\<rparr>)))
             (\<lambda>err. assign (\<lambda>s. s\<lparr>policyError := Some (fail2ban_messageFor err)\<rparr>))
             (\<lambda>s. s\<lparr>savingPolicy := False\<rparr>)))))"

definition fail2ban_onSaveConfig :: "fail2ban_page cmd" where
  "fail2ban_onSaveConfig =
     seq (assign (\<lambda>s. s\<lparr>policyError := None, policySuccess := None, savingConfig := True\<rparr>))
     (look (\<lambda>s0.
       attempt
         (fetch (setConfig (daemonConfig s0)) (\<lambda>config.
           assign (\<lambda>s. s\<lparr>daemonConfig := fc_content config,
             policySuccess := Some ''Daemon configuration saved. Restart the mailserver to apply it.''\<rparr>)))
         (\<lambda>err. assign (\<lambda>s. s\<lparr>policyError := Some (fail2ban_messageFor err)\<rparr>))
         (\<lambda>s. s\<lparr>savingConfig := False\<rparr>)))"

definition fail2ban_onLogout :: "fail2ban_page cmd" where
  "fail2ban_onLogout =
     seq (assign (\<lambda>s. s\<lparr>loggingOut := True\<rparr>))
     (try_finally (seq auth_logout (navigate ''/login'')) (\<lambda>s. s\<lparr>loggingOut := False\<rparr>))"

datatype fail2ban_event =
    Set_tab tab
  | Refresh
  | Type_ip string
  | Ban bool
  | Unban "string \<Rightarrow> bool" string
  | Type_policy policy_form
  | Save_policy bool
  | Daemon_config string
  | Save_daemon_config
  | Log_filter string
  | Toggle_log_sort ban_column
  | Sign_out

fun fail2ban_handle :: "fail2ban_event \<Rightarrow> fail2ban_page cmd" where
  "fail2ban_handle (Set_tab t) = setTab t"
| "fail2ban_handle Refresh = fail2ban_refresh"
| "fail2ban_handle (Type_ip v) = assign (\<lambda>s. s\<lparr>banModel := v\<rparr>)"
| "fail2ban_handle (Ban run) = onBan run"
| "fail2ban_handle (Unban ask ip) = onUnban ask ip"
| "fail2ban_handle (Type_policy m) = assign (\<lambda>s. s\<lparr>policyModel := m\<rparr>)"
| "fail2ban_handle (Save_policy run) = onSavePolicy run"
| "fail2ban_handle (Daemon_config v) = assign (\<lambda>s. s\<lparr>daemonConfig := v\<rparr>)"
| "fail2ban_handle Save_daemon_config = fail2ban_onSaveConfig"
| "fail2ban_handle (Log_filter v) = assign (\<lambda>s. s\<lparr>logFilter := v\<rparr>)"
| "fail2ban_handle (Toggle_log_sort c) = assign (\<lambda>s. s\<lparr>logSort := toggle_sort c (logSort s)\<rparr>)"
| "fail2ban_handle Sign_out = fail2ban_onLogout"

lemmas fail2ban_defs =
  loadStatus_def loadPolicy_def loadLog_def setTab_def fail2ban_refresh_def onBan_def onUnban_def
  onSavePolicy_def fail2ban_onSaveConfig_def fail2ban_onLogout_def

section \<open>Busy flags and requests\<close>

lemma tame_tab [tame_intros]:
  "tame f a \<Longrightarrow> tame f b \<Longrightarrow> tame f c \<Longrightarrow> tame f (case t of Overview \<Rightarrow> a | Policy \<Rightarrow> b | Log \<Rightarrow> c)"
  by (cases t) auto

lemma sends_tab [send_intros]:
  "sends P a \<Longrightarrow> sends P b \<Longrightarrow> sends P c \<Longrightarrow> sends P (case t of Overview \<Rightarrow> a | Policy \<Rightarrow> b | Log \<Rightarrow> c)"
  by (cases t) auto

definition fail2ban_flags :: "(fail2ban_page \<Rightarrow> bool) list" where
  "fail2ban_flags =
     [loggingOut, statusLoading, banning, policyLoading, savingPolicy, savingConfig, logLoading,
      \<lambda>s. is_some (unbanningIp s)]"

interpretation fail2ban_quiet:
  quiet_page fail2ban_handle loadStatus "fail2ban_start user" fail2ban_flags for user
proof
  show "list_all (\<lambda>f. clears f loadStatus \<or> tame f loadStatus \<and> \<not> f (fail2ban_start user)) fail2ban_flags"
    by (simp add: fail2ban_flags_def fail2ban_start_def fail2ban_defs page_defs tame_intros)
  show "list_all (\<lambda>f. tame f (fail2ban_handle e)) fail2ban_flags" for e
    by (cases e) (simp_all add: fail2ban_flags_def fail2ban_defs auth_defs page_defs tame_intros)
qed

lemma ends_tab [ends_intros]:
  assumes "ends a c" and "ends b d" and "ends n e"
  shows "ends (max a (max b n)) (case t of Overview \<Rightarrow> c | Policy \<Rightarrow> d | Log \<Rightarrow> e)"
  using ends_mono[OF assms(1)] ends_mono[OF assms(2)] ends_mono[OF assms(3)] by (cases t) simp_all

interpretation fail2ban_settling: settling_page fail2ban_handle loadStatus "fail2ban_start user" fail2ban_flags 2 for user
proof unfold_locales
  show "ends 2 loadStatus"
    unfolding fail2ban_defs page_defs by (rule ends_mono, (rule ends_intros)+, simp)
  show "ends 2 (fail2ban_handle e)" for e
    by (cases e; simp only: fail2ban_handle.simps fail2ban_defs auth_defs page_defs;
        rule ends_mono, (rule ends_intros)+, simp)
qed

definition at_least_int :: "int \<Rightarrow> jsnum \<Rightarrow> bool" where
  "at_least_int lo v = (\<exists>n. v = Num (of_int n) \<and> lo \<le> n)"

lemma at_least_intI: "is_integer v \<Longrightarrow> num_at_least v (of_int lo) \<Longrightarrow> at_least_int lo v"
proof (cases v)
  case (Num q)
  assume "is_integer v" "num_at_least v (of_int lo)"
  then have "q = of_int \<lfloor>q\<rfloor>" "of_int lo \<le> q" using Num by auto
  then show ?thesis using Num unfolding at_least_int_def by (metis of_int_le_iff)
qed auto

inductive fail2ban_request :: "request \<Rightarrow> bool" where
  "fail2ban_request (fst getStatus)"
| "fail2ban_request (fst getLog)"
| "fail2ban_request (fst getPolicy)"
| "fail2ban_request (fst getConfig)"
| "trim ip = ip \<Longrightarrow> fail2ban_request (fst (banIp ip))"
| "fail2ban_request (fst (unbanIp ip))"
| "at_least_int 60 b \<Longrightarrow> at_least_int 60 f \<Longrightarrow> int_between 1 100 r \<Longrightarrow> fail2ban_request (fst (setPolicy b f r))"
| "fail2ban_request (fst (setConfig c))"
| "fail2ban_request (fst auth_logout_endpoint)"
| "fail2ban_request (Navigate ''/login'')"

interpretation fail2ban_guarded:
  guarded_page fail2ban_handle loadStatus "fail2ban_start user" fail2ban_request for user
proof
  have sixty: "is_integer v \<Longrightarrow> num_at_least v 60 \<Longrightarrow> at_least_int 60 v" for v
    using at_least_intI[of v 60] by simp
  show "sends fail2ban_request loadStatus"
    by (simp add: fail2ban_defs page_defs send_intros fail2ban_request.intros)
  show "sends fail2ban_request (fail2ban_handle e)" for e
    by (cases e) (simp_all add: fail2ban_defs auth_logout_def page_defs send_intros
        fail2ban_request.intros sixty int_betweenI)
qed

lemma be_raw_parse [simp]: "be_raw (ban_parseLogLine parse_date raw) = raw"
  by (auto simp: ban_parseLogLine_def split: option.splits)

section \<open>Properties\<close>

text \<open>
  C25. In every interleaving, a ban policy is only sent with a ban time and a detection
  window that are integers of at least sixty seconds and a retry count from 1 to 100, a
  ban only with a trimmed address; the other requests of the page are its reads, the
  unbans, the daemon configuration and the sign-out.
\<close>

theorem fail2ban_requests_valid:
  assumes "reachable fail2ban_handle loadStatus (fail2ban_start user) s ps"
    and "q \<in> in_flight ps"
  shows "fail2ban_request q"
  using assms by (rule fail2ban_guarded.sent)

theorem fail2ban_requests_valid_witness:
  "fail2ban_request (fst (setPolicy (Num 60) (Num 604800) (Num 6)))"
  by (rule fail2ban_requests_valid[OF run_reach[where steps =
        "[Event (Type_policy \<lparr>qf_bantime = Num 60, qf_findtime = Num 604800, qf_maxretry = Num 6\<rparr>),
          Event (Save_policy True)]"], where user = None])
    (simp add: run_defs fail2ban_defs fail2ban_start_def endpoint_defs Let_def)

text \<open>
  The fail2ban page comes to rest: once the user stops, at most two answers can still come
  for each method that was started, and when none is left the three tabs, the ban and
  unban buttons and the two forms are free.
\<close>

theorem fail2ban_settles:
  assumes "reachable fail2ban_handle loadStatus (fail2ban_start user) s ps"
    and "answered (s, ps) n (t, qs)"
  shows "n \<le> 2 * length ps \<and>
    (exhausted qs \<longrightarrow>
      \<not> loggingOut t \<and> \<not> statusLoading t \<and> \<not> banning t \<and> \<not> policyLoading t \<and> \<not> savingPolicy t \<and>
      \<not> savingConfig t \<and> \<not> logLoading t \<and> unbanningIp t = None)"
  using fail2ban_settling.settles[OF assms] by (simp add: fail2ban_flags_def is_some_iff)

theorem fail2ban_settles_witness:
  "\<not> logLoading (fst (the (give [(1, [], failed 500), (0, [], failed 404)]
     (run_page fail2ban_handle loadStatus (fail2ban_start None) [Event (Set_tab Log)]))))"
proof -
  let ?c = "run_page fail2ban_handle loadStatus (fail2ban_start None) [Event (Set_tab Log)]"
  let ?as = "[(1, [], failed 500), (0, [], failed 404)]"
  have "\<exists>d. give ?as ?c = Some d \<and> exhausted (snd d)"
    by (simp add: run_defs fail2ban_defs fail2ban_start_def endpoint_defs exhausted_def)
  then obtain d where g: "give ?as ?c = Some d" and e: "exhausted (snd d)" by blast
  from fail2ban_settles[OF run_reach give_run[OF g]] show ?thesis using e g by simp
qed

end
