(* ===== verification/Logs_Page.thy ===== *)
theory Logs_Page
  imports Log_Lines
begin

text \<open>
  The mail log (\<open>src/frontend/src/app/features/mailserver/logs/logs.ts\<close>): lines, a filter and
  a sorted view, over the parser and the comparator of \<open>Log_Lines\<close>.
\<close>

record logs_page =
  loading :: bool
  error :: "string option"
  log_lines :: "string list"
  log_filter :: string
  log_sort :: "mail_column table_sort"

definition logs_start :: logs_page where
  "logs_start = \<lparr>loading = False, error = None, log_lines = [], log_filter = [], log_sort = new_sort\<rparr>"

definition log_entries :: "(string \<Rightarrow> int option) \<Rightarrow> logs_page \<Rightarrow> mail_entry list" where
  "log_entries parse_date s = map (mail_parseLogLine parse_date) (log_lines s)"

definition log_filtered :: "(string \<Rightarrow> int option) \<Rightarrow> logs_page \<Rightarrow> mail_entry list" where
  "log_filtered parse_date s =
     (let needle = to_lower (trim (log_filter s)); es = log_entries parse_date s
      in if needle = [] then es else filter (\<lambda>e. str_includes (to_lower (me_raw e)) needle) es)"

definition log_visible :: "(string \<Rightarrow> string \<Rightarrow> int) \<Rightarrow> (string \<Rightarrow> int option) \<Rightarrow> logs_page \<Rightarrow> mail_entry list" where
  "log_visible lc parse_date s = apply_sort (log_sort s) (mail_compareOn lc) (log_filtered parse_date s)"

definition load_logs :: "logs_page cmd" where
  "load_logs =
     seq (assign (\<lambda>s. s\<lparr>loading := True, error := None\<rparr>))
     (attempt
       (fetch getMailLogs (\<lambda>ls. assign (\<lambda>s. s\<lparr>log_lines := ls\<rparr>)))
       (\<lambda>err. assign (\<lambda>s. s\<lparr>error := Some (mailserverErrorMessage err)\<rparr>))
       (\<lambda>s. s\<lparr>loading := False\<rparr>))"

datatype logs_event =
    Refresh
  | Filter_input string
  | Toggle_sort mail_column

fun logs_handle :: "logs_event \<Rightarrow> logs_page cmd" where
  "logs_handle Refresh = load_logs"
| "logs_handle (Filter_input v) = assign (\<lambda>s. s\<lparr>log_filter := v\<rparr>)"
| "logs_handle (Toggle_sort c) = assign (\<lambda>s. s\<lparr>log_sort := toggle_sort c (log_sort s)\<rparr>)"

interpretation logs_quiet: quiet_page logs_handle load_logs logs_start "[loading]"
proof
  show "list_all (\<lambda>f. clears f load_logs \<or> tame f load_logs \<and> \<not> f logs_start) [loading]"
    by (simp add: load_logs_def page_defs tame_intros)
  show "list_all (\<lambda>f. tame f (logs_handle e)) [loading]" for e
    by (cases e) (simp_all add: load_logs_def page_defs tame_intros)
qed

lemma me_raw_parse [simp]: "me_raw (mail_parseLogLine parse_date raw) = raw"
  by (auto simp: mail_parseLogLine_def split: option.splits)

lemma mset_visible: "mset (log_visible lc parse_date s) = mset (log_filtered parse_date s)"
  by (simp add: log_visible_def)

text \<open>What the table shows are the lines that contain the needle, each as often as it was received.\<close>

lemma visible_lines:
  "mset (map me_raw (log_visible lc parse_date s)) =
     mset (filter (\<lambda>l. str_includes (to_lower l) (to_lower (trim (log_filter s)))) (log_lines s))"
proof -
  have all: "str_includes l []" "to_lower [] = []" for l by (cases l) auto
  have "map me_raw (log_filtered parse_date s) =
      filter (\<lambda>l. str_includes (to_lower l) (to_lower (trim (log_filter s)))) (log_lines s)"
    by (simp add: log_filtered_def log_entries_def Let_def filter_map comp_def all)
  then show ?thesis by (metis mset_map mset_visible)
qed

section \<open>Properties\<close>

text \<open>
  C30. The table of the mail log, whatever was received, typed and clicked: it shows exactly
  the lines that contain the text of the filter, each as often as it was received; with a
  column chosen, they are ordered by it in the chosen direction, and lines that compare
  equal stay in the order they were received.
\<close>

theorem log_view:
  assumes "comparator lc"
  shows "mset (map me_raw (log_visible lc parse_date s)) =
      mset (filter (\<lambda>l. str_includes (to_lower l) (to_lower (trim (log_filter s)))) (log_lines s)) \<and>
    (\<forall>c. ts_column (log_sort s) = Some c \<longrightarrow>
      sorted_wrt (\<lambda>a b. signed (ts_direction (log_sort s)) (mail_compareOn lc c a b) \<le> 0) (log_visible lc parse_date s) \<and>
      (\<forall>k. filter (\<lambda>r. mail_compareOn lc c k r = 0) (log_visible lc parse_date s) =
           filter (\<lambda>r. mail_compareOn lc c k r = 0) (log_filtered parse_date s)))"
proof -
  note table = mail_table[OF assms]
  show ?thesis
    unfolding log_visible_def
    using visible_lines[of lc parse_date s, unfolded log_visible_def]
      sortable_table.apply_sorted[OF table] sortable_table.apply_stable[OF table]
    by blast
qed

theorem log_view_witness:
  "mset (map me_raw (log_visible code_compare (\<lambda>_. None)
      (logs_start\<lparr>log_lines := [''t mx postfix: b'', ''junk''], log_filter := '' junk ''\<rparr>))) = {#''junk''#}"
  using log_view[OF code_units.comparator_axioms, of "\<lambda>_. None"
      "logs_start\<lparr>log_lines := [''t mx postfix: b'', ''junk''], log_filter := '' junk ''\<rparr>"]
  by (simp add: trim_def trim_start_def is_ws_def to_lower_def lower_char_def)

end
