(* ===== verification/Audit_Page.thy ===== *)
theory Audit_Page
  imports Pages
begin

text \<open>
  The audit trail (\<open>src/frontend/src/app/features/audit/audit.ts\<close>, \<open>core/audit.service.ts\<close>,
  \<open>core/audit.models.ts\<close>): filters applied by the backend, and paging.
\<close>

section \<open>AuditService\<close>

definition AUDIT_CATEGORIES :: "string list" where
  "AUDIT_CATEGORIES = [''auth'', ''user'', ''settings'', ''pat'', ''mailserver'']"

definition CATEGORY_LABELS :: "(string \<times> string) list" where
  "CATEGORY_LABELS =
     [(''auth'', ''Authentication''), (''user'', ''Users''), (''settings'', ''Settings''),
      (''pat'', ''Access tokens''), (''mailserver'', ''Mailserver'')]"

definition categoryLabel :: "string \<Rightarrow> string" where
  "categoryLabel category = (case map_of CATEGORY_LABELS category of None \<Rightarrow> category | Some l \<Rightarrow> l)"

record audit_query =
  q_actor :: string
  q_category :: string
  q_status :: string
  q_limit :: int
  q_offset :: int

text \<open>\<open>Object.entries(query)\<close>, numbers through \<open>String\<close>, without the empty texts.\<close>

definition query_entries :: "audit_query \<Rightarrow> (string \<times> string) list" where
  "query_entries q =
     [(''actor'', q_actor q), (''category'', q_category q), (''status'', q_status q),
      (''limit'', show_int (q_limit q)), (''offset'', show_int (q_offset q))]"

definition audit_list :: "audit_query \<Rightarrow> audit_page endpoint" where
  "audit_list q =
     (Api GET ''/api/audit'' (filter (\<lambda>(k, v). v \<noteq> []) (query_entries q)) None, as_audit_trail)"

section \<open>The page\<close>

definition PAGE_SIZE :: int where
  "PAGE_SIZE = 50"

record audit_view =
  entries :: "audit_entry list"
  total :: int
  loading :: bool
  loadError :: "string option"
  actor :: string
  category :: string
  status :: string
  page :: int

definition audit_start :: audit_view where
  "audit_start = \<lparr>entries = [], total = 0, loading = True, loadError = None, actor = [], category = [],
     status = [], page = 0\<rparr>"

text \<open>\<open>Math.ceil(total / PAGE_SIZE)\<close>, and the numbers shown under the table.\<close>

definition pageCount :: "audit_view \<Rightarrow> int" where
  "pageCount s = max 1 (- ((- total s) div PAGE_SIZE))"

definition firstShown :: "audit_view \<Rightarrow> int" where
  "firstShown s = (if total s = 0 then 0 else page s * PAGE_SIZE + 1)"

definition lastShown :: "audit_view \<Rightarrow> int" where
  "lastShown s = min (total s) (page s * PAGE_SIZE + int (length (entries s)))"

definition audit_load :: "audit_view cmd" where
  "audit_load =
     seq (assign (\<lambda>s. s\<lparr>loading := True, loadError := None\<rparr>))
     (attempt
       (look (\<lambda>s0.
         fetch (audit_list
             \<lparr>q_actor = trim (actor s0), q_category = category s0, q_status = status s0,
              q_limit = PAGE_SIZE, q_offset = page s0 * PAGE_SIZE\<rparr>) (\<lambda>result.
           assign (\<lambda>s. s\<lparr>entries := ap_items result, total := ap_total result\<rparr>))))
       (\<lambda>_. assign (\<lambda>s. s\<lparr>loadError := Some ''Unable to load the audit trail.''\<rparr>))
       (\<lambda>s. s\<lparr>loading := False\<rparr>))"

definition applyFilters :: "audit_view cmd" where
  "applyFilters = seq (assign (\<lambda>s. s\<lparr>page := 0\<rparr>)) audit_load"

definition resetFilters :: "audit_view cmd" where
  "resetFilters = seq (assign (\<lambda>s. s\<lparr>actor := [], category := [], status := []\<rparr>)) applyFilters"

definition goToPage :: "int \<Rightarrow> audit_view cmd" where
  "goToPage p =
     look (\<lambda>s0.
       let target = min (max p 0) (pageCount s0 - 1)
       in if target = page s0 then skip
          else seq (assign (\<lambda>s. s\<lparr>page := target\<rparr>)) audit_load)"

definition audit_refresh :: "audit_view cmd" where
  "audit_refresh = audit_load"

definition statusBadge :: "string \<Rightarrow> string" where
  "statusBadge st = (if st = ''failure'' then ''text-bg-danger'' else ''text-bg-success'')"

datatype audit_event =
    Type_actor string
  | Pick_category string
  | Pick_status string
  | Apply_filters
  | Reset_filters
  | Go_to int
  | Refresh

fun audit_handle :: "audit_event \<Rightarrow> audit_view cmd" where
  "audit_handle (Type_actor v) = assign (\<lambda>s. s\<lparr>actor := v\<rparr>)"
| "audit_handle (Pick_category v) = assign (\<lambda>s. s\<lparr>category := v\<rparr>)"
| "audit_handle (Pick_status v) = assign (\<lambda>s. s\<lparr>status := v\<rparr>)"
| "audit_handle Apply_filters = applyFilters"
| "audit_handle Reset_filters = resetFilters"
| "audit_handle (Go_to p) = goToPage p"
| "audit_handle Refresh = audit_refresh"

lemmas audit_defs =
  audit_load_def applyFilters_def resetFilters_def goToPage_def audit_refresh_def

section \<open>Busy flag, requests, paging\<close>

interpretation audit_quiet: quiet_page audit_handle audit_load audit_start "[loading]"
proof
  show "list_all (\<lambda>f. clears f audit_load \<or> tame f audit_load \<and> \<not> f audit_start) [loading]"
    by (simp add: audit_defs page_defs tame_intros)
  show "list_all (\<lambda>f. tame f (audit_handle e)) [loading]" for e
    by (cases e) (simp_all add: audit_defs page_defs tame_intros)
qed

lemma pageCount_pos [simp]: "0 < pageCount s"
  by (simp add: pageCount_def)

lemma goToPage_keeps: "segs (keeps (\<lambda>s. 0 \<le> page s)) audit_load \<Longrightarrow> segs (keeps (\<lambda>s. 0 \<le> page s)) (goToPage p)"
  unfolding goToPage_def Let_def
  by (intro kept.segs_look kept.segs_if kept.segs_seq kept.segs_assign kept.segs_skip allI impI)
    (auto simp: keeps_def)

text \<open>
  The only request is a page of the trail: fifty entries from a multiple of fifty, and no
  parameter with an empty value. The offset is not negative because the page never is.
\<close>

definition page_request :: "string \<Rightarrow> string \<Rightarrow> string \<Rightarrow> nat \<Rightarrow> request" where
  "page_request a c t k = Api GET ''/api/audit''
     ((if a = [] then [] else [(''actor'', a)]) @ (if c = [] then [] else [(''category'', c)]) @
      (if t = [] then [] else [(''status'', t)]) @ [(''limit'', ''50''), (''offset'', show_nat (k * 50))]) None"

inductive audit_request :: "request \<Rightarrow> bool" where
  "trim a = a \<Longrightarrow> audit_request (page_request a c t k)"

lemma fifty: "show_nat 50 = ''50''"
  by (simp add: show_nat.simps[of 50] show_nat.simps[of 5] show_nat.simps[of 0])

lemma audit_list_page:
  "0 \<le> p \<Longrightarrow> fst (audit_list \<lparr>q_actor = a, q_category = c, q_status = t, q_limit = PAGE_SIZE, q_offset = p * PAGE_SIZE\<rparr>) =
     page_request a c t (nat p)"
  by (auto simp: audit_list_def query_entries_def page_request_def show_int_def PAGE_SIZE_def fifty nat_mult_distrib)

lemma attempt_look: "attempt (look c) h f s = attempt (c s) h f s"
  by (simp add: attempt_def try_finally_def try_catch_def after_eq)

lemma sends_audit_load:
  assumes "0 \<le> page s"
  shows "sends_at audit_request (audit_load s)"
proof -
  let ?t = "s\<lparr>loading := True, loadError := None\<rparr>"
  let ?q = "audit_list \<lparr>q_actor = trim (actor s), q_category = category s, q_status = status s,
    q_limit = PAGE_SIZE, q_offset = page s * PAGE_SIZE\<rparr>"
  let ?k = "\<lambda>result. assign (\<lambda>s. s\<lparr>entries := ap_items result, total := ap_total result\<rparr>)"
  have "audit_request (fst ?q)"
    by (simp add: audit_list_page[OF assms] audit_request.intros)
  then have "sends audit_request (attempt (fetch ?q ?k)
      (\<lambda>_. assign (\<lambda>s. s\<lparr>loadError := Some ''Unable to load the audit trail.''\<rparr>)) (\<lambda>s. s\<lparr>loading := False\<rparr>))"
    by (simp add: page_defs send_intros)
  from this[unfolded sends_def, rule_format, of ?t]
  show ?thesis by (simp add: audit_load_def attempt_look)
qed

interpretation audit_guarded: steady_guarded audit_handle audit_load audit_start "\<lambda>s. 0 \<le> page s" audit_request
proof
  have load: "segs (keeps (\<lambda>s. 0 \<le> page s)) audit_load"
    by (simp add: audit_load_def page_defs seg_intros keeps_def)
  show "0 \<le> page audit_start" by (simp add: audit_start_def)
  show "segs (keeps (\<lambda>s. 0 \<le> page s)) audit_load" by (rule load)
  show "segs (keeps (\<lambda>s. 0 \<le> page s)) (audit_handle e)" for e
    by (cases e) (simp_all add: applyFilters_def resetFilters_def goToPage_keeps
        audit_refresh_def load seg_intros keeps_def)
  show "sends_at audit_request (audit_load audit_start)"
    by (rule sends_audit_load) (simp add: audit_start_def)
  have target: "0 \<le> min (max p 0) (pageCount s - 1)" for p s
    using pageCount_pos[of s] by linarith
  show "sends_at audit_request (audit_handle e s)" if "0 \<le> page s" for e s
    by (cases e) (use that target in \<open>auto simp: applyFilters_def resetFilters_def goToPage_def audit_refresh_def
        Let_def sends_at_def skip_def assign_def intro!: sends_audit_load[unfolded sends_at_def]\<close>)
qed

text \<open>The last page is the one that holds the last entry.\<close>

lemma pageCount_bounds:
  assumes "0 < total s"
  shows "(pageCount s - 1) * 50 < total s" and "total s \<le> pageCount s * 50"
proof -
  have "(- ((- n) div 50) - 1) * 50 < n" "n \<le> - ((- n) div 50) * 50" if "0 < n" for n :: int
    using that by presburger+
  from this[OF assms] show "(pageCount s - 1) * 50 < total s" "total s \<le> pageCount s * 50"
    using assms by (auto simp: pageCount_def PAGE_SIZE_def max_def)
qed

section \<open>Properties\<close>



end
