(* ===== verification/About_Page.thy ===== *)
theory About_Page
  imports Pages Format
begin

text \<open>
  The about page (\<open>src/frontend/src/app/features/about/about.ts\<close>): the version of the
  application, the latest release on GitHub, and the comparison of the two. The release
  is an untyped JSON value in the source; the model keeps what is read of it, its
  \<open>tag_name\<close>. An HTTP status other than success rejects like the \<open>throw\<close> of the source.
\<close>

record about_page =
  appVersion :: string
  checkingUpdate :: bool
  about_error :: "string option"
  latestRelease :: "string option option"

definition about_start :: about_page where
  "about_start = \<lparr>appVersion = ''Development'', checkingUpdate = False, about_error = None, latestRelease = None\<rparr>"

definition repo :: string where
  "repo = ''cyr-ius/mailserver-ui''"

definition repoUrl :: string where
  "repoUrl = ''https://github.com/'' @ repo"

definition issueUrl :: "about_page \<Rightarrow> string" where
  "issueUrl s =
     ''https://github.com/'' @ repo @ ''/issues/new?title='' @ encodeURIComponent ''[Bug] '' @ ''&body='' @
     encodeURIComponent (''Version: '' @ appVersion s @ [CHR 0x0A, CHR 0x0A] @ ''Describe the issue:'' @ [CHR 0x0A])"

section \<open>Versions\<close>

text \<open>\<open>replace(/^v/i, '')\<close>\<close>

definition strip_v :: "string \<Rightarrow> string" where
  "strip_v version = (case version of [] \<Rightarrow> [] | c # cs \<Rightarrow> if c = CHR ''v'' \<or> c = CHR ''V'' then cs else version)"

text \<open>\<open>replace(/\D.*/, '')\<close>: from the first character that is no digit to the end of its line.\<close>

definition strip_suffix :: "string \<Rightarrow> string" where
  "strip_suffix part =
     (case dropWhile is_digit part of
        [] \<Rightarrow> part
      | c # cs \<Rightarrow> takeWhile is_digit part @ dropWhile (\<lambda>c. \<not> is_line_end c) cs)"

definition finite_parts :: "jsnum list \<Rightarrow> rat list" where
  "finite_parts xs = List.map_filter (\<lambda>x. case x of Num q \<Rightarrow> Some q | _ \<Rightarrow> None) xs"

definition normalizeVersion :: "string \<Rightarrow> rat list" where
  "normalizeVersion version =
     finite_parts (map (\<lambda>part. parse_number True (strip_suffix part)) (split_on (CHR ''.'') (strip_v version)))"

definition part_at :: "rat list \<Rightarrow> nat \<Rightarrow> rat" where
  "part_at xs i = (if i < length xs then xs ! i else 0)"

text \<open>The loop from \<open>i\<close>, with \<open>n\<close> rounds left.\<close>

fun version_loop :: "rat list \<Rightarrow> rat list \<Rightarrow> nat \<Rightarrow> nat \<Rightarrow> bool" where
  "version_loop r l i 0 = False"
| "version_loop r l i (Suc n) =
     (if part_at r i > part_at l i then True
      else if part_at r i < part_at l i then False
      else version_loop r l (Suc i) n)"

definition isNewerVersion :: "string \<Rightarrow> string \<Rightarrow> bool" where
  "isNewerVersion remote local =
     (let r = normalizeVersion remote; l = normalizeVersion local
      in version_loop r l 0 (max (length r) (length l)))"

definition updateAvailable :: "about_page \<Rightarrow> bool" where
  "updateAvailable s =
     (case Option.bind (latestRelease s) (\<lambda>t. t) of
        None \<Rightarrow> False
      | Some tag \<Rightarrow> if tag = [] then False else isNewerVersion tag (appVersion s))"

text \<open>The loop decides on the first position where the two differ, missing parts read as 0.\<close>

lemma version_loop_iff:
  "version_loop r l i n \<longleftrightarrow>
     (\<exists>j. i \<le> j \<and> j < i + n \<and> part_at l j < part_at r j \<and> (\<forall>k. i \<le> k \<and> k < j \<longrightarrow> part_at r k = part_at l k))"
proof (induction r l i n rule: version_loop.induct)
  case (2 r l i n)
  consider "part_at r i > part_at l i" | "part_at r i < part_at l i" | "part_at r i = part_at l i" by linarith
  then show ?case
  proof cases
    case 1
    then show ?thesis by (auto intro!: exI[of _ i])
  next
    case 2
    then have "\<not> (\<exists>j. i \<le> j \<and> j < i + Suc n \<and> part_at l j < part_at r j \<and>
      (\<forall>k. i \<le> k \<and> k < j \<longrightarrow> part_at r k = part_at l k))"
      by (metis le_neq_implies_less less_asym less_irrefl order_refl)
    then show ?thesis using 2 by simp
  next
    case 3
    have "(\<exists>j. Suc i \<le> j \<and> j < Suc i + n \<and> part_at l j < part_at r j \<and>
        (\<forall>k. Suc i \<le> k \<and> k < j \<longrightarrow> part_at r k = part_at l k)) \<longleftrightarrow>
      (\<exists>j. i \<le> j \<and> j < i + Suc n \<and> part_at l j < part_at r j \<and>
        (\<forall>k. i \<le> k \<and> k < j \<longrightarrow> part_at r k = part_at l k))" (is "?A \<longleftrightarrow> ?B")
    proof
      assume ?A
      then obtain j where j: "Suc i \<le> j" "j < Suc i + n" "part_at l j < part_at r j"
        "\<forall>k. Suc i \<le> k \<and> k < j \<longrightarrow> part_at r k = part_at l k" by blast
      have "\<forall>k. i \<le> k \<and> k < j \<longrightarrow> part_at r k = part_at l k" using j(4) 3 by (metis Suc_leI le_neq_implies_less)
      then show ?B using j by (intro exI[of _ j]) auto
    next
      assume ?B
      then obtain j where j: "i \<le> j" "j < i + Suc n" "part_at l j < part_at r j"
        "\<forall>k. i \<le> k \<and> k < j \<longrightarrow> part_at r k = part_at l k" by blast
      have "i \<noteq> j" using j(3) 3 by auto
      then show ?A using j by (intro exI[of _ j]) auto
    qed
    then show ?thesis using 3 2 by simp
  qed
qed simp

section \<open>The page\<close>

definition health_endpoint :: "string option endpoint" where
  "health_endpoint = (Api GET ''/api/health'' [] None, as_health)"

definition latest_release_endpoint :: "string option endpoint" where
  "latest_release_endpoint =
     (ExternalGet (''https://api.github.com/repos/'' @ repo @ ''/releases/latest''), as_release)"

definition loadVersion :: "about_page cmd" where
  "loadVersion =
     try_catch
       (fetch health_endpoint (\<lambda>version.
          assign (\<lambda>s. s\<lparr>appVersion := (case version of None \<Rightarrow> ''Development'' | Some v \<Rightarrow> v)\<rparr>)))
       (\<lambda>_. assign (\<lambda>s. s\<lparr>appVersion := ''Development''\<rparr>))"

definition checkForUpdate :: "unit \<Rightarrow> about_page cmd" where
  "checkForUpdate _ =
     seq (assign (\<lambda>s. s\<lparr>checkingUpdate := True, about_error := None, latestRelease := None\<rparr>))
     (attempt
       (fetch latest_release_endpoint (\<lambda>tag. assign (\<lambda>s. s\<lparr>latestRelease := Some tag\<rparr>)))
       (\<lambda>_. assign (\<lambda>s. s\<lparr>about_error := Some ''Unable to check latest release on GitHub.''\<rparr>))
       (\<lambda>s. s\<lparr>checkingUpdate := False\<rparr>))"

interpretation about_quiet: quiet_page checkForUpdate loadVersion about_start "[checkingUpdate]"
  by unfold_locales
    (simp_all add: checkForUpdate_def loadVersion_def about_start_def page_defs tame_intros)

section \<open>Properties\<close>

text \<open>
  C33. The comparison of versions is a strict order on what the versions are read as: one
  version is newer exactly if the two differ in some part and the first such part is
  greater, missing parts counting as zero. So no version is newer than itself, two versions
  are never newer than each other, and where neither is newer all parts are equal.
\<close>

theorem newer_version:
  "(isNewerVersion a b \<longleftrightarrow>
      (\<exists>j. part_at (normalizeVersion b) j < part_at (normalizeVersion a) j \<and>
        (\<forall>k < j. part_at (normalizeVersion a) k = part_at (normalizeVersion b) k))) \<and>
   \<not> (isNewerVersion a b \<and> isNewerVersion b a) \<and>
   (isNewerVersion a b \<or> isNewerVersion b a \<or>
      (\<forall>k. part_at (normalizeVersion a) k = part_at (normalizeVersion b) k))"
proof -
  let ?newer = "\<lambda>u v. \<exists>j. part_at (normalizeVersion v) j < part_at (normalizeVersion u) j \<and>
        (\<forall>k < j. part_at (normalizeVersion u) k = part_at (normalizeVersion v) k)"
  have eq: "isNewerVersion u v \<longleftrightarrow> ?newer u v" for u v
  proof -
    have "j < max (length (normalizeVersion u)) (length (normalizeVersion v))"
      if "part_at (normalizeVersion v) j < part_at (normalizeVersion u) j" for j
      using that by (auto simp: part_at_def split: if_splits)
    then show ?thesis unfolding isNewerVersion_def Let_def version_loop_iff by auto
  qed
  have asym: "\<not> (?newer a b \<and> ?newer b a)"
  proof
    assume "?newer a b \<and> ?newer b a"
    then obtain i j where i: "part_at (normalizeVersion b) i < part_at (normalizeVersion a) i"
        "\<forall>k < i. part_at (normalizeVersion a) k = part_at (normalizeVersion b) k"
      and j: "part_at (normalizeVersion a) j < part_at (normalizeVersion b) j"
        "\<forall>k < j. part_at (normalizeVersion b) k = part_at (normalizeVersion a) k" by blast
    then show False by (metis less_irrefl less_asym linorder_neqE_nat)
  qed
  have total: "?newer a b \<or> ?newer b a \<or> (\<forall>k. part_at (normalizeVersion a) k = part_at (normalizeVersion b) k)"
  proof (cases "\<forall>k. part_at (normalizeVersion a) k = part_at (normalizeVersion b) k")
    case False
    then obtain k where "part_at (normalizeVersion a) k \<noteq> part_at (normalizeVersion b) k" by blast
    from exists_least_iff[of "\<lambda>k. part_at (normalizeVersion a) k \<noteq> part_at (normalizeVersion b) k"] this
    obtain j where "part_at (normalizeVersion a) j \<noteq> part_at (normalizeVersion b) j"
      "\<forall>k < j. part_at (normalizeVersion a) k = part_at (normalizeVersion b) k" by blast
    then show ?thesis by (metis linorder_neqE_linordered_idom)
  qed simp
  show ?thesis unfolding eq using asym total by blast
qed

theorem newer_version_witness: "isNewerVersion ''v1.10.0'' ''1.9'' \<and> \<not> isNewerVersion ''1.9'' ''v1.10.0''"
proof -
  have n: "normalizeVersion ''v1.10.0'' = [1, 10, 0]" "normalizeVersion ''1.9'' = [1, 9]"
    by (simp_all add: normalizeVersion_def strip_v_def strip_suffix_def finite_parts_def parse_number_def
        trim_start_def is_ws_def is_digit_def hex_value_def value_of_def List.map_filter_def Let_def)
  have "isNewerVersion ''v1.10.0'' ''1.9''"
    unfolding newer_version[of "''v1.10.0''" "''1.9''", THEN conjunct1] n
    by (intro exI[of _ 1]) (simp add: part_at_def)
  then show ?thesis using newer_version[of "''v1.10.0''" "''1.9''"] by blast
qed

end
