(* ===== verification/Settings_Pages.thy ===== *)
theory Settings_Pages
  imports Pages
begin

text \<open>
  The settings pages: the mail connector (\<open>src/frontend/src/app/features/settings/mail/mail.ts\<close>),
  single sign-on (\<open>features/settings/oidc/oidc.ts\<close>), and their service
  (\<open>core/settings.service.ts\<close>).
\<close>

record settings_page =
  loading :: bool
  loadError :: "string option"
  saving :: bool
  formError :: "string option"
  successMessage :: "string option"

definition settings_messageFor :: "js_error \<Rightarrow> string" where
  "settings_messageFor err =
     (case err of
        HttpError status detail \<Rightarrow>
          if status = 400 then (case detail of Some d \<Rightarrow> d | None \<Rightarrow> ''The configuration is invalid.'')
          else ''Unable to save the configuration. Please try again.''
      | OtherError \<Rightarrow> ''Unable to save the configuration. Please try again.'')"

section \<open>The mail connector\<close>

record mail_form =
  mm_enabled :: bool
  mm_host :: string
  mm_port :: jsnum
  mm_username :: string
  mm_password :: string
  mm_use_tls :: bool
  mm_use_ssl :: bool
  mm_from_address :: string
  mm_recipients :: string
  mm_notify_auth_events :: bool
  mm_notify_audit_events :: bool

record mail_settings_update =
  mp_enabled :: bool
  mp_host :: string
  mp_port :: jsnum
  mp_username :: string
  mp_use_tls :: bool
  mp_use_ssl :: bool
  mp_from_address :: string
  mp_recipients :: string
  mp_notify_auth_events :: bool
  mp_notify_audit_events :: bool
  mp_password :: "string option"

definition EMPTY_MAIL :: mail_form where
  "EMPTY_MAIL =
     \<lparr>mm_enabled = False, mm_host = [], mm_port = Num 587, mm_username = [], mm_password = [],
      mm_use_tls = True, mm_use_ssl = False, mm_from_address = [], mm_recipients = [],
      mm_notify_auth_events = False, mm_notify_audit_events = False\<rparr>"

text \<open>The JSON body: a password that is undefined is not a member.\<close>

definition json_mail :: "mail_settings_update \<Rightarrow> json" where
  "json_mail p =
     JObj ([(''enabled'', JBool (mp_enabled p)), (''host'', JStr (mp_host p)), (''port'', JNum (mp_port p)),
            (''username'', JStr (mp_username p)), (''use_tls'', JBool (mp_use_tls p)),
            (''use_ssl'', JBool (mp_use_ssl p)), (''from_address'', JStr (mp_from_address p)),
            (''recipients'', JStr (mp_recipients p)),
            (''notify_auth_events'', JBool (mp_notify_auth_events p)),
            (''notify_audit_events'', JBool (mp_notify_audit_events p))] @
           (case mp_password p of None \<Rightarrow> [] | Some w \<Rightarrow> [(''password'', JStr w)]))"

definition getMail :: "mail_settings endpoint" where
  "getMail = (Api GET ''/api/settings/mail'' [] None, as_mail_settings)"

definition updateMail :: "mail_settings_update \<Rightarrow> mail_settings endpoint" where
  "updateMail p = (Api PUT ''/api/settings/mail'' [] (Some (json_mail p)), as_mail_settings)"

definition testMail :: "string \<Rightarrow> mail_test_result endpoint" where
  "testMail recipient =
     (Api POST ''/api/settings/mail/test'' [] (Some (JObj [(''recipient'', JStr recipient)])), as_mail_test)"

record mail_page = settings_page +
  passwordStored :: bool
  testing :: bool
  testRecipient :: string
  testResult :: "mail_test_result option"
  mail_model :: mail_form

definition mail_start :: mail_page where
  "mail_start =
     \<lparr>loading = True, loadError = None, saving = False, formError = None, successMessage = None,
      passwordStored = False, testing = False, testRecipient = [], testResult = None, mail_model = EMPTY_MAIL\<rparr>"

definition canTest :: "mail_page \<Rightarrow> bool" where
  "canTest s = (mm_enabled (mail_model s) \<and> \<not> saving s)"

definition mail_toForm :: "mail_settings \<Rightarrow> mail_form" where
  "mail_toForm cfg =
     \<lparr>mm_enabled = st_enabled cfg, mm_host = st_host cfg, mm_port = Num (of_int (st_port cfg)),
      mm_username = st_username cfg, mm_password = [], mm_use_tls = st_use_tls cfg,
      mm_use_ssl = st_use_ssl cfg, mm_from_address = st_from_address cfg, mm_recipients = st_recipients cfg,
      mm_notify_auth_events = st_notify_auth_events cfg, mm_notify_audit_events = st_notify_audit_events cfg\<rparr>"

definition mail_toPayload :: "mail_form \<Rightarrow> mail_settings_update" where
  "mail_toPayload v =
     \<lparr>mp_enabled = mm_enabled v, mp_host = mm_host v, mp_port = mm_port v, mp_username = mm_username v,
      mp_use_tls = mm_use_tls v, mp_use_ssl = mm_use_ssl v, mp_from_address = mm_from_address v,
      mp_recipients = mm_recipients v, mp_notify_auth_events = mm_notify_auth_events v,
      mp_notify_audit_events = mm_notify_audit_events v,
      mp_password = (if trim (mm_password v) \<noteq> [] then Some (mm_password v) else None)\<rparr>"

definition load_mail :: "mail_page cmd" where
  "load_mail =
     seq (assign (\<lambda>s. s\<lparr>loading := True, loadError := None\<rparr>))
     (attempt
       (fetch getMail (\<lambda>cfg.
          assign (\<lambda>s. s\<lparr>passwordStored := st_password_set cfg, mail_model := mail_toForm cfg\<rparr>)))
       (\<lambda>_. assign (\<lambda>s. s\<lparr>loadError := Some ''Unable to load the mail configuration.''\<rparr>))
       (\<lambda>s. s\<lparr>loading := False\<rparr>))"

definition mail_onSubmit :: "mail_page cmd" where
  "mail_onSubmit =
     seq (assign (\<lambda>s. s\<lparr>formError := None, successMessage := None, testResult := None\<rparr>))
     (look (\<lambda>s0.
       let v = mail_model s0 in
       if mm_enabled v \<and> trim (mm_host v) = [] then
         assign (\<lambda>s. s\<lparr>formError := Some ''An SMTP host is required when the connector is enabled.''\<rparr>)
       else if mm_enabled v \<and> trim (mm_from_address v) = [] then
         assign (\<lambda>s. s\<lparr>formError := Some ''A sender address is required when the connector is enabled.''\<rparr>)
       else if mm_use_tls v \<and> mm_use_ssl v then
         assign (\<lambda>s. s\<lparr>formError := Some ''Choose either implicit TLS (SSL) or STARTTLS, not both.''\<rparr>)
       else
         seq (assign (\<lambda>s. s\<lparr>saving := True\<rparr>))
         (attempt
           (fetch (updateMail (mail_toPayload v)) (\<lambda>updated.
             assign (\<lambda>s. s\<lparr>passwordStored := st_password_set updated, mail_model := mail_toForm updated,
                          successMessage := Some ''Mail configuration saved.''\<rparr>)))
           (\<lambda>err. assign (\<lambda>s. s\<lparr>formError := Some (settings_messageFor err)\<rparr>))
           (\<lambda>s. s\<lparr>saving := False\<rparr>))))"

definition onTest :: "mail_page cmd" where
  "onTest =
     seq (assign (\<lambda>s. s\<lparr>testResult := None, testing := True\<rparr>))
     (look (\<lambda>s0.
       attempt
         (fetch (testMail (trim (testRecipient s0))) (\<lambda>result. assign (\<lambda>s. s\<lparr>testResult := Some result\<rparr>)))
         (\<lambda>err. assign (\<lambda>s. s\<lparr>testResult := Some \<lparr>tr_sent = False, tr_detail = settings_messageFor err\<rparr>\<rparr>))
         (\<lambda>s. s\<lparr>testing := False\<rparr>)))"

datatype tls_mode = Starttls | Ssl | No_tls

definition onTlsModeChange :: "tls_mode \<Rightarrow> mail_page \<Rightarrow> mail_page" where
  "onTlsModeChange mode s =
     s\<lparr>mail_model := (mail_model s)\<lparr>mm_use_tls := (mode = Starttls), mm_use_ssl := (mode = Ssl)\<rparr>\<rparr>"

definition tlsMode :: "mail_page \<Rightarrow> tls_mode" where
  "tlsMode s =
     (if mm_use_ssl (mail_model s) then Ssl else if mm_use_tls (mail_model s) then Starttls else No_tls)"

text \<open>A keystroke writes one field of the form; \<open>edit\<close> keeps the two TLS fields, which have no input of their own.\<close>

datatype mail_event =
    Edit_mail mail_form
  | Tls_mode_change tls_mode
  | Test_recipient string
  | Submit_mail
  | Test_mail

fun mail_handle :: "mail_event \<Rightarrow> mail_page cmd" where
  "mail_handle (Edit_mail m) =
     assign (\<lambda>s. s\<lparr>mail_model := m\<lparr>mm_use_tls := mm_use_tls (mail_model s), mm_use_ssl := mm_use_ssl (mail_model s)\<rparr>\<rparr>)"
| "mail_handle (Tls_mode_change mode) = assign (onTlsModeChange mode)"
| "mail_handle (Test_recipient v) = assign (\<lambda>s. s\<lparr>testRecipient := v\<rparr>)"
| "mail_handle Submit_mail = mail_onSubmit"
| "mail_handle Test_mail = onTest"

lemmas mail_defs = load_mail_def mail_onSubmit_def onTest_def onTlsModeChange_def

definition mail_flags :: "(mail_page \<Rightarrow> bool) list" where
  "mail_flags = [loading, saving, testing]"

interpretation mail_quiet: quiet_page mail_handle load_mail mail_start mail_flags
proof
  show "list_all (\<lambda>f. clears f load_mail \<or> tame f load_mail \<and> \<not> f mail_start) mail_flags"
    by (simp add: mail_flags_def mail_start_def mail_defs page_defs tame_intros)
  show "list_all (\<lambda>f. tame f (mail_handle e)) mail_flags" for e
    by (cases e) (simp_all add: mail_flags_def mail_defs page_defs tame_intros)
qed

definition mail_payload_ok :: "mail_settings_update \<Rightarrow> bool" where
  "mail_payload_ok p =
     ((mp_enabled p \<longrightarrow> trim (mp_host p) \<noteq> [] \<and> trim (mp_from_address p) \<noteq> []) \<and>
      \<not> (mp_use_tls p \<and> mp_use_ssl p) \<and>
      (\<forall>w. mp_password p = Some w \<longrightarrow> trim w \<noteq> []))"

inductive mail_request :: "request \<Rightarrow> bool" where
  "mail_request (fst getMail)"
| "mail_payload_ok p \<Longrightarrow> mail_request (fst (updateMail p))"
| "trim r = r \<Longrightarrow> mail_request (fst (testMail r))"

interpretation mail_guarded: guarded_page mail_handle load_mail mail_start mail_request
proof
  show "sends mail_request load_mail"
    by (simp add: mail_defs page_defs send_intros mail_request.intros)
  show "sends mail_request (mail_handle e)" for e
    by (cases e) (simp_all add: mail_defs page_defs send_intros mail_request.intros mail_payload_ok_def
        mail_toPayload_def)
qed

section \<open>Single sign-on\<close>

record oidc_form =
  oo_enabled :: bool
  oo_issuer :: string
  oo_client_id :: string
  oo_client_secret :: string
  oo_redirect_uri :: string
  oo_post_logout_redirect_uri :: string
  oo_response_type :: string
  oo_scope :: string
  oo_oidc_only :: bool
  oo_admin_group_claim :: string
  oo_admin_group :: string
  oo_manager_group_claim :: string
  oo_manager_group :: string
  oo_restrict_to_groups :: bool

record oidc_settings_update =
  op_enabled :: bool
  op_issuer :: string
  op_client_id :: string
  op_redirect_uri :: string
  op_post_logout_redirect_uri :: string
  op_response_type :: string
  op_scope :: string
  op_oidc_only :: bool
  op_admin_group_claim :: string
  op_admin_group :: string
  op_manager_group_claim :: string
  op_manager_group :: string
  op_restrict_to_groups :: bool
  op_client_secret :: "string option"

definition EMPTY_OIDC :: oidc_form where
  "EMPTY_OIDC =
     \<lparr>oo_enabled = False, oo_issuer = [], oo_client_id = [], oo_client_secret = [], oo_redirect_uri = [],
      oo_post_logout_redirect_uri = [], oo_response_type = ''code'', oo_scope = ''openid profile email groups'',
      oo_oidc_only = False, oo_admin_group_claim = [], oo_admin_group = [], oo_manager_group_claim = [],
      oo_manager_group = [], oo_restrict_to_groups = False\<rparr>"

definition json_oidc :: "oidc_settings_update \<Rightarrow> json" where
  "json_oidc p =
     JObj ([(''enabled'', JBool (op_enabled p)), (''issuer'', JStr (op_issuer p)),
            (''client_id'', JStr (op_client_id p)), (''redirect_uri'', JStr (op_redirect_uri p)),
            (''post_logout_redirect_uri'', JStr (op_post_logout_redirect_uri p)),
            (''response_type'', JStr (op_response_type p)), (''scope'', JStr (op_scope p)),
            (''oidc_only'', JBool (op_oidc_only p)), (''admin_group_claim'', JStr (op_admin_group_claim p)),
            (''admin_group'', JStr (op_admin_group p)), (''manager_group_claim'', JStr (op_manager_group_claim p)),
            (''manager_group'', JStr (op_manager_group p)), (''restrict_to_groups'', JBool (op_restrict_to_groups p))] @
           (case op_client_secret p of None \<Rightarrow> [] | Some w \<Rightarrow> [(''client_secret'', JStr w)]))"

definition getOidc :: "oidc_settings endpoint" where
  "getOidc = (Api GET ''/api/settings/oidc'' [] None, as_oidc_settings)"

definition updateOidc :: "oidc_settings_update \<Rightarrow> oidc_settings endpoint" where
  "updateOidc p = (Api PUT ''/api/settings/oidc'' [] (Some (json_oidc p)), as_oidc_settings)"

record oidc_page = settings_page +
  secretStored :: bool
  oidc_model :: oidc_form

definition oidc_start :: oidc_page where
  "oidc_start =
     \<lparr>loading = True, loadError = None, saving = False, formError = None, successMessage = None,
      secretStored = False, oidc_model = EMPTY_OIDC\<rparr>"

definition oidc_toForm :: "oidc_settings \<Rightarrow> oidc_form" where
  "oidc_toForm cfg =
     \<lparr>oo_enabled = os_enabled cfg, oo_issuer = os_issuer cfg, oo_client_id = os_client_id cfg,
      oo_client_secret = [], oo_redirect_uri = os_redirect_uri cfg,
      oo_post_logout_redirect_uri = os_post_logout_redirect_uri cfg, oo_response_type = os_response_type cfg,
      oo_scope = os_scope cfg, oo_oidc_only = os_oidc_only cfg,
      oo_admin_group_claim = os_admin_group_claim cfg, oo_admin_group = os_admin_group cfg,
      oo_manager_group_claim = os_manager_group_claim cfg, oo_manager_group = os_manager_group cfg,
      oo_restrict_to_groups = os_restrict_to_groups cfg\<rparr>"

definition oidc_toPayload :: "oidc_form \<Rightarrow> oidc_settings_update" where
  "oidc_toPayload v =
     \<lparr>op_enabled = oo_enabled v, op_issuer = oo_issuer v, op_client_id = oo_client_id v,
      op_redirect_uri = oo_redirect_uri v, op_post_logout_redirect_uri = oo_post_logout_redirect_uri v,
      op_response_type = oo_response_type v, op_scope = oo_scope v, op_oidc_only = oo_oidc_only v,
      op_admin_group_claim = oo_admin_group_claim v, op_admin_group = oo_admin_group v,
      op_manager_group_claim = oo_manager_group_claim v, op_manager_group = oo_manager_group v,
      op_restrict_to_groups = oo_restrict_to_groups v,
      op_client_secret = (if trim (oo_client_secret v) \<noteq> [] then Some (oo_client_secret v) else None)\<rparr>"

definition load_oidc :: "oidc_page cmd" where
  "load_oidc =
     seq (assign (\<lambda>s. s\<lparr>loading := True, loadError := None\<rparr>))
     (attempt
       (fetch getOidc (\<lambda>cfg.
          assign (\<lambda>s. s\<lparr>secretStored := os_client_secret_set cfg, oidc_model := oidc_toForm cfg\<rparr>)))
       (\<lambda>_. assign (\<lambda>s. s\<lparr>loadError := Some ''Unable to load the OIDC configuration.''\<rparr>))
       (\<lambda>s. s\<lparr>loading := False\<rparr>))"

definition oidc_onSubmit :: "oidc_page cmd" where
  "oidc_onSubmit =
     seq (assign (\<lambda>s. s\<lparr>formError := None, successMessage := None\<rparr>))
     (look (\<lambda>s0.
       let v = oidc_model s0 in
       if oo_enabled v \<and> \<not> (trim (oo_issuer v) \<noteq> [] \<and> trim (oo_client_id v) \<noteq> []) then
         assign (\<lambda>s. s\<lparr>formError := Some ''Issuer and Client ID are required when OIDC is enabled.''\<rparr>)
       else
         seq (assign (\<lambda>s. s\<lparr>saving := True\<rparr>))
         (attempt
           (fetch (updateOidc (oidc_toPayload v)) (\<lambda>updated.
             assign (\<lambda>s. s\<lparr>secretStored := os_client_secret_set updated, oidc_model := oidc_toForm updated,
                          successMessage := Some ''OIDC configuration saved.''\<rparr>)))
           (\<lambda>err. assign (\<lambda>s. s\<lparr>formError := Some (settings_messageFor err)\<rparr>))
           (\<lambda>s. s\<lparr>saving := False\<rparr>))))"

datatype oidc_event = Edit_oidc oidc_form | Submit_oidc

fun oidc_handle :: "oidc_event \<Rightarrow> oidc_page cmd" where
  "oidc_handle (Edit_oidc m) = assign (\<lambda>s. s\<lparr>oidc_model := m\<rparr>)"
| "oidc_handle Submit_oidc = oidc_onSubmit"

lemmas oidc_defs = load_oidc_def oidc_onSubmit_def

interpretation oidc_quiet: quiet_page oidc_handle load_oidc oidc_start "[loading, saving]"
proof
  show "list_all (\<lambda>f. clears f load_oidc \<or> tame f load_oidc \<and> \<not> f oidc_start) [loading, saving]"
    by (simp add: oidc_start_def oidc_defs page_defs tame_intros)
  show "list_all (\<lambda>f. tame f (oidc_handle e)) [loading, saving]" for e
    by (cases e) (simp_all add: oidc_defs page_defs tame_intros)
qed

definition oidc_payload_ok :: "oidc_settings_update \<Rightarrow> bool" where
  "oidc_payload_ok p =
     ((op_enabled p \<longrightarrow> trim (op_issuer p) \<noteq> [] \<and> trim (op_client_id p) \<noteq> []) \<and>
      (\<forall>w. op_client_secret p = Some w \<longrightarrow> trim w \<noteq> []))"

inductive oidc_request :: "request \<Rightarrow> bool" where
  "oidc_request (fst getOidc)"
| "oidc_payload_ok p \<Longrightarrow> oidc_request (fst (updateOidc p))"

interpretation oidc_guarded: guarded_page oidc_handle load_oidc oidc_start oidc_request
proof
  show "sends oidc_request load_oidc"
    by (simp add: oidc_defs page_defs send_intros oidc_request.intros)
  show "sends oidc_request (oidc_handle e)" for e
    by (cases e) (simp_all add: oidc_defs page_defs send_intros oidc_request.intros oidc_payload_ok_def
        oidc_toPayload_def)
qed

section \<open>Properties\<close>

text \<open>
  In every interleaving, a mail configuration is only sent with a host and a sender when
  the connector is enabled, never with both TLS modes, and with a password only when one
  that is not blank was typed; a test is only sent to a trimmed recipient.
\<close>

theorem mail_requests_valid:
  assumes "reachable mail_handle load_mail mail_start s ps"
    and "q \<in> in_flight ps"
  shows "mail_request q"
  using assms by (rule mail_guarded.sent)

theorem mail_requests_valid_witness:
  "mail_request (fst (updateMail (mail_toPayload (EMPTY_MAIL\<lparr>mm_password := ''x'', mm_use_tls := False, mm_use_ssl := True\<rparr>))))"
  by (rule mail_requests_valid[OF run_reach[where steps =
        "[Event (Edit_mail (EMPTY_MAIL\<lparr>mm_password := ''x''\<rparr>)), Event (Tls_mode_change Ssl), Event Submit_mail]"]])
    (simp add: run_defs mail_defs mail_start_def EMPTY_MAIL_def endpoint_defs Let_def)

text \<open>The configuration the page sends unchecked: the port.\<close>

lemma mail_port_unchecked:
  "fst (updateMail (mail_toPayload (EMPTY_MAIL\<lparr>mm_port := NaN\<rparr>))) \<in> in_flight (snd
     (run_page mail_handle load_mail mail_start [Event (Edit_mail (EMPTY_MAIL\<lparr>mm_port := NaN\<rparr>)), Event Submit_mail]))"
  by (simp add: run_defs mail_defs mail_start_def EMPTY_MAIL_def endpoint_defs Let_def)

text \<open>
  In every interleaving, a single sign-on configuration is only sent with an issuer and
  a client when it is enabled, and with a client secret only when one that is not blank
  was typed: saving without touching the secret never overwrites the stored one.
\<close>

theorem oidc_requests_valid:
  assumes "reachable oidc_handle load_oidc oidc_start s ps"
    and "q \<in> in_flight ps"
  shows "oidc_request q"
  using assms by (rule oidc_guarded.sent)

theorem oidc_requests_valid_witness:
  "oidc_request (fst (updateOidc (oidc_toPayload (EMPTY_OIDC\<lparr>oo_enabled := True, oo_issuer := ''i'', oo_client_id := ''c''\<rparr>))))"
  by (rule oidc_requests_valid[OF run_reach[where steps =
        "[Event (Edit_oidc (EMPTY_OIDC\<lparr>oo_enabled := True, oo_issuer := ''i'', oo_client_id := ''c''\<rparr>)), Event Submit_oidc]"]])
    (simp add: run_defs oidc_defs oidc_start_def EMPTY_OIDC_def endpoint_defs trim_def trim_start_def is_ws_def Let_def)

end
