(* ===== verification/Relay_Page.thy ===== *)
theory Relay_Page
  imports Pages
begin

text \<open>
  The SMTP relay page (\<open>src/frontend/src/app/features/mailserver/relay/relay.ts\<close>): the
  relays by sender domain, the domains excluded from the global relay, and the two
  forms that add one.
\<close>

record relay_form =
  f_sender :: string
  f_host :: string
  f_port :: jsnum
  f_username :: string
  f_password :: string

record relay_page =
  relays :: "relay_host list"
  exclusions :: "relay_exclusion list"
  loading :: bool
  error :: "string option"
  success :: "string option"
  creatingRelay :: bool
  createRelayError :: "string option"
  deletingSender :: "string option"
  relayModel :: relay_form
  addingExclusion :: bool
  deletingExclusion :: "string option"
  exclusionModel :: string

definition empty_relay_form :: relay_form where
  "empty_relay_form = \<lparr>f_sender = [], f_host = [], f_port = Num 587, f_username = [], f_password = []\<rparr>"

definition relay_start :: relay_page where
  "relay_start =
     \<lparr>relays = [], exclusions = [], loading = False, error = None, success = None,
      creatingRelay = False, createRelayError = None, deletingSender = None,
      relayModel = empty_relay_form, addingExclusion = False, deletingExclusion = None,
      exclusionModel = []\<rparr>"

definition load_relay :: "relay_page cmd" where
  "load_relay =
     seq (assign (\<lambda>s. s\<lparr>loading := True, error := None\<rparr>))
     (attempt
         (fetch_both listRelays listRelayExclusions (\<lambda>rs xs.
            assign (\<lambda>s. s\<lparr>relays := rs, exclusions := xs\<rparr>)))
         (\<lambda>_. assign (\<lambda>s. s\<lparr>error := Some ''Unable to load the SMTP relays.''\<rparr>))
       (\<lambda>s. s\<lparr>loading := False\<rparr>))"

definition onCreateRelay :: "bool \<Rightarrow> relay_page cmd" where
  "onCreateRelay run =
     seq (assign (\<lambda>s. s\<lparr>createRelayError := None, success := None\<rparr>))
     (submit run
       (look (\<lambda>s0.
         let form = relayModel s0;
             sender = to_lower (trim (f_sender form));
             port = f_port form
         in if \<not> str_includes sender ''@'' then
              assign (\<lambda>s. s\<lparr>createRelayError := Some ''The sender must be a domain (e.g. @example.com).''\<rparr>)
            else if \<not> is_integer port \<or> num_less port 1 \<or> num_greater port 65535 then
              assign (\<lambda>s. s\<lparr>createRelayError := Some ''The port must be between 1 and 65535.''\<rparr>)
            else
              seq (assign (\<lambda>s. s\<lparr>creatingRelay := True\<rparr>))
              (attempt
                  (fetch (createRelay
                      \<lparr>rc_sender = sender, rc_host = trim (f_host form), rc_port = port,
                       rc_username = or_null (trim (f_username form)),
                       rc_password = or_null (f_password form)\<rparr>) (\<lambda>_.
                    seq (assign (\<lambda>s. s\<lparr>success := Some (''Relay for '' @ sender @ '' saved.''),
                                      relayModel := empty_relay_form\<rparr>))
                    load_relay))
                  (\<lambda>err. assign (\<lambda>s. s\<lparr>createRelayError := Some (mailserverErrorMessage err)\<rparr>))
                (\<lambda>s. s\<lparr>creatingRelay := False\<rparr>)))))"

definition onDeleteRelay :: "(string \<Rightarrow> bool) \<Rightarrow> relay_host \<Rightarrow> relay_page cmd" where
  "onDeleteRelay ask relay =
     (if \<not> ask (''Delete the SMTP relay for '' @ rh_sender relay @ ''?'') then skip
      else
        seq (assign (\<lambda>s. s\<lparr>error := None, success := None, deletingSender := Some (rh_sender relay)\<rparr>))
        (attempt
            (fetch (deleteRelay (rh_sender relay)) (\<lambda>_.
              seq (assign (\<lambda>s. s\<lparr>success := Some (''Relay for '' @ rh_sender relay @ '' deleted.'')\<rparr>))
              load_relay))
            (\<lambda>err. assign (\<lambda>s. s\<lparr>error := Some (mailserverErrorMessage err)\<rparr>))
          (\<lambda>s. s\<lparr>deletingSender := None\<rparr>)))"

definition onAddExclusion :: "bool \<Rightarrow> relay_page cmd" where
  "onAddExclusion run =
     seq (assign (\<lambda>s. s\<lparr>error := None, success := None\<rparr>))
     (submit run
       (look (\<lambda>s0.
         let sender = to_lower (trim (exclusionModel s0))
         in if \<not> str_includes sender ''@'' then
              assign (\<lambda>s. s\<lparr>error := Some ''The sender must be a domain (e.g. @example.com).''\<rparr>)
            else
              seq (assign (\<lambda>s. s\<lparr>addingExclusion := True\<rparr>))
              (attempt
                  (fetch (createRelayExclusion sender) (\<lambda>_.
                    seq (assign (\<lambda>s. s\<lparr>success := Some (sender @ '' will no longer use the global relay.''),
                                      exclusionModel := []\<rparr>))
                    load_relay))
                  (\<lambda>err. assign (\<lambda>s. s\<lparr>error := Some (mailserverErrorMessage err)\<rparr>))
                (\<lambda>s. s\<lparr>addingExclusion := False\<rparr>)))))"

definition onDeleteExclusion :: "(string \<Rightarrow> bool) \<Rightarrow> relay_exclusion \<Rightarrow> relay_page cmd" where
  "onDeleteExclusion ask exclusion =
     (if \<not> ask (''Send mail from '' @ rx_sender exclusion @ '' through the global relay again?'') then skip
      else
        seq (assign (\<lambda>s. s\<lparr>error := None, success := None, deletingExclusion := Some (rx_sender exclusion)\<rparr>))
        (attempt
            (fetch (deleteRelayExclusion (rx_sender exclusion)) (\<lambda>_.
              seq (assign (\<lambda>s. s\<lparr>success := Some (''Exclusion for '' @ rx_sender exclusion @ '' removed.'')\<rparr>))
              load_relay))
            (\<lambda>err. assign (\<lambda>s. s\<lparr>error := Some (mailserverErrorMessage err)\<rparr>))
          (\<lambda>s. s\<lparr>deletingExclusion := None\<rparr>)))"

text \<open>The events of the template; a keystroke writes a form model.\<close>

datatype relay_event =
    Type_relay relay_form
  | Type_exclusion string
  | Create_relay bool
  | Delete_relay "string \<Rightarrow> bool" relay_host
  | Add_exclusion bool
  | Delete_exclusion "string \<Rightarrow> bool" relay_exclusion

fun relay_handle :: "relay_event \<Rightarrow> relay_page cmd" where
  "relay_handle (Type_relay v) = assign (\<lambda>s. s\<lparr>relayModel := v\<rparr>)"
| "relay_handle (Type_exclusion v) = assign (\<lambda>s. s\<lparr>exclusionModel := v\<rparr>)"
| "relay_handle (Create_relay run) = onCreateRelay run"
| "relay_handle (Delete_relay ask r) = onDeleteRelay ask r"
| "relay_handle (Add_exclusion run) = onAddExclusion run"
| "relay_handle (Delete_exclusion ask x) = onDeleteExclusion ask x"

lemmas relay_defs =
  load_relay_def onCreateRelay_def onDeleteRelay_def onAddExclusion_def onDeleteExclusion_def

section \<open>Busy flags\<close>

definition relay_flags :: "(relay_page \<Rightarrow> bool) list" where
  "relay_flags =
     [loading, creatingRelay, addingExclusion,
      \<lambda>s. is_some (deletingSender s), \<lambda>s. is_some (deletingExclusion s)]"

interpretation relay_quiet: quiet_page relay_handle load_relay relay_start relay_flags
proof
  show "list_all (\<lambda>f. clears f load_relay \<or> tame f load_relay \<and> \<not> f relay_start) relay_flags"
    by (simp add: relay_flags_def relay_defs page_defs tame_intros relay_start_def)
  show "list_all (\<lambda>f. tame f (relay_handle e)) relay_flags" for e
    by (cases e) (simp_all add: relay_flags_def relay_defs page_defs tame_intros)
qed

section \<open>Requests\<close>

definition relay_body_ok :: "relay_host_create \<Rightarrow> bool" where
  "relay_body_ok r = (normal_address (rc_sender r) \<and> CHR ''@'' \<in> set (rc_sender r) \<and>
     trim (rc_host r) = rc_host r \<and> int_between 1 65535 (rc_port r) \<and>
     rc_username r \<noteq> Some [] \<and> rc_password r \<noteq> Some [])"

inductive relay_request :: "request \<Rightarrow> bool" where
  "relay_request (fst listRelays)"
| "relay_request (fst listRelayExclusions)"
| "relay_body_ok r \<Longrightarrow> relay_request (fst (createRelay r))"
| "normal_address a \<Longrightarrow> CHR ''@'' \<in> set a \<Longrightarrow> relay_request (fst (createRelayExclusion a))"
| "relay_request (fst (deleteRelay a))"
| "relay_request (fst (deleteRelayExclusion a))"

interpretation relay_guarded: guarded_page relay_handle load_relay relay_start relay_request
proof
  show "sends relay_request load_relay"
    by (simp add: relay_defs page_defs send_intros relay_request.intros)
  show "sends relay_request (relay_handle e)" for e
    by (cases e) (simp_all add: relay_defs page_defs send_intros
        relay_request.intros relay_body_ok_def int_betweenI)
qed

section \<open>Properties\<close>

lemma int_between_checks:
  "int_between lo hi v \<longleftrightarrow> is_integer v \<and> \<not> num_less v (of_int lo) \<and> \<not> num_greater v (of_int hi)"
proof
  assume "int_between lo hi v"
  then show "is_integer v \<and> \<not> num_less v (of_int lo) \<and> \<not> num_greater v (of_int hi)"
    by (auto simp: int_between_def)
qed (auto intro: int_betweenI)

text \<open>The relay a filled form stands for.\<close>

definition relay_of :: "relay_form \<Rightarrow> relay_host_create" where
  "relay_of form =
     \<lparr>rc_sender = to_lower (trim (f_sender form)), rc_host = trim (f_host form), rc_port = f_port form,
      rc_username = or_null (trim (f_username form)), rc_password = or_null (f_password form)\<rparr>"

text \<open>
  In every interleaving, a relay the page asks the backend to create has a trimmed
  lower-case sender with an at sign, a port that is an integer from 1 to 65535 and no empty
  credential, an exclusion has such a sender, and nothing else but the two lists and the
  two deletions is ever requested.
\<close>

theorem relay_requests_valid:
  assumes "reachable relay_handle load_relay relay_start s ps"
    and "q \<in> in_flight ps"
  shows "relay_request q"
  using assms by (rule relay_guarded.sent)

theorem relay_requests_valid_witness:
  "relay_request (fst (createRelay \<lparr>rc_sender = ''@a.org'', rc_host = ''smtp.b.org'', rc_port = Num 587,
     rc_username = None, rc_password = Some ''x''\<rparr>))"
  by (rule relay_requests_valid[OF run_reach[where steps =
        "[Event (Type_relay \<lparr>f_sender = '' @a.org'', f_host = ''smtp.b.org'', f_port = Num 587, f_username = '' '',
            f_password = ''x''\<rparr>), Event (Create_relay True)]"]])
    (simp add: run_defs relay_defs relay_start_def endpoint_defs empty_relay_form_def trim_def trim_start_def
      to_lower_def lower_char_def is_ws_def Let_def)

text \<open>
  C24. Submitting the relay form. A form that does not pass the two checks sends nothing and
  leaves a message. Otherwise exactly the relay of the form is requested; an error becomes
  the message of the form, which keeps what was typed; a success empties the form, names
  the relay and reads both lists again.
\<close>

theorem create_relay_flow:
  "let r = relay_of (relayModel s); p = snd (onCreateRelay True s) in
   if CHR ''@'' \<in> set (rc_sender r) \<and> int_between 1 65535 (rc_port r) then
     fst (onCreateRelay True s) = s\<lparr>createRelayError := None, success := None, creatingRelay := True\<rparr> \<and>
     outstanding p = [fst (createRelay r)] \<and>
     (\<forall>e t. deliver [] (Inl e) p t =
        (t\<lparr>createRelayError := Some (mailserverErrorMessage e), creatingRelay := False\<rparr>, Done)) \<and>
     (\<forall>v x t. as_relay v = Some x \<longrightarrow>
        fst (deliver [] (ok v) p t) =
          t\<lparr>success := Some (''Relay for '' @ rc_sender r @ '' saved.''), relayModel := empty_relay_form,
            loading := True, error := None\<rparr> \<and>
        outstanding (snd (deliver [] (ok v) p t)) = [fst listRelays, fst listRelayExclusions])
   else \<exists>message. onCreateRelay True s = (s\<lparr>success := None, createRelayError := Some message\<rparr>, Done)"
proof -
  have dec: "snd (createRelay r) = as_relay" for r by (simp add: createRelay_def)
  show ?thesis
    by (auto simp: Let_def int_between_checks relay_of_def onCreateRelay_def load_relay_def run_defs
        endpoint_defs dec)
qed

theorem create_relay_flow_witness:
  "outstanding (snd (onCreateRelay True (relay_start\<lparr>relayModel :=
     \<lparr>f_sender = ''@a.org'', f_host = ''b.org'', f_port = Num 25, f_username = [], f_password = []\<rparr>\<rparr>))) =
   [fst (createRelay \<lparr>rc_sender = ''@a.org'', rc_host = ''b.org'', rc_port = Num 25, rc_username = None, rc_password = None\<rparr>)]"
proof -
  let ?f = "\<lparr>f_sender = ''@a.org'', f_host = ''b.org'', f_port = Num 25, f_username = [], f_password = []\<rparr>"
  have r: "relay_of ?f = \<lparr>rc_sender = ''@a.org'', rc_host = ''b.org'', rc_port = Num 25, rc_username = None, rc_password = None\<rparr>"
    by (simp add: relay_of_def trim_def trim_start_def is_ws_def to_lower_def lower_char_def)
  have p: "int_between 1 65535 (Num 25)" by (simp add: int_between_checks)
  show ?thesis
    using create_relay_flow[of "relay_start\<lparr>relayModel := ?f\<rparr>"] p by (simp add: r Let_def)
qed

end
