(* ===== verification/Aliases_Page.thy ===== *)
theory Aliases_Page
  imports Pages
begin

text \<open>
  The aliases page (\<open>src/frontend/src/app/features/mailserver/aliases/aliases.ts\<close>): local
  system aliases and regular-expression aliases, each with its form.
\<close>

record alias_form =
  lf_name :: string
  lf_targets :: string

record aliases_page =
  systemAliases :: "system_alias list"
  regexAliases :: "regex_alias list"
  loading :: bool
  error :: "string option"
  success :: "string option"
  addingSystemAlias :: bool
  addingRegexAlias :: bool
  deletingAlias :: "string option"
  systemAliasModel :: alias_form
  regexAliasModel :: alias_form

definition no_alias :: alias_form where
  "no_alias = \<lparr>lf_name = [], lf_targets = []\<rparr>"

definition aliases_start :: aliases_page where
  "aliases_start =
     \<lparr>systemAliases = [], regexAliases = [], loading = False, error = None, success = None,
      addingSystemAlias = False, addingRegexAlias = False, deletingAlias = None,
      systemAliasModel = no_alias, regexAliasModel = no_alias\<rparr>"

text \<open>
  \<open>/^\/.+\/[imxs]*$/\<close>. The flags are not slashes, so the closing delimiter is the last
  slash: no search is needed.
\<close>

definition regex_alias_syntax :: "string \<Rightarrow> bool" where
  "regex_alias_syntax s =
     (case s of
        [] \<Rightarrow> False
      | c # rest \<Rightarrow>
          c = CHR ''/'' \<and>
          (case dropWhile (\<lambda>c. c \<in> set ''imxs'') (rev rest) of
             [] \<Rightarrow> False
           | d # body \<Rightarrow> d = CHR ''/'' \<and> body \<noteq> [] \<and> list_all (\<lambda>c. \<not> is_line_end c) body))"

definition load_aliases :: "aliases_page cmd" where
  "load_aliases =
     seq (assign (\<lambda>s. s\<lparr>loading := True, error := None\<rparr>))
     (attempt
       (fetch_both listSystemAliases listRegexAliases (\<lambda>system regex.
          assign (\<lambda>s. s\<lparr>systemAliases := system, regexAliases := regex\<rparr>)))
       (\<lambda>_. assign (\<lambda>s. s\<lparr>error := Some ''Unable to load the aliases.''\<rparr>))
       (\<lambda>s. s\<lparr>loading := False\<rparr>))"

definition onAddSystemAlias :: "bool \<Rightarrow> aliases_page cmd" where
  "onAddSystemAlias run =
     seq (assign (\<lambda>s. s\<lparr>error := None, success := None\<rparr>))
     (submit run
       (look (\<lambda>s0.
         let value = systemAliasModel s0;
             name = to_lower (trim (lf_name value)) in
         if str_includes name ''@'' then
           assign (\<lambda>s. s\<lparr>error := Some ''A system alias is a local name, without a domain.''\<rparr>)
         else
           let targets = parseTargets (lf_targets value) in
           if targets = [] then
             assign (\<lambda>s. s\<lparr>error := Some ''At least one destination is required.''\<rparr>)
           else
             seq (assign (\<lambda>s. s\<lparr>addingSystemAlias := True\<rparr>))
             (attempt
               (fetch (createSystemAlias name targets) (\<lambda>_.
                 seq (assign (\<lambda>s. s\<lparr>success := Some (''System alias '' @ name @ '' created.''),
                                   systemAliasModel := no_alias\<rparr>))
                 load_aliases))
               (\<lambda>err. assign (\<lambda>s. s\<lparr>error := Some (mailserverErrorMessage err)\<rparr>))
               (\<lambda>s. s\<lparr>addingSystemAlias := False\<rparr>)))))"

definition onDeleteSystemAlias :: "(string \<Rightarrow> bool) \<Rightarrow> system_alias \<Rightarrow> aliases_page cmd" where
  "onDeleteSystemAlias ask alias =
     (if \<not> ask (''Delete the system alias '' @ sa_name alias @ ''?'') then skip
      else
        seq (assign (\<lambda>s. s\<lparr>error := None, success := None, deletingAlias := Some (sa_name alias)\<rparr>))
        (attempt
          (fetch (deleteSystemAlias (sa_name alias)) (\<lambda>_.
            seq (assign (\<lambda>s. s\<lparr>success := Some (''System alias '' @ sa_name alias @ '' deleted.'')\<rparr>))
            load_aliases))
          (\<lambda>err. assign (\<lambda>s. s\<lparr>error := Some (mailserverErrorMessage err)\<rparr>))
          (\<lambda>s. s\<lparr>deletingAlias := None\<rparr>)))"

definition onAddRegexAlias :: "bool \<Rightarrow> aliases_page cmd" where
  "onAddRegexAlias run =
     seq (assign (\<lambda>s. s\<lparr>error := None, success := None\<rparr>))
     (submit run
       (look (\<lambda>s0.
         let value = regexAliasModel s0;
             pattern = trim (lf_name value) in
         if \<not> regex_alias_syntax pattern then
           assign (\<lambda>s. s\<lparr>error := Some ''A regex alias must be delimited by slashes, e.g. /^info@.+$/.''\<rparr>)
         else
           let targets = parseTargets (lf_targets value) in
           if targets = [] then
             assign (\<lambda>s. s\<lparr>error := Some ''At least one destination is required.''\<rparr>)
           else
             seq (assign (\<lambda>s. s\<lparr>addingRegexAlias := True\<rparr>))
             (attempt
               (fetch (createRegexAlias pattern targets) (\<lambda>_.
                 seq (assign (\<lambda>s. s\<lparr>success := Some ''Regex alias created.'', regexAliasModel := no_alias\<rparr>))
                 load_aliases))
               (\<lambda>err. assign (\<lambda>s. s\<lparr>error := Some (mailserverErrorMessage err)\<rparr>))
               (\<lambda>s. s\<lparr>addingRegexAlias := False\<rparr>)))))"

definition onDeleteRegexAlias :: "(string \<Rightarrow> bool) \<Rightarrow> regex_alias \<Rightarrow> aliases_page cmd" where
  "onDeleteRegexAlias ask alias =
     (if \<not> ask (''Delete the regex alias '' @ ra_pattern alias @ ''?'') then skip
      else
        seq (assign (\<lambda>s. s\<lparr>error := None, success := None, deletingAlias := Some (ra_pattern alias)\<rparr>))
        (attempt
          (fetch (deleteRegexAlias (ra_pattern alias)) (\<lambda>_.
            seq (assign (\<lambda>s. s\<lparr>success := Some ''Regex alias deleted.''\<rparr>))
            load_aliases))
          (\<lambda>err. assign (\<lambda>s. s\<lparr>error := Some (mailserverErrorMessage err)\<rparr>))
          (\<lambda>s. s\<lparr>deletingAlias := None\<rparr>)))"

datatype aliases_event =
    Type_system alias_form
  | Type_regex alias_form
  | Add_system bool
  | Delete_system "string \<Rightarrow> bool" system_alias
  | Add_regex bool
  | Delete_regex "string \<Rightarrow> bool" regex_alias

fun aliases_handle :: "aliases_event \<Rightarrow> aliases_page cmd" where
  "aliases_handle (Type_system v) = assign (\<lambda>s. s\<lparr>systemAliasModel := v\<rparr>)"
| "aliases_handle (Type_regex v) = assign (\<lambda>s. s\<lparr>regexAliasModel := v\<rparr>)"
| "aliases_handle (Add_system run) = onAddSystemAlias run"
| "aliases_handle (Delete_system ask a) = onDeleteSystemAlias ask a"
| "aliases_handle (Add_regex run) = onAddRegexAlias run"
| "aliases_handle (Delete_regex ask a) = onDeleteRegexAlias ask a"

lemmas aliases_defs =
  load_aliases_def onAddSystemAlias_def onDeleteSystemAlias_def onAddRegexAlias_def onDeleteRegexAlias_def

section \<open>The syntax of a regular-expression alias\<close>

lemma dropWhile_flags:
  assumes "set flags \<subseteq> F" and "d \<notin> F"
  shows "dropWhile (\<lambda>c. c \<in> F) (rev flags @ d # rest) = d # rest"
proof -
  have "dropWhile (\<lambda>c. c \<in> F) (rev flags @ d # rest) = dropWhile (\<lambda>c. c \<in> F) (d # rest)"
    by (rule dropWhile_append2) (use assms in auto)
  then show ?thesis using assms(2) by simp
qed

text \<open>
  C23. The check of the page accepts exactly the texts of the form slash, body, slash, flags:
  a body that is not empty and has no line end, and flags among i, m, x and s. The
  computation that looks for the last slash decides the regular expression of the source.
\<close>

theorem regex_alias_syntax_iff:
  "regex_alias_syntax s \<longleftrightarrow>
     (\<exists>body flags. s = CHR ''/'' # body @ CHR ''/'' # flags \<and> body \<noteq> [] \<and>
        (\<forall>c \<in> set body. \<not> is_line_end c) \<and> set flags \<subseteq> set ''imxs'')"
proof
  assume "regex_alias_syntax s"
  then obtain rest body where s: "s = CHR ''/'' # rest"
    and d: "dropWhile (\<lambda>c. c \<in> set ''imxs'') (rev rest) = CHR ''/'' # body"
    and b: "body \<noteq> []" "list_all (\<lambda>c. \<not> is_line_end c) body"
    unfolding regex_alias_syntax_def by (auto split: list.splits)
  let ?flags = "takeWhile (\<lambda>c. c \<in> set ''imxs'') (rev rest)"
  have "rev rest = ?flags @ CHR ''/'' # body"
    using takeWhile_dropWhile_id[of "\<lambda>c. c \<in> set ''imxs''" "rev rest"] unfolding d by (rule sym)
  then have "rest = rev body @ CHR ''/'' # rev ?flags"
    by (metis append.assoc append_Cons append_Nil rev.simps(2) rev_append rev_rev_ident)
  moreover have "set (rev ?flags) \<subseteq> set ''imxs''" by (auto dest: set_takeWhileD)
  ultimately show "\<exists>body flags. s = CHR ''/'' # body @ CHR ''/'' # flags \<and> body \<noteq> [] \<and>
        (\<forall>c \<in> set body. \<not> is_line_end c) \<and> set flags \<subseteq> set ''imxs''"
    using s b by (intro exI[of _ "rev body"] exI[of _ "rev ?flags"]) (simp add: list_all_iff)
next
  assume "\<exists>body flags. s = CHR ''/'' # body @ CHR ''/'' # flags \<and> body \<noteq> [] \<and>
        (\<forall>c \<in> set body. \<not> is_line_end c) \<and> set flags \<subseteq> set ''imxs''"
  then obtain body flags where s: "s = CHR ''/'' # body @ CHR ''/'' # flags" and b: "body \<noteq> []"
    "\<forall>c \<in> set body. \<not> is_line_end c" and f: "set flags \<subseteq> set ''imxs''" by auto
  have "dropWhile (\<lambda>c. c \<in> set ''imxs'') (rev (body @ CHR ''/'' # flags)) = CHR ''/'' # rev body"
    using dropWhile_flags[OF f, of "CHR ''/''" "rev body"] by simp
  then show "regex_alias_syntax s"
    using b by (simp add: regex_alias_syntax_def s list_all_iff del: rev_append)
qed

theorem regex_alias_syntax_iff_witness: "regex_alias_syntax ''/a/b/im''"
  by (rule regex_alias_syntax_iff[THEN iffD2])
    (intro exI[of _ "''a/b''"] exI[of _ "''im''"], simp add: is_line_end_def)

section \<open>Busy flags and requests\<close>

definition aliases_flags :: "(aliases_page \<Rightarrow> bool) list" where
  "aliases_flags = [loading, addingSystemAlias, addingRegexAlias, \<lambda>s. is_some (deletingAlias s)]"

interpretation aliases_quiet: quiet_page aliases_handle load_aliases aliases_start aliases_flags
proof
  show "list_all (\<lambda>f. clears f load_aliases \<or> tame f load_aliases \<and> \<not> f aliases_start) aliases_flags"
    by (simp add: aliases_flags_def aliases_start_def aliases_defs page_defs tame_intros)
  show "list_all (\<lambda>f. tame f (aliases_handle e)) aliases_flags" for e
    by (cases e) (simp_all add: aliases_flags_def aliases_defs page_defs tame_intros)
qed

definition targets_ok :: "string list \<Rightarrow> bool" where
  "targets_ok ts = (ts \<noteq> [] \<and> (\<forall>t \<in> set ts. t \<noteq> [] \<and> trim t = t \<and> CHR '','' \<notin> set t))"

lemma targets_ok_parse: "parseTargets raw \<noteq> [] \<Longrightarrow> targets_ok (parseTargets raw)"
  by (auto simp: targets_ok_def dest: parseTargets_clean)

inductive aliases_request :: "request \<Rightarrow> bool" where
  "aliases_request (fst listSystemAliases)"
| "aliases_request (fst listRegexAliases)"
| "normal_address n \<Longrightarrow> CHR ''@'' \<notin> set n \<Longrightarrow> targets_ok ts \<Longrightarrow> aliases_request (fst (createSystemAlias n ts))"
| "regex_alias_syntax p \<Longrightarrow> targets_ok ts \<Longrightarrow> aliases_request (fst (createRegexAlias p ts))"
| "aliases_request (fst (deleteSystemAlias n))"
| "aliases_request (fst (deleteRegexAlias p))"

interpretation aliases_guarded: guarded_page aliases_handle load_aliases aliases_start aliases_request
proof
  show "sends aliases_request load_aliases"
    by (simp add: aliases_defs page_defs send_intros aliases_request.intros)
  show "sends aliases_request (aliases_handle e)" for e
    by (cases e) (simp_all add: aliases_defs page_defs send_intros aliases_request.intros targets_ok_parse)
qed

section \<open>Properties\<close>

text \<open>
  In every interleaving, a system alias is only created under a trimmed lower-case
  local name, a regular-expression alias only under a delimited pattern, and either only
  with at least one target, each of them trimmed, not empty and without a comma; the
  other requests of the page are the two lists and the two deletions.
\<close>

theorem aliases_requests_valid:
  assumes "reachable aliases_handle load_aliases aliases_start s ps"
    and "q \<in> in_flight ps"
  shows "aliases_request q"
  using assms by (rule aliases_guarded.sent)

theorem aliases_requests_valid_witness:
  "aliases_request (fst (createRegexAlias ''/^a.+$/i'' [''b@c.d'', ''e@f.g'']))"
  by (rule aliases_requests_valid[OF run_reach[where steps =
        "[Event (Type_regex \<lparr>lf_name = '' /^a.+$/i'', lf_targets = ''b@c.d, ,e@f.g''\<rparr>), Event (Add_regex True)]"]])
    (simp add: run_defs aliases_defs aliases_start_def endpoint_defs no_alias_def regex_alias_syntax_def
      parseTargets_def is_line_end_def trim_def trim_start_def is_ws_def Let_def)

end
