(* ===== verification/Postfix_Page.thy ===== *)
theory Postfix_Page
  imports Pages
begin

text \<open>
  The Postfix page (\<open>src/frontend/src/app/features/mailserver/postfix/postfix.ts\<close>): two
  editable lists of key/value pairs, for main.cf and for master.cf.
\<close>

record postfix_page =
  overrides :: "postfix_override list"
  masterOverrides :: "postfix_override list"
  loading :: bool
  error :: "string option"
  success :: "string option"
  saving :: bool
  savingMaster :: bool

definition postfix_start :: postfix_page where
  "postfix_start =
     \<lparr>overrides = [], masterOverrides = [], loading = False, error = None, success = None,
      saving = False, savingMaster = False\<rparr>"

definition hasOverrides :: "postfix_page \<Rightarrow> bool" where
  "hasOverrides s = (0 < length (overrides s))"

definition is_word :: "char \<Rightarrow> bool" where
  "is_word c = (is_alnum c \<or> c = CHR ''_'')"

text \<open>\<open>/^[A-Za-z0-9_]+$/\<close> and \<open>/^[A-Za-z0-9_.-]+\/[a-z]+\/[A-Za-z0-9_]+$/\<close>\<close>

definition main_key :: "string \<Rightarrow> bool" where
  "main_key s = (s \<noteq> [] \<and> list_all is_word s)"

definition master_key :: "string \<Rightarrow> bool" where
  "master_key s =
     (case split_on (CHR ''/'') s of
        [service, type, parameter] \<Rightarrow>
          service \<noteq> [] \<and> list_all (\<lambda>c. is_word c \<or> c = CHR ''.'' \<or> c = CHR ''-'') service \<and>
          type \<noteq> [] \<and> list_all is_lower type \<and> main_key parameter
      | _ \<Rightarrow> False)"

definition load_postfix :: "postfix_page cmd" where
  "load_postfix =
     seq (assign (\<lambda>s. s\<lparr>loading := True, error := None\<rparr>))
     (attempt
       (fetch_both getPostfixOverrides getPostfixMasterOverrides (\<lambda>main master.
          assign (\<lambda>s. s\<lparr>overrides := main, masterOverrides := master\<rparr>)))
       (\<lambda>_. assign (\<lambda>s. s\<lparr>error := Some ''Unable to load the Postfix overrides.''\<rparr>))
       (\<lambda>s. s\<lparr>loading := False\<rparr>))"

text \<open>The five edits of a list, on main.cf and on master.cf.\<close>

definition addOverride :: "postfix_page \<Rightarrow> postfix_page" where
  "addOverride s = s\<lparr>overrides := overrides s @ [\<lparr>po_key = [], po_value = []\<rparr>]\<rparr>"

definition removeOverride :: "nat \<Rightarrow> postfix_page \<Rightarrow> postfix_page" where
  "removeOverride index s = s\<lparr>overrides := remove_at index (overrides s)\<rparr>"

definition onOverrideKey :: "nat \<Rightarrow> string \<Rightarrow> postfix_page \<Rightarrow> postfix_page" where
  "onOverrideKey index key s = s\<lparr>overrides := update_at index (\<lambda>ov. ov\<lparr>po_key := key\<rparr>) (overrides s)\<rparr>"

definition onOverrideValue :: "nat \<Rightarrow> string \<Rightarrow> postfix_page \<Rightarrow> postfix_page" where
  "onOverrideValue index v s = s\<lparr>overrides := update_at index (\<lambda>ov. ov\<lparr>po_value := v\<rparr>) (overrides s)\<rparr>"

definition addMasterOverride :: "postfix_page \<Rightarrow> postfix_page" where
  "addMasterOverride s = s\<lparr>masterOverrides := masterOverrides s @ [\<lparr>po_key = [], po_value = []\<rparr>]\<rparr>"

definition removeMasterOverride :: "nat \<Rightarrow> postfix_page \<Rightarrow> postfix_page" where
  "removeMasterOverride index s = s\<lparr>masterOverrides := remove_at index (masterOverrides s)\<rparr>"

definition onMasterOverrideKey :: "nat \<Rightarrow> string \<Rightarrow> postfix_page \<Rightarrow> postfix_page" where
  "onMasterOverrideKey index key s =
     s\<lparr>masterOverrides := update_at index (\<lambda>ov. ov\<lparr>po_key := key\<rparr>) (masterOverrides s)\<rparr>"

definition onMasterOverrideValue :: "nat \<Rightarrow> string \<Rightarrow> postfix_page \<Rightarrow> postfix_page" where
  "onMasterOverrideValue index v s =
     s\<lparr>masterOverrides := update_at index (\<lambda>ov. ov\<lparr>po_value := v\<rparr>) (masterOverrides s)\<rparr>"

definition clean_overrides :: "postfix_override list \<Rightarrow> postfix_override list" where
  "clean_overrides list =
     filter (\<lambda>ov. po_key ov \<noteq> [])
       (map (\<lambda>ov. \<lparr>po_key = trim (po_key ov), po_value = trim (po_value ov)\<rparr>) list)"

definition postfix_onSave :: "postfix_page cmd" where
  "postfix_onSave =
     seq (assign (\<lambda>s. s\<lparr>error := None, success := None\<rparr>))
     (look (\<lambda>s0.
       let cleaned = clean_overrides (overrides s0) in
       case find (\<lambda>ov. \<not> main_key (po_key ov)) cleaned of
         Some invalid \<Rightarrow>
           assign (\<lambda>s. s\<lparr>error := Some (''Invalid Postfix parameter name: '' @ quoted (po_key invalid) @ ''.'')\<rparr>)
       | None \<Rightarrow>
           seq (assign (\<lambda>s. s\<lparr>saving := True\<rparr>))
           (attempt
             (fetch (setPostfixOverrides cleaned) (\<lambda>saved.
               assign (\<lambda>s. s\<lparr>overrides := saved,
                 success := Some ''Postfix overrides saved. Restart the mailserver to apply them.''\<rparr>)))
             (\<lambda>err. assign (\<lambda>s. s\<lparr>error := Some (mailserverErrorMessage err)\<rparr>))
             (\<lambda>s. s\<lparr>saving := False\<rparr>))))"

definition postfix_onSaveMaster :: "postfix_page cmd" where
  "postfix_onSaveMaster =
     seq (assign (\<lambda>s. s\<lparr>error := None, success := None\<rparr>))
     (look (\<lambda>s0.
       let cleaned = clean_overrides (masterOverrides s0) in
       case find (\<lambda>ov. \<not> master_key (po_key ov)) cleaned of
         Some invalid \<Rightarrow>
           assign (\<lambda>s. s\<lparr>error := Some (''Invalid master parameter: '' @ quoted (po_key invalid) @
             ''. Expected service/type/parameter.'')\<rparr>)
       | None \<Rightarrow>
           seq (assign (\<lambda>s. s\<lparr>savingMaster := True\<rparr>))
           (attempt
             (fetch (setPostfixMasterOverrides cleaned) (\<lambda>saved.
               assign (\<lambda>s. s\<lparr>masterOverrides := saved,
                 success := Some ''Postfix master overrides saved. Restart the mailserver to apply them.''\<rparr>)))
             (\<lambda>err. assign (\<lambda>s. s\<lparr>error := Some (mailserverErrorMessage err)\<rparr>))
             (\<lambda>s. s\<lparr>savingMaster := False\<rparr>))))"

datatype postfix_event =
    Add_override
  | Remove_override nat
  | Override_key nat string
  | Override_value nat string
  | Save_overrides
  | Add_master
  | Remove_master nat
  | Master_key nat string
  | Master_value nat string
  | Save_master

fun postfix_handle :: "postfix_event \<Rightarrow> postfix_page cmd" where
  "postfix_handle Add_override = assign addOverride"
| "postfix_handle (Remove_override i) = assign (removeOverride i)"
| "postfix_handle (Override_key i v) = assign (onOverrideKey i v)"
| "postfix_handle (Override_value i v) = assign (onOverrideValue i v)"
| "postfix_handle Save_overrides = postfix_onSave"
| "postfix_handle Add_master = assign addMasterOverride"
| "postfix_handle (Remove_master i) = assign (removeMasterOverride i)"
| "postfix_handle (Master_key i v) = assign (onMasterOverrideKey i v)"
| "postfix_handle (Master_value i v) = assign (onMasterOverrideValue i v)"
| "postfix_handle Save_master = postfix_onSaveMaster"

lemmas postfix_defs =
  load_postfix_def addOverride_def removeOverride_def onOverrideKey_def onOverrideValue_def
  addMasterOverride_def removeMasterOverride_def onMasterOverrideKey_def onMasterOverrideValue_def
  postfix_onSave_def postfix_onSaveMaster_def

section \<open>Busy flags and requests\<close>

definition postfix_flags :: "(postfix_page \<Rightarrow> bool) list" where
  "postfix_flags = [loading, saving, savingMaster]"

interpretation postfix_quiet: quiet_page postfix_handle load_postfix postfix_start postfix_flags
proof
  show "list_all (\<lambda>f. clears f load_postfix \<or> tame f load_postfix \<and> \<not> f postfix_start) postfix_flags"
    by (simp add: postfix_flags_def postfix_start_def postfix_defs page_defs tame_intros)
  show "list_all (\<lambda>f. tame f (postfix_handle e)) postfix_flags" for e
    by (cases e) (simp_all add: postfix_flags_def postfix_defs page_defs tame_intros)
qed

text \<open>What a list may hold when it is sent: no blank, well-formed keys.\<close>

definition clean_pairs :: "(string \<Rightarrow> bool) \<Rightarrow> postfix_override list \<Rightarrow> bool" where
  "clean_pairs key ovs = (\<forall>ov \<in> set ovs. key (po_key ov) \<and> trim (po_key ov) = po_key ov \<and>
     trim (po_value ov) = po_value ov)"

lemma clean_pairs_clean:
  "find (\<lambda>ov. \<not> key (po_key ov)) (clean_overrides list) = None \<Longrightarrow> clean_pairs key (clean_overrides list)"
  by (auto simp: clean_pairs_def clean_overrides_def find_None_iff)

inductive postfix_request :: "request \<Rightarrow> bool" where
  "postfix_request (fst getPostfixOverrides)"
| "postfix_request (fst getPostfixMasterOverrides)"
| "clean_pairs main_key ovs \<Longrightarrow> postfix_request (fst (setPostfixOverrides ovs))"
| "clean_pairs master_key ovs \<Longrightarrow> postfix_request (fst (setPostfixMasterOverrides ovs))"

interpretation postfix_guarded: guarded_page postfix_handle load_postfix postfix_start postfix_request
proof
  show "sends postfix_request load_postfix"
    by (simp add: postfix_defs page_defs send_intros postfix_request.intros)
  show "sends postfix_request (postfix_handle e)" for e
    by (cases e) (simp_all add: postfix_defs page_defs send_intros postfix_request.intros clean_pairs_clean)
qed

section \<open>Properties\<close>

text \<open>
  In every interleaving, a list of Postfix overrides is only sent when every key has the
  syntax of its file (a parameter name for main.cf, service/type/parameter for master.cf)
  and no key or value has white space around it; the only other requests read the two lists.
\<close>

theorem postfix_requests_valid:
  assumes "reachable postfix_handle load_postfix postfix_start s ps"
    and "q \<in> in_flight ps"
  shows "postfix_request q"
  using assms by (rule postfix_guarded.sent)

theorem postfix_requests_valid_witness:
  "postfix_request (fst (setPostfixMasterOverrides [\<lparr>po_key = ''smtp/inet/x'', po_value = ''1''\<rparr>]))"
  by (rule postfix_requests_valid[OF run_reach[where steps =
        "[Event Add_master, Event Add_master, Event (Master_key 0 ''smtp/inet/x''), Event (Master_value 0 '' 1''),
          Event Save_master]"]])
    (simp add: run_defs postfix_defs postfix_start_def endpoint_defs clean_overrides_def master_key_def main_key_def
      update_at_def is_word_def is_alnum_def is_lower_def is_upper_def is_digit_def trim_def trim_start_def is_ws_def Let_def)

end
