(* ===== verification/Rspamd_Page.thy ===== *)
theory Rspamd_Page
  imports Pages Table_Sort
begin

text \<open>
  The Rspamd page (\<open>src/frontend/src/app/features/mailserver/rspamd/rspamd.ts\<close>): the commands
  of custom-commands.conf, with the arguments each kind takes, and the override files.
  \<open>localeCompare\<close> is the parameter \<open>compare_locale\<close>.
\<close>

record kind_descriptor =
  kd_kind :: rspamd_command_kind
  kd_hint :: string
  kd_target :: "(string \<times> string) option"
  kd_option :: "string option"
  kd_value :: "string option"

definition KINDS :: "kind_descriptor list" where
  "KINDS =
    [\<lparr>kd_kind = Set_common_option, kd_hint = ''options.inc'', kd_target = None,
       kd_option = Some ''dns'',
       kd_value = Some (''{ nameserver = ['' @ quoted ''127.0.0.11'' @ '']; }'')\<rparr>,
     \<lparr>kd_kind = Set_option_for_controller, kd_hint = ''worker-controller.inc'', kd_target = None,
       kd_option = Some ''password'', kd_value = Some (''$2$abc'' @ [CHR 0xE2, CHR 0x80, CHR 0xA6])\<rparr>,
     \<lparr>kd_kind = Set_option_for_proxy, kd_hint = ''worker-proxy.inc'', kd_target = None,
       kd_option = Some ''timeout'', kd_value = Some ''30s''\<rparr>,
     \<lparr>kd_kind = Enable_module, kd_hint = ''<module>.conf'',
       kd_target = Some (''Module'', ''dkim_signing''), kd_option = None, kd_value = None\<rparr>,
     \<lparr>kd_kind = Disable_module, kd_hint = ''<module>.conf'',
       kd_target = Some (''Module'', ''clickhouse''), kd_option = None, kd_value = None\<rparr>,
     \<lparr>kd_kind = Set_option_for_module, kd_hint = ''<module>.conf'',
       kd_target = Some (''Module'', ''greylisting''), kd_option = Some ''whitelisted_ip'',
       kd_value = Some ''127.0.0.0/8''\<rparr>,
     \<lparr>kd_kind = Add_line, kd_hint = ''<file>, verbatim'',
       kd_target = Some (''File'', ''logging.inc''), kd_option = None,
       kd_value = Some (''level = '' @ quoted ''silly'' @ '';'')\<rparr>]"

definition is_name_char :: "char \<Rightarrow> bool" where
  "is_name_char c = (is_alnum c \<or> c = CHR ''_'' \<or> c = CHR ''-'')"

text \<open>\<open>/^[A-Za-z0-9_-]+$/\<close> and \<open>/^[A-Za-z0-9_-]+\.[A-Za-z0-9_-]+$/\<close>\<close>

definition NAME_RE :: "string \<Rightarrow> bool" where
  "NAME_RE s = (s \<noteq> [] \<and> list_all is_name_char s)"

definition FILENAME_RE :: "string \<Rightarrow> bool" where
  "FILENAME_RE s = (case split_on (CHR ''.'') s of [a, b] \<Rightarrow> NAME_RE a \<and> NAME_RE b | _ \<Rightarrow> False)"

definition emptyCommand :: "rspamd_command_kind \<Rightarrow> rspamd_command" where
  "emptyCommand kind = \<lparr>rm_kind = kind, rm_target = [], rm_option = [], rm_value = []\<rparr>"

record rspamd_page =
  commands :: "rspamd_command list"
  overrideFiles :: "rspamd_override_file list"
  rspamdEnabled :: bool
  loading :: bool
  saving :: bool
  error :: "string option"
  success :: "string option"
  savingFile :: "string option"
  deletingFile :: "string option"
  newFileName :: string
  newFileContent :: string
  creatingFile :: bool

definition rspamd_start :: rspamd_page where
  "rspamd_start =
     \<lparr>commands = [], overrideFiles = [], rspamdEnabled = True, loading = False, saving = False,
      error = None, success = None, savingFile = None, deletingFile = None, newFileName = [],
      newFileContent = [], creatingFile = False\<rparr>"

definition hasCommands :: "rspamd_page \<Rightarrow> bool" where
  "hasCommands s = (0 < length (commands s))"

definition load_rspamd :: "rspamd_page cmd" where
  "load_rspamd =
     seq (assign (\<lambda>s. s\<lparr>loading := True, error := None\<rparr>))
     (attempt
       (fetch getRspamdOverrides (\<lambda>ov.
          assign (\<lambda>s. s\<lparr>commands := ro_commands ov, overrideFiles := ro_override_files ov,
                       rspamdEnabled := ro_rspamd_enabled ov\<rparr>)))
       (\<lambda>err. assign (\<lambda>s. s\<lparr>error := Some (mailserverErrorMessage err)\<rparr>))
       (\<lambda>s. s\<lparr>loading := False\<rparr>))"

definition descriptor :: "rspamd_command \<Rightarrow> kind_descriptor" where
  "descriptor command =
     (case find (\<lambda>entry. kd_kind entry = rm_kind command) KINDS of Some d \<Rightarrow> d | None \<Rightarrow> hd KINDS)"

definition addCommand :: "rspamd_page \<Rightarrow> rspamd_page" where
  "addCommand s = s\<lparr>commands := commands s @ [emptyCommand Set_option_for_module]\<rparr>"

definition removeCommand :: "nat \<Rightarrow> rspamd_page \<Rightarrow> rspamd_page" where
  "removeCommand index s = s\<lparr>commands := remove_at index (commands s)\<rparr>"

definition onKind :: "nat \<Rightarrow> rspamd_command_kind \<Rightarrow> rspamd_page \<Rightarrow> rspamd_page" where
  "onKind index kind s = s\<lparr>commands := update_at index (\<lambda>_. emptyCommand kind) (commands s)\<rparr>"

datatype command_field = Target_field | Option_field | Value_field

fun set_field :: "command_field \<Rightarrow> string \<Rightarrow> rspamd_command \<Rightarrow> rspamd_command" where
  "set_field Target_field text c = c\<lparr>rm_target := text\<rparr>"
| "set_field Option_field text c = c\<lparr>rm_option := text\<rparr>"
| "set_field Value_field text c = c\<lparr>rm_value := text\<rparr>"

definition onField :: "nat \<Rightarrow> command_field \<Rightarrow> string \<Rightarrow> rspamd_page \<Rightarrow> rspamd_page" where
  "onField index field text s = s\<lparr>commands := update_at index (set_field field text) (commands s)\<rparr>"

definition invalidReason :: "rspamd_command \<Rightarrow> string option" where
  "invalidReason command =
     (let d = descriptor command; kind = rspamd_kind_name (rm_kind command) in
      if kd_target d \<noteq> None \<and> rm_target command = [] then
        Some (kind @ '' requires a '' @ to_lower (fst (the (kd_target d))) @ ''.'')
      else if kd_option d \<noteq> None \<and> rm_option command = [] then
        Some (kind @ '' requires an option name.'')
      else if kd_value d \<noteq> None \<and> rm_value command = [] then
        Some (kind @ '' requires a value.'')
      else if rm_option command \<noteq> [] \<and> \<not> NAME_RE (rm_option command) then
        Some (''Invalid Rspamd option name: '' @ quoted (rm_option command) @ ''.'')
      else if rm_target command \<noteq> [] \<and>
          \<not> (if rm_kind command = Add_line then FILENAME_RE else NAME_RE) (rm_target command) then
        Some (''Invalid Rspamd '' @
          (if rm_kind command = Add_line then ''override file name'' else ''module name'') @ '': '' @
          quoted (rm_target command) @ ''.'')
      else None)"

definition clean_command :: "rspamd_command \<Rightarrow> rspamd_command" where
  "clean_command c =
     c\<lparr>rm_target := trim (rm_target c), rm_option := trim (rm_option c), rm_value := trim (rm_value c)\<rparr>"

text \<open>The loop over the cleaned commands: the first reason, in their order.\<close>

fun first_reason :: "rspamd_command list \<Rightarrow> string option" where
  "first_reason [] = None"
| "first_reason (c # cs) = (case invalidReason c of Some r \<Rightarrow> Some r | None \<Rightarrow> first_reason cs)"

definition rspamd_onSave :: "rspamd_page cmd" where
  "rspamd_onSave =
     seq (assign (\<lambda>s. s\<lparr>error := None, success := None\<rparr>))
     (look (\<lambda>s0.
       let cleaned = map clean_command (commands s0) in
       case first_reason cleaned of
         Some reason \<Rightarrow> assign (\<lambda>s. s\<lparr>error := Some reason\<rparr>)
       | None \<Rightarrow>
           seq (assign (\<lambda>s. s\<lparr>saving := True\<rparr>))
           (attempt
             (fetch (setRspamdOverrides cleaned) (\<lambda>ov.
               assign (\<lambda>s. s\<lparr>commands := ro_commands ov, overrideFiles := ro_override_files ov,
                 success := Some ''Rspamd commands saved. Restart the mailserver to apply them.''\<rparr>)))
             (\<lambda>err. assign (\<lambda>s. s\<lparr>error := Some (mailserverErrorMessage err)\<rparr>))
             (\<lambda>s. s\<lparr>saving := False\<rparr>))))"

definition onFileContent :: "string \<Rightarrow> string \<Rightarrow> rspamd_page \<Rightarrow> rspamd_page" where
  "onFileContent name text s =
     s\<lparr>overrideFiles := map (\<lambda>file. if rf_name file = name then file\<lparr>rf_content := text\<rparr> else file)
        (overrideFiles s)\<rparr>"

definition overwrite_notice :: string where
  "overwrite_notice = ''. A restart of the mailserver will overwrite it again unless '' @
     ''custom-commands.conf does not also produce this file.''"

definition saveFile :: "string \<Rightarrow> rspamd_page cmd" where
  "saveFile name =
     look (\<lambda>s0.
       case find (\<lambda>f. rf_name f = name) (overrideFiles s0) of
         None \<Rightarrow> skip
       | Some file \<Rightarrow>
           seq (assign (\<lambda>s. s\<lparr>error := None, success := None, savingFile := Some name\<rparr>))
           (attempt
             (fetch (setRspamdOverrideFile name (rf_content file)) (\<lambda>saved.
               assign (\<lambda>s. s\<lparr>overrideFiles := map (\<lambda>f. if rf_name f = name then saved else f) (overrideFiles s),
                            success := Some (''Saved '' @ quoted name @ overwrite_notice)\<rparr>)))
             (\<lambda>err. assign (\<lambda>s. s\<lparr>error := Some (mailserverErrorMessage err)\<rparr>))
             (\<lambda>s. s\<lparr>savingFile := None\<rparr>)))"

definition deleteFile :: "(string \<Rightarrow> bool) \<Rightarrow> string \<Rightarrow> rspamd_page cmd" where
  "deleteFile ask name =
     (if \<not> ask (''Delete '' @ quoted name @ '' from override.d/?'') then skip
      else
        seq (assign (\<lambda>s. s\<lparr>error := None, success := None, deletingFile := Some name\<rparr>))
        (attempt
          (fetch (deleteRspamdOverrideFile name) (\<lambda>_.
            assign (\<lambda>s. s\<lparr>overrideFiles := filter (\<lambda>f. rf_name f \<noteq> name) (overrideFiles s),
                         success := Some (''Deleted '' @ quoted name @ ''.'')\<rparr>)))
          (\<lambda>err. assign (\<lambda>s. s\<lparr>error := Some (mailserverErrorMessage err)\<rparr>))
          (\<lambda>s. s\<lparr>deletingFile := None\<rparr>)))"

definition createFile :: "(string \<Rightarrow> string \<Rightarrow> int) \<Rightarrow> rspamd_page cmd" where
  "createFile compare_locale =
     look (\<lambda>s0.
       let name = trim (newFileName s0) in
       seq (assign (\<lambda>s. s\<lparr>error := None, success := None\<rparr>))
       (if \<not> FILENAME_RE name then
          assign (\<lambda>s. s\<lparr>error := Some (''Invalid Rspamd override file name: '' @ quoted name @ ''.'')\<rparr>)
        else if list_ex (\<lambda>f. rf_name f = name) (overrideFiles s0) then
          assign (\<lambda>s. s\<lparr>error := Some (quoted name @ '' already exists.'')\<rparr>)
        else
          seq (assign (\<lambda>s. s\<lparr>creatingFile := True\<rparr>))
          (attempt
            (fetch (setRspamdOverrideFile name (newFileContent s0)) (\<lambda>created.
              assign (\<lambda>s. s\<lparr>overrideFiles :=
                             sort_rows (\<lambda>a b. compare_locale (rf_name a) (rf_name b)) (overrideFiles s @ [created]),
                           newFileName := [], newFileContent := [],
                           success := Some (''Created '' @ quoted name @ overwrite_notice)\<rparr>)))
            (\<lambda>err. assign (\<lambda>s. s\<lparr>error := Some (mailserverErrorMessage err)\<rparr>))
            (\<lambda>s. s\<lparr>creatingFile := False\<rparr>))))"

datatype rspamd_event =
    Add_command
  | Remove_command nat
  | Kind nat rspamd_command_kind
  | Field nat command_field string
  | Save_commands
  | File_content string string
  | Save_file string
  | Delete_file "string \<Rightarrow> bool" string
  | New_file_name string
  | New_file_content string
  | Create_file

fun rspamd_handle :: "(string \<Rightarrow> string \<Rightarrow> int) \<Rightarrow> rspamd_event \<Rightarrow> rspamd_page cmd" where
  "rspamd_handle lc Add_command = assign addCommand"
| "rspamd_handle lc (Remove_command i) = assign (removeCommand i)"
| "rspamd_handle lc (Kind i k) = assign (onKind i k)"
| "rspamd_handle lc (Field i f v) = assign (onField i f v)"
| "rspamd_handle lc Save_commands = rspamd_onSave"
| "rspamd_handle lc (File_content n v) = assign (onFileContent n v)"
| "rspamd_handle lc (Save_file n) = saveFile n"
| "rspamd_handle lc (Delete_file ask n) = deleteFile ask n"
| "rspamd_handle lc (New_file_name v) = assign (\<lambda>s. s\<lparr>newFileName := v\<rparr>)"
| "rspamd_handle lc (New_file_content v) = assign (\<lambda>s. s\<lparr>newFileContent := v\<rparr>)"
| "rspamd_handle lc Create_file = createFile lc"

lemmas rspamd_defs =
  load_rspamd_def addCommand_def removeCommand_def onKind_def onField_def rspamd_onSave_def
  onFileContent_def saveFile_def deleteFile_def createFile_def

section \<open>What a valid command is\<close>

text \<open>The table of the directives, written out.\<close>

fun command_ok :: "rspamd_command_kind \<Rightarrow> string \<Rightarrow> string \<Rightarrow> string \<Rightarrow> bool" where
  "command_ok Enable_module t opt v = (NAME_RE t \<and> (opt = [] \<or> NAME_RE opt))"
| "command_ok Disable_module t opt v = (NAME_RE t \<and> (opt = [] \<or> NAME_RE opt))"
| "command_ok Set_option_for_module t opt v = (NAME_RE t \<and> NAME_RE opt \<and> v \<noteq> [])"
| "command_ok Add_line t opt v = (FILENAME_RE t \<and> (opt = [] \<or> NAME_RE opt) \<and> v \<noteq> [])"
| "command_ok Set_common_option t opt v = ((t = [] \<or> NAME_RE t) \<and> NAME_RE opt \<and> v \<noteq> [])"
| "command_ok Set_option_for_controller t opt v = ((t = [] \<or> NAME_RE t) \<and> NAME_RE opt \<and> v \<noteq> [])"
| "command_ok Set_option_for_proxy t opt v = ((t = [] \<or> NAME_RE t) \<and> NAME_RE opt \<and> v \<noteq> [])"

lemma names_nonempty [simp]: "\<not> NAME_RE []" "\<not> FILENAME_RE []"
  by (simp_all add: NAME_RE_def FILENAME_RE_def)

lemma valid_command: "invalidReason c = None \<longleftrightarrow> command_ok (rm_kind c) (rm_target c) (rm_option c) (rm_value c)"
  by (cases "rm_kind c") (auto simp: invalidReason_def descriptor_def KINDS_def Let_def)

lemma first_reason_None: "first_reason cs = None \<longleftrightarrow> (\<forall>c \<in> set cs. invalidReason c = None)"
  by (induction cs) (auto split: option.splits)

section \<open>Busy flags and requests\<close>

definition rspamd_flags :: "(rspamd_page \<Rightarrow> bool) list" where
  "rspamd_flags =
     [loading, saving, creatingFile, \<lambda>s. is_some (savingFile s), \<lambda>s. is_some (deletingFile s)]"

interpretation rspamd_quiet: quiet_page "rspamd_handle lc" load_rspamd rspamd_start rspamd_flags for lc
proof
  show "list_all (\<lambda>f. clears f load_rspamd \<or> tame f load_rspamd \<and> \<not> f rspamd_start) rspamd_flags"
    by (simp add: rspamd_flags_def rspamd_start_def rspamd_defs page_defs tame_intros)
  show "list_all (\<lambda>f. tame f (rspamd_handle lc e)) rspamd_flags" for e
    by (cases e) (simp_all add: rspamd_flags_def rspamd_defs page_defs tame_intros)
qed

inductive rspamd_request :: "request \<Rightarrow> bool" where
  "rspamd_request (fst getRspamdOverrides)"
| "\<forall>c \<in> set cs. command_ok (rm_kind c) (rm_target c) (rm_option c) (rm_value c) \<Longrightarrow>
     rspamd_request (fst (setRspamdOverrides cs))"
| "rspamd_request (fst (setRspamdOverrideFile n v))"
| "rspamd_request (fst (deleteRspamdOverrideFile n))"

interpretation rspamd_guarded:
  guarded_page "rspamd_handle lc" load_rspamd rspamd_start rspamd_request for lc
proof
  have ok: "first_reason cs = None \<Longrightarrow> rspamd_request (fst (setRspamdOverrides cs))" for cs
    by (rule rspamd_request.intros) (simp add: first_reason_None valid_command)
  show "sends rspamd_request load_rspamd"
    by (simp add: rspamd_defs page_defs send_intros rspamd_request.intros)
  show "sends rspamd_request (rspamd_handle lc e)" for e
    by (cases e) (simp_all add: rspamd_defs page_defs send_intros rspamd_request.intros(1,3,4) ok)
qed

section \<open>Properties\<close>

text \<open>
  C21. In every interleaving, the command list is only sent when each of its commands has the
  operands its directive takes, with well-formed names; besides, the page reads the list,
  and writes and deletes override files.
\<close>

theorem rspamd_requests_valid:
  assumes "reachable (rspamd_handle lc) load_rspamd rspamd_start s ps"
    and "q \<in> in_flight ps"
  shows "rspamd_request q"
  using assms by (rule rspamd_guarded.sent)

theorem rspamd_requests_valid_witness:
  "rspamd_request (fst (setRspamdOverrides [\<lparr>rm_kind = Enable_module, rm_target = ''dkim_signing'', rm_option = [], rm_value = []\<rparr>]))"
  by (rule rspamd_requests_valid[OF run_reach[where steps =
        "[Event Add_command, Event (Kind 0 Enable_module), Event (Field 0 Target_field '' dkim_signing''),
          Event Save_commands]", where handle = "rspamd_handle code_compare"]])
    (simp add: run_defs rspamd_defs rspamd_start_def endpoint_defs update_at_def emptyCommand_def clean_command_def
      invalidReason_def descriptor_def KINDS_def NAME_RE_def is_name_char_def is_alnum_def is_lower_def is_upper_def
      is_digit_def trim_def trim_start_def is_ws_def Let_def)

text \<open>
  C22. The check of one command, whose rules come from the table of the directives, accepts
  exactly the commands that are well formed for their directive: a module to switch, a
  module, an option and a value to set, a file name and a line to add, an option and a
  value for the other three, and names without other characters wherever there is a name.
\<close>

theorem command_checked:
  "invalidReason c = None \<longleftrightarrow>
     (case rm_kind c of
        Enable_module \<Rightarrow> NAME_RE (rm_target c) \<and> (rm_option c = [] \<or> NAME_RE (rm_option c))
      | Disable_module \<Rightarrow> NAME_RE (rm_target c) \<and> (rm_option c = [] \<or> NAME_RE (rm_option c))
      | Set_option_for_module \<Rightarrow> NAME_RE (rm_target c) \<and> NAME_RE (rm_option c) \<and> rm_value c \<noteq> []
      | Add_line \<Rightarrow> FILENAME_RE (rm_target c) \<and> (rm_option c = [] \<or> NAME_RE (rm_option c)) \<and> rm_value c \<noteq> []
      | _ \<Rightarrow> (rm_target c = [] \<or> NAME_RE (rm_target c)) \<and> NAME_RE (rm_option c) \<and> rm_value c \<noteq> [])"
  by (cases "rm_kind c") (simp_all add: valid_command)

end
