(* ===== verification/Scoped_Editors.thy ===== *)
theory Scoped_Editors
  imports Pages
begin

text \<open>
  The three pages that edit one of several configuration files
  (\<open>src/frontend/src/app/features/mailserver/sieve/sieve.ts\<close>, \<open>spam/spam.ts\<close>,
  \<open>ldap/ldap.ts\<close>): a scope, the text of its file, and the request that saves it. Their
  common contract is the locale \<open>scoped_editor\<close>.
\<close>

record 'x editor =
  scope :: 'x
  content :: string
  loading :: bool
  error :: "string option"
  success :: "string option"
  saving :: bool

section \<open>The contract\<close>

locale scoped_editor =
  fixes setScope :: "'x \<Rightarrow> ('x, 'm) editor_scheme cmd"
    and onSave :: "('x, 'm) editor_scheme cmd"
    and get_file :: "'x \<Rightarrow> request"
    and put_file :: "'x \<Rightarrow> string \<Rightarrow> request"
    and is_file :: "string \<Rightarrow> payload \<Rightarrow> bool"
  assumes same_scope: "scope s = x \<Longrightarrow> setScope x s = (s, Done)"
    and switch: "scope s \<noteq> x \<Longrightarrow> \<exists>s' k. setScope x s = (s', Wait [get_file x] k) \<and>
       scope s' = x \<and> content s' = content s \<and>
       (\<forall>e t. \<exists>t'. k (Inl e) t = (t', Done) \<and> scope t' = scope t \<and> content t' = content t \<and>
          \<not> loading t' \<and> error t' \<noteq> None) \<and>
       (\<forall>v c t. is_file c v \<longrightarrow> (\<exists>t'. k (Inr [v]) t = (t', Done) \<and> scope t' = scope t \<and> content t' = c \<and> \<not> loading t'))"
    and save: "\<exists>s' k. onSave s = (s', Wait [put_file (scope s) (content s)] k) \<and>
       scope s' = scope s \<and> content s' = content s"
begin

text \<open>After a load that succeeds, what is shown and saved is the file of the open scope.\<close>

lemma loaded_switch:
  assumes "scope s \<noteq> x" and "is_file c v"
  obtains t where "answers [([], Inr [v])] (setScope x s) = (t, Done)"
    and "scope t = x" and "content t = c" and "\<not> loading t" and "outstanding (snd (onSave t)) = [put_file x c]"
proof -
  obtain s' k where k: "setScope x s = (s', Wait [get_file x] k)" "scope s' = x"
    "\<forall>v c t. is_file c v \<longrightarrow> (\<exists>t'. k (Inr [v]) t = (t', Done) \<and> scope t' = scope t \<and> content t' = c \<and> \<not> loading t')"
    using switch[OF assms(1)] by blast
  then obtain t where t: "k (Inr [v]) s' = (t, Done)" "scope t = x" "content t = c" "\<not> loading t"
    using assms(2) by metis
  obtain u h where "onSave t = (u, Wait [put_file (scope t) (content t)] h)" using save[of t] by blast
  then show thesis using k t by (intro that[of t]) auto
qed

text \<open>After a load that fails, the text of the previous scope is still there, and is saved over the new one.\<close>

lemma failed_switch:
  assumes "scope s \<noteq> x"
  obtains t where "answers [([], Inl e)] (setScope x s) = (t, Done)"
    and "scope t = x" and "content t = content s" and "\<not> loading t"
    and "outstanding (snd (onSave t)) = [put_file x (content s)]"
proof -
  obtain s' k where k: "setScope x s = (s', Wait [get_file x] k)" "scope s' = x" "content s' = content s"
    "\<forall>e t. \<exists>t'. k (Inl e) t = (t', Done) \<and> scope t' = scope t \<and> content t' = content t \<and>
          \<not> loading t' \<and> error t' \<noteq> None"
    using switch[OF assms] by blast
  then obtain t where t: "k (Inl e) s' = (t, Done)" "scope t = x" "content t = content s" "\<not> loading t"
    by metis
  obtain u h where "onSave t = (u, Wait [put_file (scope t) (content t)] h)" using save[of t] by blast
  then show thesis using k t by (intro that[of t]) auto
qed

end

section \<open>Sieve filters (sieve.ts)\<close>

type_synonym sieve_page = "sieve_scope editor"

definition sieve_start :: sieve_page where
  "sieve_start = \<lparr>scope = Before, content = [], loading = False, error = None, success = None, saving = False\<rparr>"

definition load_sieve :: "sieve_page cmd" where
  "load_sieve =
     seq (assign (\<lambda>s. s\<lparr>loading := True, error := None\<rparr>))
     (look (\<lambda>s0.
       attempt
         (fetch (getSieveScript (scope s0)) (\<lambda>script. assign (\<lambda>s. s\<lparr>content := ss_content script\<rparr>)))
         (\<lambda>_. assign (\<lambda>s. s\<lparr>error := Some ''Unable to load the Sieve script.''\<rparr>))
         (\<lambda>s. s\<lparr>loading := False\<rparr>)))"

definition sieve_setScope :: "sieve_scope \<Rightarrow> sieve_page cmd" where
  "sieve_setScope x =
     look (\<lambda>s0. if scope s0 = x then skip
       else seq (assign (\<lambda>s. s\<lparr>scope := x, success := None\<rparr>)) load_sieve)"

definition sieve_onSave :: "sieve_page cmd" where
  "sieve_onSave =
     seq (assign (\<lambda>s. s\<lparr>error := None, success := None, saving := True\<rparr>))
     (look (\<lambda>s0.
       attempt
         (fetch (setSieveScript (scope s0) (content s0)) (\<lambda>script.
           assign (\<lambda>s. s\<lparr>content := ss_content script,
             success := Some (''The '' @ quoted (sieve_scope_name (ss_scope script)) @
               '' script was saved. Restart the mailserver to compile it.'')\<rparr>)))
         (\<lambda>err. assign (\<lambda>s. s\<lparr>error := Some (mailserverErrorMessage err)\<rparr>))
         (\<lambda>s. s\<lparr>saving := False\<rparr>)))"

datatype 'x editor_event =
    Set_scope 'x
  | Content string
  | Save

fun sieve_handle :: "sieve_scope editor_event \<Rightarrow> sieve_page cmd" where
  "sieve_handle (Set_scope x) = sieve_setScope x"
| "sieve_handle (Content v) = assign (\<lambda>s. s\<lparr>content := v\<rparr>)"
| "sieve_handle Save = sieve_onSave"

lemmas sieve_defs = load_sieve_def sieve_setScope_def sieve_onSave_def

definition is_sieve_file :: "string \<Rightarrow> payload \<Rightarrow> bool" where
  "is_sieve_file c v = (\<exists>f. v = P_Filter (V_Sieve f) \<and> c = ss_content f)"

interpretation sieve_editor: scoped_editor sieve_setScope sieve_onSave
  "\<lambda>x. fst (getSieveScript x)" "\<lambda>x c. fst (setSieveScript x c)" is_sieve_file
  by unfold_locales
    (auto simp: sieve_defs run_simps is_sieve_file_def getSieveScript_def setSieveScript_def)

definition editor_flags :: "(('x, 'm) editor_scheme \<Rightarrow> bool) list" where
  "editor_flags = [loading, saving]"

interpretation sieve_quiet: quiet_page sieve_handle load_sieve sieve_start editor_flags
proof
  show "list_all (\<lambda>f. clears f load_sieve \<or> tame f load_sieve \<and> \<not> f sieve_start) editor_flags"
    by (simp add: editor_flags_def sieve_start_def sieve_defs page_defs tame_intros)
  show "list_all (\<lambda>f. tame f (sieve_handle e)) editor_flags" for e
    by (cases e) (simp_all add: editor_flags_def sieve_defs page_defs tame_intros)
qed

section \<open>Spam filtering (spam.ts)\<close>

text \<open>Lines joined by the line feed of the placeholders.\<close>

definition lines_of :: "string list \<Rightarrow> string" where
  "lines_of ls = join_with [CHR 0x0A] ls"

record spam_descriptor =
  sd_scope :: spam_config_scope
  sd_label :: string
  sd_filename :: string
  sd_feature :: string
  sd_placeholder :: string

definition spam_SCOPES :: "spam_descriptor list" where
  "spam_SCOPES =
    [\<lparr>sd_scope = Rules, sd_label = ''SpamAssassin rules'', sd_filename = ''spamassassin-rules.cf'',
       sd_feature = ''SpamAssassin'',
       sd_placeholder = lines_of
         [''header LOCAL_DEMO_SUBJECT Subject =~ /'' @ [CHR 0x5C] @ ''bdemo'' @ [CHR 0x5C] @ ''b/i'',
          ''score LOCAL_DEMO_SUBJECT 2.0'',
          ''describe LOCAL_DEMO_SUBJECT Subject mentions a demo'']\<rparr>,
     \<lparr>sd_scope = Whitelist_clients, sd_label = ''Postgrey clients'', sd_filename = ''whitelist_clients.local'',
       sd_feature = ''Postgrey'',
       sd_placeholder = lines_of
         [''example.com'', ''mail.partner.example'',
          ''/^smtp[0-9]+'' @ [CHR 0x5C] @ ''.bulk'' @ [CHR 0x5C] @ ''.example$/'']\<rparr>,
     \<lparr>sd_scope = Whitelist_recipients, sd_label = ''Postgrey recipients'', sd_filename = ''whitelist_recipients'',
       sd_feature = ''Postgrey'',
       sd_placeholder = lines_of [''postmaster@example.com'', ''support@example.com'']\<rparr>,
     \<lparr>sd_scope = Amavis, sd_label = ''Amavis'', sd_filename = ''amavis.cf'', sd_feature = ''Amavis'',
       sd_placeholder = lines_of
         [''$sa_tag_level_deflt = -999;'', ''$sa_tag2_level_deflt = 6.0;'', ''$sa_kill_level_deflt = 10.0;'',
          ''$final_spam_destiny = D_PASS;'', [],
          ''# Do not remove: Amavis requires the file to end with a true value.'', ''1;'']\<rparr>]"

record spam_page = "spam_config_scope editor" +
  featureVariable :: string
  featureEnabled :: bool

definition spam_start :: spam_page where
  "spam_start = \<lparr>scope = Rules, content = [], loading = False, error = None, success = None, saving = False,
     featureVariable = [], featureEnabled = True\<rparr>"

definition spam_current :: "spam_page \<Rightarrow> spam_descriptor" where
  "spam_current s = (case find (\<lambda>e. sd_scope e = scope s) spam_SCOPES of Some d \<Rightarrow> d | None \<Rightarrow> hd spam_SCOPES)"

definition load_spam :: "spam_page cmd" where
  "load_spam =
     seq (assign (\<lambda>s. s\<lparr>loading := True, error := None\<rparr>))
     (look (\<lambda>s0.
       attempt
         (fetch (getSpamConfig (scope s0)) (\<lambda>config.
           assign (\<lambda>s. s\<lparr>content := sc_content config, featureVariable := sc_feature config,
                        featureEnabled := sc_feature_enabled config\<rparr>)))
         (\<lambda>err. assign (\<lambda>s. s\<lparr>error := Some (mailserverErrorMessage err)\<rparr>))
         (\<lambda>s. s\<lparr>loading := False\<rparr>)))"

definition spam_setScope :: "spam_config_scope \<Rightarrow> spam_page cmd" where
  "spam_setScope x =
     look (\<lambda>s0. if scope s0 = x then skip
       else seq (assign (\<lambda>s. s\<lparr>scope := x, success := None\<rparr>)) load_spam)"

definition spam_onSave :: "spam_page cmd" where
  "spam_onSave =
     seq (assign (\<lambda>s. s\<lparr>error := None, success := None, saving := True\<rparr>))
     (look (\<lambda>s0.
       attempt
         (fetch (setSpamConfig (scope s0) (content s0)) (\<lambda>config.
           seq (assign (\<lambda>s. s\<lparr>content := sc_content config\<rparr>))
           (assign (\<lambda>s. s\<lparr>success := Some (sd_filename (spam_current s) @
              '' was saved. Restart the mailserver to apply it.'')\<rparr>))))
         (\<lambda>err. assign (\<lambda>s. s\<lparr>error := Some (mailserverErrorMessage err)\<rparr>))
         (\<lambda>s. s\<lparr>saving := False\<rparr>)))"

fun spam_handle :: "spam_config_scope editor_event \<Rightarrow> spam_page cmd" where
  "spam_handle (Set_scope x) = spam_setScope x"
| "spam_handle (Content v) = assign (\<lambda>s. s\<lparr>content := v\<rparr>)"
| "spam_handle Save = spam_onSave"

lemmas spam_defs = load_spam_def spam_setScope_def spam_onSave_def

definition is_spam_file :: "string \<Rightarrow> payload \<Rightarrow> bool" where
  "is_spam_file c v = (\<exists>f. v = P_Filter (V_Spam_config f) \<and> c = sc_content f)"

interpretation spam_editor: scoped_editor spam_setScope spam_onSave
  "\<lambda>x. fst (getSpamConfig x)" "\<lambda>x c. fst (setSpamConfig x c)" is_spam_file
  by unfold_locales
    (auto simp: spam_defs run_simps is_spam_file_def getSpamConfig_def setSpamConfig_def)

interpretation spam_quiet: quiet_page spam_handle load_spam spam_start editor_flags
proof
  show "list_all (\<lambda>f. clears f load_spam \<or> tame f load_spam \<and> \<not> f spam_start) editor_flags"
    by (simp add: editor_flags_def spam_start_def spam_defs page_defs tame_intros)
  show "list_all (\<lambda>f. tame f (spam_handle e)) editor_flags" for e
    by (cases e) (simp_all add: editor_flags_def spam_defs page_defs tame_intros)
qed

text \<open>The comment of \<open>current\<close>: the table of the descriptors holds every scope.\<close>

lemma spam_current_scope: "sd_scope (spam_current s) = scope s"
  by (cases "scope s") (simp_all add: spam_current_def spam_SCOPES_def)

section \<open>LDAP maps (ldap.ts)\<close>

record ldap_descriptor =
  ld_scope :: ldap_scope
  ld_label :: string
  ld_filename :: string
  ld_purpose :: string
  ld_placeholder :: string

definition ldap_SCOPES :: "ldap_descriptor list" where
  "ldap_SCOPES =
    [\<lparr>ld_scope = Users, ld_label = ''Users'', ld_filename = ''ldap-users.cf'',
       ld_purpose = ''virtual_mailbox_maps '' @ em_dash @ '' which addresses are mailboxes'',
       ld_placeholder = lines_of
         [''server_host = mail.example.com'', ''search_base = ou=people,dc=example,dc=com'',
          ''query_filter = (&(mail=%s)(mailEnabled=TRUE))'', ''result_attribute = mail'', ''bind = yes'',
          ''bind_dn = cn=admin,dc=example,dc=com'', ''bind_pw = secret'', ''version = 3'']\<rparr>,
     \<lparr>ld_scope = Groups, ld_label = ''Groups'', ld_filename = ''ldap-groups.cf'',
       ld_purpose = ''virtual_alias_maps '' @ em_dash @ '' distribution groups'',
       ld_placeholder = lines_of
         [''server_host = mail.example.com'', ''search_base = ou=groups,dc=example,dc=com'',
          ''query_filter = (&(mailGroupMember=%s))'', ''result_attribute = mail'', ''version = 3'']\<rparr>,
     \<lparr>ld_scope = Aliases, ld_label = ''Aliases'', ld_filename = ''ldap-aliases.cf'',
       ld_purpose = ''virtual_alias_maps '' @ em_dash @ '' one address forwarding to another'',
       ld_placeholder = lines_of
         [''server_host = mail.example.com'', ''search_base = ou=people,dc=example,dc=com'',
          ''query_filter = (&(mailAlias=%s))'', ''result_attribute = mail'', ''version = 3'']\<rparr>,
     \<lparr>ld_scope = Domains, ld_label = ''Domains'', ld_filename = ''ldap-domains.cf'',
       ld_purpose = ''virtual_mailbox_domains '' @ em_dash @ '' which domains are hosted'',
       ld_placeholder = lines_of
         [''server_host = mail.example.com'', ''search_base = dc=example,dc=com'',
          ''query_filter = (|(mail=*@%s)(mailAlias=*@%s))'', ''result_attribute = mail'', ''version = 3'']\<rparr>]"

record ldap_page = "ldap_scope editor" +
  configured :: bool
  provisioner :: string
  ldapEnabled :: bool
  overriddenKeys :: "string list"

definition ldap_start :: ldap_page where
  "ldap_start = \<lparr>scope = Users, content = [], loading = False, error = None, success = None, saving = False,
     configured = False, provisioner = [], ldapEnabled = True, overriddenKeys = []\<rparr>"

definition ldap_current :: "ldap_page \<Rightarrow> ldap_descriptor" where
  "ldap_current s = (case find (\<lambda>e. ld_scope e = scope s) ldap_SCOPES of Some d \<Rightarrow> d | None \<Rightarrow> hd ldap_SCOPES)"

definition overriddenList :: "ldap_page \<Rightarrow> string" where
  "overriddenList s = join_with '', '' (overriddenKeys s)"

definition load_ldap :: "ldap_page cmd" where
  "load_ldap =
     seq (assign (\<lambda>s. s\<lparr>loading := True, error := None\<rparr>))
     (look (\<lambda>s0.
       attempt
         (fetch (getLdapConfig (scope s0)) (\<lambda>config.
           assign (\<lambda>s. s\<lparr>content := lc_content config, configured := lc_configured config,
                        provisioner := lc_provisioner config, ldapEnabled := lc_ldap_enabled config,
                        overriddenKeys := lc_overridden_keys config\<rparr>)))
         (\<lambda>err. assign (\<lambda>s. s\<lparr>error := Some (mailserverErrorMessage err)\<rparr>))
         (\<lambda>s. s\<lparr>loading := False\<rparr>)))"

definition ldap_setScope :: "ldap_scope \<Rightarrow> ldap_page cmd" where
  "ldap_setScope x =
     look (\<lambda>s0. if scope s0 = x then skip
       else seq (assign (\<lambda>s. s\<lparr>scope := x, success := None\<rparr>)) load_ldap)"

definition ldap_onSave :: "ldap_page cmd" where
  "ldap_onSave =
     seq (assign (\<lambda>s. s\<lparr>error := None, success := None, saving := True\<rparr>))
     (look (\<lambda>s0.
       attempt
         (fetch (setLdapConfig (scope s0) (content s0)) (\<lambda>config.
           seq (assign (\<lambda>s. s\<lparr>content := lc_content config, configured := lc_configured config,
                             overriddenKeys := lc_overridden_keys config\<rparr>))
           (assign (\<lambda>s. s\<lparr>success := Some (ld_filename (ldap_current s) @
              (if lc_configured config then '' was saved. Restart the mailserver to apply it.''
               else '' was removed; docker-mailserver falls back to its default map.''))\<rparr>))))
         (\<lambda>err. assign (\<lambda>s. s\<lparr>error := Some (mailserverErrorMessage err)\<rparr>))
         (\<lambda>s. s\<lparr>saving := False\<rparr>)))"

fun ldap_handle :: "ldap_scope editor_event \<Rightarrow> ldap_page cmd" where
  "ldap_handle (Set_scope x) = ldap_setScope x"
| "ldap_handle (Content v) = assign (\<lambda>s. s\<lparr>content := v\<rparr>)"
| "ldap_handle Save = ldap_onSave"

lemmas ldap_defs = load_ldap_def ldap_setScope_def ldap_onSave_def

definition is_ldap_file :: "string \<Rightarrow> payload \<Rightarrow> bool" where
  "is_ldap_file c v = (\<exists>f. v = P_Filter (V_Ldap_config f) \<and> c = lc_content f)"

interpretation ldap_editor: scoped_editor ldap_setScope ldap_onSave
  "\<lambda>x. fst (getLdapConfig x)" "\<lambda>x c. fst (setLdapConfig x c)" is_ldap_file
  by unfold_locales
    (auto simp: ldap_defs run_simps is_ldap_file_def getLdapConfig_def setLdapConfig_def)

interpretation ldap_quiet: quiet_page ldap_handle load_ldap ldap_start editor_flags
proof
  show "list_all (\<lambda>f. clears f load_ldap \<or> tame f load_ldap \<and> \<not> f ldap_start) editor_flags"
    by (simp add: editor_flags_def ldap_start_def ldap_defs page_defs tame_intros)
  show "list_all (\<lambda>f. tame f (ldap_handle e)) editor_flags" for e
    by (cases e) (simp_all add: editor_flags_def ldap_defs page_defs tame_intros)
qed

lemma ldap_current_scope: "ld_scope (ldap_current s) = scope s"
  by (cases "scope s") (simp_all add: ldap_current_def ldap_SCOPES_def)

section \<open>Properties\<close>

text \<open>
  C26. Switching the Sieve page to another scope and what the Save button does then. When
  the load succeeds, the text on display is the file of the new scope, and Save sends that
  text for that scope. When the load fails, whatever the error, the text of the previous
  scope stays on display under the new one, and Save sends it for the new scope.
\<close>

theorem sieve_switch:
  assumes "scope s \<noteq> x"
  shows "(\<exists>t. answers [([], ok (P_Filter (V_Sieve f)))] (sieve_setScope x s) = (t, Done) \<and>
      scope t = x \<and> content t = ss_content f \<and> \<not> loading t \<and>
      outstanding (snd (sieve_onSave t)) = [fst (setSieveScript x (ss_content f))]) \<and>
    (\<exists>t. answers [([], Inl e)] (sieve_setScope x s) = (t, Done) \<and>
      scope t = x \<and> content t = content s \<and> \<not> loading t \<and>
      outstanding (snd (sieve_onSave t)) = [fst (setSieveScript x (content s))])"
proof (rule conjI)
  have f: "is_sieve_file (ss_content f) (P_Filter (V_Sieve f))" by (auto simp: is_sieve_file_def)
  show "\<exists>t. answers [([], ok (P_Filter (V_Sieve f)))] (sieve_setScope x s) = (t, Done) \<and>
      scope t = x \<and> content t = ss_content f \<and> \<not> loading t \<and>
      outstanding (snd (sieve_onSave t)) = [fst (setSieveScript x (ss_content f))]"
    by (rule sieve_editor.loaded_switch[OF assms f]) blast
  show "\<exists>t. answers [([], Inl e)] (sieve_setScope x s) = (t, Done) \<and>
      scope t = x \<and> content t = content s \<and> \<not> loading t \<and>
      outstanding (snd (sieve_onSave t)) = [fst (setSieveScript x (content s))]"
    by (rule sieve_editor.failed_switch[OF assms, of e]) blast
qed

theorem sieve_switch_witness:
  "\<exists>t. answers [([], failed 502)] (sieve_setScope After (sieve_start\<lparr>content := ''keep;''\<rparr>)) = (t, Done) \<and>
     scope t = After \<and> content t = ''keep;''"
  using sieve_switch[of "sieve_start\<lparr>content := ''keep;''\<rparr>" After] by (auto simp: sieve_start_def)

lemma spam_switch_failed:
  assumes "scope s \<noteq> x"
  shows "\<exists>t. answers [([], Inl e)] (spam_setScope x s) = (t, Done) \<and> scope t = x \<and>
    outstanding (snd (spam_onSave t)) = [fst (setSpamConfig x (content s))]"
  by (rule spam_editor.failed_switch[OF assms, of e]) blast

lemma ldap_switch_failed:
  assumes "scope s \<noteq> x"
  shows "\<exists>t. answers [([], Inl e)] (ldap_setScope x s) = (t, Done) \<and> scope t = x \<and>
    outstanding (snd (ldap_onSave t)) = [fst (setLdapConfig x (content s))]"
  by (rule ldap_editor.failed_switch[OF assms, of e]) blast

end
