(* ===== verification/Mailserver_Lists.thy ===== *)
theory Mailserver_Lists
  imports Pages
begin

text \<open>
  Three list pages of the mailserver section under \<open>src/frontend/src/app/features/mailserver\<close>:
  the restrictions by kind (\<open>restrictions/restrictions.ts\<close>), the Dovecot master accounts
  and configuration (\<open>dovecot/dovecot.ts\<close>), the Postfix queue (\<open>queue/queue.ts\<close>). Their
  states share the flags of a page that loads.
\<close>

record listing =
  loading :: bool
  error :: "string option"
  success :: "string option"

section \<open>Restrictions\<close>

record restrictions_page = listing +
  kind :: restriction_kind
  restrictions :: "restriction list"
  adding :: bool
  deleting :: "string option"
  restrictionModel :: string

definition restrictions_start :: restrictions_page where
  "restrictions_start = \<lparr>loading = False, error = None, success = None, kind = Send, restrictions = [],
     adding = False, deleting = None, restrictionModel = []\<rparr>"

definition load_restrictions :: "restrictions_page cmd" where
  "load_restrictions =
     seq (assign (\<lambda>s. s\<lparr>loading := True, error := None\<rparr>))
     (look (\<lambda>s0.
       attempt
         (fetch (listRestrictions (kind s0)) (\<lambda>list. assign (\<lambda>s. s\<lparr>restrictions := list\<rparr>)))
         (\<lambda>_. assign (\<lambda>s. s\<lparr>error := Some ''Unable to load the restrictions.''\<rparr>))
         (\<lambda>s. s\<lparr>loading := False\<rparr>)))"

definition setKind :: "restriction_kind \<Rightarrow> restrictions_page cmd" where
  "setKind x =
     look (\<lambda>s0. if kind s0 = x then skip
       else seq (assign (\<lambda>s. s\<lparr>kind := x, success := None\<rparr>)) load_restrictions)"

definition restrictions_onAdd :: "bool \<Rightarrow> restrictions_page cmd" where
  "restrictions_onAdd run =
     seq (assign (\<lambda>s. s\<lparr>error := None, success := None\<rparr>))
     (submit run
       (look (\<lambda>s0.
         let address = to_lower (trim (restrictionModel s0)) in
         if \<not> str_includes address ''@'' then
           assign (\<lambda>s. s\<lparr>error := Some ''The target must be an address or a domain (@example.com).''\<rparr>)
         else
           seq (assign (\<lambda>s. s\<lparr>adding := True\<rparr>))
           (attempt
             (fetch (addRestriction (kind s0) address) (\<lambda>_.
               seq (assign (\<lambda>s. s\<lparr>success := Some (address @ '' restricted.''), restrictionModel := []\<rparr>))
               load_restrictions))
             (\<lambda>err. assign (\<lambda>s. s\<lparr>error := Some (mailserverErrorMessage err)\<rparr>))
             (\<lambda>s. s\<lparr>adding := False\<rparr>)))))"

definition restrictions_onDelete :: "(string \<Rightarrow> bool) \<Rightarrow> restriction \<Rightarrow> restrictions_page cmd" where
  "restrictions_onDelete ask r =
     (if \<not> ask (''Remove the '' @ restriction_kind_name (rs_kind r) @ '' restriction for '' @ rs_address r @ ''?'') then skip
      else
        seq (assign (\<lambda>s. s\<lparr>error := None, success := None, deleting := Some (rs_address r)\<rparr>))
        (attempt
          (fetch (deleteRestriction (rs_kind r) (rs_address r)) (\<lambda>_.
            seq (assign (\<lambda>s. s\<lparr>success := Some (rs_address r @ '' removed.'')\<rparr>))
            load_restrictions))
          (\<lambda>err. assign (\<lambda>s. s\<lparr>error := Some (mailserverErrorMessage err)\<rparr>))
          (\<lambda>s. s\<lparr>deleting := None\<rparr>)))"

datatype restrictions_event =
    Set_kind restriction_kind
  | Type_address string
  | Add_restriction bool
  | Delete_restriction "string \<Rightarrow> bool" restriction

fun restrictions_handle :: "restrictions_event \<Rightarrow> restrictions_page cmd" where
  "restrictions_handle (Set_kind x) = setKind x"
| "restrictions_handle (Type_address v) = assign (\<lambda>s. s\<lparr>restrictionModel := v\<rparr>)"
| "restrictions_handle (Add_restriction run) = restrictions_onAdd run"
| "restrictions_handle (Delete_restriction ask r) = restrictions_onDelete ask r"

lemmas restrictions_defs =
  load_restrictions_def setKind_def restrictions_onAdd_def restrictions_onDelete_def

definition restrictions_flags :: "(restrictions_page \<Rightarrow> bool) list" where
  "restrictions_flags = [loading, adding, \<lambda>s. is_some (deleting s)]"

interpretation restrictions_quiet:
  quiet_page restrictions_handle load_restrictions restrictions_start restrictions_flags
proof
  show "list_all (\<lambda>f. clears f load_restrictions \<or> tame f load_restrictions \<and> \<not> f restrictions_start) restrictions_flags"
    by (simp add: restrictions_flags_def restrictions_start_def restrictions_defs page_defs tame_intros)
  show "list_all (\<lambda>f. tame f (restrictions_handle e)) restrictions_flags" for e
    by (cases e) (simp_all add: restrictions_flags_def restrictions_defs page_defs tame_intros)
qed

section \<open>Dovecot\<close>

record dovecot_page = listing +
  masters :: "dovecot_master list"
  config :: string
  creatingMaster :: bool
  deletingMaster :: "string option"
  savingConfig :: bool
  master_name :: string
  master_password :: string

definition dovecot_start :: dovecot_page where
  "dovecot_start = \<lparr>loading = False, error = None, success = None, masters = [], config = [],
     creatingMaster = False, deletingMaster = None, savingConfig = False, master_name = [], master_password = []\<rparr>"

definition load_dovecot :: "dovecot_page cmd" where
  "load_dovecot =
     seq (assign (\<lambda>s. s\<lparr>loading := True, error := None\<rparr>))
     (attempt
       (fetch_both listDovecotMasters getDovecotConfig (\<lambda>ms c.
          assign (\<lambda>s. s\<lparr>masters := ms, config := dc_content c\<rparr>)))
       (\<lambda>_. assign (\<lambda>s. s\<lparr>error := Some ''Unable to load the Dovecot configuration.''\<rparr>))
       (\<lambda>s. s\<lparr>loading := False\<rparr>))"

definition onCreateMaster :: "bool \<Rightarrow> dovecot_page cmd" where
  "onCreateMaster run =
     seq (assign (\<lambda>s. s\<lparr>error := None, success := None\<rparr>))
     (submit run
       (look (\<lambda>s0.
         let name = to_lower (trim (master_name s0)) in
         if str_includes name ''@'' then
           assign (\<lambda>s. s\<lparr>error := Some (''A master name must not contain '' @ [CHR 0x27, CHR 0x40, CHR 0x27] @ ''.'')\<rparr>)
         else
           seq (assign (\<lambda>s. s\<lparr>creatingMaster := True\<rparr>))
           (attempt
             (fetch (createDovecotMaster name (master_password s0)) (\<lambda>_.
               seq (assign (\<lambda>s. s\<lparr>success := Some (''Master account '' @ name @ '' created.''),
                                 master_name := [], master_password := []\<rparr>))
               load_dovecot))
             (\<lambda>err. assign (\<lambda>s. s\<lparr>error := Some (mailserverErrorMessage err)\<rparr>))
             (\<lambda>s. s\<lparr>creatingMaster := False\<rparr>)))))"

definition onDeleteMaster :: "(string \<Rightarrow> bool) \<Rightarrow> dovecot_master \<Rightarrow> dovecot_page cmd" where
  "onDeleteMaster ask m =
     (if \<not> ask (''Delete the Dovecot master account '' @ ma_name m @ ''?'') then skip
      else
        seq (assign (\<lambda>s. s\<lparr>error := None, success := None, deletingMaster := Some (ma_name m)\<rparr>))
        (attempt
          (fetch (deleteDovecotMaster (ma_name m)) (\<lambda>_.
            seq (assign (\<lambda>s. s\<lparr>success := Some (''Master account '' @ ma_name m @ '' deleted.'')\<rparr>))
            load_dovecot))
          (\<lambda>err. assign (\<lambda>s. s\<lparr>error := Some (mailserverErrorMessage err)\<rparr>))
          (\<lambda>s. s\<lparr>deletingMaster := None\<rparr>)))"

definition onSaveConfig :: "dovecot_page cmd" where
  "onSaveConfig =
     seq (assign (\<lambda>s. s\<lparr>error := None, success := None, savingConfig := True\<rparr>))
     (look (\<lambda>s0.
       attempt
         (fetch (setDovecotConfig (config s0)) (\<lambda>c.
           assign (\<lambda>s. s\<lparr>config := dc_content c,
             success := Some ''Dovecot configuration saved. Restart the mailserver to apply it.''\<rparr>)))
         (\<lambda>err. assign (\<lambda>s. s\<lparr>error := Some (mailserverErrorMessage err)\<rparr>))
         (\<lambda>s. s\<lparr>savingConfig := False\<rparr>)))"

datatype dovecot_event =
    Type_master string string
  | Type_config string
  | Create_master bool
  | Delete_master "string \<Rightarrow> bool" dovecot_master
  | Save_config

fun dovecot_handle :: "dovecot_event \<Rightarrow> dovecot_page cmd" where
  "dovecot_handle (Type_master n p) = assign (\<lambda>s. s\<lparr>master_name := n, master_password := p\<rparr>)"
| "dovecot_handle (Type_config v) = assign (\<lambda>s. s\<lparr>config := v\<rparr>)"
| "dovecot_handle (Create_master run) = onCreateMaster run"
| "dovecot_handle (Delete_master ask m) = onDeleteMaster ask m"
| "dovecot_handle Save_config = onSaveConfig"

lemmas dovecot_defs = load_dovecot_def onCreateMaster_def onDeleteMaster_def onSaveConfig_def

definition dovecot_flags :: "(dovecot_page \<Rightarrow> bool) list" where
  "dovecot_flags = [loading, creatingMaster, savingConfig, \<lambda>s. is_some (deletingMaster s)]"

interpretation dovecot_quiet: quiet_page dovecot_handle load_dovecot dovecot_start dovecot_flags
proof
  show "list_all (\<lambda>f. clears f load_dovecot \<or> tame f load_dovecot \<and> \<not> f dovecot_start) dovecot_flags"
    by (simp add: dovecot_flags_def dovecot_start_def dovecot_defs page_defs tame_intros)
  show "list_all (\<lambda>f. tame f (dovecot_handle e)) dovecot_flags" for e
    by (cases e) (simp_all add: dovecot_flags_def dovecot_defs page_defs tame_intros)
qed

section \<open>The queue\<close>

record queue_page = listing +
  queue :: "queue_message list"
  counts :: "(string \<times> int) list"
  flushing :: bool
  deletingQueueId :: "string option"

definition countEntries :: "'a queue_page_scheme \<Rightarrow> (string \<times> int) list" where
  "countEntries s = counts s"

definition queue_start :: queue_page where
  "queue_start = \<lparr>loading = False, error = None, success = None, queue = [], counts = [],
     flushing = False, deletingQueueId = None\<rparr>"

definition load_queue :: "queue_page cmd" where
  "load_queue =
     seq (assign (\<lambda>s. s\<lparr>loading := True, error := None\<rparr>))
     (attempt
       (fetch getQueue (\<lambda>summary. assign (\<lambda>s. s\<lparr>queue := qs_messages summary, counts := qs_counts summary\<rparr>)))
       (\<lambda>err. assign (\<lambda>s. s\<lparr>error := Some (mailserverErrorMessage err)\<rparr>))
       (\<lambda>s. s\<lparr>loading := False\<rparr>))"

definition queue_refresh :: "queue_page cmd" where
  "queue_refresh = seq (assign (\<lambda>s. s\<lparr>success := None\<rparr>)) load_queue"

definition queue_onFlush :: "queue_page cmd" where
  "queue_onFlush =
     seq (assign (\<lambda>s. s\<lparr>error := None, success := None, flushing := True\<rparr>))
     (attempt
       (fetch flushQueue (\<lambda>_.
         seq (assign (\<lambda>s. s\<lparr>success := Some ''Delivery attempted for every deferred message.''\<rparr>))
         load_queue))
       (\<lambda>err. assign (\<lambda>s. s\<lparr>error := Some (mailserverErrorMessage err)\<rparr>))
       (\<lambda>s. s\<lparr>flushing := False\<rparr>))"

definition queue_onDelete :: "(string \<Rightarrow> bool) \<Rightarrow> queue_message \<Rightarrow> queue_page cmd" where
  "queue_onDelete ask m =
     (if \<not> ask (''Delete the queued message '' @ qm_queue_id m @ ''? This cannot be undone.'') then skip
      else
        seq (assign (\<lambda>s. s\<lparr>error := None, success := None, deletingQueueId := Some (qm_queue_id m)\<rparr>))
        (attempt
          (fetch (deleteQueuedMessage (qm_queue_id m)) (\<lambda>_.
            seq (assign (\<lambda>s. s\<lparr>success := Some (''Message '' @ qm_queue_id m @ '' deleted.'')\<rparr>))
            load_queue))
          (\<lambda>err. assign (\<lambda>s. s\<lparr>error := Some (mailserverErrorMessage err)\<rparr>))
          (\<lambda>s. s\<lparr>deletingQueueId := None\<rparr>)))"

definition queue_onDeleteAll :: "(string \<Rightarrow> bool) \<Rightarrow> queue_page cmd" where
  "queue_onDeleteAll ask =
     (if \<not> ask ''Delete every message in the queue? This cannot be undone.'' then skip
      else
        seq (assign (\<lambda>s. s\<lparr>error := None, success := None, flushing := True\<rparr>))
        (attempt
          (fetch deleteAllQueued (\<lambda>_.
            seq (assign (\<lambda>s. s\<lparr>success := Some ''The queue was emptied.''\<rparr>))
            load_queue))
          (\<lambda>err. assign (\<lambda>s. s\<lparr>error := Some (mailserverErrorMessage err)\<rparr>))
          (\<lambda>s. s\<lparr>flushing := False\<rparr>)))"

datatype queue_event =
    Refresh
  | Flush
  | Delete_message "string \<Rightarrow> bool" queue_message
  | Delete_all "string \<Rightarrow> bool"

fun queue_handle :: "queue_event \<Rightarrow> queue_page cmd" where
  "queue_handle Refresh = queue_refresh"
| "queue_handle Flush = queue_onFlush"
| "queue_handle (Delete_message ask m) = queue_onDelete ask m"
| "queue_handle (Delete_all ask) = queue_onDeleteAll ask"

lemmas queue_defs = load_queue_def queue_refresh_def queue_onFlush_def queue_onDelete_def queue_onDeleteAll_def

definition queue_flags :: "(queue_page \<Rightarrow> bool) list" where
  "queue_flags = [loading, flushing, \<lambda>s. is_some (deletingQueueId s)]"

interpretation queue_quiet: quiet_page queue_handle load_queue queue_start queue_flags
proof
  show "list_all (\<lambda>f. clears f load_queue \<or> tame f load_queue \<and> \<not> f queue_start) queue_flags"
    by (simp add: queue_flags_def queue_start_def queue_defs page_defs tame_intros)
  show "list_all (\<lambda>f. tame f (queue_handle e)) queue_flags" for e
    by (cases e) (simp_all add: queue_flags_def queue_defs page_defs tame_intros)
qed

end
