(* ===== verification/Mailserver_Views.thy ===== *)
theory Mailserver_Views
  imports Pages Format
begin

text \<open>
  The views of the mailserver section under \<open>src/frontend/src/app/features/mailserver\<close>
  that mostly show what the backend reports: DKIM keys (\<open>dkim/dkim.ts\<close>, with generation
  and migration), DNS records (\<open>dns/dns.ts\<close>), the TLS certificate (\<open>tls/tls.ts\<close>) and the
  environment of the container (\<open>environment/environment.ts\<close>).
\<close>

record view =
  loading :: bool
  error :: "string option"

section \<open>DKIM\<close>

record dkim_page = view +
  success :: "string option"
  keys :: "dkim_key list"
  generating :: bool
  migrationCandidates :: "string list"
  migrating :: bool
  dkim_domain :: string
  dkim_selector :: string
  dkim_keySize :: string

definition dkim_start :: dkim_page where
  "dkim_start = \<lparr>loading = False, error = None, success = None, keys = [], generating = False,
     migrationCandidates = [], migrating = False, dkim_domain = [], dkim_selector = ''mail'', dkim_keySize = ''2048''\<rparr>"

definition load_dkim :: "dkim_page cmd" where
  "load_dkim =
     seq (assign (\<lambda>s. s\<lparr>loading := True, error := None\<rparr>))
     (attempt
       (fetch_both listDkimKeys getDkimMigrationStatus (\<lambda>ks migration.
          assign (\<lambda>s. s\<lparr>keys := ks, migrationCandidates := dm_candidates migration\<rparr>)))
       (\<lambda>_. assign (\<lambda>s. s\<lparr>error := Some ''Unable to load the DKIM records.''\<rparr>))
       (\<lambda>s. s\<lparr>loading := False\<rparr>))"

definition onMigrate :: "(string \<Rightarrow> bool) \<Rightarrow> dkim_page cmd" where
  "onMigrate ask =
     look (\<lambda>s0.
       let domains = join_with '', '' (migrationCandidates s0) in
       if \<not> ask (''Migrate the OpenDKIM key(s) for '' @ domains @
            '' into Rspamd? The same key pair is reused, '' @
            ''so no DNS change is needed, but the mailserver container must be restarted afterwards '' @
            ''for Rspamd to start signing with it.'') then skip
       else
         seq (assign (\<lambda>s. s\<lparr>error := None, success := None, migrating := True\<rparr>))
         (attempt
           (fetch migrateDkimToRspamd (\<lambda>result.
             assign (\<lambda>s. s\<lparr>keys := dr_keys result, migrationCandidates := [],
               success := Some (''Migrated '' @ join_with '', '' (dr_migrated_domains result) @
                 '' to Rspamd. Restart the mailserver '' @
                 ''container for it to start signing with the migrated key(s).'')\<rparr>)))
           (\<lambda>err. assign (\<lambda>s. s\<lparr>error := Some (mailserverErrorMessage err)\<rparr>))
           (\<lambda>s. s\<lparr>migrating := False\<rparr>)))"

definition onGenerate :: "bool \<Rightarrow> dkim_page cmd" where
  "onGenerate run =
     seq (assign (\<lambda>s. s\<lparr>error := None, success := None\<rparr>))
     (submit run
       (look (\<lambda>s0.
         seq (assign (\<lambda>s. s\<lparr>generating := True\<rparr>))
         (attempt
           (fetch (generateDkim
               \<lparr>dg_domain = or_null (to_lower (trim (dkim_domain s0))),
                dg_selector = (if trim (dkim_selector s0) = [] then ''mail'' else trim (dkim_selector s0)),
                dg_key_size = parseInt (dkim_keySize s0)\<rparr>) (\<lambda>ks.
             assign (\<lambda>s. s\<lparr>keys := ks, success := Some ''DKIM keys generated.''\<rparr>)))
           (\<lambda>err. assign (\<lambda>s. s\<lparr>error := Some (mailserverErrorMessage err)\<rparr>))
           (\<lambda>s. s\<lparr>generating := False\<rparr>)))))"

datatype dkim_event =
    Type_dkim string string string
  | Migrate "string \<Rightarrow> bool"
  | Generate bool
  | Copy_record string

fun dkim_handle :: "dkim_event \<Rightarrow> dkim_page cmd" where
  "dkim_handle (Type_dkim d sel k) = assign (\<lambda>s. s\<lparr>dkim_domain := d, dkim_selector := sel, dkim_keySize := k\<rparr>)"
| "dkim_handle (Migrate ask) = onMigrate ask"
| "dkim_handle (Generate run) = onGenerate run"
| "dkim_handle (Copy_record t) = copyText t"

lemmas dkim_defs = load_dkim_def onMigrate_def onGenerate_def copyText_def

definition dkim_flags :: "(dkim_page \<Rightarrow> bool) list" where
  "dkim_flags = [loading, generating, migrating]"

interpretation dkim_quiet: quiet_page dkim_handle load_dkim dkim_start dkim_flags
proof
  show "list_all (\<lambda>f. clears f load_dkim \<or> tame f load_dkim \<and> \<not> f dkim_start) dkim_flags"
    by (simp add: dkim_flags_def dkim_start_def dkim_defs page_defs tame_intros)
  show "list_all (\<lambda>f. tame f (dkim_handle e)) dkim_flags" for e
    by (cases e) (simp_all add: dkim_flags_def dkim_defs page_defs tame_intros)
qed

text \<open>Three sizes are offered; whatever the fields hold, the selector that is sent is not empty.\<close>

definition dkim_body_ok :: "dkim_generate_request \<Rightarrow> bool" where
  "dkim_body_ok r = (dg_selector r \<noteq> [] \<and> trim (dg_selector r) = dg_selector r \<and>
     (\<forall>d. dg_domain r = Some d \<longrightarrow> d \<noteq> [] \<and> normal_address d))"

inductive dkim_request :: "request \<Rightarrow> bool" where
  "dkim_request (fst listDkimKeys)"
| "dkim_request (fst getDkimMigrationStatus)"
| "dkim_request (fst migrateDkimToRspamd)"
| "dkim_body_ok r \<Longrightarrow> dkim_request (fst (generateDkim r))"
| "dkim_request (WriteClipboard t)"

lemma mail_selector: "trim ''mail'' = ''mail''"
  by (rule trim_id) (simp add: is_ws_def)

interpretation dkim_guarded: guarded_page dkim_handle load_dkim dkim_start dkim_request
proof
  show "sends dkim_request load_dkim"
    by (simp add: dkim_defs page_defs send_intros dkim_request.intros)
  show "sends dkim_request (dkim_handle e)" for e
    by (cases e) (simp_all add: dkim_defs page_defs send_intros dkim_request.intros dkim_body_ok_def mail_selector)
qed

section \<open>DNS records\<close>

record dns_page = view +
  records :: "domain_dns_records list"

definition dns_start :: dns_page where
  "dns_start = \<lparr>loading = False, error = None, records = []\<rparr>"

definition load_dns :: "dns_page cmd" where
  "load_dns =
     seq (assign (\<lambda>s. s\<lparr>loading := True, error := None\<rparr>))
     (attempt
       (fetch listDnsRecords (\<lambda>rs. assign (\<lambda>s. s\<lparr>records := rs\<rparr>)))
       (\<lambda>_. assign (\<lambda>s. s\<lparr>error := Some ''Unable to load the DNS records.''\<rparr>))
       (\<lambda>s. s\<lparr>loading := False\<rparr>))"

definition dns_handle :: "string \<Rightarrow> dns_page cmd" where
  "dns_handle text = copyText text"

interpretation dns_quiet: quiet_page dns_handle load_dns dns_start "[loading]"
  by unfold_locales
    (simp_all add: dns_handle_def dns_start_def load_dns_def copyText_def page_defs tame_intros)

section \<open>The TLS certificate\<close>

record tls_page = view +
  certificate :: "tls_certificate option"

definition tls_start :: tls_page where
  "tls_start = \<lparr>loading = False, error = None, certificate = None\<rparr>"

definition expiryClass :: "tls_page \<Rightarrow> string" where
  "expiryClass s =
     (case Option.bind (certificate s) tc_days_remaining of
        None \<Rightarrow> ''text-bg-secondary''
      | Some days \<Rightarrow>
          if days < 0 then ''text-bg-danger''
          else if days < 15 then ''text-bg-warning'' else ''text-bg-success'')"

definition load_tls :: "tls_page cmd" where
  "load_tls =
     seq (assign (\<lambda>s. s\<lparr>loading := True, error := None\<rparr>))
     (attempt
       (fetch getTlsCertificate (\<lambda>c. assign (\<lambda>s. s\<lparr>certificate := Some c\<rparr>)))
       (\<lambda>err. assign (\<lambda>s. s\<lparr>error := Some (mailserverErrorMessage err)\<rparr>))
       (\<lambda>s. s\<lparr>loading := False\<rparr>))"

definition tls_refresh :: "unit \<Rightarrow> tls_page cmd" where
  "tls_refresh _ = load_tls"

interpretation tls_quiet: quiet_page tls_refresh load_tls tls_start "[loading]"
  by unfold_locales (simp_all add: tls_refresh_def tls_start_def load_tls_def page_defs tame_intros)

section \<open>The environment\<close>

record environment_page = view +
  environment :: "mailserver_environment option"

definition environment_start :: environment_page where
  "environment_start = \<lparr>loading = False, error = None, environment = None\<rparr>"

definition entries :: "environment_page \<Rightarrow> (string \<times> string) list" where
  "entries s = (case environment s of None \<Rightarrow> [] | Some e \<Rightarrow> me_variables e)"

definition load_environment :: "environment_page cmd" where
  "load_environment =
     seq (assign (\<lambda>s. s\<lparr>loading := True, error := None\<rparr>))
     (attempt
       (fetch getEnvironment (\<lambda>e. assign (\<lambda>s. s\<lparr>environment := Some e\<rparr>)))
       (\<lambda>err. assign (\<lambda>s. s\<lparr>error := Some (mailserverErrorMessage err)\<rparr>))
       (\<lambda>s. s\<lparr>loading := False\<rparr>))"

text \<open>The page has no handler: every event leaves it as it is.\<close>

definition environment_handle :: "unit \<Rightarrow> environment_page cmd" where
  "environment_handle _ = skip"

interpretation environment_quiet: quiet_page environment_handle load_environment environment_start "[loading]"
  by unfold_locales
    (simp_all add: environment_handle_def environment_start_def load_environment_def page_defs tame_intros)

section \<open>Properties\<close>

text \<open>
  In every interleaving, a key generation names a selector that is not empty and
  trimmed (the default when the field is blank) and either no domain or a trimmed
  lower-case one that is not empty; the other requests of the page read the keys and the
  migration state, start the migration or write a record to the clipboard.
\<close>

theorem dkim_requests_valid:
  assumes "reachable dkim_handle load_dkim dkim_start s ps"
    and "q \<in> in_flight ps"
  shows "dkim_request q"
  using assms by (rule dkim_guarded.sent)

theorem dkim_requests_valid_witness:
  "dkim_request (fst (generateDkim \<lparr>dg_domain = None, dg_selector = ''mail'', dg_key_size = parseInt ''2048''\<rparr>))"
  by (rule dkim_requests_valid[OF run_reach[where steps =
        "[Event (Type_dkim '' '' '' '' ''2048''), Event (Generate True)]"]])
    (simp add: run_defs dkim_defs dkim_start_def endpoint_defs trim_def trim_start_def to_lower_def is_ws_def Let_def)

end
