(* ===== verification/Data_Contracts.thy ===== *)
theory Data_Contracts
  imports Mailserver_Service
begin

text \<open>
  The contract on the bodies of the requests, read from both sides of the API: the request
  schemas of the backend (\<open>src/backend/app/models/*.py\<close>, with the constraints of their
  fields) and the request interfaces of the frontend (\<open>src/frontend/src/app/core/*.models.ts\<close>).
  A schema decides which JSON values it admits; an interface conforms to a schema when
  every value of the interface has the shape of the schema.
\<close>

section \<open>Schemas\<close>

text \<open>
  \<open>S_str lo hi\<close> is a text of at least \<open>lo\<close> characters and, when \<open>hi\<close> is given, at most that
  many; \<open>S_email\<close> an \<open>EmailStr\<close>, whose syntax belongs to a library and is a parameter of the
  check; \<open>S_quota\<close> the pattern of \<open>QuotaStr\<close>. A field is required or has a default.
\<close>

datatype schema =
    S_str nat "nat option"
  | S_email
  | S_quota
  | S_bool
  | S_int "int option" "int option"
  | S_enum "string list"
  | S_int_enum "int list"
  | S_null_or schema
  | S_list nat schema
  | S_obj "schema_field list"
and schema_field = Required string schema | Optional string schema

fun field_key :: "schema_field \<Rightarrow> string" where
  "field_key (Required k t) = k"
| "field_key (Optional k t) = k"

definition upto_opt :: "nat option \<Rightarrow> nat \<Rightarrow> bool" where
  "upto_opt hi n = (case hi of None \<Rightarrow> True | Some m \<Rightarrow> n \<le> m)"

definition quota_pattern :: "string \<Rightarrow> bool" where
  "quota_pattern s = (s \<noteq> [] \<and> butlast s \<noteq> [] \<and> list_all is_digit (butlast s) \<and> last s \<in> set ''KMGT'')"

definition as_integer :: "json \<Rightarrow> int option" where
  "as_integer j = (case j of JNum (Num q) \<Rightarrow> if of_int \<lfloor>q\<rfloor> = q then Some \<lfloor>q\<rfloor> else None | _ \<Rightarrow> None)"

text \<open>
  Which values a schema admits. An object may hold no key that the schema does not
  declare: the backend would drop it without a word.
\<close>

fun admits :: "(string \<Rightarrow> bool) \<Rightarrow> schema \<Rightarrow> json \<Rightarrow> bool"
and admits_field :: "(string \<Rightarrow> bool) \<Rightarrow> schema_field \<Rightarrow> (string \<times> json) list \<Rightarrow> bool" where
  "admits em (S_str lo hi) j = (case j of JStr s \<Rightarrow> lo \<le> length s \<and> upto_opt hi (length s) | _ \<Rightarrow> False)"
| "admits em S_email j = (case j of JStr s \<Rightarrow> em s | _ \<Rightarrow> False)"
| "admits em S_quota j = (case j of JStr s \<Rightarrow> quota_pattern s | _ \<Rightarrow> False)"
| "admits em S_bool j = (case j of JBool b \<Rightarrow> True | _ \<Rightarrow> False)"
| "admits em (S_int lo hi) j =
     (case as_integer j of None \<Rightarrow> False
      | Some n \<Rightarrow> (case lo of None \<Rightarrow> True | Some l \<Rightarrow> l \<le> n) \<and> (case hi of None \<Rightarrow> True | Some h \<Rightarrow> n \<le> h))"
| "admits em (S_enum names) j = (case j of JStr s \<Rightarrow> s \<in> set names | _ \<Rightarrow> False)"
| "admits em (S_int_enum ns) j = (case as_integer j of None \<Rightarrow> False | Some n \<Rightarrow> n \<in> set ns)"
| "admits em (S_null_or t) j = (j = JNull \<or> admits em t j)"
| "admits em (S_list lo t) j = (case j of JArr js \<Rightarrow> lo \<le> length js \<and> list_all (admits em t) js | _ \<Rightarrow> False)"
| "admits em (S_obj fs) j =
     (case j of
        JObj kvs \<Rightarrow> list_all (\<lambda>(k, v). k \<in> set (map field_key fs)) kvs \<and>
                    list_all (\<lambda>f. admits_field em f kvs) fs
      | _ \<Rightarrow> False)"
| "admits_field em (Required k t) kvs = (case map_of kvs k of None \<Rightarrow> False | Some v \<Rightarrow> admits em t v)"
| "admits_field em (Optional k t) kvs = (case map_of kvs k of None \<Rightarrow> True | Some v \<Rightarrow> admits em t v)"

text \<open>
  The shape of a schema: the kinds of its fields, without bounds, patterns or lengths.
\<close>

fun shape :: "schema \<Rightarrow> schema"
and shape_field :: "schema_field \<Rightarrow> schema_field" where
  "shape (S_str lo hi) = S_str 0 None"
| "shape S_email = S_str 0 None"
| "shape S_quota = S_str 0 None"
| "shape S_bool = S_bool"
| "shape (S_int lo hi) = S_int None None"
| "shape (S_enum names) = S_enum names"
| "shape (S_int_enum ns) = S_int_enum ns"
| "shape (S_null_or t) = S_null_or (shape t)"
| "shape (S_list lo t) = S_list 0 (shape t)"
| "shape (S_obj fs) = S_obj (map shape_field fs)"
| "shape_field (Required k t) = Required k (shape t)"
| "shape_field (Optional k t) = Optional k (shape t)"

definition has_type :: "schema \<Rightarrow> json \<Rightarrow> bool" where
  "has_type t = admits (\<lambda>_. True) (shape t)"

text \<open>The schema without the upper bounds on its texts.\<close>

fun unbounded :: "schema \<Rightarrow> schema"
and unbounded_field :: "schema_field \<Rightarrow> schema_field" where
  "unbounded (S_str lo hi) = S_str lo None"
| "unbounded S_email = S_email"
| "unbounded S_quota = S_quota"
| "unbounded S_bool = S_bool"
| "unbounded (S_int lo hi) = S_int lo hi"
| "unbounded (S_enum names) = S_enum names"
| "unbounded (S_int_enum ns) = S_int_enum ns"
| "unbounded (S_null_or t) = S_null_or (unbounded t)"
| "unbounded (S_list lo t) = S_list lo (unbounded t)"
| "unbounded (S_obj fs) = S_obj (map unbounded_field fs)"
| "unbounded_field (Required k t) = Required k (unbounded t)"
| "unbounded_field (Optional k t) = Optional k (unbounded t)"

lemma field_key_simps [simp]:
  "field_key (shape_field f) = field_key f" "field_key (unbounded_field f) = field_key f"
  by (cases f; simp)+

lemma field_key_comp [simp]: "field_key \<circ> shape_field = field_key" "field_key \<circ> unbounded_field = field_key"
  by (simp_all add: fun_eq_iff)

text \<open>What a schema admits has its shape.\<close>

lemma admits_shape:
  "admits em t j \<Longrightarrow> admits (\<lambda>_. True) (shape t) j"
  "admits_field em f kvs \<Longrightarrow> admits_field (\<lambda>_. True) (shape_field f) kvs"
  by (induction em t j and em f kvs rule: admits_admits_field.induct)
    (auto simp: upto_opt_def list_all_iff split: json.splits option.splits)

lemma admits_unbounded:
  "admits em t j \<Longrightarrow> admits em (unbounded t) j"
  "admits_field em f kvs \<Longrightarrow> admits_field em (unbounded_field f) kvs"
  by (induction em t j and em f kvs rule: admits_admits_field.induct)
    (auto simp: upto_opt_def list_all_iff split: json.splits option.splits)

lemma admits_typed: "admits em t j \<Longrightarrow> has_type t j"
  by (simp add: has_type_def admits_shape)

section \<open>Conformance\<close>

text \<open>
  An interface conforms to a schema: it declares no field the schema lacks, has every field
  the schema requires, never leaves out a required one, and its kinds conform.
\<close>

fun conforms :: "schema \<Rightarrow> schema \<Rightarrow> bool"
and conforms_field :: "schema_field \<Rightarrow> schema_field list \<Rightarrow> bool" where
  "conforms t (S_str lo hi) = (lo = 0 \<and> hi = None \<and> (case t of S_str _ _ \<Rightarrow> True | S_enum _ \<Rightarrow> True | _ \<Rightarrow> False))"
| "conforms t S_email = False"
| "conforms t S_quota = False"
| "conforms t S_bool = (t = S_bool)"
| "conforms t (S_int lo hi) = (lo = None \<and> hi = None \<and> (case t of S_int _ _ \<Rightarrow> True | S_int_enum _ \<Rightarrow> True | _ \<Rightarrow> False))"
| "conforms t (S_enum names) = (case t of S_enum ns \<Rightarrow> set ns \<subseteq> set names | _ \<Rightarrow> False)"
| "conforms t (S_int_enum names) = (case t of S_int_enum ns \<Rightarrow> set ns \<subseteq> set names | _ \<Rightarrow> False)"
| "conforms t (S_null_or t') = (case t of S_null_or u \<Rightarrow> conforms u t' | _ \<Rightarrow> conforms t t')"
| "conforms t (S_list lo t') = (lo = 0 \<and> (case t of S_list _ u \<Rightarrow> conforms u t' | _ \<Rightarrow> False))"
| "conforms t (S_obj fs) =
     (case t of
        S_obj gs \<Rightarrow> distinct (map field_key gs) \<and> set (map field_key gs) \<subseteq> set (map field_key fs) \<and>
                    list_all (\<lambda>f. conforms_field f gs) fs
      | _ \<Rightarrow> False)"
| "conforms_field (Required k t') gs =
     list_ex (\<lambda>g. case g of Required k' t \<Rightarrow> k' = k \<and> conforms t t' | Optional k' t \<Rightarrow> False) gs"
| "conforms_field (Optional k t') gs =
     list_all (\<lambda>g. case g of Required k' t \<Rightarrow> k' = k \<longrightarrow> conforms t t' | Optional k' t \<Rightarrow> k' = k \<longrightarrow> conforms t t') gs"

section \<open>Soundness of conformance\<close>

lemma conforms_sound:
  "conforms t t' \<Longrightarrow> admits (\<lambda>_. True) (shape t) j \<Longrightarrow> admits (\<lambda>_. True) t' j"
  "conforms_field f gs \<Longrightarrow> list_all (\<lambda>(k, v). k \<in> set (map field_key gs)) kvs \<Longrightarrow>
     list_all (\<lambda>g. admits_field (\<lambda>_. True) (shape_field g) kvs) gs \<Longrightarrow> admits_field (\<lambda>_. True) f kvs"
proof (induction t t' and f gs arbitrary: j and kvs rule: conforms_conforms_field.induct)
  case (10 t fs)
  from 10(2) obtain gs where t: "t = S_obj gs" and sub: "set (map field_key gs) \<subseteq> set (map field_key fs)"
    and fields: "\<forall>f \<in> set fs. conforms_field f gs"
    by (auto simp: list_all_iff split: schema.splits)
  from 10(3) t obtain kvs where j: "j = JObj kvs"
    and keys: "list_all (\<lambda>(k, v). k \<in> set (map field_key gs)) kvs"
    and each: "list_all (\<lambda>g. admits_field (\<lambda>_. True) (shape_field g) kvs) gs"
    by (auto simp: list_all_iff split: json.splits)
  have "\<forall>f \<in> set fs. admits_field (\<lambda>_. True) f kvs"
    using 10(1)[OF t _ _ keys each] fields by blast
  moreover have "list_all (\<lambda>(k, v). k \<in> set (map field_key fs)) kvs"
    using keys sub by (auto simp: list_all_iff)
  ultimately show ?case using j by (simp add: list_all_iff)
next
  case (11 k t' gs)
  then obtain g where g: "g \<in> set gs"
    and m: "case g of Required k' t \<Rightarrow> k' = k \<and> conforms t t' | Optional k' t \<Rightarrow> False"
    by (auto simp: list_ex_iff)
  from m obtain u where gu: "g = Required k u" and conf: "conforms u t'"
    by (cases g) simp_all
  with g have u: "Required k u \<in> set gs" by simp
  then have "admits_field (\<lambda>_. True) (shape_field (Required k u)) kvs"
    using 11(4) by (metis list_all_iff)
  then show ?case using 11(1)[OF u refl] conf by (auto split: option.splits)
next
  case (12 k t' gs)
  show ?case
  proof (cases "map_of kvs k")
    case (Some v)
    then have "k \<in> set (map field_key gs)"
      using 12(4) by (auto simp: list_all_iff dest!: map_of_SomeD)
    then obtain g where g: "g \<in> set gs" and key: "field_key g = k" by auto
    from key obtain u where kind: "g = Required k u \<or> g = Optional k u"
      by (cases g) simp_all
    have "conforms u t'"
      using bspec[OF 12(3)[unfolded conforms_field.simps list_all_iff] g] kind by auto
    moreover have "admits (\<lambda>_. True) (shape u) v"
      using 12(5) g kind Some by (auto simp: list_all_iff)
    ultimately show ?thesis using 12(1,2) g kind Some by auto
  qed simp
qed (auto simp: upto_opt_def list_all_iff split: schema.splits json.splits option.splits if_splits)

section \<open>The request models of the backend\<close>

text \<open>From \<open>routers/auth.py, models/user_models.py\<close>.\<close>

definition LoginRequest_model :: schema where
  "LoginRequest_model =
     S_obj
      [Required ''username'' (S_str 1 (Some 255)),
       Required ''password'' (S_str 1 (Some 1024))]"

definition UserCreate_model :: schema where
  "UserCreate_model =
     S_obj
      [Required ''username'' (S_str 1 (Some 255)),
       Optional ''display_name'' (S_str 0 (Some 255)),
       Required ''password'' (S_str 8 (Some 1024))]"

definition UserStatusUpdate_model :: schema where
  "UserStatusUpdate_model =
     S_obj
      [Required ''is_active'' S_bool]"

definition PasswordChangeRequest_model :: schema where
  "PasswordChangeRequest_model =
     S_obj
      [Required ''new_password'' (S_str 8 (Some 1024))]"

definition SelfPasswordChangeRequest_model :: schema where
  "SelfPasswordChangeRequest_model =
     S_obj
      [Required ''current_password'' (S_str 1 (Some 1024)),
       Required ''new_password'' (S_str 8 (Some 1024))]"

text \<open>From \<open>models/group_models.py, routers/groups.py, models/pat_models.py\<close>.\<close>

definition GroupWrite_model :: schema where
  "GroupWrite_model =
     S_obj
      [Required ''name'' (S_str 1 (Some 255)),
       Optional ''description'' (S_str 0 (Some 1024)),
       Optional ''role'' (S_enum [''guest'', ''mailbox_manager'', ''admin''])]"

definition AddUsersPayload_model :: schema where
  "AddUsersPayload_model =
     S_obj
      [Required ''user_ids'' (S_list 0 (S_int None None))]"

definition PatCreate_model :: schema where
  "PatCreate_model =
     S_obj
      [Required ''name'' (S_str 1 (Some 255)),
       Optional ''expires_in_days'' (S_null_or (S_int (Some 1) (Some 3650)))]"

text \<open>From \<open>models/mailbox_models.py\<close>.\<close>

definition MailboxCreate_model :: schema where
  "MailboxCreate_model =
     S_obj
      [Required ''email'' S_email,
       Required ''password'' (S_str 8 (Some 1024)),
       Optional ''quota'' (S_null_or S_quota)]"

definition MailboxPasswordUpdate_model :: schema where
  "MailboxPasswordUpdate_model =
     S_obj
      [Required ''new_password'' (S_str 8 (Some 1024))]"

definition QuotaUpdate_model :: schema where
  "QuotaUpdate_model =
     S_obj
      [Optional ''quota'' (S_null_or S_quota)]"

definition AliasCreate_model :: schema where
  "AliasCreate_model =
     S_obj
      [Required ''alias'' S_email]"

definition MailboxSieveScriptUpdate_model :: schema where
  "MailboxSieveScriptUpdate_model =
     S_obj
      [Optional ''content'' (S_str 0 (Some 65536))]"

text \<open>From \<open>models/fail2ban_models.py\<close>.\<close>

definition BanRequest_model :: schema where
  "BanRequest_model =
     S_obj
      [Required ''ip'' (S_str 1 (Some 45))]"

definition Fail2banPolicyUpdate_model :: schema where
  "Fail2banPolicyUpdate_model =
     S_obj
      [Required ''bantime'' (S_int (Some 60) (Some 31536000)),
       Required ''findtime'' (S_int (Some 60) (Some 31536000)),
       Required ''maxretry'' (S_int (Some 1) (Some 100))]"

definition Fail2banConfigUpdate_model :: schema where
  "Fail2banConfigUpdate_model =
     S_obj
      [Optional ''content'' (S_str 0 (Some 65536))]"

text \<open>From \<open>models/mailserver_models.py\<close>.\<close>

definition RelayHostCreate_model :: schema where
  "RelayHostCreate_model =
     S_obj
      [Required ''sender'' (S_str 1 (Some 255)),
       Required ''host'' (S_str 1 (Some 255)),
       Optional ''port'' (S_int (Some 1) (Some 65535)),
       Optional ''username'' (S_null_or (S_str 0 (Some 255))),
       Optional ''password'' (S_null_or (S_str 0 (Some 1024)))]"

definition RelayExclusionCreate_model :: schema where
  "RelayExclusionCreate_model =
     S_obj
      [Required ''sender'' (S_str 1 (Some 255))]"

definition PostfixOverride_model :: schema where
  "PostfixOverride_model =
     S_obj
      [Required ''key'' (S_str 1 (Some 255)),
       Optional ''value'' (S_str 0 (Some 4096))]"

definition PostfixOverridesUpdate_model :: schema where
  "PostfixOverridesUpdate_model =
     S_obj
      [Optional ''overrides'' (S_list 0 PostfixOverride_model)]"

definition PostfixMasterOverride_model :: schema where
  "PostfixMasterOverride_model =
     S_obj
      [Required ''key'' (S_str 1 (Some 255)),
       Optional ''value'' (S_str 0 (Some 4096))]"

definition PostfixMasterOverridesUpdate_model :: schema where
  "PostfixMasterOverridesUpdate_model =
     S_obj
      [Optional ''overrides'' (S_list 0 PostfixMasterOverride_model)]"

definition DovecotConfigUpdate_model :: schema where
  "DovecotConfigUpdate_model =
     S_obj
      [Optional ''content'' (S_str 0 (Some 65536))]"

definition SystemAliasCreate_model :: schema where
  "SystemAliasCreate_model =
     S_obj
      [Required ''name'' (S_str 1 (Some 255)),
       Required ''targets'' (S_list 1 (S_str 0 None))]"

definition RegexAliasCreate_model :: schema where
  "RegexAliasCreate_model =
     S_obj
      [Required ''pattern'' (S_str 1 (Some 1024)),
       Required ''targets'' (S_list 1 (S_str 0 None))]"

definition DkimGenerateRequest_model :: schema where
  "DkimGenerateRequest_model =
     S_obj
      [Optional ''domain'' (S_null_or (S_str 0 (Some 255))),
       Optional ''selector'' (S_str 1 (Some 63)),
       Optional ''key_size'' (S_int_enum [1024, 2048, 4096])]"

definition RestrictionCreate_model :: schema where
  "RestrictionCreate_model =
     S_obj
      [Required ''address'' (S_str 1 (Some 255))]"

definition DovecotMasterCreate_model :: schema where
  "DovecotMasterCreate_model =
     S_obj
      [Required ''name'' (S_str 1 (Some 255)),
       Required ''password'' (S_str 1 (Some 1024))]"

definition SieveScriptUpdate_model :: schema where
  "SieveScriptUpdate_model =
     S_obj
      [Optional ''content'' (S_str 0 (Some 65536))]"

definition SpamConfigUpdate_model :: schema where
  "SpamConfigUpdate_model =
     S_obj
      [Optional ''content'' (S_str 0 (Some 65536))]"

definition RspamdCommand_model :: schema where
  "RspamdCommand_model =
     S_obj
      [Required ''kind'' (S_enum [''set-common-option'', ''set-option-for-controller'', ''set-option-for-proxy'', ''enable-module'',
       ''disable-module'', ''set-option-for-module'', ''add-line'']),
       Optional ''target'' (S_str 0 (Some 255)),
       Optional ''option'' (S_str 0 (Some 255)),
       Optional ''value'' (S_str 0 (Some 4096))]"

definition RspamdCommandsUpdate_model :: schema where
  "RspamdCommandsUpdate_model =
     S_obj
      [Optional ''commands'' (S_list 0 RspamdCommand_model)]"

definition RspamdOverrideFileUpdate_model :: schema where
  "RspamdOverrideFileUpdate_model =
     S_obj
      [Optional ''content'' (S_str 0 (Some 65536))]"

definition LdapConfigUpdate_model :: schema where
  "LdapConfigUpdate_model =
     S_obj
      [Optional ''content'' (S_str 0 (Some 65536))]"

text \<open>From \<open>models/settings_models.py, models/mail_models.py\<close>.\<close>

definition OidcSettingsUpdate_model :: schema where
  "OidcSettingsUpdate_model =
     S_obj
      [Optional ''enabled'' S_bool,
       Optional ''issuer'' (S_str 0 None),
       Optional ''client_id'' (S_str 0 None),
       Optional ''redirect_uri'' (S_str 0 None),
       Optional ''post_logout_redirect_uri'' (S_str 0 None),
       Optional ''response_type'' (S_str 0 None),
       Optional ''scope'' (S_str 0 None),
       Optional ''oidc_only'' S_bool,
       Optional ''admin_group_claim'' (S_str 0 None),
       Optional ''admin_group'' (S_str 0 None),
       Optional ''manager_group_claim'' (S_str 0 None),
       Optional ''manager_group'' (S_str 0 None),
       Optional ''restrict_to_groups'' S_bool,
       Optional ''client_secret'' (S_null_or (S_str 0 None))]"

definition MailSettingsUpdate_model :: schema where
  "MailSettingsUpdate_model =
     S_obj
      [Optional ''enabled'' S_bool,
       Optional ''host'' (S_str 0 None),
       Optional ''port'' (S_int None None),
       Optional ''username'' (S_str 0 None),
       Optional ''use_tls'' S_bool,
       Optional ''use_ssl'' S_bool,
       Optional ''from_address'' (S_str 0 None),
       Optional ''recipients'' (S_str 0 None),
       Optional ''notify_auth_events'' S_bool,
       Optional ''notify_audit_events'' S_bool,
       Optional ''password'' (S_null_or (S_str 0 None))]"

definition MailTestRequest_model :: schema where
  "MailTestRequest_model =
     S_obj
      [Optional ''recipient'' (S_str 0 (Some 255))]"

section \<open>The request interfaces of the frontend\<close>

text \<open>From \<open>auth.models.ts, pat.models.ts\<close>.\<close>

definition LoginRequest_interface :: schema where
  "LoginRequest_interface =
     S_obj
      [Required ''username'' (S_str 0 None),
       Required ''password'' (S_str 0 None)]"

definition PasswordChangeRequest_interface :: schema where
  "PasswordChangeRequest_interface =
     S_obj
      [Required ''new_password'' (S_str 0 None)]"

definition UserStatusUpdate_interface :: schema where
  "UserStatusUpdate_interface =
     S_obj
      [Required ''is_active'' S_bool]"

definition SelfPasswordChangeRequest_interface :: schema where
  "SelfPasswordChangeRequest_interface =
     S_obj
      [Required ''current_password'' (S_str 0 None),
       Required ''new_password'' (S_str 0 None)]"

definition UserCreateRequest_interface :: schema where
  "UserCreateRequest_interface =
     S_obj
      [Required ''username'' (S_str 0 None),
       Required ''display_name'' (S_str 0 None),
       Required ''password'' (S_str 0 None)]"

definition PatCreateRequest_interface :: schema where
  "PatCreateRequest_interface =
     S_obj
      [Required ''name'' (S_str 0 None),
       Required ''expires_in_days'' (S_null_or (S_int None None))]"

text \<open>From \<open>mailbox.models.ts, fail2ban.models.ts\<close>.\<close>

definition MailboxCreateRequest_interface :: schema where
  "MailboxCreateRequest_interface =
     S_obj
      [Required ''email'' (S_str 0 None),
       Required ''password'' (S_str 0 None),
       Optional ''quota'' (S_null_or (S_str 0 None))]"

definition MailboxPasswordUpdateRequest_interface :: schema where
  "MailboxPasswordUpdateRequest_interface =
     S_obj
      [Required ''new_password'' (S_str 0 None)]"

definition QuotaUpdateRequest_interface :: schema where
  "QuotaUpdateRequest_interface =
     S_obj
      [Required ''quota'' (S_null_or (S_str 0 None))]"

definition AliasCreateRequest_interface :: schema where
  "AliasCreateRequest_interface =
     S_obj
      [Required ''alias'' (S_str 0 None)]"

definition MailboxSieveScriptUpdateRequest_interface :: schema where
  "MailboxSieveScriptUpdateRequest_interface =
     S_obj
      [Required ''content'' (S_str 0 None)]"

definition BanRequest_interface :: schema where
  "BanRequest_interface =
     S_obj
      [Required ''ip'' (S_str 0 None)]"

definition Fail2banPolicyUpdateRequest_interface :: schema where
  "Fail2banPolicyUpdateRequest_interface =
     S_obj
      [Required ''bantime'' (S_int None None),
       Required ''findtime'' (S_int None None),
       Required ''maxretry'' (S_int None None)]"

definition Fail2banConfigUpdateRequest_interface :: schema where
  "Fail2banConfigUpdateRequest_interface =
     S_obj
      [Required ''content'' (S_str 0 None)]"

text \<open>From \<open>mailserver.models.ts\<close>.\<close>

definition RelayHostCreateRequest_interface :: schema where
  "RelayHostCreateRequest_interface =
     S_obj
      [Required ''sender'' (S_str 0 None),
       Required ''host'' (S_str 0 None),
       Required ''port'' (S_int None None),
       Optional ''username'' (S_null_or (S_str 0 None)),
       Optional ''password'' (S_null_or (S_str 0 None))]"

definition RelayExclusionCreateRequest_interface :: schema where
  "RelayExclusionCreateRequest_interface =
     S_obj
      [Required ''sender'' (S_str 0 None)]"

definition PostfixOverride_interface :: schema where
  "PostfixOverride_interface =
     S_obj
      [Required ''key'' (S_str 0 None),
       Required ''value'' (S_str 0 None)]"

definition PostfixOverridesUpdateRequest_interface :: schema where
  "PostfixOverridesUpdateRequest_interface =
     S_obj
      [Required ''overrides'' (S_list 0 PostfixOverride_interface)]"

definition PostfixMasterOverride_interface :: schema where
  "PostfixMasterOverride_interface =
     S_obj
      [Required ''key'' (S_str 0 None),
       Required ''value'' (S_str 0 None)]"

definition PostfixMasterOverridesUpdateRequest_interface :: schema where
  "PostfixMasterOverridesUpdateRequest_interface =
     S_obj
      [Required ''overrides'' (S_list 0 PostfixMasterOverride_interface)]"

definition DovecotConfigUpdateRequest_interface :: schema where
  "DovecotConfigUpdateRequest_interface =
     S_obj
      [Required ''content'' (S_str 0 None)]"

definition SystemAliasCreateRequest_interface :: schema where
  "SystemAliasCreateRequest_interface =
     S_obj
      [Required ''name'' (S_str 0 None),
       Required ''targets'' (S_list 0 (S_str 0 None))]"

definition RegexAliasCreateRequest_interface :: schema where
  "RegexAliasCreateRequest_interface =
     S_obj
      [Required ''pattern'' (S_str 0 None),
       Required ''targets'' (S_list 0 (S_str 0 None))]"

definition DkimGenerateRequest_interface :: schema where
  "DkimGenerateRequest_interface =
     S_obj
      [Optional ''domain'' (S_null_or (S_str 0 None)),
       Required ''selector'' (S_str 0 None),
       Required ''key_size'' (S_int_enum [1024, 2048, 4096])]"

definition RestrictionCreateRequest_interface :: schema where
  "RestrictionCreateRequest_interface =
     S_obj
      [Required ''address'' (S_str 0 None)]"

definition DovecotMasterCreateRequest_interface :: schema where
  "DovecotMasterCreateRequest_interface =
     S_obj
      [Required ''name'' (S_str 0 None),
       Required ''password'' (S_str 0 None)]"

definition SieveScriptUpdateRequest_interface :: schema where
  "SieveScriptUpdateRequest_interface =
     S_obj
      [Required ''content'' (S_str 0 None)]"

definition SpamConfigUpdateRequest_interface :: schema where
  "SpamConfigUpdateRequest_interface =
     S_obj
      [Required ''content'' (S_str 0 None)]"

definition RspamdCommand_interface :: schema where
  "RspamdCommand_interface =
     S_obj
      [Required ''kind'' (S_enum [''set-common-option'', ''set-option-for-controller'', ''set-option-for-proxy'', ''enable-module'',
       ''disable-module'', ''set-option-for-module'', ''add-line'']),
       Required ''target'' (S_str 0 None),
       Required ''option'' (S_str 0 None),
       Required ''value'' (S_str 0 None)]"

definition RspamdOverrideFileUpdateRequest_interface :: schema where
  "RspamdOverrideFileUpdateRequest_interface =
     S_obj
      [Required ''content'' (S_str 0 None)]"

definition RspamdCommandsUpdateRequest_interface :: schema where
  "RspamdCommandsUpdateRequest_interface =
     S_obj
      [Required ''commands'' (S_list 0 RspamdCommand_interface)]"

definition LdapConfigUpdateRequest_interface :: schema where
  "LdapConfigUpdateRequest_interface =
     S_obj
      [Required ''content'' (S_str 0 None)]"

text \<open>From \<open>settings.models.ts\<close>.\<close>

definition MailSettingsUpdate_interface :: schema where
  "MailSettingsUpdate_interface =
     S_obj
      [Required ''enabled'' S_bool,
       Required ''host'' (S_str 0 None),
       Required ''port'' (S_int None None),
       Required ''username'' (S_str 0 None),
       Required ''use_tls'' S_bool,
       Required ''use_ssl'' S_bool,
       Required ''from_address'' (S_str 0 None),
       Required ''recipients'' (S_str 0 None),
       Required ''notify_auth_events'' S_bool,
       Required ''notify_audit_events'' S_bool,
       Optional ''password'' (S_str 0 None)]"

definition OidcSettingsUpdate_interface :: schema where
  "OidcSettingsUpdate_interface =
     S_obj
      [Required ''enabled'' S_bool,
       Required ''issuer'' (S_str 0 None),
       Required ''client_id'' (S_str 0 None),
       Required ''redirect_uri'' (S_str 0 None),
       Required ''post_logout_redirect_uri'' (S_str 0 None),
       Required ''response_type'' (S_str 0 None),
       Required ''scope'' (S_str 0 None),
       Required ''oidc_only'' S_bool,
       Required ''admin_group_claim'' (S_str 0 None),
       Required ''admin_group'' (S_str 0 None),
       Required ''manager_group_claim'' (S_str 0 None),
       Required ''manager_group'' (S_str 0 None),
       Required ''restrict_to_groups'' S_bool,
       Optional ''client_secret'' (S_str 0 None)]"

lemmas model_defs =
  LoginRequest_model_def UserCreate_model_def UserStatusUpdate_model_def
  PasswordChangeRequest_model_def SelfPasswordChangeRequest_model_def GroupWrite_model_def
  AddUsersPayload_model_def PatCreate_model_def MailboxCreate_model_def
  MailboxPasswordUpdate_model_def QuotaUpdate_model_def AliasCreate_model_def
  MailboxSieveScriptUpdate_model_def BanRequest_model_def Fail2banPolicyUpdate_model_def
  Fail2banConfigUpdate_model_def RelayHostCreate_model_def RelayExclusionCreate_model_def
  PostfixOverride_model_def PostfixOverridesUpdate_model_def PostfixMasterOverride_model_def
  PostfixMasterOverridesUpdate_model_def DovecotConfigUpdate_model_def
  SystemAliasCreate_model_def RegexAliasCreate_model_def DkimGenerateRequest_model_def
  RestrictionCreate_model_def DovecotMasterCreate_model_def SieveScriptUpdate_model_def
  SpamConfigUpdate_model_def RspamdCommand_model_def RspamdCommandsUpdate_model_def
  RspamdOverrideFileUpdate_model_def LdapConfigUpdate_model_def OidcSettingsUpdate_model_def
  MailSettingsUpdate_model_def MailTestRequest_model_def

lemmas interface_defs =
  LoginRequest_interface_def PasswordChangeRequest_interface_def UserStatusUpdate_interface_def
  SelfPasswordChangeRequest_interface_def UserCreateRequest_interface_def
  PatCreateRequest_interface_def MailboxCreateRequest_interface_def
  MailboxPasswordUpdateRequest_interface_def QuotaUpdateRequest_interface_def
  AliasCreateRequest_interface_def MailboxSieveScriptUpdateRequest_interface_def
  BanRequest_interface_def Fail2banPolicyUpdateRequest_interface_def
  Fail2banConfigUpdateRequest_interface_def RelayHostCreateRequest_interface_def
  RelayExclusionCreateRequest_interface_def PostfixOverride_interface_def
  PostfixOverridesUpdateRequest_interface_def PostfixMasterOverride_interface_def
  PostfixMasterOverridesUpdateRequest_interface_def DovecotConfigUpdateRequest_interface_def
  SystemAliasCreateRequest_interface_def RegexAliasCreateRequest_interface_def
  DkimGenerateRequest_interface_def RestrictionCreateRequest_interface_def
  DovecotMasterCreateRequest_interface_def SieveScriptUpdateRequest_interface_def
  SpamConfigUpdateRequest_interface_def RspamdCommand_interface_def
  RspamdOverrideFileUpdateRequest_interface_def RspamdCommandsUpdateRequest_interface_def
  LdapConfigUpdateRequest_interface_def MailSettingsUpdate_interface_def
  OidcSettingsUpdate_interface_def

text \<open>Which interface is sent where which model is read.\<close>

definition contracts :: "(schema \<times> schema) list" where
  "contracts =
     [(LoginRequest_interface, LoginRequest_model),
      (PasswordChangeRequest_interface, PasswordChangeRequest_model),
      (UserStatusUpdate_interface, UserStatusUpdate_model),
      (SelfPasswordChangeRequest_interface, SelfPasswordChangeRequest_model),
      (UserCreateRequest_interface, UserCreate_model),
      (PatCreateRequest_interface, PatCreate_model),
      (MailboxCreateRequest_interface, MailboxCreate_model),
      (MailboxPasswordUpdateRequest_interface, MailboxPasswordUpdate_model),
      (QuotaUpdateRequest_interface, QuotaUpdate_model),
      (AliasCreateRequest_interface, AliasCreate_model),
      (MailboxSieveScriptUpdateRequest_interface, MailboxSieveScriptUpdate_model),
      (BanRequest_interface, BanRequest_model),
      (Fail2banPolicyUpdateRequest_interface, Fail2banPolicyUpdate_model),
      (Fail2banConfigUpdateRequest_interface, Fail2banConfigUpdate_model),
      (RelayHostCreateRequest_interface, RelayHostCreate_model),
      (RelayExclusionCreateRequest_interface, RelayExclusionCreate_model),
      (PostfixOverride_interface, PostfixOverride_model),
      (PostfixOverridesUpdateRequest_interface, PostfixOverridesUpdate_model),
      (PostfixMasterOverride_interface, PostfixMasterOverride_model),
      (PostfixMasterOverridesUpdateRequest_interface, PostfixMasterOverridesUpdate_model),
      (DovecotConfigUpdateRequest_interface, DovecotConfigUpdate_model),
      (SystemAliasCreateRequest_interface, SystemAliasCreate_model),
      (RegexAliasCreateRequest_interface, RegexAliasCreate_model),
      (DkimGenerateRequest_interface, DkimGenerateRequest_model),
      (RestrictionCreateRequest_interface, RestrictionCreate_model),
      (DovecotMasterCreateRequest_interface, DovecotMasterCreate_model),
      (SieveScriptUpdateRequest_interface, SieveScriptUpdate_model),
      (SpamConfigUpdateRequest_interface, SpamConfigUpdate_model),
      (RspamdCommand_interface, RspamdCommand_model),
      (RspamdOverrideFileUpdateRequest_interface, RspamdOverrideFileUpdate_model),
      (RspamdCommandsUpdateRequest_interface, RspamdCommandsUpdate_model),
      (LdapConfigUpdateRequest_interface, LdapConfigUpdate_model),
      (MailSettingsUpdate_interface, MailSettingsUpdate_model),
      (OidcSettingsUpdate_interface, OidcSettingsUpdate_model)]"



end
