(* ===== verification/Backend_Routes.thy ===== *)
theory Backend_Routes
  imports Data_Contracts
begin

text \<open>
  The route table of the backend (\<open>src/backend/app/routers/*.py\<close>): for every handler its
  method, its path, the parameters of its query, the model of its body and the access it
  asks for (\<open>src/backend/app/depends.py\<close>). How a path is matched is the routing of FastAPI
  and Starlette as documented: the table is read in order, a parameter takes one segment
  whatever its type, and the type of the parameter is checked afterwards.
\<close>

named_theorems route_simps \<open>the route each request is written for\<close>
named_theorems plain_simps \<open>the calls without a body are well formed\<close>
named_theorems formed_simps \<open>when a request is well formed: its body passes the check of its model\<close>

section \<open>Access\<close>

text \<open>
  \<open>require_user\<close>, \<open>require_session_login\<close> (a browser session, not a token) and
  \<open>require_mailbox_manager\<close> and \<open>require_admin\<close>, which ask for a role.
\<close>

datatype access = Anyone | Signed_in | Interactive | Granted role

text \<open>\<open>role_grants\<close> of \<open>src/backend/app/auth.py\<close>: positions in \<open>ROLE_PRECEDENCE\<close>.\<close>

definition ROLE_PRECEDENCE :: "string list" where
  "ROLE_PRECEDENCE = [''guest'', ''mailbox_manager'', ''admin'']"

definition role_grants :: "string \<Rightarrow> string \<Rightarrow> bool" where
  "role_grants role required = (index_of ROLE_PRECEDENCE role \<ge> index_of ROLE_PRECEDENCE required)"

text \<open>The client of the model is a browser: it holds a session or nothing, never a token.\<close>

fun grants :: "session_user option \<Rightarrow> access \<Rightarrow> bool" where
  "grants user Anyone = True"
| "grants user Signed_in = (user \<noteq> None)"
| "grants user Interactive = (user \<noteq> None)"
| "grants user (Granted r) =
     (case user of None \<Rightarrow> False | Some u \<Rightarrow> role_grants (role_name (su_role u)) (role_name r))"

text \<open>The two sides rank the roles in the same way.\<close>

lemma role_grants_same: "role_grants (role_name r) (role_name r') = roleGrants (Some r) r'"
  by (cases r; cases r'; simp add: role_grants_def ROLE_PRECEDENCE_def roleGrants_def ROLES_def)

declare grants.simps(4) [simp del]

lemma grants_role: "grants user (Granted r) = roleGrants (map_option su_role user) r"
  by (cases user) (simp_all add: grants.simps(4) role_grants_same roleGrants_def[of None])

section \<open>Routes\<close>

text \<open>A segment of a path: a fixed one, or a parameter of type \<open>str\<close>, \<open>int\<close> or \<open>Literal\<close>.\<close>

datatype path_seg = Lit string | Text | Number | One_of "string list"

datatype query_param = Needed string | Free string | Whole string

fun param_name :: "query_param \<Rightarrow> string" where
  "param_name (Needed k) = k"
| "param_name (Free k) = k"
| "param_name (Whole k) = k"

record backend_route =
  br_verb :: verb
  br_path :: "path_seg list"
  br_query :: "query_param list"
  br_body :: "schema option"
  br_access :: access
  br_handler :: string

definition handler_of :: "verb \<Rightarrow> path_seg list \<Rightarrow> access \<Rightarrow> string \<Rightarrow> backend_route" where
  "handler_of v path acc name =
     \<lparr>br_verb = v, br_path = path, br_query = [], br_body = None, br_access = acc, br_handler = name\<rparr>"

definition reading :: "verb \<Rightarrow> path_seg list \<Rightarrow> schema \<Rightarrow> access \<Rightarrow> string \<Rightarrow> backend_route" where
  "reading v path body acc name = (handler_of v path acc name)\<lparr>br_body := Some body\<rparr>"

definition auth_router :: "backend_route list" where
  "auth_router =
     [handler_of GET [Lit ''config''] Anyone ''auth_config'',
      reading POST [Lit ''login''] LoginRequest_model Anyone ''login'',
      handler_of GET [Lit ''me''] Signed_in ''me'',
      handler_of POST [Lit ''logout''] Signed_in ''logout'',
      handler_of GET [Lit ''oidc'', Lit ''login''] Anyone ''oidc_login'',
      handler_of GET [Lit ''oidc'', Lit ''callback''] Anyone ''oidc_callback'']"

definition users_router :: "backend_route list" where
  "users_router =
     [handler_of GET [] (Granted Admin) ''list_users'',
      reading POST [] UserCreate_model (Granted Admin) ''create_user'',
      handler_of GET [Lit ''me''] Signed_in ''read_own_profile'',
      reading PATCH [Lit ''me'', Lit ''password''] SelfPasswordChangeRequest_model Signed_in ''change_own_password'',
      handler_of GET [Lit ''me'', Lit ''pats''] Signed_in ''list_own_pats'',
      reading POST [Lit ''me'', Lit ''pats''] PatCreate_model Interactive ''create_own_pat'',
      handler_of DELETE [Lit ''me'', Lit ''pats'', Number] Interactive ''revoke_own_pat'',
      handler_of DELETE [Number] (Granted Admin) ''delete_user'',
      reading PATCH [Number, Lit ''status''] UserStatusUpdate_model (Granted Admin) ''set_user_status'',
      reading PATCH [Number, Lit ''password''] PasswordChangeRequest_model (Granted Admin) ''change_password'']"

definition groups_router :: "backend_route list" where
  "groups_router =
     [handler_of GET [] (Granted Admin) ''list_groups'',
      reading POST [] GroupWrite_model (Granted Admin) ''create_group'',
      reading PATCH [Number] GroupWrite_model (Granted Admin) ''update_group'',
      handler_of DELETE [Number] (Granted Admin) ''delete_group'',
      handler_of GET [Number, Lit ''members''] (Granted Admin) ''get_group_members'',
      reading POST [Number, Lit ''members'', Lit ''batch''] AddUsersPayload_model (Granted Admin) ''add_users_to_group'',
      handler_of POST [Number, Lit ''members'', Number] (Granted Admin) ''add_user_to_group'',
      handler_of DELETE [Number, Lit ''members'', Number] (Granted Admin) ''remove_user_from_group'']"

definition mailboxes_router :: "backend_route list" where
  "mailboxes_router =
     [handler_of GET [] (Granted Mailbox_manager) ''list_mailboxes'',
      handler_of GET [Lit ''features''] (Granted Mailbox_manager) ''get_features'',
      handler_of GET [Lit ''usage''] (Granted Mailbox_manager) ''get_usage'',
      reading POST [] MailboxCreate_model (Granted Mailbox_manager) ''create_mailbox'',
      reading PATCH [Text, Lit ''password''] MailboxPasswordUpdate_model (Granted Mailbox_manager) ''reset_password'',
      reading PUT [Text, Lit ''quota''] QuotaUpdate_model (Granted Mailbox_manager) ''set_quota'',
      handler_of DELETE [Text] (Granted Mailbox_manager) ''delete_mailbox'',
      handler_of GET [Text, Lit ''aliases''] (Granted Mailbox_manager) ''list_aliases'',
      reading POST [Text, Lit ''aliases''] AliasCreate_model (Granted Mailbox_manager) ''add_alias'',
      handler_of DELETE [Text, Lit ''aliases'', Text] (Granted Mailbox_manager) ''delete_alias'',
      handler_of GET [Text, Lit ''sieve''] (Granted Mailbox_manager) ''get_sieve_script'',
      reading PUT [Text, Lit ''sieve''] MailboxSieveScriptUpdate_model (Granted Mailbox_manager) ''set_sieve_script'',
      handler_of DELETE [Text, Lit ''sieve''] (Granted Mailbox_manager) ''delete_sieve_script'']"

definition mailserver_router :: "backend_route list" where
  "mailserver_router =
     [handler_of POST [Lit ''restart''] (Granted Admin) ''restart_mailserver'',
      handler_of GET [Lit ''relays''] (Granted Admin) ''list_relays'',
      reading POST [Lit ''relays''] RelayHostCreate_model (Granted Admin) ''create_relay'',
      handler_of DELETE [Lit ''relays'', Text] (Granted Admin) ''delete_relay'',
      handler_of GET [Lit ''relay-exclusions''] (Granted Admin) ''list_relay_exclusions'',
      reading POST [Lit ''relay-exclusions''] RelayExclusionCreate_model (Granted Admin) ''create_relay_exclusion'',
      handler_of DELETE [Lit ''relay-exclusions'', Text] (Granted Admin) ''delete_relay_exclusion'',
      handler_of GET [Lit ''postfix''] (Granted Admin) ''get_postfix_overrides'',
      reading PUT [Lit ''postfix''] PostfixOverridesUpdate_model (Granted Admin) ''update_postfix_overrides'',
      handler_of GET [Lit ''postfix-master''] (Granted Admin) ''get_postfix_master_overrides'',
      reading PUT [Lit ''postfix-master''] PostfixMasterOverridesUpdate_model (Granted Admin) ''update_postfix_master_overrides'',
      handler_of GET [Lit ''dovecot-config''] (Granted Admin) ''get_dovecot_config'',
      reading PUT [Lit ''dovecot-config''] DovecotConfigUpdate_model (Granted Admin) ''update_dovecot_config'',
      handler_of GET [Lit ''system-aliases''] (Granted Admin) ''list_system_aliases'',
      reading POST [Lit ''system-aliases''] SystemAliasCreate_model (Granted Admin) ''create_system_alias'',
      handler_of DELETE [Lit ''system-aliases'', Text] (Granted Admin) ''delete_system_alias'',
      handler_of GET [Lit ''regex-aliases''] (Granted Admin) ''list_regex_aliases'',
      reading POST [Lit ''regex-aliases''] RegexAliasCreate_model (Granted Admin) ''create_regex_alias'',
      (handler_of DELETE [Lit ''regex-aliases''] (Granted Admin) ''delete_regex_alias'')
        \<lparr>br_query := [Needed ''pattern'']\<rparr>,
      handler_of GET [Lit ''dkim''] (Granted Admin) ''list_dkim_keys'',
      reading POST [Lit ''dkim''] DkimGenerateRequest_model (Granted Admin) ''generate_dkim'',
      handler_of GET [Lit ''dkim'', Lit ''migration''] (Granted Admin) ''get_dkim_migration_status'',
      handler_of POST [Lit ''dkim'', Lit ''migration''] (Granted Admin) ''migrate_dkim'',
      handler_of GET [Lit ''restrictions'', Text] (Granted Admin) ''list_restrictions'',
      reading POST [Lit ''restrictions'', Text] RestrictionCreate_model (Granted Admin) ''add_restriction'',
      handler_of DELETE [Lit ''restrictions'', Text, Text] (Granted Admin) ''delete_restriction'',
      handler_of GET [Lit ''sieve'', One_of [''before'', ''after'']] (Granted Admin) ''get_sieve_script'',
      reading PUT [Lit ''sieve'', One_of [''before'', ''after'']] SieveScriptUpdate_model (Granted Admin) ''update_sieve_script'',
      handler_of GET [Lit ''spam'', One_of [''rules'', ''whitelist-clients'', ''whitelist-recipients'', ''amavis'']] (Granted Admin) ''get_spam_config'',
      reading PUT [Lit ''spam'', One_of [''rules'', ''whitelist-clients'', ''whitelist-recipients'', ''amavis'']] SpamConfigUpdate_model (Granted Admin) ''update_spam_config'',
      handler_of GET [Lit ''rspamd''] (Granted Admin) ''get_rspamd_overrides'',
      reading PUT [Lit ''rspamd''] RspamdCommandsUpdate_model (Granted Admin) ''update_rspamd_overrides'',
      reading PUT [Lit ''rspamd'', Lit ''override'', Text] RspamdOverrideFileUpdate_model (Granted Admin) ''update_rspamd_override_file'',
      handler_of DELETE [Lit ''rspamd'', Lit ''override'', Text] (Granted Admin) ''delete_rspamd_override_file'',
      handler_of GET [Lit ''ldap'', One_of [''users'', ''groups'', ''aliases'', ''domains'']] (Granted Admin) ''get_ldap_config'',
      reading PUT [Lit ''ldap'', One_of [''users'', ''groups'', ''aliases'', ''domains'']] LdapConfigUpdate_model (Granted Admin) ''update_ldap_config'',
      handler_of GET [Lit ''queue''] (Granted Admin) ''get_queue'',
      handler_of POST [Lit ''queue'', Lit ''flush''] (Granted Admin) ''flush_queue'',
      handler_of DELETE [Lit ''queue''] (Granted Admin) ''delete_all_queued'',
      handler_of DELETE [Lit ''queue'', Text] (Granted Admin) ''delete_queued_message'',
      handler_of GET [Lit ''tls''] (Granted Admin) ''get_tls_certificate'',
      handler_of GET [Lit ''dns''] (Granted Admin) ''list_dns_records'',
      handler_of GET [Lit ''environment''] (Granted Admin) ''get_environment'',
      handler_of GET [Lit ''logs''] (Granted Admin) ''get_mail_logs'',
      handler_of GET [Lit ''services''] (Granted Admin) ''list_services'',
      handler_of GET [Lit ''stats''] (Granted Admin) ''get_mail_stats'',
      handler_of GET [Lit ''dovecot-masters''] (Granted Admin) ''list_dovecot_masters'',
      reading POST [Lit ''dovecot-masters''] DovecotMasterCreate_model (Granted Admin) ''create_dovecot_master'',
      handler_of DELETE [Lit ''dovecot-masters'', Text] (Granted Admin) ''delete_dovecot_master'']"

definition fail2ban_router :: "backend_route list" where
  "fail2ban_router =
     [handler_of GET [Lit ''status''] (Granted Admin) ''get_status'',
      handler_of GET [Lit ''banned''] (Granted Admin) ''list_banned'',
      reading POST [Lit ''ban''] BanRequest_model (Granted Admin) ''ban_ip'',
      handler_of DELETE [Lit ''banned'', Text] (Granted Admin) ''unban_ip'',
      handler_of GET [Lit ''log''] (Granted Admin) ''get_log'',
      handler_of GET [Lit ''policy''] (Granted Admin) ''get_policy'',
      reading PUT [Lit ''policy''] Fail2banPolicyUpdate_model (Granted Admin) ''set_policy'',
      handler_of GET [Lit ''config''] (Granted Admin) ''get_config'',
      reading PUT [Lit ''config''] Fail2banConfigUpdate_model (Granted Admin) ''set_config'']"

definition settings_router :: "backend_route list" where
  "settings_router =
     [handler_of GET [Lit ''oidc''] (Granted Admin) ''get_oidc'',
      reading PUT [Lit ''oidc''] OidcSettingsUpdate_model (Granted Admin) ''update_oidc'',
      handler_of GET [Lit ''mail''] (Granted Admin) ''get_mail'',
      reading PUT [Lit ''mail''] MailSettingsUpdate_model (Granted Admin) ''update_mail'',
      reading POST [Lit ''mail'', Lit ''test''] MailTestRequest_model (Granted Admin) ''test_mail'']"

definition audit_router :: "backend_route list" where
  "audit_router =
     [(handler_of GET [] (Granted Admin) ''list_audit_entries'')
        \<lparr>br_query := [Free ''actor'', Free ''action'', Free ''category'', Free ''status'',
        Whole ''limit'', Whole ''offset'']\<rparr>]"

definition pending_actions_router :: "backend_route list" where
  "pending_actions_router =
     [handler_of GET [] (Granted Admin) ''list_pending_actions'',
      handler_of DELETE [] (Granted Admin) ''clear_all_pending_actions'',
      handler_of DELETE [Text] (Granted Admin) ''clear_pending_action'']"

text \<open>\<open>include_router\<close> in \<open>src/backend/app/main.py\<close>, with the prefix of each router, and the probe of the health.\<close>

definition health_router :: "backend_route list" where
  "health_router = [handler_of GET [] Anyone ''health'']"

definition routers :: "(string \<times> backend_route list) list" where
  "routers =
     [(''auth'', auth_router),
      (''users'', users_router),
      (''groups'', groups_router),
      (''mailboxes'', mailboxes_router),
      (''mailserver'', mailserver_router),
      (''fail2ban'', fail2ban_router),
      (''settings'', settings_router),
      (''audit'', audit_router),
      (''pending-actions'', pending_actions_router),
      (''health'', health_router)]"

text \<open>The first route of the table that has the method and fits the segments.\<close>

fun fits :: "path_seg \<Rightarrow> string \<Rightarrow> bool" where
  "fits (Lit l) s = (s = l)"
| "fits Text s = True"
| "fits Number s = True"
| "fits (One_of names) s = True"

fun fits_all :: "path_seg list \<Rightarrow> string list \<Rightarrow> bool" where
  "fits_all [] [] = True"
| "fits_all (p # ps) (s # ss) = (fits p s \<and> fits_all ps ss)"
| "fits_all _ _ = False"

definition route_of :: "verb \<Rightarrow> string list \<Rightarrow> backend_route option" where
  "route_of v segments =
     (case segments of
        lead # api # head # rest \<Rightarrow>
          if lead = [] \<and> api = ''api'' then
            Option.bind (map_of routers head) (List.find (\<lambda>r. br_verb r = v \<and> fits_all (br_path r) rest))
          else None
      | _ \<Rightarrow> None)"

text \<open>The template a request is written for: the segments before percent-decoding.\<close>

definition target :: "request \<Rightarrow> backend_route option" where
  "target q = (case q of Api v path query body \<Rightarrow> route_of v (split_on (CHR ''/'') path) | _ \<Rightarrow> None)"

text \<open>
  The route that answers: the server decodes the path before it matches it, and a
  parameter is one segment that is not empty.
\<close>

definition answered_by :: "request \<Rightarrow> backend_route option" where
  "answered_by q =
     (case q of
        Api v path query body \<Rightarrow>
          (let segments = split_on (CHR ''/'') (decode_uri path)
           in if [] \<in> set (tl segments) then None else route_of v segments)
      | _ \<Rightarrow> None)"

section \<open>Typed and authorised requests\<close>

definition number_text :: "string \<Rightarrow> bool" where
  "number_text s = (let ds = (if take 1 s = ''-'' then drop 1 s else s) in ds \<noteq> [] \<and> list_all is_digit ds)"

fun param_ok :: "path_seg \<Rightarrow> string \<Rightarrow> bool" where
  "param_ok (Lit l) s = True"
| "param_ok Text s = True"
| "param_ok Number s = number_text s"
| "param_ok (One_of names) s = (s \<in> set names)"

fun query_ok :: "query_param \<Rightarrow> (string \<times> string) list \<Rightarrow> bool" where
  "query_ok (Needed k) kvs = (map_of kvs k \<noteq> None)"
| "query_ok (Free k) kvs = True"
| "query_ok (Whole k) kvs = (case map_of kvs k of None \<Rightarrow> True | Some s \<Rightarrow> number_text s)"

definition body_ok :: "(schema \<Rightarrow> json \<Rightarrow> bool) \<Rightarrow> schema option \<Rightarrow> json option \<Rightarrow> bool" where
  "body_ok check model body =
     (case model of
        None \<Rightarrow> body = None \<or> body = Some (JObj [])
      | Some t \<Rightarrow> (case body of None \<Rightarrow> False | Some j \<Rightarrow> check t j))"

text \<open>
  A call of the API is well formed for a check of bodies when a route is declared for it, its
  path parameters and its query have their types and its body passes the check. A body
  that no handler reads is absent or empty.
\<close>

definition well_formed :: "(schema \<Rightarrow> json \<Rightarrow> bool) \<Rightarrow> request \<Rightarrow> bool" where
  "well_formed check q =
     (case q of
        Api v path query body \<Rightarrow>
          (case target q of
             None \<Rightarrow> False
           | Some r \<Rightarrow>
               list_all2 param_ok (br_path r) (drop 3 (split_on (CHR ''/'') path)) \<and>
               list_all (\<lambda>(k, v). k \<in> set (map param_name (br_query r))) query \<and>
               list_all (\<lambda>p. query_ok p query) (br_query r) \<and>
               body_ok check (br_body r) body)
      | _ \<Rightarrow> True)"

definition well_typed :: "request \<Rightarrow> bool" where
  "well_typed = well_formed has_type"

text \<open>What the backend admits, text lengths apart; the syntax of an e-mail address is a parameter.\<close>

definition acceptable :: "(string \<Rightarrow> bool) \<Rightarrow> request \<Rightarrow> bool" where
  "acceptable is_email = well_formed (\<lambda>t. admits is_email (unbounded t))"

definition authorised :: "session_user option \<Rightarrow> request \<Rightarrow> bool" where
  "authorised user q =
     (case q of
        Api v path query body \<Rightarrow> (case target q of None \<Rightarrow> False | Some r \<Rightarrow> grants user (br_access r))
      | _ \<Rightarrow> True)"

section \<open>Where the methods of the services go\<close>

lemma digits_number: "list_all is_digit ds \<Longrightarrow> ds \<noteq> [] \<Longrightarrow> number_text ds"
  by (cases ds) (auto simp: number_text_def is_digit_def)

lemma number_text_show_int [simp]: "number_text (show_int i)"
proof (cases "i < 0")
  case True
  then show ?thesis by (simp add: show_int_def number_text_def show_nat_digits)
next
  case False
  then show ?thesis by (simp add: show_int_def digits_number show_nat_digits)
qed

lemma show_int_not: "\<not> number_text s \<Longrightarrow> (show_int i = s) = False"
  by (metis number_text_show_int)

lemma show_int_no_slash [simp]: "CHR ''/'' \<notin> set (show_int i)"
proof -
  have "CHR ''/'' \<notin> set (show_nat n)" for n
    using show_nat_digits[of n] by (auto simp: list_all_iff is_digit_def)
  then show ?thesis by (simp add: show_int_def)
qed

lemma scope_no_slash:
  "CHR ''/'' \<notin> set (restriction_kind_name k)" "CHR ''/'' \<notin> set (sieve_scope_name ss)"
  "CHR ''/'' \<notin> set (spam_scope_name sp)" "CHR ''/'' \<notin> set (ldap_scope_name ls)"
  by ((cases k; simp), (cases ss; simp), (cases sp; simp), (cases ls; simp))

text \<open>The segments of a path with variable parts.\<close>

lemmas split_parts =
  split_on_append[OF encode_no_slash] split_on_single[OF encode_no_slash]
  split_on_append[OF show_int_no_slash] split_on_single[OF show_int_no_slash]
  split_on_append[OF scope_no_slash(1)] split_on_single[OF scope_no_slash(1)]
  split_on_single[OF scope_no_slash(2)] split_on_single[OF scope_no_slash(3)]
  split_on_single[OF scope_no_slash(4)]

lemmas table_defs = target_def route_of_def routers_def show_int_not number_text_def is_digit_def Let_def

lemma mailbox_targets [route_simps]:
  "target (fst mailboxes_list) =
     Some (handler_of GET [] (Granted Mailbox_manager) ''list_mailboxes'')"
  "target (fst mailboxes_features) =
     Some (handler_of GET [Lit ''features''] (Granted Mailbox_manager) ''get_features'')"
  "target (fst mailboxes_usage) =
     Some (handler_of GET [Lit ''usage''] (Granted Mailbox_manager) ''get_usage'')"
  "target (fst (mailboxes_create e p q)) =
     Some (reading POST [] MailboxCreate_model (Granted Mailbox_manager) ''create_mailbox'')"
  "target (fst (resetPassword e p)) =
     Some (reading PATCH [Text, Lit ''password''] MailboxPasswordUpdate_model (Granted Mailbox_manager) ''reset_password'')"
  "target (fst (setQuota e q)) =
     Some (reading PUT [Text, Lit ''quota''] QuotaUpdate_model (Granted Mailbox_manager) ''set_quota'')"
  "target (fst (mailboxes_delete e)) =
     Some (handler_of DELETE [Text] (Granted Mailbox_manager) ''delete_mailbox'')"
  "target (fst (listAliases e)) =
     Some (handler_of GET [Text, Lit ''aliases''] (Granted Mailbox_manager) ''list_aliases'')"
  "target (fst (addAlias e a)) =
     Some (reading POST [Text, Lit ''aliases''] AliasCreate_model (Granted Mailbox_manager) ''add_alias'')"
  "target (fst (deleteAlias e a)) =
     Some (handler_of DELETE [Text, Lit ''aliases'', Text] (Granted Mailbox_manager) ''delete_alias'')"
  "target (fst (mailbox_getSieveScript e)) =
     Some (handler_of GET [Text, Lit ''sieve''] (Granted Mailbox_manager) ''get_sieve_script'')"
  "target (fst (mailbox_setSieveScript e c)) =
     Some (reading PUT [Text, Lit ''sieve''] MailboxSieveScriptUpdate_model (Granted Mailbox_manager) ''set_sieve_script'')"
  "target (fst (mailbox_deleteSieveScript e)) =
     Some (handler_of DELETE [Text, Lit ''sieve''] (Granted Mailbox_manager) ''delete_sieve_script'')"
  by (simp_all add: table_defs mailboxes_router_def handler_of_def reading_def split_parts
    mailboxes_list_def mailboxes_features_def mailboxes_usage_def mailboxes_create_def
    resetPassword_def setQuota_def mailboxes_delete_def listAliases_def addAlias_def
    deleteAlias_def mailbox_getSieveScript_def mailbox_setSieveScript_def
    mailbox_deleteSieveScript_def mailbox_path_def)

lemma user_targets [route_simps]:
  "target (fst users_me) =
     Some (handler_of GET [Lit ''me''] Signed_in ''read_own_profile'')"
  "target (fst (changeOwnPassword p q)) =
     Some (reading PATCH [Lit ''me'', Lit ''password''] SelfPasswordChangeRequest_model Signed_in ''change_own_password'')"
  "target (fst users_list) =
     Some (handler_of GET [] (Granted Admin) ''list_users'')"
  "target (fst (users_create n d p)) =
     Some (reading POST [] UserCreate_model (Granted Admin) ''create_user'')"
  "target (fst (users_delete i)) =
     Some (handler_of DELETE [Number] (Granted Admin) ''delete_user'')"
  "target (fst (changePassword i p)) =
     Some (reading PATCH [Number, Lit ''password''] PasswordChangeRequest_model (Granted Admin) ''change_password'')"
  "target (fst (setActive i b)) =
     Some (reading PATCH [Number, Lit ''status''] UserStatusUpdate_model (Granted Admin) ''set_user_status'')"
  "target (fst pats_list) =
     Some (handler_of GET [Lit ''me'', Lit ''pats''] Signed_in ''list_own_pats'')"
  "target (fst (pats_create n x)) =
     Some (reading POST [Lit ''me'', Lit ''pats''] PatCreate_model Interactive ''create_own_pat'')"
  "target (fst (pats_revoke i)) =
     Some (handler_of DELETE [Lit ''me'', Lit ''pats'', Number] Interactive ''revoke_own_pat'')"
  by (simp_all add: table_defs users_router_def handler_of_def reading_def split_parts
    users_me_def changeOwnPassword_def users_list_def users_create_def users_delete_def
    changePassword_def setActive_def pats_list_def pats_create_def pats_revoke_def)

lemma group_targets [route_simps]:
  "target (fst groups_list) =
     Some (handler_of GET [] (Granted Admin) ''list_groups'')"
  "target (fst (groups_create n d r)) =
     Some (reading POST [] GroupWrite_model (Granted Admin) ''create_group'')"
  "target (fst (groups_update i n d r)) =
     Some (reading PATCH [Number] GroupWrite_model (Granted Admin) ''update_group'')"
  "target (fst (groups_delete i)) =
     Some (handler_of DELETE [Number] (Granted Admin) ''delete_group'')"
  "target (fst (getMembers i)) =
     Some (handler_of GET [Number, Lit ''members''] (Granted Admin) ''get_group_members'')"
  "target (fst (addMember i k)) =
     Some (handler_of POST [Number, Lit ''members'', Number] (Granted Admin) ''add_user_to_group'')"
  "target (fst (removeMember i k)) =
     Some (handler_of DELETE [Number, Lit ''members'', Number] (Granted Admin) ''remove_user_from_group'')"
  "target (fst (addMembers i ks)) =
     Some (reading POST [Number, Lit ''members'', Lit ''batch''] AddUsersPayload_model (Granted Admin) ''add_users_to_group'')"
  by (simp_all add: table_defs groups_router_def handler_of_def reading_def split_parts
    groups_list_def groups_create_def groups_update_def groups_delete_def getMembers_def
    addMember_def removeMember_def addMembers_def)

lemma fail2ban_targets [route_simps]:
  "target (fst getStatus) =
     Some (handler_of GET [Lit ''status''] (Granted Admin) ''get_status'')"
  "target (fst listBanned) =
     Some (handler_of GET [Lit ''banned''] (Granted Admin) ''list_banned'')"
  "target (fst (banIp a)) =
     Some (reading POST [Lit ''ban''] BanRequest_model (Granted Admin) ''ban_ip'')"
  "target (fst (unbanIp a)) =
     Some (handler_of DELETE [Lit ''banned'', Text] (Granted Admin) ''unban_ip'')"
  "target (fst getLog) =
     Some (handler_of GET [Lit ''log''] (Granted Admin) ''get_log'')"
  "target (fst getPolicy) =
     Some (handler_of GET [Lit ''policy''] (Granted Admin) ''get_policy'')"
  "target (fst (setPolicy b f r)) =
     Some (reading PUT [Lit ''policy''] Fail2banPolicyUpdate_model (Granted Admin) ''set_policy'')"
  "target (fst getConfig) =
     Some (handler_of GET [Lit ''config''] (Granted Admin) ''get_config'')"
  "target (fst (setConfig c)) =
     Some (reading PUT [Lit ''config''] Fail2banConfigUpdate_model (Granted Admin) ''set_config'')"
  by (simp_all add: table_defs fail2ban_router_def handler_of_def reading_def split_parts
    getStatus_def listBanned_def banIp_def unbanIp_def getLog_def getPolicy_def
    setPolicy_def getConfig_def setConfig_def)

lemma relay_targets [route_simps]:
  "target (fst listRelays) =
     Some (handler_of GET [Lit ''relays''] (Granted Admin) ''list_relays'')"
  "target (fst (createRelay rc)) =
     Some (reading POST [Lit ''relays''] RelayHostCreate_model (Granted Admin) ''create_relay'')"
  "target (fst (deleteRelay a)) =
     Some (handler_of DELETE [Lit ''relays'', Text] (Granted Admin) ''delete_relay'')"
  "target (fst listRelayExclusions) =
     Some (handler_of GET [Lit ''relay-exclusions''] (Granted Admin) ''list_relay_exclusions'')"
  "target (fst (createRelayExclusion a)) =
     Some (reading POST [Lit ''relay-exclusions''] RelayExclusionCreate_model (Granted Admin) ''create_relay_exclusion'')"
  "target (fst (deleteRelayExclusion a)) =
     Some (handler_of DELETE [Lit ''relay-exclusions'', Text] (Granted Admin) ''delete_relay_exclusion'')"
  by (simp_all add: table_defs mailserver_router_def handler_of_def reading_def split_parts
    listRelays_def createRelay_def deleteRelay_def listRelayExclusions_def
    createRelayExclusion_def deleteRelayExclusion_def)

lemma postfix_targets [route_simps]:
  "target (fst getPostfixOverrides) =
     Some (handler_of GET [Lit ''postfix''] (Granted Admin) ''get_postfix_overrides'')"
  "target (fst (setPostfixOverrides ovs)) =
     Some (reading PUT [Lit ''postfix''] PostfixOverridesUpdate_model (Granted Admin) ''update_postfix_overrides'')"
  "target (fst getPostfixMasterOverrides) =
     Some (handler_of GET [Lit ''postfix-master''] (Granted Admin) ''get_postfix_master_overrides'')"
  "target (fst (setPostfixMasterOverrides ovs)) =
     Some (reading PUT [Lit ''postfix-master''] PostfixMasterOverridesUpdate_model (Granted Admin) ''update_postfix_master_overrides'')"
  "target (fst getDovecotConfig) =
     Some (handler_of GET [Lit ''dovecot-config''] (Granted Admin) ''get_dovecot_config'')"
  "target (fst (setDovecotConfig c)) =
     Some (reading PUT [Lit ''dovecot-config''] DovecotConfigUpdate_model (Granted Admin) ''update_dovecot_config'')"
  by (simp_all add: table_defs mailserver_router_def handler_of_def reading_def split_parts
    getPostfixOverrides_def setPostfixOverrides_def getPostfixMasterOverrides_def
    setPostfixMasterOverrides_def getDovecotConfig_def setDovecotConfig_def)

lemma alias_targets [route_simps]:
  "target (fst listSystemAliases) =
     Some (handler_of GET [Lit ''system-aliases''] (Granted Admin) ''list_system_aliases'')"
  "target (fst (createSystemAlias n ts)) =
     Some (reading POST [Lit ''system-aliases''] SystemAliasCreate_model (Granted Admin) ''create_system_alias'')"
  "target (fst (deleteSystemAlias n)) =
     Some (handler_of DELETE [Lit ''system-aliases'', Text] (Granted Admin) ''delete_system_alias'')"
  "target (fst listRegexAliases) =
     Some (handler_of GET [Lit ''regex-aliases''] (Granted Admin) ''list_regex_aliases'')"
  "target (fst (createRegexAlias p ts)) =
     Some (reading POST [Lit ''regex-aliases''] RegexAliasCreate_model (Granted Admin) ''create_regex_alias'')"
  "target (fst (deleteRegexAlias p)) =
     Some ((handler_of DELETE [Lit ''regex-aliases''] (Granted Admin) ''delete_regex_alias'')\<lparr>br_query := [Needed ''pattern'']\<rparr>)"
  by (simp_all add: table_defs mailserver_router_def handler_of_def reading_def split_parts
    listSystemAliases_def createSystemAlias_def deleteSystemAlias_def
    listRegexAliases_def createRegexAlias_def deleteRegexAlias_def)

lemma dkim_targets [route_simps]:
  "target (fst listDkimKeys) =
     Some (handler_of GET [Lit ''dkim''] (Granted Admin) ''list_dkim_keys'')"
  "target (fst (generateDkim dg)) =
     Some (reading POST [Lit ''dkim''] DkimGenerateRequest_model (Granted Admin) ''generate_dkim'')"
  "target (fst getDkimMigrationStatus) =
     Some (handler_of GET [Lit ''dkim'', Lit ''migration''] (Granted Admin) ''get_dkim_migration_status'')"
  "target (fst migrateDkimToRspamd) =
     Some (handler_of POST [Lit ''dkim'', Lit ''migration''] (Granted Admin) ''migrate_dkim'')"
  by (simp_all add: table_defs mailserver_router_def handler_of_def reading_def split_parts
    listDkimKeys_def generateDkim_def getDkimMigrationStatus_def migrateDkimToRspamd_def)

lemma list_targets [route_simps]:
  "target (fst (listRestrictions k)) =
     Some (handler_of GET [Lit ''restrictions'', Text] (Granted Admin) ''list_restrictions'')"
  "target (fst (addRestriction k a)) =
     Some (reading POST [Lit ''restrictions'', Text] RestrictionCreate_model (Granted Admin) ''add_restriction'')"
  "target (fst (deleteRestriction k a)) =
     Some (handler_of DELETE [Lit ''restrictions'', Text, Text] (Granted Admin) ''delete_restriction'')"
  "target (fst listDovecotMasters) =
     Some (handler_of GET [Lit ''dovecot-masters''] (Granted Admin) ''list_dovecot_masters'')"
  "target (fst (createDovecotMaster n p)) =
     Some (reading POST [Lit ''dovecot-masters''] DovecotMasterCreate_model (Granted Admin) ''create_dovecot_master'')"
  "target (fst (deleteDovecotMaster n)) =
     Some (handler_of DELETE [Lit ''dovecot-masters'', Text] (Granted Admin) ''delete_dovecot_master'')"
  by (simp_all add: table_defs mailserver_router_def handler_of_def reading_def split_parts
    listRestrictions_def addRestriction_def deleteRestriction_def listDovecotMasters_def
    createDovecotMaster_def deleteDovecotMaster_def)

lemma file_targets [route_simps]:
  "target (fst (getSieveScript ss)) =
     Some (handler_of GET [Lit ''sieve'', One_of [''before'', ''after'']] (Granted Admin) ''get_sieve_script'')"
  "target (fst (setSieveScript ss c)) =
     Some (reading PUT [Lit ''sieve'', One_of [''before'', ''after'']] SieveScriptUpdate_model (Granted Admin) ''update_sieve_script'')"
  "target (fst (getSpamConfig sp)) =
     Some (handler_of GET [Lit ''spam'', One_of [''rules'', ''whitelist-clients'', ''whitelist-recipients'', ''amavis'']] (Granted Admin) ''get_spam_config'')"
  "target (fst (setSpamConfig sp c)) =
     Some (reading PUT [Lit ''spam'', One_of [''rules'', ''whitelist-clients'', ''whitelist-recipients'', ''amavis'']] SpamConfigUpdate_model (Granted Admin) ''update_spam_config'')"
  "target (fst (getLdapConfig ls)) =
     Some (handler_of GET [Lit ''ldap'', One_of [''users'', ''groups'', ''aliases'', ''domains'']] (Granted Admin) ''get_ldap_config'')"
  "target (fst (setLdapConfig ls c)) =
     Some (reading PUT [Lit ''ldap'', One_of [''users'', ''groups'', ''aliases'', ''domains'']] LdapConfigUpdate_model (Granted Admin) ''update_ldap_config'')"
  "target (fst getRspamdOverrides) =
     Some (handler_of GET [Lit ''rspamd''] (Granted Admin) ''get_rspamd_overrides'')"
  "target (fst (setRspamdOverrides cs)) =
     Some (reading PUT [Lit ''rspamd''] RspamdCommandsUpdate_model (Granted Admin) ''update_rspamd_overrides'')"
  "target (fst (setRspamdOverrideFile n c)) =
     Some (reading PUT [Lit ''rspamd'', Lit ''override'', Text] RspamdOverrideFileUpdate_model (Granted Admin) ''update_rspamd_override_file'')"
  "target (fst (deleteRspamdOverrideFile n)) =
     Some (handler_of DELETE [Lit ''rspamd'', Lit ''override'', Text] (Granted Admin) ''delete_rspamd_override_file'')"
  by (simp_all add: table_defs mailserver_router_def handler_of_def reading_def split_parts
    getSieveScript_def setSieveScript_def getSpamConfig_def setSpamConfig_def
    getLdapConfig_def setLdapConfig_def getRspamdOverrides_def setRspamdOverrides_def
    setRspamdOverrideFile_def deleteRspamdOverrideFile_def)

lemma view_targets [route_simps]:
  "target (fst getQueue) =
     Some (handler_of GET [Lit ''queue''] (Granted Admin) ''get_queue'')"
  "target (fst flushQueue) =
     Some (handler_of POST [Lit ''queue'', Lit ''flush''] (Granted Admin) ''flush_queue'')"
  "target (fst deleteAllQueued) =
     Some (handler_of DELETE [Lit ''queue''] (Granted Admin) ''delete_all_queued'')"
  "target (fst (deleteQueuedMessage a)) =
     Some (handler_of DELETE [Lit ''queue'', Text] (Granted Admin) ''delete_queued_message'')"
  "target (fst getTlsCertificate) =
     Some (handler_of GET [Lit ''tls''] (Granted Admin) ''get_tls_certificate'')"
  "target (fst listDnsRecords) =
     Some (handler_of GET [Lit ''dns''] (Granted Admin) ''list_dns_records'')"
  "target (fst getEnvironment) =
     Some (handler_of GET [Lit ''environment''] (Granted Admin) ''get_environment'')"
  "target (fst getMailLogs) =
     Some (handler_of GET [Lit ''logs''] (Granted Admin) ''get_mail_logs'')"
  "target (fst listServices) =
     Some (handler_of GET [Lit ''services''] (Granted Admin) ''list_services'')"
  "target (fst getMailStats) =
     Some (handler_of GET [Lit ''stats''] (Granted Admin) ''get_mail_stats'')"
  by (simp_all add: table_defs mailserver_router_def handler_of_def reading_def split_parts
    getQueue_def flushQueue_def deleteAllQueued_def deleteQueuedMessage_def
    getTlsCertificate_def listDnsRecords_def getEnvironment_def getMailLogs_def
    listServices_def getMailStats_def)

section \<open>Well-formed calls of the services\<close>

fun path_of :: "request \<Rightarrow> string" where
  "path_of (Api v path query body) = path"
| "path_of q = []"

fun query_of :: "request \<Rightarrow> (string \<times> string) list" where
  "query_of (Api v path query body) = query"
| "query_of q = []"

fun body_of :: "request \<Rightarrow> json option" where
  "body_of (Api v path query body) = body"
| "body_of q = None"

definition body_sent :: "'a endpoint \<Rightarrow> json" where
  "body_sent ep = (case body_of (fst ep) of None \<Rightarrow> JNull | Some j \<Rightarrow> j)"

lemma well_formed_at:
  "target q = Some r \<Longrightarrow>
    well_formed check q =
      (list_all2 param_ok (br_path r) (drop 3 (split_on (CHR ''/'') (path_of q))) \<and>
       list_all (\<lambda>(k, v). k \<in> set (map param_name (br_query r))) (query_of q) \<and>
       list_all (\<lambda>p. query_ok p (query_of q)) (br_query r) \<and>
       body_ok check (br_body r) (body_of q))"
  by (cases q) (simp_all add: well_formed_def target_def)

lemma scope_names:
  "sieve_scope_name ss = ''before'' \<or> sieve_scope_name ss = ''after''"
  "spam_scope_name sp = ''rules'' \<or> spam_scope_name sp = ''whitelist-clients'' \<or>
     spam_scope_name sp = ''whitelist-recipients'' \<or> spam_scope_name sp = ''amavis''"
  "ldap_scope_name ls = ''users'' \<or> ldap_scope_name ls = ''groups'' \<or>
     ldap_scope_name ls = ''aliases'' \<or> ldap_scope_name ls = ''domains''"
  by ((cases ss; simp), (cases sp; simp), (cases ls; simp))

lemmas formed_defs = split_parts scope_names body_ok_def body_sent_def handler_of_def reading_def

lemma mailbox_plain [plain_simps]:
  "well_formed check (fst mailboxes_list)"
  "well_formed check (fst mailboxes_features)"
  "well_formed check (fst mailboxes_usage)"
  "well_formed check (fst (mailboxes_delete e))"
  "well_formed check (fst (listAliases e))"
  "well_formed check (fst (deleteAlias e a))"
  "well_formed check (fst (mailbox_getSieveScript e))"
  "well_formed check (fst (mailbox_deleteSieveScript e))"
  unfolding mailbox_targets(1, 2, 3, 7, 8, 10, 11, 13)[THEN well_formed_at]
  by (simp_all add: formed_defs mailboxes_list_def mailboxes_features_def mailboxes_usage_def
      mailboxes_delete_def listAliases_def deleteAlias_def mailbox_getSieveScript_def
      mailbox_deleteSieveScript_def mailbox_path_def)

lemma mailbox_formed [formed_simps]:
  "well_formed check (fst (mailboxes_create e p q)) = check MailboxCreate_model (body_sent (mailboxes_create e p q))"
  "well_formed check (fst (resetPassword e p)) = check MailboxPasswordUpdate_model (body_sent (resetPassword e p))"
  "well_formed check (fst (setQuota e q)) = check QuotaUpdate_model (body_sent (setQuota e q))"
  "well_formed check (fst (addAlias e a)) = check AliasCreate_model (body_sent (addAlias e a))"
  "well_formed check (fst (mailbox_setSieveScript e c)) = check MailboxSieveScriptUpdate_model (body_sent (mailbox_setSieveScript e c))"
  unfolding mailbox_targets(4, 5, 6, 9, 12)[THEN well_formed_at]
  by (simp_all add: formed_defs mailboxes_create_def resetPassword_def setQuota_def addAlias_def
      mailbox_setSieveScript_def mailbox_path_def)

lemma user_plain [plain_simps]:
  "well_formed check (fst users_me)"
  "well_formed check (fst users_list)"
  "well_formed check (fst (users_delete i))"
  "well_formed check (fst pats_list)"
  "well_formed check (fst (pats_revoke i))"
  unfolding user_targets(1, 3, 5, 8, 10)[THEN well_formed_at]
  by (simp_all add: formed_defs users_me_def users_list_def users_delete_def pats_list_def
      pats_revoke_def)

lemma user_formed [formed_simps]:
  "well_formed check (fst (changeOwnPassword p q)) = check SelfPasswordChangeRequest_model (body_sent (changeOwnPassword p q))"
  "well_formed check (fst (users_create n d p)) = check UserCreate_model (body_sent (users_create n d p))"
  "well_formed check (fst (changePassword i p)) = check PasswordChangeRequest_model (body_sent (changePassword i p))"
  "well_formed check (fst (setActive i b)) = check UserStatusUpdate_model (body_sent (setActive i b))"
  "well_formed check (fst (pats_create n x)) = check PatCreate_model (body_sent (pats_create n x))"
  unfolding user_targets(2, 4, 6, 7, 9)[THEN well_formed_at]
  by (simp_all add: formed_defs changeOwnPassword_def users_create_def changePassword_def
      setActive_def pats_create_def)

lemma group_plain [plain_simps]:
  "well_formed check (fst groups_list)"
  "well_formed check (fst (groups_delete i))"
  "well_formed check (fst (getMembers i))"
  "well_formed check (fst (addMember i k))"
  "well_formed check (fst (removeMember i k))"
  unfolding group_targets(1, 4, 5, 6, 7)[THEN well_formed_at]
  by (simp_all add: formed_defs groups_list_def groups_delete_def getMembers_def addMember_def
      removeMember_def)

lemma group_formed [formed_simps]:
  "well_formed check (fst (groups_create n d r)) = check GroupWrite_model (body_sent (groups_create n d r))"
  "well_formed check (fst (groups_update i n d r)) = check GroupWrite_model (body_sent (groups_update i n d r))"
  "well_formed check (fst (addMembers i ks)) = check AddUsersPayload_model (body_sent (addMembers i ks))"
  unfolding group_targets(2, 3, 8)[THEN well_formed_at]
  by (simp_all add: formed_defs groups_create_def groups_update_def addMembers_def)

lemma fail2ban_plain [plain_simps]:
  "well_formed check (fst getStatus)"
  "well_formed check (fst listBanned)"
  "well_formed check (fst (unbanIp a))"
  "well_formed check (fst getLog)"
  "well_formed check (fst getPolicy)"
  "well_formed check (fst getConfig)"
  unfolding fail2ban_targets(1, 2, 4, 5, 6, 8)[THEN well_formed_at]
  by (simp_all add: formed_defs getStatus_def listBanned_def unbanIp_def getLog_def
      getPolicy_def getConfig_def)

lemma fail2ban_formed [formed_simps]:
  "well_formed check (fst (banIp a)) = check BanRequest_model (body_sent (banIp a))"
  "well_formed check (fst (setPolicy b f r)) = check Fail2banPolicyUpdate_model (body_sent (setPolicy b f r))"
  "well_formed check (fst (setConfig c)) = check Fail2banConfigUpdate_model (body_sent (setConfig c))"
  unfolding fail2ban_targets(3, 7, 9)[THEN well_formed_at]
  by (simp_all add: formed_defs banIp_def setPolicy_def setConfig_def)

lemma relay_plain [plain_simps]:
  "well_formed check (fst listRelays)"
  "well_formed check (fst (deleteRelay a))"
  "well_formed check (fst listRelayExclusions)"
  "well_formed check (fst (deleteRelayExclusion a))"
  unfolding relay_targets(1, 3, 4, 6)[THEN well_formed_at]
  by (simp_all add: formed_defs listRelays_def deleteRelay_def listRelayExclusions_def
      deleteRelayExclusion_def)

lemma relay_formed [formed_simps]:
  "well_formed check (fst (createRelay rc)) = check RelayHostCreate_model (body_sent (createRelay rc))"
  "well_formed check (fst (createRelayExclusion a)) = check RelayExclusionCreate_model (body_sent (createRelayExclusion a))"
  unfolding relay_targets(2, 5)[THEN well_formed_at]
  by (simp_all add: formed_defs createRelay_def createRelayExclusion_def)

lemma postfix_plain [plain_simps]:
  "well_formed check (fst getPostfixOverrides)"
  "well_formed check (fst getPostfixMasterOverrides)"
  "well_formed check (fst getDovecotConfig)"
  unfolding postfix_targets(1, 3, 5)[THEN well_formed_at]
  by (simp_all add: formed_defs getPostfixOverrides_def getPostfixMasterOverrides_def
      getDovecotConfig_def)

lemma postfix_formed [formed_simps]:
  "well_formed check (fst (setPostfixOverrides ovs)) = check PostfixOverridesUpdate_model (body_sent (setPostfixOverrides ovs))"
  "well_formed check (fst (setPostfixMasterOverrides ovs)) = check PostfixMasterOverridesUpdate_model (body_sent (setPostfixMasterOverrides ovs))"
  "well_formed check (fst (setDovecotConfig c)) = check DovecotConfigUpdate_model (body_sent (setDovecotConfig c))"
  unfolding postfix_targets(2, 4, 6)[THEN well_formed_at]
  by (simp_all add: formed_defs setPostfixOverrides_def setPostfixMasterOverrides_def
      setDovecotConfig_def)

lemma alias_plain [plain_simps]:
  "well_formed check (fst listSystemAliases)"
  "well_formed check (fst (deleteSystemAlias n))"
  "well_formed check (fst listRegexAliases)"
  "well_formed check (fst (deleteRegexAlias p))"
  unfolding alias_targets(1, 3, 4, 6)[THEN well_formed_at]
  by (simp_all add: formed_defs listSystemAliases_def deleteSystemAlias_def listRegexAliases_def
      deleteRegexAlias_def)

lemma alias_formed [formed_simps]:
  "well_formed check (fst (createSystemAlias n ts)) = check SystemAliasCreate_model (body_sent (createSystemAlias n ts))"
  "well_formed check (fst (createRegexAlias p ts)) = check RegexAliasCreate_model (body_sent (createRegexAlias p ts))"
  unfolding alias_targets(2, 5)[THEN well_formed_at]
  by (simp_all add: formed_defs createSystemAlias_def createRegexAlias_def)

lemma dkim_plain [plain_simps]:
  "well_formed check (fst listDkimKeys)"
  "well_formed check (fst getDkimMigrationStatus)"
  "well_formed check (fst migrateDkimToRspamd)"
  unfolding dkim_targets(1, 3, 4)[THEN well_formed_at]
  by (simp_all add: formed_defs listDkimKeys_def getDkimMigrationStatus_def
      migrateDkimToRspamd_def)

lemma dkim_formed [formed_simps]:
  "well_formed check (fst (generateDkim dg)) = check DkimGenerateRequest_model (body_sent (generateDkim dg))"
  unfolding dkim_targets(2)[THEN well_formed_at]
  by (simp add: formed_defs generateDkim_def)

lemma list_plain [plain_simps]:
  "well_formed check (fst (listRestrictions k))"
  "well_formed check (fst (deleteRestriction k a))"
  "well_formed check (fst listDovecotMasters)"
  "well_formed check (fst (deleteDovecotMaster n))"
  unfolding list_targets(1, 3, 4, 6)[THEN well_formed_at]
  by (simp_all add: formed_defs listRestrictions_def deleteRestriction_def
      listDovecotMasters_def deleteDovecotMaster_def)

lemma list_formed [formed_simps]:
  "well_formed check (fst (addRestriction k a)) = check RestrictionCreate_model (body_sent (addRestriction k a))"
  "well_formed check (fst (createDovecotMaster n p)) = check DovecotMasterCreate_model (body_sent (createDovecotMaster n p))"
  unfolding list_targets(2, 5)[THEN well_formed_at]
  by (simp_all add: formed_defs addRestriction_def createDovecotMaster_def)

lemma file_plain [plain_simps]:
  "well_formed check (fst (getSieveScript ss))"
  "well_formed check (fst (getSpamConfig sp))"
  "well_formed check (fst (getLdapConfig ls))"
  "well_formed check (fst getRspamdOverrides)"
  "well_formed check (fst (deleteRspamdOverrideFile n))"
  unfolding file_targets(1, 3, 5, 7, 10)[THEN well_formed_at]
  by (simp_all add: formed_defs getSieveScript_def getSpamConfig_def getLdapConfig_def
      getRspamdOverrides_def deleteRspamdOverrideFile_def)

lemma file_formed [formed_simps]:
  "well_formed check (fst (setSieveScript ss c)) = check SieveScriptUpdate_model (body_sent (setSieveScript ss c))"
  "well_formed check (fst (setSpamConfig sp c)) = check SpamConfigUpdate_model (body_sent (setSpamConfig sp c))"
  "well_formed check (fst (setLdapConfig ls c)) = check LdapConfigUpdate_model (body_sent (setLdapConfig ls c))"
  "well_formed check (fst (setRspamdOverrides cs)) = check RspamdCommandsUpdate_model (body_sent (setRspamdOverrides cs))"
  "well_formed check (fst (setRspamdOverrideFile n c)) = check RspamdOverrideFileUpdate_model (body_sent (setRspamdOverrideFile n c))"
  unfolding file_targets(2, 4, 6, 8, 9)[THEN well_formed_at]
  by (simp_all add: formed_defs setSieveScript_def setSpamConfig_def setLdapConfig_def
      setRspamdOverrides_def setRspamdOverrideFile_def)

lemma view_plain [plain_simps]:
  "well_formed check (fst getQueue)"
  "well_formed check (fst flushQueue)"
  "well_formed check (fst deleteAllQueued)"
  "well_formed check (fst (deleteQueuedMessage a))"
  "well_formed check (fst getTlsCertificate)"
  "well_formed check (fst listDnsRecords)"
  "well_formed check (fst getEnvironment)"
  "well_formed check (fst getMailLogs)"
  "well_formed check (fst listServices)"
  "well_formed check (fst getMailStats)"
  unfolding view_targets(1, 2, 3, 4, 5, 6, 7, 8, 9, 10)[THEN well_formed_at]
  by (simp_all add: formed_defs getQueue_def flushQueue_def deleteAllQueued_def
      deleteQueuedMessage_def getTlsCertificate_def listDnsRecords_def getEnvironment_def
      getMailLogs_def listServices_def getMailStats_def)

end
