(* ===== verification/Request_Bodies.thy ===== *)
theory Request_Bodies
  imports Backend_Routes
begin

text \<open>
  The bodies that the services send, against the models that the backend reads them with.
\<close>

named_theorems typed_simps \<open>which calls of the services are well typed\<close>
named_theorems accept_simps \<open>which calls of the services the backend admits\<close>

section \<open>Values\<close>

lemma as_integer_num [simp]: "(as_integer (JNum v) = None) = (\<not> is_integer v)"
  by (cases v) (simp_all add: as_integer_def)

lemma as_integer_of_int [simp]: "as_integer (JNum (Num (of_int n))) = Some n"
  by (simp add: as_integer_def)

lemma as_integer_json [simp]:
  "as_integer JNull = None" "as_integer (JStr s) = None"
  by (simp_all add: as_integer_def)

lemma as_integer_Some [simp]: "(as_integer (JNum v) = Some n) = (v = Num (of_int n))"
  by (cases v) (auto simp: as_integer_def)

lemma kind_name:
  "rspamd_kind_name k \<in> {''set-common-option'', ''set-option-for-controller'', ''set-option-for-proxy'',
     ''enable-module'', ''disable-module'', ''set-option-for-module'', ''add-line''}"
  by (cases k) simp_all

lemma role_name_enum: "role_name r \<in> {''guest'', ''mailbox_manager'', ''admin''}"
  by (cases r) simp_all

lemmas typed_defs = has_type_def model_defs body_sent_def json_or_null_def upto_opt_def

lemma list_all_map: "list_all P (map f xs) = list_all (\<lambda>x. P (f x)) xs"
  by (simp add: list.pred_map comp_def)

lemma list_all_True [simp]: "list_all (\<lambda>x. True) xs"
  by (simp add: list_all_iff)

section \<open>The shape of the bodies\<close>

text \<open>
  A body always has the shape of its model, except for the numbers that are typed in: they
  have to be whole, and the size of a key one of three.
\<close>

lemma mailbox_typed [typed_simps]:
  "well_typed (fst (mailboxes_create e p q))"
  "well_typed (fst (resetPassword e p))"
  "well_typed (fst (setQuota e q))"
  "well_typed (fst (addAlias e a))"
  "well_typed (fst (mailbox_setSieveScript e c))"
  unfolding well_typed_def formed_simps
  by (simp_all add: typed_defs mailboxes_create_def resetPassword_def setQuota_def addAlias_def
      mailbox_setSieveScript_def json_content_def split: option.splits)

lemma user_typed [typed_simps]:
  "well_typed (fst (changeOwnPassword p q))"
  "well_typed (fst (users_create n d p))"
  "well_typed (fst (changePassword i p))"
  "well_typed (fst (setActive i b))"
  "well_typed (fst (pats_create n x)) =
     (case x of None \<Rightarrow> True | Some v \<Rightarrow> is_integer v)"
  unfolding well_typed_def formed_simps
  by (auto simp add: typed_defs changeOwnPassword_def users_create_def changePassword_def
      setActive_def pats_create_def split: option.splits)

lemma group_typed [typed_simps]:
  "well_typed (fst (groups_create n d r))"
  "well_typed (fst (groups_update i n d r))"
  "well_typed (fst (addMembers i ks))"
  using role_name_enum[of r] unfolding well_typed_def formed_simps
  by (simp_all add: typed_defs groups_create_def groups_update_def addMembers_def list_all_map)

lemma fail2ban_typed [typed_simps]:
  "well_typed (fst (banIp a))"
  "well_typed (fst (setConfig c))"
  "well_typed (fst (setPolicy b f r)) = (is_integer b \<and> is_integer f \<and> is_integer r)"
  unfolding well_typed_def formed_simps
  by (auto simp add: typed_defs banIp_def setConfig_def setPolicy_def json_content_def split:
      option.splits)

lemma relay_typed [typed_simps]:
  "well_typed (fst (createRelay rc)) = is_integer (rc_port rc)"
  "well_typed (fst (createRelayExclusion a))"
  unfolding well_typed_def formed_simps
  by (auto simp add: typed_defs createRelay_def json_relay_create_def createRelayExclusion_def
      split: option.splits)

lemma dkim_typed [typed_simps]:
  "well_typed (fst (generateDkim dg)) = (dg_key_size dg \<in> {Num 1024, Num 2048, Num 4096})"
  unfolding well_typed_def formed_simps
  by (cases "dg_key_size dg") (auto simp add: typed_defs as_integer_def generateDkim_def
      json_dkim_generate_def split: option.splits)

section \<open>What the backend admits\<close>

text \<open>
  The requests whose body the model of the backend admits, lengths of texts apart: the
  conditions on the arguments are exactly the minimum lengths, the patterns and the bounds
  of the models.
\<close>

lemmas accept_defs = acceptable_def model_defs body_sent_def json_or_null_def upto_opt_def

lemma mailbox_acceptable [accept_simps]:
  "acceptable em (fst (mailboxes_create e p q)) =
     (em e \<and> 8 \<le> length p \<and> (case Option.bind q or_null of None \<Rightarrow> True | Some s \<Rightarrow> quota_pattern s))"
  "acceptable em (fst (resetPassword e p)) = (8 \<le> length p)"
  "acceptable em (fst (setQuota e q)) =
     (case Option.bind q or_null of None \<Rightarrow> True | Some s \<Rightarrow> quota_pattern s)"
  "acceptable em (fst (addAlias e a)) = em a"
  "acceptable em (fst (mailbox_setSieveScript e c))"
  unfolding acceptable_def formed_simps
  by (auto simp add: accept_defs mailboxes_create_def resetPassword_def setQuota_def
      addAlias_def mailbox_setSieveScript_def json_content_def split: option.splits)

lemma user_acceptable [accept_simps]:
  "acceptable em (fst (changeOwnPassword p q)) = (p \<noteq> [] \<and> 8 \<le> length q)"
  "acceptable em (fst (users_create n d p)) = (n \<noteq> [] \<and> 8 \<le> length p)"
  "acceptable em (fst (changePassword i p)) = (8 \<le> length p)"
  "acceptable em (fst (setActive i b))"
  "acceptable em (fst (pats_create n x)) =
     (n \<noteq> [] \<and> (case x of None \<Rightarrow> True | Some v \<Rightarrow> int_between 1 3650 v))"
  unfolding acceptable_def formed_simps
  by (auto simp add: accept_defs Suc_le_eq int_between_def changeOwnPassword_def
      users_create_def changePassword_def setActive_def pats_create_def split: option.splits)

lemma group_acceptable [accept_simps]:
  "acceptable em (fst (groups_create n d r)) = (n \<noteq> [])"
  "acceptable em (fst (groups_update i n d r)) = (n \<noteq> [])"
  "acceptable em (fst (addMembers i ks))"
  using role_name_enum[of r] unfolding acceptable_def formed_simps
  by (auto simp add: accept_defs Suc_le_eq groups_create_def groups_update_def addMembers_def
      list_all_map)

lemma fail2ban_acceptable [accept_simps]:
  "acceptable em (fst (banIp a)) = (a \<noteq> [])"
  "acceptable em (fst (setConfig c))"
  "acceptable em (fst (setPolicy b f r)) =
     (int_between 60 31536000 b \<and> int_between 60 31536000 f \<and> int_between 1 100 r)"
  unfolding acceptable_def formed_simps
  by (auto simp add: accept_defs Suc_le_eq int_between_def banIp_def setConfig_def setPolicy_def
      json_content_def split: option.splits)

lemma relay_acceptable [accept_simps]:
  "acceptable em (fst (createRelay rc)) =
     (rc_sender rc \<noteq> [] \<and> rc_host rc \<noteq> [] \<and> int_between 1 65535 (rc_port rc))"
  "acceptable em (fst (createRelayExclusion a)) = (a \<noteq> [])"
  unfolding acceptable_def formed_simps
  by (auto simp add: accept_defs Suc_le_eq int_between_def createRelay_def json_relay_create_def
      createRelayExclusion_def split: option.splits)

lemma dkim_acceptable [accept_simps]:
  "acceptable em (fst (generateDkim dg)) =
     (dg_selector dg \<noteq> [] \<and> dg_key_size dg \<in> {Num 1024, Num 2048, Num 4096})"
  unfolding acceptable_def formed_simps
  by (cases "dg_key_size dg") (auto simp add: accept_defs as_integer_def Suc_le_eq
      generateDkim_def json_dkim_generate_def split: option.splits)

lemma postfix_acceptable [accept_simps]:
  "acceptable em (fst (setPostfixOverrides ovs)) =
     (\<forall>ov \<in> set ovs. po_key ov \<noteq> [])"
  "acceptable em (fst (setPostfixMasterOverrides ovs)) =
     (\<forall>ov \<in> set ovs. po_key ov \<noteq> [])"
  "acceptable em (fst (setDovecotConfig c))"
  unfolding acceptable_def formed_simps
  by (simp_all add: accept_defs Suc_le_eq setPostfixOverrides_def setPostfixMasterOverrides_def
      setDovecotConfig_def json_content_def json_override_def list_all_map list_all_iff)

lemma rest_acceptable [accept_simps]:
  "acceptable em (fst (createSystemAlias n ts)) = (n \<noteq> [] \<and> ts \<noteq> [])"
  "acceptable em (fst (createRegexAlias p ts)) = (p \<noteq> [] \<and> ts \<noteq> [])"
  "acceptable em (fst (addRestriction k a)) = (a \<noteq> [])"
  "acceptable em (fst (createDovecotMaster n p)) = (n \<noteq> [] \<and> p \<noteq> [])"
  "acceptable em (fst (setSieveScript ss c))"
  "acceptable em (fst (setSpamConfig sp c))"
  "acceptable em (fst (setLdapConfig ls c))"
  "acceptable em (fst (setRspamdOverrides cs))"
  "acceptable em (fst (setRspamdOverrideFile n c))"
  using kind_name unfolding acceptable_def formed_simps
  by (auto simp add: accept_defs Suc_le_eq createSystemAlias_def createRegexAlias_def
      addRestriction_def createDovecotMaster_def setSieveScript_def setSpamConfig_def
      setLdapConfig_def setRspamdOverrides_def setRspamdOverrideFile_def json_content_def
      json_rspamd_command_def list_all_map)

lemma postfix_typed [typed_simps]:
  "well_typed (fst (setPostfixOverrides ovs))"
  "well_typed (fst (setPostfixMasterOverrides ovs))"
  "well_typed (fst (setDovecotConfig c))"
  unfolding well_typed_def formed_simps
  by (simp_all add: typed_defs setPostfixOverrides_def setPostfixMasterOverrides_def
      setDovecotConfig_def json_content_def json_override_def list_all_map)

lemma rest_typed [typed_simps]:
  "well_typed (fst (createSystemAlias n ts))"
  "well_typed (fst (createRegexAlias p ts))"
  "well_typed (fst (addRestriction k a))"
  "well_typed (fst (createDovecotMaster n p))"
  "well_typed (fst (setSieveScript ss c))"
  "well_typed (fst (setSpamConfig sp c))"
  "well_typed (fst (setLdapConfig ls c))"
  "well_typed (fst (setRspamdOverrides cs))"
  "well_typed (fst (setRspamdOverrideFile n c))"
  using kind_name unfolding well_typed_def formed_simps
  by (simp_all add: typed_defs createSystemAlias_def createRegexAlias_def addRestriction_def
      createDovecotMaster_def setSieveScript_def setSpamConfig_def setLdapConfig_def
      setRspamdOverrides_def setRspamdOverrideFile_def json_content_def json_rspamd_command_def
      list_all_map)

end
