(* ===== verification/Page_Requests.thy ===== *)
theory Page_Requests
  imports Request_Bodies App_Shell Relay_Page Mailboxes_Page Users_Page Aliases_Page Postfix_Page
    Rspamd_Page Scoped_Editors Mailserver_Lists Mailserver_Views Logs_Page Fail2ban_Page
    Dashboard_Page About_Page Settings_Pages Profile_Page Login_Page Audit_Page Pending_Actions
begin

text \<open>
  What the pages ask of the backend, all together: every request that a page of the route
  table can have in flight, after any events and any answers, against the access that the
  backend asks for and the model it reads the body with.
\<close>

section \<open>The other services\<close>

lemma auth_targets [route_simps]:
  "target (fst auth_config_endpoint) = Some (handler_of GET [Lit ''config''] Anyone ''auth_config'')"
  "target (fst (auth_login_endpoint n p)) =
     Some (reading POST [Lit ''login''] LoginRequest_model Anyone ''login'')"
  "target (fst auth_me_endpoint) = Some (handler_of GET [Lit ''me''] Signed_in ''me'')"
  "target (fst auth_logout_endpoint) = Some (handler_of POST [Lit ''logout''] Signed_in ''logout'')"
  by (simp_all add: table_defs auth_router_def handler_of_def reading_def
      auth_config_endpoint_def auth_login_endpoint_def auth_me_endpoint_def auth_logout_endpoint_def)

lemma settings_targets [route_simps]:
  "target (fst getMail) = Some (handler_of GET [Lit ''mail''] (Granted Admin) ''get_mail'')"
  "target (fst (updateMail mp)) =
     Some (reading PUT [Lit ''mail''] MailSettingsUpdate_model (Granted Admin) ''update_mail'')"
  "target (fst (testMail to)) =
     Some (reading POST [Lit ''mail'', Lit ''test''] MailTestRequest_model (Granted Admin) ''test_mail'')"
  "target (fst getOidc) = Some (handler_of GET [Lit ''oidc''] (Granted Admin) ''get_oidc'')"
  "target (fst (updateOidc op)) =
     Some (reading PUT [Lit ''oidc''] OidcSettingsUpdate_model (Granted Admin) ''update_oidc'')"
  by (simp_all add: table_defs settings_router_def handler_of_def reading_def
      getMail_def updateMail_def testMail_def getOidc_def updateOidc_def)

lemma audit_targets [route_simps]:
  "target (fst (audit_list aq)) =
     Some ((handler_of GET [] (Granted Admin) ''list_audit_entries'')
       \<lparr>br_query := [Free ''actor'', Free ''action'', Free ''category'', Free ''status'',
                     Whole ''limit'', Whole ''offset'']\<rparr>)"
  by (simp add: table_defs audit_router_def handler_of_def audit_list_def)

lemma pending_targets [route_simps]:
  "target (fst pending_list_endpoint) = Some (handler_of GET [] (Granted Admin) ''list_pending_actions'')"
  "target (fst (pending_dismiss_endpoint k)) =
     Some (handler_of DELETE [Text] (Granted Admin) ''clear_pending_action'')"
  "target (fst pending_dismiss_all_endpoint) =
     Some (handler_of DELETE [] (Granted Admin) ''clear_all_pending_actions'')"
  "target (fst pending_restart_endpoint) =
     Some (handler_of POST [Lit ''restart''] (Granted Admin) ''restart_mailserver'')"
  by (simp_all add: table_defs pending_actions_router_def mailserver_router_def handler_of_def split_parts
      pending_list_endpoint_def pending_dismiss_endpoint_def pending_dismiss_all_endpoint_def
      pending_restart_endpoint_def)

lemma health_targets [route_simps]:
  "target (fst health_endpoint) = Some (handler_of GET [] Anyone ''health'')"
  by (simp add: table_defs health_router_def handler_of_def health_endpoint_def)

lemma auth_plain [plain_simps]:
  "well_formed check (fst auth_config_endpoint)"
  "well_formed check (fst auth_me_endpoint)"
  "well_formed check (fst auth_logout_endpoint)"
  unfolding auth_targets(1, 3, 4)[THEN well_formed_at]
  by (simp_all add: formed_defs auth_config_endpoint_def auth_login_endpoint_def auth_me_endpoint_def
      auth_logout_endpoint_def)

lemma auth_formed [formed_simps]:
  "well_formed check (fst (auth_login_endpoint n p)) = check LoginRequest_model (body_sent (auth_login_endpoint n p))"
  unfolding auth_targets(2)[THEN well_formed_at]
  by (simp add: formed_defs auth_config_endpoint_def auth_login_endpoint_def auth_me_endpoint_def
      auth_logout_endpoint_def)

lemma settings_plain [plain_simps]:
  "well_formed check (fst getMail)"
  "well_formed check (fst getOidc)"
  unfolding settings_targets(1, 4)[THEN well_formed_at]
  by (simp_all add: formed_defs getMail_def updateMail_def testMail_def getOidc_def updateOidc_def)

lemma settings_formed [formed_simps]:
  "well_formed check (fst (updateMail mp)) = check MailSettingsUpdate_model (body_sent (updateMail mp))"
  "well_formed check (fst (testMail to)) = check MailTestRequest_model (body_sent (testMail to))"
  "well_formed check (fst (updateOidc op)) = check OidcSettingsUpdate_model (body_sent (updateOidc op))"
  unfolding settings_targets(2, 3, 5)[THEN well_formed_at]
  by (simp_all add: formed_defs getMail_def updateMail_def testMail_def getOidc_def updateOidc_def)

lemma audit_plain [plain_simps]: "well_formed check (fst (audit_list aq))"
  unfolding audit_targets[THEN well_formed_at]
  by (auto simp: formed_defs audit_list_def query_entries_def list_all_iff map_of_filter_in split: option.splits)

lemma pending_plain [plain_simps]:
  "well_formed check (fst pending_list_endpoint)"
  "well_formed check (fst (pending_dismiss_endpoint k))"
  "well_formed check (fst pending_dismiss_all_endpoint)"
  "well_formed check (fst pending_restart_endpoint)"
  unfolding pending_targets[THEN well_formed_at]
  by (simp_all add: formed_defs pending_list_endpoint_def pending_dismiss_endpoint_def
      pending_dismiss_all_endpoint_def pending_restart_endpoint_def)

lemma health_plain [plain_simps]: "well_formed check (fst health_endpoint)"
  unfolding health_targets[THEN well_formed_at]
  by (simp add: formed_defs health_endpoint_def)

lemma form_typed [typed_simps]:
  "well_typed (fst (auth_login_endpoint n p))"
  "well_typed (fst (testMail to))"
  unfolding well_typed_def formed_simps
  by (simp_all add: typed_defs auth_login_endpoint_def testMail_def)

lemma mail_typed [typed_simps]: "well_typed (fst (updateMail mp)) = is_integer (mp_port mp)"
  unfolding well_typed_def formed_simps
  by (cases "mp_password mp") (auto simp: typed_defs updateMail_def json_mail_def split: option.splits)

lemma oidc_typed [typed_simps]: "well_typed (fst (updateOidc op))"
  unfolding well_typed_def formed_simps
  by (cases "op_client_secret op") (simp_all add: typed_defs updateOidc_def json_oidc_def)

section \<open>The requests of a page\<close>

definition in_page :: "('e \<Rightarrow> 's cmd) \<Rightarrow> 's cmd \<Rightarrow> 's \<Rightarrow> request \<Rightarrow> bool" where
  "in_page handle boot s0 q = (\<exists>s ps. reachable handle boot s0 s ps \<and> q \<in> in_flight ps)"

text \<open>Every page of the route table, opened by \<open>user\<close>, with the events the user can cause.\<close>

fun page_sends :: "session_user option \<Rightarrow> component \<Rightarrow> request \<Rightarrow> bool" where
  "page_sends user C_login q = (\<exists>reason. in_page login_handle (login_boot reason) login_start q)"
| "page_sends user C_dashboard q = in_page dashboard_refresh loadAll (dashboard_start user) q"
| "page_sends user C_about q = in_page checkForUpdate loadVersion about_start q"
| "page_sends user C_profile q = (\<exists>config. in_page profile_handle profile_boot (profile_start user config) q)"
| "page_sends user C_mailboxes q = in_page mailboxes_handle mailboxes_boot (mailboxes_start user) q"
| "page_sends user C_relay q = in_page relay_handle load_relay relay_start q"
| "page_sends user C_postfix q = in_page postfix_handle load_postfix postfix_start q"
| "page_sends user C_dovecot q = in_page dovecot_handle load_dovecot dovecot_start q"
| "page_sends user C_aliases q = in_page aliases_handle load_aliases aliases_start q"
| "page_sends user C_sieve q = in_page sieve_handle load_sieve sieve_start q"
| "page_sends user C_spam q = in_page spam_handle load_spam spam_start q"
| "page_sends user C_rspamd q = (\<exists>lc. in_page (rspamd_handle lc) load_rspamd rspamd_start q)"
| "page_sends user C_ldap q = in_page ldap_handle load_ldap ldap_start q"
| "page_sends user C_dkim q = in_page dkim_handle load_dkim dkim_start q"
| "page_sends user C_dns q = in_page dns_handle load_dns dns_start q"
| "page_sends user C_restrictions q = in_page restrictions_handle load_restrictions restrictions_start q"
| "page_sends user C_queue q = in_page queue_handle load_queue queue_start q"
| "page_sends user C_tls q = in_page tls_refresh load_tls tls_start q"
| "page_sends user C_environment q = in_page environment_handle load_environment environment_start q"
| "page_sends user C_logs q = in_page logs_handle load_logs logs_start q"
| "page_sends user C_fail2ban q = in_page fail2ban_handle loadStatus (fail2ban_start user) q"
| "page_sends user C_users q = in_page users_handle users_boot (users_start user) q"
| "page_sends user C_audit q = in_page audit_handle audit_load audit_start q"
| "page_sends user C_oidc q = in_page oidc_handle load_oidc oidc_start q"
| "page_sends user C_mail q = in_page mail_handle load_mail mail_start q"

lemma page_requests:
  assumes "in_page handle boot s0 q" and "sends P boot" and "\<And>e. sends P (handle e)"
  shows "P q"
  using assms(1) guarded_page.sent[OF guarded_page.intro, of P boot handle] assms(2,3)
  by (auto simp: in_page_def)

section \<open>Access\<close>

lemma authorised_at: "target q = Some r \<Longrightarrow> authorised user q = grants user (br_access r)"
  by (cases q) (simp_all add: authorised_def target_def)

lemma authorised_other [simp]:
  "authorised user (Navigate p)" "authorised user (WriteClipboard t)" "authorised user (ExternalGet u)"
  "authorised user (Leave u)"
  by (simp_all add: authorised_def)

text \<open>Who may open a page, by its guards.\<close>

definition administrator :: "session_user option \<Rightarrow> bool" where
  "administrator user = (guard_verdict Admin_guard user = Allowed)"

definition manager :: "session_user option \<Rightarrow> bool" where
  "manager user = (guard_verdict Manager_guard user = Allowed)"

definition signed_in :: "session_user option \<Rightarrow> bool" where
  "signed_in user = (guard_verdict Auth_guard user = Allowed)"

definition anybody :: "session_user option \<Rightarrow> bool" where
  "anybody user = True"

definition covers :: "(session_user option \<Rightarrow> bool) \<Rightarrow> access \<Rightarrow> bool" where
  "covers allowed acc = (\<forall>user. allowed user \<longrightarrow> grants user acc)"

lemma covers_simps [simp]:
  "covers allowed Anyone"
  "covers signed_in Signed_in" "covers signed_in Interactive"
  "covers manager Signed_in" "covers manager (Granted Mailbox_manager)"
  "covers administrator Signed_in" "covers administrator (Granted Mailbox_manager)"
  "covers administrator (Granted Admin)"
  by (auto simp: covers_def grants.simps(1-3) grants_role granted_role administrator_def manager_def signed_in_def
      role_verdict_def split: option.splits if_splits)

section \<open>Good requests\<close>

text \<open>
  A request of a page is good when its route is declared and open to everyone who may open
  the page, and it is well typed, unless a number of a form is not what the model wants:
  the port of the mail connector, the lifetime of a token, the size of a key.
\<close>

definition number_refused :: "request \<Rightarrow> bool" where
  "number_refused q =
     ((\<exists>mp. q = fst (updateMail mp) \<and> \<not> is_integer (mp_port mp)) \<or>
      (\<exists>n v. q = fst (pats_create n (Some v)) \<and> \<not> is_integer v) \<or>
      (\<exists>dg. q = fst (generateDkim dg) \<and> dg_key_size dg \<notin> {Num 1024, Num 2048, Num 4096}))"

definition type_checked :: "request \<Rightarrow> bool" where
  "type_checked q = (well_typed q \<or> number_refused q)"

definition good_request :: "(session_user option \<Rightarrow> bool) \<Rightarrow> request \<Rightarrow> bool" where
  "good_request allowed q = ((\<forall>user. allowed user \<longrightarrow> authorised user q) \<and> type_checked q)"

lemma checked_numbers [simp]:
  "type_checked (fst (updateMail mp))"
  "type_checked (fst (pats_create n x))"
  "type_checked (fst (generateDkim dg))"
  by (auto simp: type_checked_def typed_simps number_refused_def split: option.splits)

lemma typed_checked [simp]: "well_typed q \<Longrightarrow> type_checked q"
  by (simp add: type_checked_def)

lemma typed_other [simp]:
  "well_typed (Navigate p)" "well_typed (WriteClipboard t)" "well_typed (ExternalGet u)"
  "well_typed (Leave u)"
  by (simp_all add: well_typed_def well_formed_def)

lemma good_at:
  "target q = Some r \<Longrightarrow>
    good_request allowed q = (covers allowed (br_access r) \<and> type_checked q)"
  by (simp add: good_request_def covers_def authorised_at)

lemma good_other [simp]:
  "good_request allowed (Navigate p)" "good_request allowed (WriteClipboard t)"
  "good_request allowed (ExternalGet u)" "good_request allowed (Leave u)"
  by (simp_all add: good_request_def)

lemma good_release [simp]: "good_request allowed (fst latest_release_endpoint)"
  by (simp add: latest_release_endpoint_def)

lemmas good_simps =
  mailbox_targets[THEN good_at]
  user_targets[THEN good_at]
  group_targets[THEN good_at]
  fail2ban_targets[THEN good_at]
  relay_targets[THEN good_at]
  postfix_targets[THEN good_at]
  alias_targets[THEN good_at]
  dkim_targets[THEN good_at]
  list_targets[THEN good_at]
  file_targets[THEN good_at]
  view_targets[THEN good_at]
  auth_targets[THEN good_at]
  settings_targets[THEN good_at]
  audit_targets[THEN good_at]
  pending_targets[THEN good_at]
  health_targets[THEN good_at]
  handler_of_def reading_def plain_simps[where check = has_type, folded well_typed_def] typed_simps

lemma good_logout [simp]:
  "good_request allowed (Api POST ''/api/auth/logout'' [] (Some (JObj []))) = covers allowed Signed_in"
  using auth_targets(4)[THEN good_at, of allowed] auth_plain(3)[of has_type]
  by (simp add: auth_logout_endpoint_def handler_of_def well_typed_def)

lemmas page_simps = page_defs send_intros good_simps

text \<open>
  The interface between a page and its route: whatever the page asks for is good for those
  who may open it.
\<close>

locale good_page =
  fixes allowed :: "session_user option \<Rightarrow> bool" and handle :: "'e \<Rightarrow> 's cmd" and boot :: "'s cmd"
  assumes boot_asks: "sends (good_request allowed) boot"
    and handle_asks: "sends (good_request allowed) (handle e)"
begin

lemma asks: "in_page handle boot s0 q \<Longrightarrow> good_request allowed q"
  by (rule page_requests[OF _ boot_asks handle_asks])

end

interpretation relay_good: good_page administrator relay_handle load_relay
proof
  show "sends (good_request administrator) load_relay"
    by (simp add: page_simps relay_defs)
  show "sends (good_request administrator) (relay_handle e)" for e
    by (cases e) (simp_all add: page_simps relay_defs)
qed

interpretation postfix_good: good_page administrator postfix_handle load_postfix
proof
  show "sends (good_request administrator) load_postfix"
    by (simp add: page_simps postfix_defs)
  show "sends (good_request administrator) (postfix_handle e)" for e
    by (cases e) (simp_all add: page_simps postfix_defs)
qed

interpretation dovecot_good: good_page administrator dovecot_handle load_dovecot
proof
  show "sends (good_request administrator) load_dovecot"
    by (simp add: page_simps dovecot_defs)
  show "sends (good_request administrator) (dovecot_handle e)" for e
    by (cases e) (simp_all add: page_simps dovecot_defs)
qed

interpretation aliases_good: good_page administrator aliases_handle load_aliases
proof
  show "sends (good_request administrator) load_aliases"
    by (simp add: page_simps aliases_defs)
  show "sends (good_request administrator) (aliases_handle e)" for e
    by (cases e) (simp_all add: page_simps aliases_defs)
qed

interpretation sieve_good: good_page administrator sieve_handle load_sieve
proof
  show "sends (good_request administrator) load_sieve"
    by (simp add: page_simps sieve_defs)
  show "sends (good_request administrator) (sieve_handle e)" for e
    by (cases e) (simp_all add: page_simps sieve_defs)
qed

interpretation spam_good: good_page administrator spam_handle load_spam
proof
  show "sends (good_request administrator) load_spam"
    by (simp add: page_simps spam_defs)
  show "sends (good_request administrator) (spam_handle e)" for e
    by (cases e) (simp_all add: page_simps spam_defs)
qed

interpretation rspamd_good: good_page administrator "rspamd_handle lc" load_rspamd for lc
proof
  show "sends (good_request administrator) load_rspamd"
    by (simp add: page_simps rspamd_defs)
  show "sends (good_request administrator) (rspamd_handle lc e)" for e
    by (cases e) (simp_all add: page_simps rspamd_defs)
qed

interpretation ldap_good: good_page administrator ldap_handle load_ldap
proof
  show "sends (good_request administrator) load_ldap"
    by (simp add: page_simps ldap_defs)
  show "sends (good_request administrator) (ldap_handle e)" for e
    by (cases e) (simp_all add: page_simps ldap_defs)
qed

interpretation dkim_good: good_page administrator dkim_handle load_dkim
proof
  show "sends (good_request administrator) load_dkim"
    by (simp add: page_simps dkim_defs)
  show "sends (good_request administrator) (dkim_handle e)" for e
    by (cases e) (simp_all add: page_simps dkim_defs)
qed

interpretation dns_good: good_page administrator dns_handle load_dns
proof
  show "sends (good_request administrator) load_dns"
    by (simp add: page_simps dns_handle_def load_dns_def copyText_def)
  show "sends (good_request administrator) (dns_handle e)" for e
    by (simp add: page_simps dns_handle_def load_dns_def copyText_def)
qed

interpretation restrictions_good: good_page administrator restrictions_handle load_restrictions
proof
  show "sends (good_request administrator) load_restrictions"
    by (simp add: page_simps restrictions_defs)
  show "sends (good_request administrator) (restrictions_handle e)" for e
    by (cases e) (simp_all add: page_simps restrictions_defs)
qed

interpretation queue_good: good_page administrator queue_handle load_queue
proof
  show "sends (good_request administrator) load_queue"
    by (simp add: page_simps queue_defs)
  show "sends (good_request administrator) (queue_handle e)" for e
    by (cases e) (simp_all add: page_simps queue_defs)
qed

interpretation tls_good: good_page administrator tls_refresh load_tls
proof
  show "sends (good_request administrator) load_tls"
    by (simp add: page_simps tls_refresh_def load_tls_def)
  show "sends (good_request administrator) (tls_refresh e)" for e
    by (simp add: page_simps tls_refresh_def load_tls_def)
qed

interpretation environment_good: good_page administrator environment_handle load_environment
proof
  show "sends (good_request administrator) load_environment"
    by (simp add: page_simps environment_handle_def load_environment_def)
  show "sends (good_request administrator) (environment_handle e)" for e
    by (simp add: page_simps environment_handle_def load_environment_def)
qed

interpretation logs_good: good_page administrator logs_handle load_logs
proof
  show "sends (good_request administrator) load_logs"
    by (simp add: page_simps load_logs_def)
  show "sends (good_request administrator) (logs_handle e)" for e
    by (cases e) (simp_all add: page_simps load_logs_def)
qed

interpretation fail2ban_good: good_page administrator fail2ban_handle loadStatus
proof
  show "sends (good_request administrator) loadStatus"
    by (simp add: page_simps fail2ban_defs auth_logout_def)
  show "sends (good_request administrator) (fail2ban_handle e)" for e
    by (cases e) (simp_all add: page_simps fail2ban_defs auth_logout_def)
qed

interpretation users_good: good_page administrator users_handle users_boot
proof
  show "sends (good_request administrator) users_boot"
    by (simp add: page_simps users_defs auth_defs)
  show "sends (good_request administrator) (users_handle e)" for e
    by (cases e) (simp_all add: page_simps users_defs auth_defs)
qed

interpretation oidc_good: good_page administrator oidc_handle load_oidc
proof
  show "sends (good_request administrator) load_oidc"
    by (simp add: page_simps oidc_defs)
  show "sends (good_request administrator) (oidc_handle e)" for e
    by (cases e) (simp_all add: page_simps oidc_defs)
qed

interpretation mail_good: good_page administrator mail_handle load_mail
proof
  show "sends (good_request administrator) load_mail"
    by (simp add: page_simps mail_defs)
  show "sends (good_request administrator) (mail_handle e)" for e
    by (cases e) (simp_all add: page_simps mail_defs)
qed

interpretation audit_good: good_page administrator audit_handle audit_load
proof
  show "sends (good_request administrator) audit_load"
    by (simp add: page_simps audit_defs)
  show "sends (good_request administrator) (audit_handle e)" for e
    by (cases e) (simp_all add: page_simps audit_defs)
qed

interpretation mailboxes_good: good_page manager mailboxes_handle mailboxes_boot
proof
  show "sends (good_request manager) mailboxes_boot"
    by (simp add: page_simps mailboxes_defs auth_defs)
  show "sends (good_request manager) (mailboxes_handle e)" for e
    by (cases e) (simp_all add: page_simps mailboxes_defs auth_defs)
qed

interpretation profile_good: good_page signed_in profile_handle profile_boot
proof
  show "sends (good_request signed_in) profile_boot"
    by (simp add: page_simps profile_defs auth_defs)
  show "sends (good_request signed_in) (profile_handle e)" for e
    by (cases e) (simp_all add: page_simps profile_defs auth_defs)
qed

interpretation about_good: good_page anybody checkForUpdate loadVersion
proof
  show "sends (good_request anybody) loadVersion"
    by (simp add: page_simps checkForUpdate_def loadVersion_def)
  show "sends (good_request anybody) (checkForUpdate e)" for e
    by (simp add: page_simps checkForUpdate_def loadVersion_def)
qed

interpretation login_good: good_page anybody login_handle "login_boot reason" for reason
proof
  have asks: "sends login_request c \<Longrightarrow> sends (good_request anybody) c" for c :: "login_page cmd"
    by (erule sends_mono) (auto elim!: login_request.cases simp: good_simps)
  show "sends (good_request anybody) (login_boot reason)" "sends (good_request anybody) (login_handle e)" for e
    by (rule asks, rule login_guarded.boot_sends) (rule asks, rule login_guarded.handle_sends)
qed

lemma dashboard_asks:
  assumes "in_page dashboard_refresh loadAll (dashboard_start user) q"
  shows "authorised user q \<and> well_typed q"
proof -
  from assms have "permitted user q" by (auto simp: in_page_def dest: dashboard_guarded.sent)
  then show ?thesis
    by (auto simp: permitted_def manager_endpoint_def admin_endpoint_def good_simps grants_role
        route_simps[THEN authorised_at])
qed

text \<open>Who the guards on the way to a page let through.\<close>

fun opens :: "component \<Rightarrow> session_user option \<Rightarrow> bool" where
  "opens C_login = anybody"
| "opens C_dashboard = signed_in"
| "opens C_about = signed_in"
| "opens C_profile = signed_in"
| "opens C_mailboxes = manager"
| "opens _ = administrator"

lemma guards_open:
  "(path, guards, c) \<in> set all_pages \<Longrightarrow> \<forall>g \<in> set guards. guard_verdict g user = Allowed \<Longrightarrow> opens c user"
  by (auto simp: route_defs anybody_def signed_in_def manager_def administrator_def)

lemmas pages_ask =
  relay_good.asks
  postfix_good.asks
  dovecot_good.asks
  aliases_good.asks
  sieve_good.asks
  spam_good.asks
  rspamd_good.asks
  ldap_good.asks
  dkim_good.asks
  dns_good.asks
  restrictions_good.asks
  queue_good.asks
  tls_good.asks
  environment_good.asks
  logs_good.asks
  fail2ban_good.asks
  users_good.asks
  oidc_good.asks
  mail_good.asks
  audit_good.asks
  mailboxes_good.asks
  profile_good.asks
  about_good.asks
  login_good.asks

lemma page_asks:
  assumes "page_sends user c q"
  shows "c = C_dashboard \<and> authorised user q \<and> well_typed q \<or>
    good_request (if c = C_about then anybody else opens c) q"
  using assms by (cases c) (auto dest: pages_ask dashboard_asks)

lemma in_page_run: "q \<in> in_flight (snd (run_page handle boot s0 steps)) \<Longrightarrow> in_page handle boot s0 q"
  unfolding in_page_def using run_reach[of handle boot s0 steps] by blast

text \<open>A page that is open: the first request of the relay page, for an administrator.\<close>

definition root_user :: session_user where
  "root_user = \<lparr>su_username = ''root'', su_display_name = ''Root'', su_role = Admin, su_provider = Local\<rparr>"

lemma relay_page_open:
  "([''mailserver'', ''relay''], [Admin_guard], C_relay) \<in> set all_pages"
  "\<forall>g \<in> set [Admin_guard]. guard_verdict g (Some root_user) = Allowed"
  by (simp add: route_defs) (simp add: role_verdict_def root_user_def)

lemma relay_page_sends: "page_sends user C_relay (Api GET ''/api/mailserver/relays'' [] None)"
proof -
  have "Api GET ''/api/mailserver/relays'' [] None \<in> in_flight (snd (run_page relay_handle load_relay relay_start []))"
    by (simp add: run_defs relay_defs listRelays_def)
  then show ?thesis unfolding page_sends.simps by (rule in_page_run)
qed

section \<open>Properties\<close>

text \<open>
  C3. What the guards let through, the backend grants. A user who may open a page of the route
  table, by all the guards on the way to it, is authorised for every request that the page
  can have in flight, in whatever order the events of the user and the answers of the
  backend come: each of them is written for a declared route, and the access that the
  route asks for is granted to that user.
\<close>

theorem page_requests_authorised:
  assumes "(path, guards, c) \<in> set all_pages"
    and "\<forall>g \<in> set guards. guard_verdict g user = Allowed"
    and "page_sends user c q"
  shows "authorised user q"
  using guards_open[OF assms(1,2)] page_asks[OF assms(3)]
  by (auto simp: good_request_def anybody_def split: if_splits)

theorem page_requests_authorised_witness:
  "authorised (Some root_user) (Api GET ''/api/mailserver/relays'' [] None)"
  by (rule page_requests_authorised[OF relay_page_open relay_page_sends])



section \<open>What the checks of the forms are worth\<close>

text \<open>
  The pages whose own checks leave nothing for the models of the backend to refuse, apart
  from the length of a text and the syntax of an e-mail address.
\<close>

definition checks_all :: "component \<Rightarrow> bool" where
  "checks_all c =
     (c \<in> {C_dashboard, C_about, C_mailboxes, C_postfix, C_sieve, C_spam, C_rspamd, C_ldap, C_dns,
           C_restrictions, C_queue, C_tls, C_environment, C_logs, C_audit, C_oidc})"

definition admitted :: "request \<Rightarrow> bool" where
  "admitted = acceptable (\<lambda>_. True)"

lemma admitted_other [simp]:
  "admitted (Navigate p)" "admitted (WriteClipboard t)" "admitted (ExternalGet u)"
  "admitted (Leave u)"
  "admitted (fst latest_release_endpoint)"
  by (simp_all add: admitted_def acceptable_def well_formed_def latest_release_endpoint_def)

lemma oidc_acceptable [accept_simps]: "acceptable em (fst (updateOidc op))"
  unfolding acceptable_def formed_simps
  by (cases "op_client_secret op") (simp_all add: accept_defs updateOidc_def json_oidc_def)

lemmas admit_plain =
  plain_simps[where check = "\<lambda>t. admits (\<lambda>_. True) (unbounded t)", folded acceptable_def admitted_def]

lemmas admit_simps = admit_plain accept_simps[where em = "\<lambda>_. True", folded admitted_def]

lemma restriction_admitted: "CHR ''@'' \<in> set a \<Longrightarrow> admitted (fst (addRestriction k a))"
  by (auto simp: admit_simps)

lemma mailboxes_admitted:
  assumes "in_page mailboxes_handle mailboxes_boot (mailboxes_start user) q"
  shows "admitted q"
proof -
  have quota: "good_quota v \<Longrightarrow> (case Option.bind v or_null of None \<Rightarrow> True | Some s \<Rightarrow> quota_pattern s)" for v
    by (cases v; cases "the v")
      (auto simp: good_quota_def QUOTA_PATTERN_def quota_pattern_def split: if_splits)
  from assms have "mailboxes_request q" by (auto simp: in_page_def dest: mailboxes_guarded.sent)
  then show ?thesis
    by cases (simp_all add: admit_simps quota MIN_PASSWORD_LENGTH_def)
qed

lemma postfix_admitted:
  assumes "in_page postfix_handle load_postfix postfix_start q"
  shows "admitted q"
proof -
  from assms have "postfix_request q" by (auto simp: in_page_def dest: postfix_guarded.sent)
  then show ?thesis 
    by cases (fastforce simp: admit_simps clean_pairs_def main_key_def master_key_def)+
qed

lemma dashboard_admitted:
  assumes "in_page dashboard_refresh loadAll (dashboard_start user) q"
  shows "admitted q"
proof -
  from assms have "permitted user q" by (auto simp: in_page_def dest: dashboard_guarded.sent)
  then show ?thesis
    by (auto simp: permitted_def manager_endpoint_def admin_endpoint_def admit_simps)
qed

lemma sieve_admitted: "in_page sieve_handle load_sieve s0 q \<Longrightarrow> admitted q"
proof (erule page_requests)
  show "sends admitted load_sieve"
    by (simp add: page_defs send_intros admit_simps sieve_defs)
  show "sends admitted (sieve_handle e)" for e
    by (cases e) (simp_all add: page_defs send_intros admit_simps sieve_defs)
qed

lemma spam_admitted: "in_page spam_handle load_spam s0 q \<Longrightarrow> admitted q"
proof (erule page_requests)
  show "sends admitted load_spam"
    by (simp add: page_defs send_intros admit_simps spam_defs)
  show "sends admitted (spam_handle e)" for e
    by (cases e) (simp_all add: page_defs send_intros admit_simps spam_defs)
qed

lemma rspamd_admitted: "in_page (rspamd_handle lc) load_rspamd s0 q \<Longrightarrow> admitted q"
proof (erule page_requests)
  show "sends admitted load_rspamd"
    by (simp add: page_defs send_intros admit_simps rspamd_defs)
  show "sends admitted (rspamd_handle lc e)" for e
    by (cases e) (simp_all add: page_defs send_intros admit_simps rspamd_defs)
qed

lemma ldap_admitted: "in_page ldap_handle load_ldap s0 q \<Longrightarrow> admitted q"
proof (erule page_requests)
  show "sends admitted load_ldap"
    by (simp add: page_defs send_intros admit_simps ldap_defs)
  show "sends admitted (ldap_handle e)" for e
    by (cases e) (simp_all add: page_defs send_intros admit_simps ldap_defs)
qed

lemma dns_admitted: "in_page dns_handle load_dns s0 q \<Longrightarrow> admitted q"
proof (erule page_requests)
  show "sends admitted load_dns"
    by (simp add: page_defs send_intros admit_simps dns_handle_def load_dns_def copyText_def)
  show "sends admitted (dns_handle e)" for e
    by (simp add: page_defs send_intros admit_simps dns_handle_def load_dns_def copyText_def)
qed

lemma restrictions_admitted: "in_page restrictions_handle load_restrictions s0 q \<Longrightarrow> admitted q"
proof (erule page_requests)
  show "sends admitted load_restrictions"
    by (simp add: page_defs send_intros admit_plain restriction_admitted restrictions_defs)
  show "sends admitted (restrictions_handle e)" for e
    by (cases e) (simp_all add: page_defs send_intros admit_plain restriction_admitted restrictions_defs)
qed

lemma queue_admitted: "in_page queue_handle load_queue s0 q \<Longrightarrow> admitted q"
proof (erule page_requests)
  show "sends admitted load_queue"
    by (simp add: page_defs send_intros admit_simps queue_defs)
  show "sends admitted (queue_handle e)" for e
    by (cases e) (simp_all add: page_defs send_intros admit_simps queue_defs)
qed

lemma tls_admitted: "in_page tls_refresh load_tls s0 q \<Longrightarrow> admitted q"
proof (erule page_requests)
  show "sends admitted load_tls"
    by (simp add: page_defs send_intros admit_simps tls_refresh_def load_tls_def)
  show "sends admitted (tls_refresh e)" for e
    by (simp add: page_defs send_intros admit_simps tls_refresh_def load_tls_def)
qed

lemma environment_admitted: "in_page environment_handle load_environment s0 q \<Longrightarrow> admitted q"
proof (erule page_requests)
  show "sends admitted load_environment"
    by (simp add: page_defs send_intros admit_simps environment_handle_def load_environment_def)
  show "sends admitted (environment_handle e)" for e
    by (simp add: page_defs send_intros admit_simps environment_handle_def load_environment_def)
qed

lemma logs_admitted: "in_page logs_handle load_logs s0 q \<Longrightarrow> admitted q"
proof (erule page_requests)
  show "sends admitted load_logs"
    by (simp add: page_defs send_intros admit_simps load_logs_def)
  show "sends admitted (logs_handle e)" for e
    by (cases e) (simp_all add: page_defs send_intros admit_simps load_logs_def)
qed

lemma oidc_admitted: "in_page oidc_handle load_oidc s0 q \<Longrightarrow> admitted q"
proof (erule page_requests)
  show "sends admitted load_oidc"
    by (simp add: page_defs send_intros admit_simps oidc_defs)
  show "sends admitted (oidc_handle e)" for e
    by (cases e) (simp_all add: page_defs send_intros admit_simps oidc_defs)
qed

lemma audit_admitted: "in_page audit_handle audit_load s0 q \<Longrightarrow> admitted q"
proof (erule page_requests)
  show "sends admitted audit_load"
    by (simp add: page_defs send_intros admit_simps audit_defs)
  show "sends admitted (audit_handle e)" for e
    by (cases e) (simp_all add: page_defs send_intros admit_simps audit_defs)
qed

lemma about_admitted: "in_page checkForUpdate loadVersion s0 q \<Longrightarrow> admitted q"
proof (erule page_requests)
  show "sends admitted loadVersion"
    by (simp add: page_defs send_intros admit_simps checkForUpdate_def loadVersion_def)
  show "sends admitted (checkForUpdate e)" for e
    by (simp add: page_defs send_intros admit_simps checkForUpdate_def loadVersion_def)
qed

lemmas pages_admitted =
  mailboxes_admitted postfix_admitted dashboard_admitted
  about_admitted
  sieve_admitted
  spam_admitted
  rspamd_admitted
  ldap_admitted
  dns_admitted
  restrictions_admitted
  queue_admitted
  tls_admitted
  environment_admitted
  logs_admitted
  audit_admitted
  oidc_admitted



text \<open>
  On the others a request can be refused: a host of blanks, a master account without a
  name, a local alias without a name, a ban of more than a year.
\<close>

lemma refused_requests:
  "\<not> admitted (fst (createRelay \<lparr>rc_sender = ''@x.org'', rc_host = [], rc_port = Num 25, rc_username = None, rc_password = None\<rparr>))"
  "\<not> admitted (fst (createDovecotMaster [] ''secret''))"
  "\<not> admitted (fst (createSystemAlias [] [''root@x.org'']))"
  "\<not> admitted (fst (setPolicy (Num 31536001) (Num 600) (Num 5)))"
proof -
  have "\<not> int_between 60 31536000 (Num 31536001)"
    by (simp add: int_between_checks)
  then show "\<not> admitted (fst (setPolicy (Num 31536001) (Num 600) (Num 5)))" by (simp add: admit_simps)
qed (simp_all add: admit_simps)

section \<open>Signing in after the session has expired\<close>

text \<open>
  C6. The dialog of an expired session closes the session before it goes to the sign-in page,
  and the route that closes a session is itself for signed-in users only. With no valid
  cookie left the request is refused, and then the handler stops: the dialog is gone, the
  user is signed out, and the sign-in page is never asked for.
\<close>

theorem expired_sign_in:
  "outstanding (snd (onSignIn s)) = [fst auth_logout_endpoint] \<and>
   \<not> authorised None (fst auth_logout_endpoint) \<and>
   deliver [] (Inl (HttpError 401 detail)) (snd (onSignIn s)) t =
     (t\<lparr>au_user := None, expired := False, signingIn := False\<rparr>, Fail (HttpError 401 detail))"
proof -
  have "\<not> authorised None (fst auth_logout_endpoint)"
    using auth_targets(4) by (simp add: authorised_def auth_logout_endpoint_def handler_of_def)
  then show ?thesis
    by (auto simp: modal_defs auth_defs run_simps endpoint_defs skip_def throw_def as_void_def
        split: sum.splits list.splits)
qed

end
