(* ===== verification/Session_Requests.thy ===== *)
theory Session_Requests
  imports Page_Requests
begin

text \<open>
  The requests of the pages through the chain of interceptors of \<open>app.config.ts\<close>: which
  answers open the dialog of an expired session.
\<close>

section \<open>The paths that are ignored\<close>

text \<open>
  The prefixes of the interceptor ignore nothing by accident: of the paths the backend
  declares, only the four themselves start with one of them.
\<close>

lemma split_on_prefix:
  "sep \<notin> set w \<Longrightarrow> split_on sep s = h # t \<Longrightarrow> split_on sep (w @ s) = (w @ h) # t"
  by (induction w) auto

lemma auth_segments:
  "split_on (CHR ''/'') rest = h # t \<Longrightarrow> CHR ''/'' \<notin> set w \<Longrightarrow>
    route_of v (split_on (CHR ''/'') (''/api/auth/'' @ w @ rest)) =
      List.find (\<lambda>r. br_verb r = v \<and> fits_all (br_path r) ((w @ h) # t)) auth_router"
  using split_on_prefix[of "CHR ''/''" w rest h t] by (simp add: route_of_def routers_def)

lemma ignored_exact:
  assumes "route_of v (split_on (CHR ''/'') path) = Some r" and "isIgnored path"
  shows "path \<in> set IGNORED_PATHS"
proof -
  obtain w where w: "w \<in> {''login'', ''me'', ''config'', ''logout''}" "starts_with path (''/api/auth/'' @ w)"
    using assms(2) by (auto simp: isIgnored_def IGNORED_PATHS_def)
  then obtain rest where path: "path = ''/api/auth/'' @ w @ rest"
    unfolding starts_with_def by (metis append.assoc append_take_drop_id)
  obtain h t where ht: "split_on (CHR ''/'') rest = h # t"
    by (cases "split_on (CHR ''/'') rest") (simp_all add: split_on_nonempty)
  have "CHR ''/'' \<notin> set w" using w(1) by auto
  from auth_segments[OF ht this, of v] assms(1)
  have "\<exists>r \<in> set auth_router. fits_all (br_path r) ((w @ h) # t)"
    unfolding path by (auto simp: find_Some_iff)
  then have "h = [] \<and> t = []" using w(1)
    by (auto simp: auth_router_def handler_of_def reading_def fits_all.simps Cons_eq_append_conv
        elim: fits_all.elims)
  then have "rest = []" using ht join_split[of "CHR ''/''" rest] by simp
  then show ?thesis using w(1) by (auto simp: path IGNORED_PATHS_def)
qed

section \<open>Properties\<close>

text \<open>
  C7. An expired session is never missed. A request of a page, opened by a user whom the guards
  let through, leaves with the session cookie and is otherwise sent as it is; the caller
  receives the answer unchanged; and the flag of the session is raised by exactly one
  answer, a 401 to a call of the API that is not one of the four endpoints of the sign-in.
\<close>

theorem expiry_noticed:
  assumes "(path, guards, c) \<in> set all_pages"
    and "\<forall>g \<in> set guards. guard_verdict g user = Allowed"
    and "page_sends user c (Api v url query body)"
  shows "case http_client (Api v url query body) of (out, observe) \<Rightarrow>
    og_request out = Api v url query body \<and> og_withCredentials out \<and>
    (\<forall>answer s. observe answer s =
       (if \<exists>detail. answer = Inl (HttpError 401 detail) \<and> url \<notin> set IGNORED_PATHS then notifyExpired s else s,
        answer))"
proof -
  have "authorised user (Api v url query body)"
    using guards_open[OF assms(1,2)] page_asks[OF assms(3)]
    by (auto simp: good_request_def anybody_def split: if_splits)
  then obtain r where "route_of v (split_on (CHR ''/'') url) = Some r"
    by (auto simp: authorised_def target_def split: option.splits)
  then have "isIgnored url \<longleftrightarrow> url \<in> set IGNORED_PATHS"
    using ignored_exact by (auto simp: isIgnored_def IGNORED_PATHS_def starts_with_def)
  then show ?thesis
    by (auto simp: http_client_eq req_url_def expiryCatchError_def split: sum.splits js_error.splits)
qed

theorem expiry_noticed_witness:
  "expired (fst (snd (http_client (Api GET ''/api/mailserver/relays'' [] None)) (Inl (HttpError 401 None)) modal_start))"
  using expiry_noticed[where 'a = "unit modal_state_ext", OF relay_page_open relay_page_sends]
  by (auto simp: IGNORED_PATHS_def notifyExpired_def split: prod.splits)

end
