(* ===== verification/Removals.thy ===== *)
theory Removals
  imports Request_Bodies
begin

text \<open>
  Which handler answers a removal whose path holds a text of the user: the server decodes the
  path before it cuts it into segments, so a slash in the text is a separator again.
\<close>

lemma decode_encode_append: "decode_uri (encodeURIComponent s @ t) = s @ decode_uri t"
  by (induction s) (simp_all add: encodeURIComponent_def decode_encode_char)

lemma split_two:
  assumes "CHR ''/'' \<in> set s"
  obtains u v ws where "split_on (CHR ''/'') s = u # v # ws"
proof -
  obtain a b where s: "s = a @ CHR ''/'' # b" and "CHR ''/'' \<notin> set a"
    using assms by (metis split_list_first)
  then have "split_on (CHR ''/'') s = a # split_on (CHR ''/'') b" by (simp add: split_on_append)
  moreover obtain v ws where "split_on (CHR ''/'') b = v # ws"
    by (metis list.exhaust split_on_nonempty)
  ultimately show ?thesis using that by simp
qed

lemmas answer_defs = answered_by_def route_of_def routers_def Let_def


lemma split_cases:
  "(CHR ''/'' \<notin> set a \<and> split_on (CHR ''/'') a = [a]) \<or>
   (CHR ''/'' \<in> set a \<and> (\<exists>u v ws. split_on (CHR ''/'') a = u # v # ws))"
  by (metis split_on_single split_two)

definition handler :: "request \<Rightarrow> string option" where
  "handler q = map_option br_handler (answered_by q)"

lemmas answer_simps =
  handler_def answered_by_def route_of_def routers_def Let_def decode_encode decode_encode_append
  handler_of_def reading_def

lemma one_text_answered:
  "(handler (fst (deleteRelay a)) = Some ''delete_relay'') = (a \<noteq> [] \<and> CHR ''/'' \<notin> set a)"
  "(handler (fst (deleteRelayExclusion a)) = Some ''delete_relay_exclusion'') = (a \<noteq> [] \<and> CHR ''/'' \<notin> set a)"
  "(handler (fst (deleteDovecotMaster a)) = Some ''delete_dovecot_master'') = (a \<noteq> [] \<and> CHR ''/'' \<notin> set a)"
  using split_cases[of a]
  by (auto simp: answer_simps mailserver_router_def deleteRelay_def deleteRelayExclusion_def deleteDovecotMaster_def)

lemma restriction_answered:
  "(handler (fst (deleteRestriction k a)) = Some ''delete_restriction'') = (a \<noteq> [] \<and> CHR ''/'' \<notin> set a)"
  using split_cases[of a]
  by (cases k) (auto simp: answer_simps mailserver_router_def deleteRestriction_def)

lemma mailbox_answered:
  "(handler (fst (mailboxes_delete e)) = Some ''delete_mailbox'') = (e \<noteq> [] \<and> CHR ''/'' \<notin> set e)"
  using split_cases[of e]
  by (auto simp: answer_simps mailboxes_router_def mailboxes_delete_def mailbox_path_def)

lemma alias_answered:
  "CHR ''/'' \<notin> set e \<Longrightarrow>
    (handler (fst (deleteAlias e a)) = Some ''delete_alias'') = (e \<noteq> [] \<and> a \<noteq> [] \<and> CHR ''/'' \<notin> set a)"
  using split_cases[of a]
  by (auto simp: answer_simps mailboxes_router_def deleteAlias_def mailbox_path_def split_on_append)

lemma pattern_answered: "handler (fst (deleteRegexAlias p)) = Some ''delete_regex_alias''"
  by (simp add: answer_simps mailserver_router_def deleteRegexAlias_def)


text \<open>A slash can even lead to another handler.\<close>

lemma removal_misdirected:
  "handler (fst (mailboxes_delete ''x/aliases/y@z.org'')) = Some ''delete_alias''"
  by (simp add: answer_simps mailboxes_router_def mailboxes_delete_def mailbox_path_def)

end
