(* ===== verification/Races.thy ===== *)
theory Races
  imports Mailboxes_Page Users_Page Audit_Page About_Page App_Shell Request_Bodies
begin

text \<open>
  Interleavings that the pages do not order: executions of the model, step by step, in which
  an answer arrives after what it was asked for has changed. Each is a run of the event
  loop from the start of its page.
\<close>

section \<open>The filter of another mailbox\<close>

definition two_panels :: "mailbox \<Rightarrow> mailbox \<Rightarrow> mailbox_sieve \<Rightarrow> mailbox_sieve \<Rightarrow> (mailboxes_event, payload) step list" where
  "two_panels m n script_m script_n =
     [Event (Toggle_manage m), Event (Toggle_manage n),
      Answer 2 [True] (ok (P_Mailbox (V_Mailbox_sieve script_n))),
      Answer 1 [True] (ok (P_Mailbox (V_Mailbox_sieve script_m))),
      Event Save_sieve]"

text \<open>
  C11. Two panels are opened one after the other, and the filter of the first mailbox arrives
  last: it is on display under the second, and saving writes it to the second mailbox.
\<close>

theorem late_filter_saved:
  assumes "mb_email m \<noteq> mb_email n" and "mb_email n \<noteq> []"
  shows "fst (mailbox_setSieveScript (mb_email n) (ms_content script_m))
    \<in> in_flight (snd (run_page mailboxes_handle mailboxes_boot (mailboxes_start user) (two_panels m n script_m script_n)))"
  using assms by (simp add: two_panels_def mailboxes_run mailbox_getSieveScript_def when_text_def)

theorem late_filter_saved_witness:
  "Api PUT ''/api/mailboxes/b%40y.org/sieve'' [] (Some (json_content ''keep;''))
    \<in> in_flight (snd (run_page mailboxes_handle mailboxes_boot (mailboxes_start None)
      (two_panels \<lparr>mb_email = ''a@x.org'', mb_domain = ''x.org'', mb_quota = None\<rparr>
        \<lparr>mb_email = ''b@y.org'', mb_domain = ''y.org'', mb_quota = None\<rparr>
        \<lparr>ms_email = ''a@x.org'', ms_content = ''keep;'', ms_configured = True, ms_restart_required = True\<rparr>
        \<lparr>ms_email = ''b@y.org'', ms_content = ''discard;'', ms_configured = True, ms_restart_required = True\<rparr>)))"
  using late_filter_saved[of "\<lparr>mb_email = ''a@x.org'', mb_domain = ''x.org'', mb_quota = None\<rparr>"
      "\<lparr>mb_email = ''b@y.org'', mb_domain = ''y.org'', mb_quota = None\<rparr>"
      "\<lparr>ms_email = ''a@x.org'', ms_content = ''keep;'', ms_configured = True, ms_restart_required = True\<rparr>"]
  by (simp add: mailbox_setSieveScript_def mailbox_path_def encodeURIComponent_def encode_char_def unreserved_def
      is_alnum_def is_upper_def is_lower_def is_digit_def percent_def hex_digit_def)

section \<open>Pages of the audit trail out of order\<close>

text \<open>Next page, next page, and the answers in the other order: page three shows page two.\<close>

lemma audit_late_page:
  assumes "PAGE_SIZE * 3 \<le> ap_total p1" and "ap_total p2 = ap_total p1" and "ap_total p3 = ap_total p1"
  shows "let s = fst (run_page audit_handle audit_load audit_start
      [Answer 0 [] (ok (P_Security (V_Audit_trail p1))), Event (Go_to 1), Event (Go_to 2),
       Answer 2 [] (ok (P_Security (V_Audit_trail p3))), Answer 1 [] (ok (P_Security (V_Audit_trail p2)))])
    in page s = 2 \<and> entries s = ap_items p2"
proof -
  have "(- ap_total p1) div PAGE_SIZE \<le> - 3" using assms(1) unfolding PAGE_SIZE_def by presburger
  with assms show ?thesis
    by (simp add: run_defs audit_defs audit_start_def page_defs audit_list_def pageCount_def as_audit_trail_def)
qed

section \<open>The provisioner after a sign-out\<close>

lemma provisioner_after_sign_out:
  assumes "to_upper (me_account_provisioner env) = ''LDAP''" and "su_role u = Admin"
  shows "usesLdap (fst (run_page app_handle admin_effect (app_start (Some u) None False None)
    [Event (Session_changed None), Event Admin_effect,
     Answer 0 [] (ok (P_Status (V_Environment env)))]))"
  using assms
  by (simp add: run_defs admin_effect_def loadProvisioner_def app_start_def endpoint_defs isAdmin_def
      roleGrants_def ROLES_def getEnvironment_def as_environment_def Let_def)

section \<open>A deleted account stays selected\<close>

lemma deleted_stays_selected:
  "selectedUserIds (fst (run_page users_handle users_boot (users_start None)
     [Event (Start_editing_group 7), Event (Select_toggle (u_id u)),
      Event (Delete_user (\<lambda>_. True) u), Answer 3 [] (ok P_Void)])) = [u_id u]"
  by (simp add: users_run toggle_ids_def users_delete_def as_void_def)

section \<open>Versions\<close>

lemma dropped_part: "isNewerVersion ''1.x.5'' ''1.4.9''"
proof -
  have n: "normalizeVersion ''1.x.5'' = [1, 5]" "normalizeVersion ''1.4.9'' = [1, 4, 9]"
    by (simp_all add: normalizeVersion_def strip_v_def strip_suffix_def finite_parts_def parse_number_def
        trim_start_def is_ws_def is_digit_def hex_value_def value_of_def List.map_filter_def Let_def)
  show ?thesis
    by (simp add: isNewerVersion_def n part_at_def Let_def eval_nat_numeral)
qed

end
