(* ===== verification/Backend_Files.thy ===== *)
theory Backend_Files
  imports Postfix_Page Rspamd_Page
begin

text \<open>
  What the backend does with the Postfix overrides and the Rspamd commands that the pages
  send: it checks them again, writes them to a managed file and reads them back
  (\<open>src/backend/app/services/mailserver_service.py\<close>). The container that keeps the file is a
  store that gives back what was written.
\<close>

section \<open>Strings of Python\<close>

text \<open>White space for \<open>str.strip\<close> and line boundaries for \<open>str.splitlines\<close>, on the characters of the model.\<close>

definition py_space :: "char \<Rightarrow> bool" where
  "py_space c = (of_char c \<in> {9, 10, 11, 12, 13, 28, 29, 30, 31, 32, 133, 160 :: nat})"

definition py_break :: "char \<Rightarrow> bool" where
  "py_break c = (of_char c \<in> {10, 11, 12, 13, 28, 29, 30, 133 :: nat})"

definition py_lstrip :: "string \<Rightarrow> string" where
  "py_lstrip s = dropWhile py_space s"

definition py_strip :: "string \<Rightarrow> string" where
  "py_strip s = rev (dropWhile py_space (rev (py_lstrip s)))"

text \<open>
  The pieces between line boundaries. A carriage return before a newline gives an empty
  piece here; the callers drop empty lines.
\<close>

fun py_lines :: "string \<Rightarrow> string list" where
  "py_lines [] = [[]]"
| "py_lines (c # cs) =
     (if py_break c then [] # py_lines cs
      else case py_lines cs of [] \<Rightarrow> [[c]] | l # ls \<Rightarrow> (c # l) # ls)"

text \<open>\<open>line.partition("=")\<close>: before, whether it was found, after.\<close>

definition py_partition :: "char \<Rightarrow> string \<Rightarrow> string \<times> bool \<times> string" where
  "py_partition sep s =
     (takeWhile (\<lambda>c. c \<noteq> sep) s, sep \<in> set s, drop 1 (dropWhile (\<lambda>c. c \<noteq> sep) s))"

lemma break_space: "py_break c \<Longrightarrow> py_space c"
  by (auto simp: py_break_def py_space_def)

lemma dropWhile_id: "(s = [] \<or> \<not> P (hd s)) \<Longrightarrow> dropWhile P s = s"
  by (cases s) auto

lemma strip_id:
  assumes "s = [] \<or> (\<not> py_space (hd s) \<and> \<not> py_space (last s))"
  shows "py_strip s = s"
proof -
  have "py_lstrip s = s" unfolding py_lstrip_def using assms by (intro dropWhile_id) auto
  moreover have "dropWhile py_space (rev s) = rev s" using assms by (intro dropWhile_id) (auto simp: hd_rev)
  ultimately show ?thesis by (simp add: py_strip_def)
qed

lemma lstrip_hd: "py_lstrip s \<noteq> [] \<Longrightarrow> \<not> py_space (hd (py_lstrip s))"
  unfolding py_lstrip_def by (metis hd_dropWhile)

lemma strip_lstrip: "py_strip (py_lstrip s) = py_strip s"
proof -
  have "py_lstrip (py_lstrip s) = py_lstrip s" by (simp add: py_lstrip_def)
  then show ?thesis by (simp add: py_strip_def)
qed

lemma strip_space [simp]: "py_space c \<Longrightarrow> py_strip (c # s) = py_strip s"
  by (simp add: py_strip_def py_lstrip_def)

lemma strip_space_end: "py_space c \<Longrightarrow> py_strip (s @ [c]) = py_strip s"
  by (cases "dropWhile py_space s = []")
    (auto simp: py_strip_def py_lstrip_def dropWhile_append dropWhile_eq_Nil_conv dest: set_dropWhileD)

lemma strip_end:
  assumes "py_strip v = v" and "v \<noteq> []"
  shows "\<not> py_space (last v)"
proof -
  have "dropWhile py_space (rev (py_lstrip v)) = rev v"
    using assms(1) unfolding py_strip_def by (metis rev_rev_ident)
  then have "\<not> py_space (hd (rev v))" using assms(2) by (metis hd_dropWhile rev_is_Nil_conv)
  then show ?thesis using assms(2) by (simp add: hd_rev)
qed

lemma strip_strip: "py_strip (py_strip s) = py_strip s"
proof -
  let ?u = "py_lstrip s"
  have u: "py_strip s @ rev (takeWhile py_space (rev ?u)) = ?u"
    unfolding py_strip_def by (metis rev_append rev_rev_ident takeWhile_dropWhile_id)
  show ?thesis
  proof (cases "py_strip s = []")
    case True
    moreover have "py_strip [] = []" by (simp add: py_strip_def py_lstrip_def)
    ultimately show ?thesis by simp
  next
    case False
    then have "hd (py_strip s) = hd ?u" using u by (metis hd_append2)
    moreover have "?u \<noteq> []" using False u by auto
    moreover have "dropWhile py_space (rev ?u) \<noteq> []" using False by (auto simp: py_strip_def)
    then have "\<not> py_space (last (py_strip s))"
      unfolding py_strip_def by (metis hd_dropWhile last_rev)
    ultimately show ?thesis using lstrip_hd[of s] by (intro strip_id) simp
  qed
qed

lemma strip_prefix:
  assumes "k \<noteq> []" and "\<not> py_space (hd k)"
  shows "py_strip (k @ v) = (if dropWhile py_space (rev v) = [] then py_strip k else k @ rev (dropWhile py_space (rev v)))"
proof -
  have "py_lstrip (k @ v) = k @ v" unfolding py_lstrip_def using assms by (intro dropWhile_id) auto
  moreover have "py_lstrip k = k" unfolding py_lstrip_def using assms by (intro dropWhile_id) auto
  ultimately show ?thesis
    by (auto simp: py_strip_def dropWhile_append dropWhile_eq_Nil_conv)
qed

lemma lines_single: "list_all (\<lambda>c. \<not> py_break c) l \<Longrightarrow> py_lines l = [l]"
  by (induction l) auto

lemma lines_append: "list_all (\<lambda>c. \<not> py_break c) l \<Longrightarrow> py_break b \<Longrightarrow> py_lines (l @ b # rest) = l # py_lines rest"
  by (induction l) auto

section \<open>Managed files\<close>

definition newline :: char where
  "newline = CHR 0x0A"

definition MANAGED_HEADER :: string where
  "MANAGED_HEADER = ''# Managed by Mailserver UI '' @ [CHR 0xE2, CHR 0x80, CHR 0x94] @
     '' manual edits may be overwritten.'' @ [newline]"

definition write_managed :: "string list \<Rightarrow> string" where
  "write_managed lines = MANAGED_HEADER @ concat (map (\<lambda>line. line @ [newline]) lines)"

definition read_config_lines :: "string \<Rightarrow> string list" where
  "read_config_lines content =
     map py_strip (filter (\<lambda>line. py_strip line \<noteq> [] \<and> take 1 (py_lstrip line) \<noteq> ''#'') (py_lines content))"

lemma newline_break [simp]: "py_break newline"
  by (simp add: py_break_def newline_def)

lemma header_line: "py_lines (MANAGED_HEADER @ rest) = butlast MANAGED_HEADER # py_lines rest"
proof -
  have "MANAGED_HEADER = butlast MANAGED_HEADER @ [newline]" by (simp add: MANAGED_HEADER_def)
  moreover have "list_all (\<lambda>c. \<not> py_break c) (butlast MANAGED_HEADER)"
    by (simp add: MANAGED_HEADER_def py_break_def)
  ultimately show ?thesis by (metis append.assoc append_Cons append_Nil lines_append newline_break)
qed

text \<open>A line that survives: no boundary in it, not blank, not a comment.\<close>

definition plain_line :: "string \<Rightarrow> bool" where
  "plain_line l = (list_all (\<lambda>c. \<not> py_break c) l \<and> py_strip l \<noteq> [] \<and> take 1 (py_lstrip l) \<noteq> ''#'')"

lemma header_dropped: "read_config_lines (write_managed ls) = read_config_lines (concat (map (\<lambda>l. l @ [newline]) ls))"
proof -
  have "take 1 (py_lstrip (butlast MANAGED_HEADER)) = ''#''"
    by (simp add: MANAGED_HEADER_def py_lstrip_def py_space_def)
  then show ?thesis by (simp add: read_config_lines_def write_managed_def header_line)
qed

lemma managed_round_trip:
  assumes "\<forall>l \<in> set ls. plain_line l"
  shows "read_config_lines (write_managed ls) = map py_strip ls"
proof -
  have "py_lines (concat (map (\<lambda>l. l @ [newline]) ls)) = ls @ [[]]" using assms
    by (induction ls) (auto simp: plain_line_def lines_append)
  moreover have "filter (\<lambda>l. py_strip l \<noteq> [] \<and> take 1 (py_lstrip l) \<noteq> ''#'') ls = ls"
    using assms by (intro filter_True) (simp add: plain_line_def)
  moreover have "py_strip [] = []" by (simp add: py_strip_def py_lstrip_def)
  ultimately show ?thesis unfolding header_dropped by (simp add: read_config_lines_def)
qed

section \<open>Postfix overrides\<close>

text \<open>A \<open>dict\<close> in insertion order: a key that is there keeps its place and takes the new value.\<close>

fun dict_set :: "(string \<times> 'v) list \<Rightarrow> string \<Rightarrow> 'v \<Rightarrow> (string \<times> 'v) list" where
  "dict_set [] k v = [(k, v)]"
| "dict_set ((k', v') # d) k v = (if k' = k then (k, v) # d else (k', v') # dict_set d k v)"

text \<open>The \<open>BadRequestException\<close>s, each with what its message names.\<close>

datatype bad_request =
    Invalid_parameter_name string
  | Invalid_master_parameter string
  | Requires_field rspamd_command_kind command_field
  | Value_on_several_lines
  | Invalid_option_name string
  | Invalid_file_name string
  | Invalid_module_name string

text \<open>The loop of both files: the check of a key and the exception for one that fails it are arguments.\<close>

fun clean_loop :: "(string \<Rightarrow> bool) \<Rightarrow> (string \<Rightarrow> bad_request) \<Rightarrow> (string \<times> string) list \<Rightarrow>
    postfix_override list \<Rightarrow> bad_request + (string \<times> string) list" where
  "clean_loop key_ok refuse d [] = Inr d"
| "clean_loop key_ok refuse d (ov # ovs) =
     (let k = py_strip (po_key ov) in
      if k = [] then clean_loop key_ok refuse d ovs
      else if \<not> key_ok k then Inl (refuse k)
      else clean_loop key_ok refuse (dict_set d k (py_strip (po_value ov))) ovs)"

definition override_of :: "string \<times> string \<Rightarrow> postfix_override" where
  "override_of kv = \<lparr>po_key = fst kv, po_value = snd kv\<rparr>"

text \<open>The file that is written and the rows that are returned.\<close>

definition set_postfix_overrides :: "postfix_override list \<Rightarrow> bad_request + string \<times> postfix_override list" where
  "set_postfix_overrides ovs =
     (case clean_loop main_key Invalid_parameter_name [] ovs of
        Inl e \<Rightarrow> Inl e
      | Inr d \<Rightarrow> Inr (write_managed (map (\<lambda>(k, v). k @ '' = '' @ v) d), map override_of d))"

definition set_postfix_master_overrides :: "postfix_override list \<Rightarrow> bad_request + string \<times> postfix_override list" where
  "set_postfix_master_overrides ovs =
     (case clean_loop master_key Invalid_master_parameter [] ovs of
        Inl e \<Rightarrow> Inl e
      | Inr d \<Rightarrow> Inr (write_managed (map (\<lambda>(k, v). k @ ''='' @ v) d), map override_of d))"

definition read_override :: "string \<Rightarrow> postfix_override option" where
  "read_override line =
     (case py_partition (CHR ''='') line of
        (key, found, v) \<Rightarrow>
          if py_strip key \<noteq> [] \<and> found then Some \<lparr>po_key = py_strip key, po_value = py_strip v\<rparr> else None)"

definition list_postfix_overrides :: "string \<Rightarrow> postfix_override list" where
  "list_postfix_overrides content = List.map_filter read_override (read_config_lines content)"

definition list_postfix_master_overrides :: "string \<Rightarrow> postfix_override list" where
  "list_postfix_master_overrides content = List.map_filter read_override (read_config_lines content)"

lemma dict_set_new: "k \<notin> fst ` set d \<Longrightarrow> dict_set d k v = d @ [(k, v)]"
  by (induction d k v rule: dict_set.induct) auto

lemma clean_loop_distinct:
  assumes "\<forall>ov \<in> set ovs. key_ok (po_key ov) \<and> po_key ov \<noteq> [] \<and> py_strip (po_key ov) = po_key ov"
    and "distinct (map po_key ovs)" and "fst ` set d \<inter> po_key ` set ovs = {}"
  shows "clean_loop key_ok refuse d ovs = Inr (d @ map (\<lambda>ov. (po_key ov, py_strip (po_value ov))) ovs)"
  using assms
proof (induction ovs arbitrary: d)
  case (Cons ov ovs)
  have "dict_set d (po_key ov) (py_strip (po_value ov)) = d @ [(po_key ov, py_strip (po_value ov))]"
    using Cons.prems(3) by (intro dict_set_new) auto
  moreover have "clean_loop key_ok refuse (d @ [(po_key ov, py_strip (po_value ov))]) ovs =
      Inr ((d @ [(po_key ov, py_strip (po_value ov))]) @ map (\<lambda>ov. (po_key ov, py_strip (po_value ov))) ovs)"
    using Cons.prems by (intro Cons.IH) auto
  ultimately show ?case using Cons.prems(1) by simp
qed simp

text \<open>A line \<open>key = value\<close> or \<open>key=value\<close> comes back as it was.\<close>

definition line_key :: "string \<Rightarrow> bool" where
  "line_key k = (k \<noteq> [] \<and> list_all (\<lambda>c. \<not> py_space c \<and> c \<noteq> CHR ''='' \<and> c \<noteq> CHR ''#'') k)"

lemma key_facts:
  assumes "line_key k"
  shows "py_strip k = k" "\<not> py_space (hd k)" "k \<noteq> []" "CHR ''='' \<notin> set k" "hd k \<noteq> CHR ''#''"
    "list_all (\<lambda>c. \<not> py_break c) k"
proof -
  have k: "k \<noteq> []" and all: "c \<in> set k \<Longrightarrow> \<not> py_space c \<and> c \<noteq> CHR ''='' \<and> c \<noteq> CHR ''#''" for c
    using assms by (simp_all add: line_key_def list_all_iff)
  show "k \<noteq> []" by (rule k)
  show hd: "\<not> py_space (hd k)" and "hd k \<noteq> CHR ''#''" using all[of "hd k"] k by simp_all
  show "py_strip k = k" using hd all[of "last k"] k by (intro strip_id) simp
  show "CHR ''='' \<notin> set k" using all by blast
  show "list_all (\<lambda>c. \<not> py_break c) k" using all break_space by (auto simp: list_all_iff)
qed

lemma read_back:
  assumes k: "line_key k" and v: "list_all (\<lambda>c. \<not> py_break c) v" "py_strip v = v"
    and sep: "sep \<in> {'' = '', ''=''}"
  shows "plain_line (k @ sep @ v) \<and>
    read_override (py_strip (k @ sep @ v)) = Some \<lparr>po_key = k, po_value = v\<rparr>"
proof -
  note kf = key_facts[OF k]
  have sp: "py_space (CHR '' '')" "\<not> py_space (CHR ''='')" by (simp_all add: py_space_def)
  let ?t = "rev (dropWhile py_space (rev (sep @ v)))"
  have t: "?t = (if v = [] then (if sep = '' = '' then '' ='' else ''='') else sep @ v)"
  proof (cases "v = []")
    case True
    then show ?thesis using sep sp by auto
  next
    case False
    have "\<not> py_space (last v)" by (rule strip_end) (use v(2) False in auto)
    then have "dropWhile py_space (rev (sep @ v)) = rev (sep @ v)"
      using False by (intro dropWhile_id) (auto simp: hd_rev)
    then show ?thesis using False by simp
  qed
  have "?t \<noteq> []" unfolding t using sep by auto
  then have "dropWhile py_space (rev (sep @ v)) \<noteq> []" by (metis rev.simps(1))
  then have stripped: "py_strip (k @ sep @ v) = k @ ?t"
    by (simp only: strip_prefix[OF kf(3,2)] if_False)
  have "py_lstrip (k @ sep @ v) = k @ sep @ v"
    unfolding py_lstrip_def using kf by (intro dropWhile_id) auto
  then have plain: "plain_line (k @ sep @ v)"
    using stripped kf v sep unfolding plain_line_def by (cases k) (auto simp: py_break_def)
  have tw: "takeWhile (\<lambda>c. c \<noteq> CHR ''='') (k @ r) = k @ takeWhile (\<lambda>c. c \<noteq> CHR ''='') r"
    "dropWhile (\<lambda>c. c \<noteq> CHR ''='') (k @ r) = dropWhile (\<lambda>c. c \<noteq> CHR ''='') r" for r
    using kf(4) by (auto simp: takeWhile_append2 dropWhile_append2 takeWhile_append dropWhile_append)
  have "py_strip (k @ '' '') = k" using kf(1) strip_space_end[OF sp(1)] by simp
  moreover have "py_strip (CHR '' '' # v) = v" using sp v by simp
  moreover have "py_strip [] = []" by (simp add: py_strip_def py_lstrip_def)
  ultimately have "read_override (k @ ?t) = Some \<lparr>po_key = k, po_value = v\<rparr>"
    using sep kf v unfolding t by (auto simp: read_override_def py_partition_def tw)
  with plain stripped show ?thesis by simp
qed

lemma main_key_line: "main_key k \<Longrightarrow> line_key k"
  by (auto simp: main_key_def line_key_def list_all_iff is_word_def is_alnum_def is_upper_def is_lower_def
      is_digit_def py_space_def)

lemma word_char: "is_word c \<or> c = CHR ''.'' \<or> c = CHR ''-'' \<or> c = CHR ''/'' \<or> is_lower c \<Longrightarrow>
    \<not> py_space c \<and> c \<noteq> CHR ''='' \<and> c \<noteq> CHR ''#''"
  by (auto simp: is_word_def is_alnum_def is_upper_def is_lower_def is_digit_def py_space_def)

lemma master_key_line:
  assumes "master_key k"
  shows "line_key k"
proof -
  obtain a b c where s: "split_on (CHR ''/'') k = [a, b, c]"
    and ok: "list_all (\<lambda>c. is_word c \<or> c = CHR ''.'' \<or> c = CHR ''-'') a" "list_all is_lower b" "list_all is_word c"
    using assms by (auto simp: master_key_def main_key_def split: list.splits)
  have "join_with ''/'' [a, b, c] = k" using join_split[of "CHR ''/''" k] s by simp
  then have k: "k = a @ CHR ''/'' # b @ CHR ''/'' # c" by simp
  have "\<not> py_space x \<and> x \<noteq> CHR ''='' \<and> x \<noteq> CHR ''#''" if "x \<in> set k" for x
    using that ok unfolding k by (intro word_char) (auto simp: list_all_iff)
  then show ?thesis by (auto simp: line_key_def list_all_iff k)
qed

lemma store_and_read:
  assumes key: "\<And>k. key_ok k \<Longrightarrow> line_key k"
    and rows: "\<forall>ov \<in> set ovs. key_ok (po_key ov) \<and> list_all (\<lambda>c. \<not> py_break c) (po_value ov)"
    and "distinct (map po_key ovs)" and sep: "sep \<in> {'' = '', ''=''}"
  defines "d \<equiv> map (\<lambda>ov. (po_key ov, py_strip (po_value ov))) ovs"
  shows "clean_loop key_ok refuse [] ovs = Inr d \<and>
    List.map_filter read_override (read_config_lines (write_managed (map (\<lambda>(k, v). k @ sep @ v) d))) = map override_of d"
proof
  have keys: "\<forall>ov \<in> set ovs. key_ok (po_key ov) \<and> po_key ov \<noteq> [] \<and> py_strip (po_key ov) = po_key ov"
    using rows key key_facts by blast
  show "clean_loop key_ok refuse [] ovs = Inr d"
    using clean_loop_distinct[of ovs key_ok "[]" refuse] keys assms(3) by (simp add: d_def)
  have each: "plain_line (k @ sep @ v) \<and> read_override (py_strip (k @ sep @ v)) = Some (override_of (k, v))"
    if kv: "(k, v) \<in> set d" for k v
  proof -
    from kv obtain ov where ov: "ov \<in> set ovs" "k = po_key ov" "v = py_strip (po_value ov)" by (auto simp: d_def)
    have "set (py_strip x) \<subseteq> set x" for x
      by (auto simp: py_strip_def py_lstrip_def dest!: set_dropWhileD)
    then have "list_all (\<lambda>c. \<not> py_break c) v" using rows ov by (force simp: list_all_iff)
    moreover have "py_strip v = v" unfolding ov(3) by (rule strip_strip)
    ultimately show ?thesis
      using read_back[of k v sep] key rows ov sep by (simp add: override_of_def)
  qed
  then have "\<forall>l \<in> set (map (\<lambda>(k, v). k @ sep @ v) d). plain_line l" by auto
  then have "read_config_lines (write_managed (map (\<lambda>(k, v). k @ sep @ v) d)) =
      map (\<lambda>(k, v). py_strip (k @ sep @ v)) d"
    by (simp add: managed_round_trip comp_def case_prod_unfold)
  moreover have "List.map_filter read_override (map (\<lambda>(k, v). py_strip (k @ sep @ v)) d) = map override_of d"
    using each by (induction d) (auto simp: List.map_filter_def)
  ultimately show "List.map_filter read_override (read_config_lines (write_managed (map (\<lambda>(k, v). k @ sep @ v) d))) =
      map override_of d" by simp
qed



text \<open>A value with a line break is not refused: what follows the break is read back as another parameter.\<close>

lemma forged_parameter:
  "\<exists>file saved. set_postfix_overrides [\<lparr>po_key = ''a'', po_value = ''1'' @ newline # ''b = 2''\<rparr>] = Inr (file, saved) \<and>
     list_postfix_overrides file = [\<lparr>po_key = ''a'', po_value = ''1''\<rparr>, \<lparr>po_key = ''b'', po_value = ''2''\<rparr>]"
proof -
  note chars = py_space_def py_break_def newline_def
  have s: "py_strip ''a'' = ''a''" "py_strip (''1'' @ newline # ''b = 2'') = ''1'' @ newline # ''b = 2''"
    by (simp_all add: strip_id chars)
  have "clean_loop main_key Invalid_parameter_name [] [\<lparr>po_key = ''a'', po_value = ''1'' @ newline # ''b = 2''\<rparr>] =
      Inr [(''a'', ''1'' @ newline # ''b = 2'')]"
    using s by (simp add: main_key_def is_word_def is_alnum_def is_lower_def)
  then have "set_postfix_overrides [\<lparr>po_key = ''a'', po_value = ''1'' @ newline # ''b = 2''\<rparr>] =
      Inr (write_managed [''a = 1'' @ newline # ''b = 2''], [\<lparr>po_key = ''a'', po_value = ''1'' @ newline # ''b = 2''\<rparr>])"
    by (simp add: set_postfix_overrides_def override_of_def)
  moreover have "read_config_lines (write_managed [''a = 1'' @ newline # ''b = 2'']) = [''a = 1'', ''b = 2'']"
  proof -
    have "py_lines ((''a = 1'' @ newline # ''b = 2'') @ [newline]) = [''a = 1'', ''b = 2'', []]"
      by (simp add: chars)
    then show ?thesis unfolding header_dropped by (simp add: read_config_lines_def strip_id py_lstrip_def chars)
  qed
  moreover have "List.map_filter read_override [''a = 1'', ''b = 2''] =
      [\<lparr>po_key = ''a'', po_value = ''1''\<rparr>, \<lparr>po_key = ''b'', po_value = ''2''\<rparr>]"
    by (simp add: List.map_filter_def read_override_def py_partition_def py_strip_def py_lstrip_def chars)
  ultimately show ?thesis by (simp add: list_postfix_overrides_def)
qed

section \<open>Rspamd commands\<close>

text \<open>Which arguments a directive takes, in the order of its line.\<close>

fun RSPAMD_COMMAND_FIELDS :: "rspamd_command_kind \<Rightarrow> command_field list" where
  "RSPAMD_COMMAND_FIELDS Set_common_option = [Option_field, Value_field]"
| "RSPAMD_COMMAND_FIELDS Set_option_for_controller = [Option_field, Value_field]"
| "RSPAMD_COMMAND_FIELDS Set_option_for_proxy = [Option_field, Value_field]"
| "RSPAMD_COMMAND_FIELDS Enable_module = [Target_field]"
| "RSPAMD_COMMAND_FIELDS Disable_module = [Target_field]"
| "RSPAMD_COMMAND_FIELDS Set_option_for_module = [Target_field, Option_field, Value_field]"
| "RSPAMD_COMMAND_FIELDS Add_line = [Target_field, Value_field]"

fun get_field :: "command_field \<Rightarrow> rspamd_command \<Rightarrow> string" where
  "get_field Target_field c = rm_target c"
| "get_field Option_field c = rm_option c"
| "get_field Value_field c = rm_value c"

definition cleaned_command :: "rspamd_command \<Rightarrow> rspamd_command" where
  "cleaned_command c =
     fold (\<lambda>f d. set_field f (py_strip (get_field f c)) d) (RSPAMD_COMMAND_FIELDS (rm_kind c)) (emptyCommand (rm_kind c))"

definition validate_rspamd_command :: "rspamd_command \<Rightarrow> bad_request + rspamd_command" where
  "validate_rspamd_command command =
     (let cleaned = cleaned_command command in
      case find (\<lambda>f. get_field f cleaned = []) (RSPAMD_COMMAND_FIELDS (rm_kind command)) of
        Some f \<Rightarrow> Inl (Requires_field (rm_kind command) f)
      | None \<Rightarrow>
          if newline \<in> set (rm_value cleaned) \<or> CHR 0x0D \<in> set (rm_value cleaned) then
            Inl Value_on_several_lines
          else if rm_option cleaned \<noteq> [] \<and> \<not> NAME_RE (rm_option cleaned) then
            Inl (Invalid_option_name (rm_option cleaned))
          else if rm_target cleaned \<noteq> [] \<and>
              \<not> (if rm_kind cleaned = Add_line then FILENAME_RE else NAME_RE) (rm_target cleaned) then
            Inl ((if rm_kind cleaned = Add_line then Invalid_file_name else Invalid_module_name) (rm_target cleaned))
          else Inr cleaned)"

definition format_rspamd_command :: "rspamd_command \<Rightarrow> string" where
  "format_rspamd_command c =
     join_with '' '' (rspamd_kind_name (rm_kind c) # map (\<lambda>f. get_field f c) (RSPAMD_COMMAND_FIELDS (rm_kind c)))"

text \<open>A comprehension of calls that may raise: the first exception wins.\<close>

fun those_valid :: "('e + 'a) list \<Rightarrow> 'e + 'a list" where
  "those_valid [] = Inr []"
| "those_valid (Inl e # rs) = Inl e"
| "those_valid (Inr a # rs) = (case those_valid rs of Inl e \<Rightarrow> Inl e | Inr as \<Rightarrow> Inr (a # as))"

text \<open>\<open>str.split(None, n)\<close>\<close>

fun py_split :: "nat \<Rightarrow> string \<Rightarrow> string list" where
  "py_split n s =
     (let t = py_lstrip s in
      if t = [] then []
      else case n of
        0 \<Rightarrow> [t]
      | Suc m \<Rightarrow> takeWhile (\<lambda>c. \<not> py_space c) t # py_split m (dropWhile (\<lambda>c. \<not> py_space c) t))"

definition kind_of_name :: "string \<Rightarrow> rspamd_command_kind option" where
  "kind_of_name name = find (\<lambda>k. rspamd_kind_name k = name) (map kd_kind KINDS)"

definition parse_rspamd_command :: "string \<Rightarrow> rspamd_command option" where
  "parse_rspamd_command line =
     (case py_split 1 line of
        [] \<Rightarrow> None
      | head # rest \<Rightarrow>
          (case kind_of_name head of
             None \<Rightarrow> None
           | Some k \<Rightarrow>
               (let fields = RSPAMD_COMMAND_FIELDS k;
                    parts = py_split (length fields - 1) (case rest of [] \<Rightarrow> [] | r # _ \<Rightarrow> r)
                in if length parts \<noteq> length fields then None
                   else Some (fold (\<lambda>(f, part) d. set_field f (py_strip part) d) (zip fields parts) (emptyCommand k)))))"

lemma split_word:
  assumes "w \<noteq> []" and "list_all (\<lambda>c. \<not> py_space c) w"
  shows "py_split (Suc n) (w @ CHR '' '' # rest) = w # py_split n rest"
proof -
  have sp: "py_space (CHR '' '')" by (simp add: py_space_def)
  have h: "\<not> py_space (hd w)" using assms by (cases w) simp_all
  have "py_lstrip (w @ CHR '' '' # rest) = w @ CHR '' '' # rest"
    unfolding py_lstrip_def using assms(1) h by (intro dropWhile_id) simp
  moreover have "takeWhile (\<lambda>c. \<not> py_space c) (w @ CHR '' '' # rest) = w"
    "dropWhile (\<lambda>c. \<not> py_space c) (w @ CHR '' '' # rest) = CHR '' '' # rest"
    using assms(2) sp by (auto simp: takeWhile_append dropWhile_append list_all_iff)
  moreover have "py_split n (CHR '' '' # rest) = py_split n rest"
    using sp by (simp add: py_lstrip_def)
  ultimately show ?thesis using assms(1) by (simp del: py_split.simps add: py_split.simps[of "Suc n"])
qed

lemma split_last: "v \<noteq> [] \<Longrightarrow> \<not> py_space (hd v) \<Longrightarrow> py_split 0 v = [v]"
  by (simp add: py_lstrip_def dropWhile_id)


definition set_rspamd_overrides :: "rspamd_command list \<Rightarrow> bad_request + string \<times> rspamd_command list" where
  "set_rspamd_overrides cs =
     (case those_valid (map validate_rspamd_command cs) of
        Inl e \<Rightarrow> Inl e
      | Inr cleaned \<Rightarrow> Inr (write_managed (map format_rspamd_command cleaned), cleaned))"

definition get_rspamd_overrides :: "string \<Rightarrow> rspamd_command list" where
  "get_rspamd_overrides content = List.map_filter parse_rspamd_command (read_config_lines content)"

text \<open>The fields that a kind uses, as they are; the others empty.\<close>

definition used_fields :: "rspamd_command \<Rightarrow> rspamd_command" where
  "used_fields c = fold (\<lambda>f. set_field f (get_field f c)) (RSPAMD_COMMAND_FIELDS (rm_kind c)) (emptyCommand (rm_kind c))"

text \<open>No line boundary, and none of the white space of Python that JavaScript does not trim.\<close>

definition plain_value :: "string \<Rightarrow> bool" where
  "plain_value v = list_all (\<lambda>c. \<not> py_break c \<and> (of_char c :: nat) \<noteq> 31) v"

lemma kinds_named: "kind_of_name (rspamd_kind_name k) = Some k"
  by (cases k) (simp_all add: kind_of_name_def KINDS_def)

lemma name_words: "NAME_RE s \<Longrightarrow> s \<noteq> [] \<and> list_all (\<lambda>c. \<not> py_space c) s"
  by (auto simp: NAME_RE_def list_all_iff is_name_char_def is_alnum_def is_upper_def is_lower_def is_digit_def py_space_def)

lemma file_words:
  assumes "FILENAME_RE s"
  shows "s \<noteq> [] \<and> list_all (\<lambda>c. \<not> py_space c) s"
proof -
  obtain a b where sp: "split_on (CHR ''.'') s = [a, b]" and ok: "NAME_RE a" "NAME_RE b"
    using assms by (auto simp: FILENAME_RE_def split: list.splits)
  have "join_with ''.'' [a, b] = s" using join_split[of "CHR ''.''" s] sp by simp
  then have "s = a @ CHR ''.'' # b" by simp
  moreover have "\<not> py_space (CHR ''.'')" by (simp add: py_space_def)
  ultimately show ?thesis using name_words[OF ok(1)] name_words[OF ok(2)] by simp
qed

lemma words_strip: "list_all (\<lambda>c. \<not> py_space c) s \<Longrightarrow> py_strip s = s"
  by (intro strip_id) (cases "s = []", auto simp: list_all_iff)

lemma plain_strip: "plain_value v \<Longrightarrow> trim v = v \<Longrightarrow> py_strip v = v"
proof (intro strip_id)
  assume p: "plain_value v" and t: "trim v = v"
  have "is_ws c" if "c \<in> set v" and "py_space c" for c
  proof -
    have "\<not> py_break c" "(of_char c :: nat) \<noteq> 31" using p that(1) by (simp_all add: plain_value_def list_all_iff)
    with that(2) show ?thesis unfolding py_space_def py_break_def is_ws_def by fastforce
  qed
  then show "v = [] \<or> \<not> py_space (hd v) \<and> \<not> py_space (last v)"
    using hd_trim[of v] last_trim[of v] t by (metis hd_in_set last_in_set)
qed

text \<open>A command as the checks leave it.\<close>

definition sound_command :: "rspamd_command \<Rightarrow> bool" where
  "sound_command c =
     (used_fields c = c \<and> plain_value (rm_value c) \<and> py_strip (rm_value c) = rm_value c \<and>
      (\<forall>f \<in> set (RSPAMD_COMMAND_FIELDS (rm_kind c)). get_field f c \<noteq> []) \<and>
      list_all (\<lambda>x. \<not> py_space x) (rm_target c) \<and> list_all (\<lambda>x. \<not> py_space x) (rm_option c))"

lemma kind_word:
  "rspamd_kind_name k \<noteq> [] \<and> list_all (\<lambda>c. \<not> py_space c) (rspamd_kind_name k) \<and>
   hd (rspamd_kind_name k) \<noteq> CHR ''#'' \<and> \<not> py_space (hd (rspamd_kind_name k))"
  by (cases k) (simp_all add: py_space_def)

lemma strip_start:
  assumes "py_strip v = v" and "v \<noteq> []"
  shows "\<not> py_space (hd v)"
proof
  assume "py_space (hd v)"
  moreover obtain c cs where v: "v = c # cs" using assms(2) by (cases v) simp_all
  ultimately have "py_strip cs = v" using assms(1) by simp
  moreover have "length (py_strip cs) \<le> length cs"
    using length_dropWhile_le[of py_space "rev (py_lstrip cs)"] length_dropWhile_le[of py_space cs]
    by (simp add: py_strip_def py_lstrip_def)
  ultimately show False by (simp add: v)
qed

lemma head_and_rest:
  fixes k :: rspamd_command_kind
  assumes r: "r \<noteq> []" "\<not> py_space (hd r)" "\<not> py_space (last r)" "list_all (\<lambda>c. \<not> py_break c) r"
  defines "l \<equiv> rspamd_kind_name k @ '' '' @ r"
  shows "plain_line l" "py_strip l = l" "py_split 1 l = [rspamd_kind_name k, r]"
proof -
  note w = kind_word[of k]
  have h: "hd l = hd (rspamd_kind_name k)" "l \<noteq> []" using w by (simp_all add: l_def)
  have e: "last l = last r" using r(1) by (simp add: l_def)
  show st: "py_strip l = l" using h e w r(3) by (intro strip_id) simp
  have "py_lstrip l = l" unfolding py_lstrip_def using h w by (intro dropWhile_id) simp
  moreover have "list_all (\<lambda>c. \<not> py_break c) l"
    using w r(4) break_space unfolding l_def by (auto simp: list_all_iff py_break_def)
  ultimately show "plain_line l" using st h w by (cases l) (auto simp: plain_line_def)
  show "py_split 1 l = [rspamd_kind_name k, r]"
    using split_word[of "rspamd_kind_name k" 0 r] w split_last[OF r(1,2)] by (simp add: l_def del: py_split.simps)
qed

lemma join_ends:
  assumes "list_all (\<lambda>w. w \<noteq> [] \<and> \<not> py_space (hd w) \<and> \<not> py_space (last w) \<and> list_all (\<lambda>c. \<not> py_break c) w) ws"
    and "ws \<noteq> []"
  shows "join_with '' '' ws \<noteq> [] \<and> \<not> py_space (hd (join_with '' '' ws)) \<and> \<not> py_space (last (join_with '' '' ws)) \<and>
    list_all (\<lambda>c. \<not> py_break c) (join_with '' '' ws)"
  using assms
proof (induction "'' ''" ws rule: join_with.induct)
  case (3 w v ws)
  then have "join_with '' '' (v # ws) \<noteq> []" "\<not> py_space (last (join_with '' '' (v # ws)))"
    "list_all (\<lambda>c. \<not> py_break c) (join_with '' '' (v # ws))" by simp_all
  then show ?case using 3(2) by (auto simp: py_break_def)
qed simp_all

lemma command_fields:
  assumes "sound_command c" and "f \<in> set (RSPAMD_COMMAND_FIELDS (rm_kind c))"
  defines "w \<equiv> get_field f c"
  shows "w \<noteq> [] \<and> \<not> py_space (hd w) \<and> \<not> py_space (last w) \<and> list_all (\<lambda>c. \<not> py_break c) w \<and> py_strip w = w"
proof -
  have ne: "w \<noteq> []" using assms by (simp add: sound_command_def)
  have "py_strip w = w \<and> list_all (\<lambda>c. \<not> py_break c) w"
    using assms(1) words_strip break_space unfolding w_def
    by (cases f) (auto simp: sound_command_def plain_value_def list_all_iff)
  then show ?thesis using ne strip_start strip_end by blast
qed

lemma command_parts:
  assumes "sound_command c"
  shows "py_split (length (RSPAMD_COMMAND_FIELDS (rm_kind c)) - 1)
      (join_with '' '' (map (\<lambda>f. get_field f c) (RSPAMD_COMMAND_FIELDS (rm_kind c)))) =
    map (\<lambda>f. get_field f c) (RSPAMD_COMMAND_FIELDS (rm_kind c))"
proof -
  note fields = command_fields[OF assms]
  have words: "list_all (\<lambda>x. \<not> py_space x) (rm_target c)" "list_all (\<lambda>x. \<not> py_space x) (rm_option c)"
    using assms by (simp_all add: sound_command_def)
  note in_fields = fields[of Target_field] fields[of Option_field] fields[of Value_field]
  show ?thesis
    using words split_word[of "rm_target c" 0] split_word[of "rm_target c" 1] split_word[of "rm_option c" 0]
      split_last[of "rm_value c"] split_last[of "rm_target c"] in_fields
    by (cases "rm_kind c") (simp_all del: py_split.simps)
qed

lemma command_line:
  assumes "sound_command c"
  shows "plain_line (format_rspamd_command c) \<and> parse_rspamd_command (py_strip (format_rspamd_command c)) = Some c"
proof -
  let ?fs = "RSPAMD_COMMAND_FIELDS (rm_kind c)" and ?r = "join_with '' '' (map (\<lambda>f. get_field f c) (RSPAMD_COMMAND_FIELDS (rm_kind c)))"
  have ne: "?fs \<noteq> []" by (cases "rm_kind c") simp_all
  have l: "format_rspamd_command c = rspamd_kind_name (rm_kind c) @ '' '' @ ?r"
    using ne unfolding format_rspamd_command_def by (cases ?fs) simp_all
  have "list_all (\<lambda>w. w \<noteq> [] \<and> \<not> py_space (hd w) \<and> \<not> py_space (last w) \<and> list_all (\<lambda>c. \<not> py_break c) w)
      (map (\<lambda>f. get_field f c) ?fs)"
    using command_fields[OF assms] by (simp add: list_all_iff)
  then have "?r \<noteq> []" "\<not> py_space (hd ?r)" "\<not> py_space (last ?r)" "list_all (\<lambda>c. \<not> py_break c) ?r"
    using join_ends ne by simp_all
  note hr = head_and_rest[OF this, of "rm_kind c"]
  have "fold (\<lambda>(f, part) d. set_field f (py_strip part) d) (zip fs (map (\<lambda>f. get_field f c) fs)) d =
      fold (\<lambda>f. set_field f (get_field f c)) fs d" if "set fs \<subseteq> set ?fs" for fs d
    using that by (induction fs arbitrary: d) (simp_all add: command_fields[OF assms])
  then have "fold (\<lambda>(f, part) d. set_field f (py_strip part) d) (zip ?fs (map (\<lambda>f. get_field f c) ?fs)) (emptyCommand (rm_kind c)) = c"
    using assms by (simp add: sound_command_def used_fields_def)
  then show ?thesis
    using hr command_parts[OF assms] unfolding l
    by (simp add: parse_rspamd_command_def kinds_named Let_def del: py_split.simps)
qed

lemma carriage_break: "py_break (CHR 0x0D)"
  by (simp add: py_break_def)

lemma checked_command:
  assumes "invalidReason c = None" and "clean_command c = c" and "plain_value (rm_value c)"
  shows "validate_rspamd_command c = Inr (used_fields c) \<and> sound_command (used_fields c)"
proof -
  have "rm_value (clean_command c) = rm_value c" using assms(2) by (rule arg_cong)
  then have v: "py_strip (rm_value c) = rm_value c"
    using assms(3) by (intro plain_strip) (simp_all add: clean_command_def)
  have "newline \<notin> set (rm_value c)" "CHR 0x0D \<notin> set (rm_value c)"
    using assms(3) unfolding plain_value_def list_all_iff by (metis carriage_break newline_break)+
  moreover have "rm_option c \<noteq> [] \<Longrightarrow> NAME_RE (rm_option c)"
    and t: "rm_target c \<noteq> [] \<Longrightarrow> (if rm_kind c = Add_line then FILENAME_RE else NAME_RE) (rm_target c)"
    using assms(1) by (auto simp: invalidReason_def Let_def split: if_splits)
  moreover from this have w: "list_all (\<lambda>x. \<not> py_space x) (rm_option c)" "list_all (\<lambda>x. \<not> py_space x) (rm_target c)"
    using name_words file_words by (cases "rm_option c = []", simp_all, cases "rm_target c = []", simp_all split: if_splits)
  moreover note words_strip[OF w(1)] words_strip[OF w(2)]
  moreover have "\<forall>f \<in> set (RSPAMD_COMMAND_FIELDS (rm_kind c)). get_field f c \<noteq> []"
    using assms(1) by (cases "rm_kind c") (auto simp: invalidReason_def Let_def descriptor_def KINDS_def split: if_splits)
  ultimately show ?thesis
    using v assms(3) by (cases "rm_kind c")
      (simp_all add: validate_rspamd_command_def cleaned_command_def used_fields_def sound_command_def
        emptyCommand_def Let_def plain_value_def words_strip)
qed

lemma checked_commands:
  assumes "first_reason cs = None" and "\<forall>c \<in> set cs. clean_command c = c \<and> plain_value (rm_value c)"
  shows "those_valid (map validate_rspamd_command cs) = Inr (map used_fields cs) \<and>
    (\<forall>c \<in> set (map used_fields cs). sound_command c)"
  using assms by (induction cs) (auto simp: checked_command split: option.splits)

lemma clean_twice: "clean_command (clean_command c) = clean_command c"
  by (simp add: clean_command_def)



end
