(* ===== verification/Backend_Relays.thy ===== *)
theory Backend_Relays
  imports Backend_Files Relay_Page "HOL-Library.List_Lexorder" "HOL-Library.Char_ord"
begin

text \<open>
  What the backend does with the relays and the exclusions of the relay page: two managed
  files, \<open>postfix-relaymap.cf\<close> and the SASL passwords, each read into a \<open>dict\<close>, changed and
  written again (\<open>src/backend/app/services/mailserver_service.py\<close>).
\<close>

section \<open>Dictionaries\<close>

definition dict_pop :: "(string \<times> 'v) list \<Rightarrow> string \<Rightarrow> (string \<times> 'v) list" where
  "dict_pop d k = filter (\<lambda>e. fst e \<noteq> k) d"

text \<open>The entries that count, as a map; an entry that is not \<open>kept\<close> is dropped at the next write.\<close>

definition book_of :: "('v \<Rightarrow> bool) \<Rightarrow> (string \<times> 'v) list \<Rightarrow> string \<Rightarrow> 'v option" where
  "book_of kept d = map_of (filter (\<lambda>e. kept (snd e)) d)"

lemma fst_dict_set: "fst ` set (dict_set d k v) = insert k (fst ` set d)"
  by (induction d k v rule: dict_set.induct) auto

lemma distinct_dict_set [simp]: "distinct (map fst d) \<Longrightarrow> distinct (map fst (dict_set d k v))"
proof (induction d k v rule: dict_set.induct)
  case (2 k' v' d k v)
  then show ?case using fst_dict_set[of d k v] by (auto simp: image_iff)
qed simp

lemma set_dict_set: "e \<in> set (dict_set d k v) \<Longrightarrow> e = (k, v) \<or> e \<in> set d"
  by (induction d k v rule: dict_set.induct) (auto split: if_splits)

lemma book_set [simp]: "kept v \<Longrightarrow> book_of kept (dict_set d k v) = (book_of kept d)(k \<mapsto> v)"
  by (induction d k v rule: dict_set.induct) (auto simp: book_of_def fun_upd_twist)

lemma book_pop [simp]: "book_of kept (dict_pop d k) = (book_of kept d)(k := None)"
  by (induction d) (auto simp: book_of_def dict_pop_def fun_upd_twist)

lemma distinct_dict_pop [simp]: "distinct (map fst d) \<Longrightarrow> distinct (map fst (dict_pop d k))"
  by (simp add: dict_pop_def distinct_map_filter)

lemma map_of_sorted: "distinct (map fst d) \<Longrightarrow> map_of (sort_key fst d) = map_of (d :: (string \<times> 'v) list)"
  by (subst map_of_inject_set)
    (auto simp: distinct_map distinct_sort inj_on_def)

text \<open>
  The interface of a managed file that holds a dictionary: what is written comes back,
  sorted and without the entries that are not kept.
\<close>

locale file_dict =
  fixes parse :: "string \<Rightarrow> (string \<times> 'v) list" and save :: "(string \<times> 'v) list \<Rightarrow> string"
    and entry_ok :: "string \<times> 'v \<Rightarrow> bool" and kept :: "'v \<Rightarrow> bool"
  assumes parse_distinct: "distinct (map fst (parse content))"
    and save_back: "distinct (map fst d) \<Longrightarrow> \<forall>e \<in> set d. kept (snd e) \<longrightarrow> entry_ok e \<Longrightarrow>
      parse (save d) = sort_key fst (filter (\<lambda>e. kept (snd e)) d)"
begin

definition sound :: "string \<Rightarrow> bool" where
  "sound content = (\<forall>e \<in> set (parse content). kept (snd e) \<longrightarrow> entry_ok e)"

lemma written:
  assumes "distinct (map fst d)" and "\<forall>e \<in> set d. kept (snd e) \<longrightarrow> entry_ok e"
  shows "book_of kept (parse (save d)) = book_of kept d \<and> sound (save d)"
proof -
  have "distinct (map fst (filter (\<lambda>e. kept (snd e)) d))" using assms(1) by (rule distinct_map_filter)
  then show ?thesis
    using assms by (simp add: save_back book_of_def sound_def filter_sort map_of_sorted)
qed

lemma put:
  assumes "sound content" and "entry_ok (k, v)" and "kept v"
  shows "book_of kept (parse (save (dict_set (parse content) k v))) = (book_of kept (parse content))(k \<mapsto> v) \<and>
    sound (save (dict_set (parse content) k v))"
proof -
  have "\<forall>e \<in> set (dict_set (parse content) k v). kept (snd e) \<longrightarrow> entry_ok e"
    using assms set_dict_set unfolding sound_def by fastforce
  from written[OF _ this] assms(3) show ?thesis by (simp add: parse_distinct)
qed

lemma drop:
  assumes "sound content"
  shows "book_of kept (parse (save (dict_pop (parse content) k))) = (book_of kept (parse content))(k := None) \<and>
    sound (save (dict_pop (parse content) k))"
proof -
  have "\<forall>e \<in> set (dict_pop (parse content) k). kept (snd e) \<longrightarrow> entry_ok e"
    using assms by (simp add: sound_def dict_pop_def)
  from written[OF _ this] show ?thesis by (simp add: parse_distinct)
qed

end

section \<open>Words and numbers\<close>

text \<open>\<open>line.split()\<close> and \<open>line.split(None, 1)\<close>.\<close>

function py_words :: "string \<Rightarrow> string list" where
  "py_words s =
     (let r = py_lstrip s
      in if r = [] then [] else takeWhile (\<lambda>c. \<not> py_space c) r # py_words (dropWhile (\<lambda>c. \<not> py_space c) r))"
  by auto

termination
proof (relation "measure length")
  fix s r assume r: "r = py_lstrip s" "r \<noteq> []"
  then obtain c cs where c: "py_lstrip s = c # cs" by (cases "py_lstrip s") auto
  then have s: "\<not> py_space c" using lstrip_hd[of s] by simp
  have "length (dropWhile (\<lambda>c. \<not> py_space c) cs) \<le> length cs" by (rule length_dropWhile_le)
  moreover have "length (c # cs) \<le> length s" unfolding c[symmetric] py_lstrip_def by (rule length_dropWhile_le)
  ultimately show "(dropWhile (\<lambda>c. \<not> py_space c) r, s) \<in> measure length" using c s r by simp
qed simp

declare py_words.simps [simp del]

definition py_split1 :: "string \<Rightarrow> string list" where
  "py_split1 s =
     (let r = py_lstrip s; rest = py_lstrip (dropWhile (\<lambda>c. \<not> py_space c) r)
      in if r = [] then [] else takeWhile (\<lambda>c. \<not> py_space c) r # (if rest = [] then [] else [rest]))"

definition py_int :: "string \<Rightarrow> nat" where
  "py_int s = foldl (\<lambda>acc c. acc * 10 + (of_char c - 48)) 0 s"

definition no_space :: "string \<Rightarrow> bool" where
  "no_space w = list_all (\<lambda>c. \<not> py_space c) w"

lemma no_space_simps [simp]:
  "no_space []" "no_space (c # w) \<longleftrightarrow> \<not> py_space c \<and> no_space w"
  "no_space (v @ w) \<longleftrightarrow> no_space v \<and> no_space w"
  by (simp_all add: no_space_def)

lemma takeWhile_no_space: "no_space w \<Longrightarrow> py_space c \<Longrightarrow> takeWhile (\<lambda>c. \<not> py_space c) (w @ c # s) = w"
  by (induction w) auto

lemma dropWhile_no_space: "no_space w \<Longrightarrow> py_space c \<Longrightarrow> dropWhile (\<lambda>c. \<not> py_space c) (w @ c # s) = c # s"
  by (induction w) auto

lemma whole_no_space [simp]:
  "no_space w \<Longrightarrow> takeWhile (\<lambda>c. \<not> py_space c) w = w" "no_space w \<Longrightarrow> dropWhile (\<lambda>c. \<not> py_space c) w = []"
  by (induction w) auto

lemma lstrip_word [simp]: "no_space w \<Longrightarrow> w \<noteq> [] \<Longrightarrow> py_lstrip (w @ s) = w @ s"
  unfolding py_lstrip_def by (cases w) auto

lemma lstrip_word_end [simp]: "no_space w \<Longrightarrow> py_lstrip w = w"
  unfolding py_lstrip_def by (cases w) auto

lemma words_Nil [simp]: "py_words [] = []"
  by (simp add: py_words.simps py_lstrip_def)

lemma words_space [simp]: "py_space c \<Longrightarrow> py_words (c # s) = py_words s"
  by (simp add: py_words.simps[of "c # s"] py_words.simps[of s] py_lstrip_def)

lemma words_word [simp]: "no_space w \<Longrightarrow> w \<noteq> [] \<Longrightarrow> py_words w = [w]"
  by (simp add: py_words.simps[of w])

lemma words_append: "no_space w \<Longrightarrow> w \<noteq> [] \<Longrightarrow> py_space c \<Longrightarrow> py_words (w @ c # s) = w # py_words s"
  by (simp add: py_words.simps[of "w @ c # s"] takeWhile_no_space dropWhile_no_space)

lemma split1_append:
  assumes "no_space w" and "w \<noteq> []" and "py_space c" and "s \<noteq> []" and "\<not> py_space (hd s)"
  shows "py_split1 (w @ c # s) = [w, s]"
proof -
  have "py_lstrip (c # s) = s" using assms by (cases s) (simp_all add: py_lstrip_def)
  then show ?thesis using assms by (simp add: py_split1_def takeWhile_no_space dropWhile_no_space Let_def)
qed

lemma py_int_show [simp]: "py_int (show_nat n) = n"
proof (induction n rule: show_nat.induct)
  case (1 n)
  then show ?case
    by (cases "n < 10") (simp_all add: show_nat.simps[of n] py_int_def of_char_of)
qed

lemma digit_no_space: "is_digit c \<Longrightarrow> \<not> py_space c"
  by (auto simp: is_digit_def py_space_def)

lemma no_space_show [simp]: "no_space (show_nat n)"
  using show_nat_digits[of n] digit_no_space by (auto simp: no_space_def list_all_iff)

lemma no_space_strip [simp]: "no_space w \<Longrightarrow> py_strip w = w"
  by (rule strip_id) (auto simp: no_space_def list_all_iff)

lemma no_space_plain: "no_space w \<Longrightarrow> list_all (\<lambda>c. \<not> py_break c) w"
  using break_space by (auto simp: no_space_def list_all_iff)

section \<open>The relay map\<close>

text \<open>A relay, or an exclusion from the global relay: \<open>None\<close>.\<close>

type_synonym relay_target = "(string \<times> nat) option"

text \<open>\<open>token.rpartition(":")\<close> of a token that has a colon.\<close>

definition before_last_colon :: "string \<Rightarrow> string" where
  "before_last_colon s = rev (drop 1 (dropWhile (\<lambda>c. c \<noteq> CHR '':'') (rev s)))"

definition after_last_colon :: "string \<Rightarrow> string" where
  "after_last_colon s = rev (takeWhile (\<lambda>c. c \<noteq> CHR '':'') (rev s))"

definition port_of :: "string \<Rightarrow> nat" where
  "port_of digits = (if digits \<noteq> [] \<and> list_all is_digit digits then py_int digits else 587)"

definition parse_relay_target :: "string \<Rightarrow> string \<times> nat" where
  "parse_relay_target raw =
     (let token = py_strip raw
      in if take 1 token = ''['' then
           (case py_partition (CHR '']'') (drop 1 token) of
              (host, _, behind) \<Rightarrow> (py_strip host, port_of (dropWhile (\<lambda>c. c = CHR '':'') behind)))
         else if CHR '':'' \<in> set token then
           (py_strip (before_last_colon token), port_of (after_last_colon token))
         else (py_strip token, 587))"

definition add_relay_line :: "(string \<times> relay_target) list \<Rightarrow> string \<Rightarrow> (string \<times> relay_target) list" where
  "add_relay_line d line =
     (let parts = py_words line; sender = to_lower (hd parts)
      in if length parts < 2 then dict_set d sender None
         else case parse_relay_target (parts ! 1) of
                (host, port) \<Rightarrow> if host \<noteq> [] then dict_set d sender (Some (host, port)) else d)"

definition parse_relaymap :: "string \<Rightarrow> (string \<times> relay_target) list" where
  "parse_relaymap content = foldl add_relay_line [] (read_config_lines content)"

definition tab :: char where
  "tab = CHR 0x09"

fun relay_line :: "string \<times> relay_target \<Rightarrow> string" where
  "relay_line (sender, None) = sender"
| "relay_line (sender, Some (host, port)) = sender @ tab # ''['' @ host @ '']:'' @ show_nat port"

definition write_relaymap :: "(string \<times> relay_target) list \<Rightarrow> string" where
  "write_relaymap d = write_managed (map relay_line (sort_key fst d))"

text \<open>What survives in a line of either file.\<close>

definition sender_ok :: "string \<Rightarrow> bool" where
  "sender_ok k = (k \<noteq> [] \<and> no_space k \<and> hd k \<noteq> CHR ''#'' \<and> to_lower k = k)"

fun relay_entry_ok :: "string \<times> relay_target \<Rightarrow> bool" where
  "relay_entry_ok (k, None) = sender_ok k"
| "relay_entry_ok (k, Some (h, p)) = (sender_ok k \<and> h \<noteq> [] \<and> no_space h \<and> CHR '']'' \<notin> set h)"

lemma tab_space [simp]: "py_space tab" "\<not> py_break tab"
  by (simp_all add: tab_def py_space_def py_break_def)

lemma punctuation [simp]:
  "\<not> py_break (CHR ''['')" "\<not> py_break (CHR '']'')" "\<not> py_break (CHR '':'')" "\<not> py_space (CHR '':'')"
  by (simp_all add: py_space_def py_break_def)

lemma target_back:
  assumes "h \<noteq> []" and "no_space h" and "CHR '']'' \<notin> set h"
  shows "parse_relay_target (''['' @ h @ '']:'' @ show_nat p) = (h, p)"
proof -
  have s: "no_space (''['' @ h @ '']:'' @ show_nat p)" using assms(2) by (simp add: py_space_def)
  have d: "dropWhile (\<lambda>c. c = CHR '':'') (show_nat p) = show_nat p"
    using show_nat_digits[of p] by (intro dropWhile_id) (cases "show_nat p", auto simp: is_digit_def)
  have p: "port_of (dropWhile (\<lambda>c. c = CHR '':'') (show_nat p)) = p"
    unfolding d by (simp add: port_of_def show_nat_digits)
  have t: "takeWhile (\<lambda>c. c \<noteq> CHR '']'') (h @ CHR '']'' # r) = h \<and>
    dropWhile (\<lambda>c. c \<noteq> CHR '']'') (h @ CHR '']'' # r) = CHR '']'' # r" for r
    using assms(3) by (induction h) auto
  show ?thesis
    unfolding parse_relay_target_def no_space_strip[OF s] Let_def
    using assms by (simp add: py_partition_def t p)
qed

lemma relay_line_plain:
  assumes "relay_entry_ok e"
  shows "plain_line (relay_line e)" and "py_strip (relay_line e) = relay_line e"
    and "add_relay_line d (relay_line e) = dict_set d (fst e) (snd e)"
proof -
  obtain k t where e: "e = (k, t)" by (cases e)
  have k: "k \<noteq> []" "no_space k" "hd k \<noteq> CHR ''#''" "to_lower k = k"
    using assms unfolding e by (cases t, auto simp: sender_ok_def)+
  have hd: "hd (relay_line e) = hd k" "relay_line e \<noteq> []"
    unfolding e using k(1) by (cases t, auto)+
  have "\<not> py_space (hd k)" using k(1,2) by (cases k) auto
  moreover have "\<not> py_space (last (relay_line e))"
  proof (cases t)
    case None
    then show ?thesis unfolding e using k(1,2) by (simp add: no_space_def list_all_iff)
  next
    case (Some hp)
    have "\<not> py_space (last (show_nat p))" for p
      using no_space_show[of p] show_nat_nonempty[of p] by (simp add: no_space_def list_all_iff)
    then show ?thesis unfolding e Some by (cases hp) simp
  qed
  ultimately show s: "py_strip (relay_line e) = relay_line e"
    using hd by (intro strip_id) simp
  have b: "list_all (\<lambda>c. \<not> py_break c) (relay_line e)"
    using assms k(2) no_space_plain unfolding e
    by (cases t) auto
  have "py_lstrip (relay_line e) = relay_line e"
    unfolding py_lstrip_def using hd \<open>\<not> py_space (hd k)\<close> by (intro dropWhile_id) simp
  with s b hd k(3) show "plain_line (relay_line e)"
    by (cases "relay_line e") (auto simp: plain_line_def)
  show "add_relay_line d (relay_line e) = dict_set d (fst e) (snd e)"
  proof (cases t)
    case None
    then show ?thesis unfolding e using k by (simp add: add_relay_line_def)
  next
    case (Some hp)
    obtain h p where hp: "hp = (h, p)" by (cases hp)
    then have h: "h \<noteq> []" "no_space h" "CHR '']'' \<notin> set h" using assms unfolding e Some by auto
    have "no_space (''['' @ h @ '']:'' @ show_nat p)" using h(2) by (simp add: py_space_def)
    then have "py_words (relay_line e) = [k, ''['' @ h @ '']:'' @ show_nat p]"
      unfolding e Some hp using k words_append[of k tab "''['' @ h @ '']:'' @ show_nat p"] by simp
    then show ?thesis using k h target_back[OF h, of p] unfolding e Some hp
      by (simp add: add_relay_line_def)
  qed
qed

lemma foldl_set_new:
  assumes "distinct (map fst (d @ es))" and "\<And>e d. e \<in> set es \<Longrightarrow> f d (g e) = dict_set d (fst e) (snd e)"
  shows "foldl f d (map g es) = d @ es"
  using assms
proof (induction es arbitrary: d)
  case (Cons e es)
  have "dict_set d (fst e) (snd e) = d @ [e]" using Cons.prems(1) by (subst dict_set_new) auto
  then show ?case using Cons.IH[of "d @ [e]"] Cons.prems by simp
qed simp

lemma add_relay_distinct: "distinct (map fst d) \<Longrightarrow> distinct (map fst (foldl add_relay_line d ls))"
  by (induction ls arbitrary: d) (simp_all add: add_relay_line_def Let_def split: prod.splits)

interpretation relay_map: file_dict parse_relaymap write_relaymap relay_entry_ok "\<lambda>_. True"
proof
  show "distinct (map fst (parse_relaymap content))" for content
    by (simp add: parse_relaymap_def add_relay_distinct)
  fix d :: "(string \<times> relay_target) list"
  assume d: "distinct (map fst d)" and ok: "\<forall>e \<in> set d. True \<longrightarrow> relay_entry_ok e"
  let ?es = "sort_key fst d"
  have es: "\<forall>e \<in> set ?es. relay_entry_ok e" using ok by simp
  have "read_config_lines (write_relaymap d) = map py_strip (map relay_line ?es)"
    unfolding write_relaymap_def by (rule managed_round_trip) (use es relay_line_plain(1) in auto)
  also have "\<dots> = map relay_line ?es" using es relay_line_plain(2) by (simp cong: map_cong)
  finally have "parse_relaymap (write_relaymap d) = [] @ ?es"
    unfolding parse_relaymap_def
    using d es by (simp only:) (rule foldl_set_new, auto simp: relay_line_plain(3) distinct_map distinct_sort inj_on_def)
  then show "parse_relaymap (write_relaymap d) = sort_key fst (filter (\<lambda>e. True) d)" by simp
qed

section \<open>The passwords\<close>

type_synonym credential = "string \<times> string"

definition add_sasl_line :: "(string \<times> credential) list \<Rightarrow> string \<Rightarrow> (string \<times> credential) list" where
  "add_sasl_line creds line =
     (let parts = py_split1 line
      in if length parts < 2 then creds
         else case py_partition (CHR '':'') (parts ! 1) of
                (username, _, password) \<Rightarrow>
                  dict_set creds (to_lower (hd parts)) (py_strip username, py_strip password))"

definition parse_sasl :: "string \<Rightarrow> (string \<times> credential) list" where
  "parse_sasl content = foldl add_sasl_line [] (read_config_lines content)"

fun sasl_line :: "string \<times> credential \<Rightarrow> string" where
  "sasl_line (sender, (username, password)) = sender @ tab # username @ '':'' @ password"

definition has_username :: "credential \<Rightarrow> bool" where
  "has_username c = (fst c \<noteq> [])"

definition write_sasl :: "(string \<times> credential) list \<Rightarrow> string" where
  "write_sasl creds =
     write_managed (map sasl_line (filter (\<lambda>e. has_username (snd e)) (sort_key fst creds)))"

definition one_line :: "string \<Rightarrow> bool" where
  "one_line s = (py_strip s = s \<and> list_all (\<lambda>c. \<not> py_break c) s)"

fun sasl_entry_ok :: "string \<times> credential \<Rightarrow> bool" where
  "sasl_entry_ok (k, (u, p)) = (sender_ok k \<and> u \<noteq> [] \<and> CHR '':'' \<notin> set u \<and> one_line u \<and> one_line p)"

lemma sasl_line_back:
  assumes "sasl_entry_ok e"
  shows "plain_line (sasl_line e)" and "py_strip (sasl_line e) = sasl_line e"
    and "add_sasl_line d (sasl_line e) = dict_set d (fst e) (snd e)"
proof -
  obtain k u p where e: "e = (k, (u, p))" by (cases e) auto
  have k: "k \<noteq> []" "no_space k" "hd k \<noteq> CHR ''#''" "to_lower k = k"
    and u: "u \<noteq> []" "CHR '':'' \<notin> set u" "py_strip u = u" "list_all (\<lambda>c. \<not> py_break c) u"
    and p: "py_strip p = p" "list_all (\<lambda>c. \<not> py_break c) p"
    using assms unfolding e by (simp_all add: sender_ok_def one_line_def)
  have hd: "hd (sasl_line e) = hd k" "sasl_line e \<noteq> []" "\<not> py_space (hd k)"
    unfolding e using k(1,2) by (auto, cases k) auto
  have "\<not> py_space (last (sasl_line e))"
    unfolding e using strip_end[OF p(1)] by (cases "p = []") simp_all
  with hd show s: "py_strip (sasl_line e) = sasl_line e" by (intro strip_id) simp
  have "list_all (\<lambda>c. \<not> py_break c) (sasl_line e)"
    unfolding e using u(4) p(2) no_space_plain[OF k(2)] by simp
  moreover have "py_lstrip (sasl_line e) = sasl_line e"
    unfolding py_lstrip_def using hd by (intro dropWhile_id) simp
  ultimately show "plain_line (sasl_line e)"
    using s hd k(3) by (cases "sasl_line e") (auto simp: plain_line_def)
  have "py_split1 (sasl_line e) = [k, u @ '':'' @ p]"
    unfolding e using split1_append[OF k(2,1), of tab "u @ '':'' @ p"] strip_start[OF u(3,1)] u(1) by simp
  moreover have "takeWhile (\<lambda>c. c \<noteq> CHR '':'') (u @ CHR '':'' # p) = u \<and>
      dropWhile (\<lambda>c. c \<noteq> CHR '':'') (u @ CHR '':'' # p) = CHR '':'' # p"
    using u(2) by (induction u) auto
  ultimately show "add_sasl_line d (sasl_line e) = dict_set d (fst e) (snd e)"
    unfolding e using k(4) u(3) p(1) by (simp add: add_sasl_line_def py_partition_def)
qed

lemma add_sasl_distinct: "distinct (map fst d) \<Longrightarrow> distinct (map fst (foldl add_sasl_line d ls))"
  by (induction ls arbitrary: d) (simp_all add: add_sasl_line_def Let_def split: prod.splits)

interpretation sasl_file: file_dict parse_sasl write_sasl sasl_entry_ok has_username
proof
  show "distinct (map fst (parse_sasl content))" for content
    by (simp add: parse_sasl_def add_sasl_distinct)
  fix d :: "(string \<times> credential) list"
  assume d: "distinct (map fst d)" and ok: "\<forall>e \<in> set d. has_username (snd e) \<longrightarrow> sasl_entry_ok e"
  let ?es = "sort_key fst (filter (\<lambda>e. has_username (snd e)) d)"
  have es: "\<forall>e \<in> set ?es. sasl_entry_ok e" using ok by simp
  have "read_config_lines (write_sasl d) = map py_strip (map sasl_line ?es)"
    unfolding write_sasl_def filter_sort by (rule managed_round_trip) (use es sasl_line_back(1) in auto)
  also have "\<dots> = map sasl_line ?es"
    unfolding map_map comp_def using es sasl_line_back(2) by (intro map_cong refl) blast
  finally have "parse_sasl (write_sasl d) = [] @ ?es"
    unfolding parse_sasl_def
    using d es
    by (simp only:)
      (rule foldl_set_new, auto simp: distinct_map distinct_sort inj_on_def intro!: sasl_line_back(3)
        simp del: sasl_line.simps sasl_entry_ok.simps)
  then show "parse_sasl (write_sasl d) = ?es" by simp
qed

text \<open>Whatever the password file holds, the entries that are read from it can be written again.\<close>

lemma lines_no_break: "l \<in> set (py_lines s) \<Longrightarrow> list_all (\<lambda>c. \<not> py_break c) l"
  by (induction s arbitrary: l rule: py_lines.induct) (auto split: if_splits list.splits)

lemma set_strip: "set (py_strip s) \<subseteq> set s"
  by (auto simp: py_strip_def py_lstrip_def dest!: set_dropWhileD)

lemma config_line:
  assumes "l \<in> set (read_config_lines content)"
  shows "l \<noteq> []" and "py_strip l = l" and "hd l \<noteq> CHR ''#''" and "list_all (\<lambda>c. \<not> py_break c) l"
proof -
  obtain r where r: "l = py_strip r" "py_strip r \<noteq> []" "take 1 (py_lstrip r) \<noteq> ''#''" "r \<in> set (py_lines content)"
    using assms by (auto simp: read_config_lines_def)
  then show "l \<noteq> []" and "py_strip l = l" by (simp_all add: strip_strip)
  have "\<exists>t. py_lstrip r = l @ t"
    unfolding r(1) py_strip_def by (metis rev_append rev_rev_ident takeWhile_dropWhile_id)
  then show "hd l \<noteq> CHR ''#''" using r(2,3) unfolding r(1)[symmetric] by (cases l) auto
  show "list_all (\<lambda>c. \<not> py_break c) l"
    using lines_no_break[OF r(4)] set_strip[of r] by (auto simp: r(1) list_all_iff)
qed

lemma lower_char_facts [simp]: "py_space (lower_char c) = py_space c" "lower_char c = CHR ''#'' \<longleftrightarrow> c = CHR ''#''"
proof -
  have n: "(of_char c :: nat) < 256" by (metis of_char_of of_char_mod_256 mod_less_divisor zero_less_numeral)
  then show "py_space (lower_char c) = py_space c"
    by (auto simp: lower_char_def Let_def py_space_def of_char_of)
  show "lower_char c = CHR ''#'' \<longleftrightarrow> c = CHR ''#''"
  proof
    assume h: "lower_char c = CHR ''#''"
    have "of_char (lower_char c) = (35 :: nat)" unfolding h by simp
    then have "of_char c = (35 :: nat)"
      using n by (auto simp: lower_char_def Let_def of_char_of split: if_splits)
    then have "(of_char c :: nat) = of_char (CHR ''#'')" by simp
    then show "c = CHR ''#''" by (simp only: of_char_eq_iff)
  qed (simp add: lower_char_def)
qed

section \<open>What is read can be written\<close>

lemma foldl_keeps:
  assumes "\<forall>e \<in> set d. P e" and "\<And>d l. l \<in> set ls \<Longrightarrow> \<forall>e \<in> set d. P e \<Longrightarrow> \<forall>e \<in> set (f d l). P e"
  shows "\<forall>e \<in> set (foldl f d ls). P e"
  using assms
proof (induction ls arbitrary: d)
  case (Cons l ls)
  have "\<forall>e \<in> set (f d l). P e" by (rule Cons.prems(2)[OF _ Cons.prems(1)]) simp
  moreover have "\<forall>e \<in> set (f d' l'). P e" if "l' \<in> set ls" "\<forall>e \<in> set d'. P e" for d' l'
    using Cons.prems(2)[of l' d'] that by simp
  ultimately show ?case using Cons.IH[of "f d l"] by simp
qed simp

lemma words_no_space: "w \<in> set (py_words s) \<Longrightarrow> no_space w \<and> w \<noteq> []"
proof (induction s rule: py_words.induct)
  case (1 s)
  let ?r = "py_lstrip s"
  have "no_space (takeWhile (\<lambda>c. \<not> py_space c) ?r)" by (auto simp: no_space_def list_all_iff dest: set_takeWhileD)
  moreover have "?r \<noteq> [] \<Longrightarrow> takeWhile (\<lambda>c. \<not> py_space c) ?r \<noteq> []"
    using lstrip_hd[of s] by (cases ?r) auto
  ultimately show ?case using 1 by (auto simp: py_words.simps[of s] Let_def split: if_splits)
qed

lemma first_word:
  assumes "l \<noteq> []" and "\<not> py_space (hd l)"
  shows "\<exists>ws. py_words l = takeWhile (\<lambda>c. \<not> py_space c) l # ws" and "\<exists>ws. py_split1 l = takeWhile (\<lambda>c. \<not> py_space c) l # ws"
proof -
  have "py_lstrip l = l" unfolding py_lstrip_def using assms by (intro dropWhile_id) simp
  then show "\<exists>ws. py_words l = takeWhile (\<lambda>c. \<not> py_space c) l # ws" "\<exists>ws. py_split1 l = takeWhile (\<lambda>c. \<not> py_space c) l # ws"
    using assms(1) by (simp_all add: py_words.simps[of l] py_split1_def Let_def)
qed

lemma sender_read:
  assumes "l \<in> set (read_config_lines content)"
  shows "sender_ok (to_lower (hd (py_words l)))" and "sender_ok (to_lower (hd (py_split1 l)))"
proof -
  note l = config_line[OF assms]
  have s: "\<not> py_space (hd l)" by (rule strip_start[OF l(2,1)])
  let ?w = "takeWhile (\<lambda>c. \<not> py_space c) l"
  have w: "?w \<noteq> []" "hd ?w = hd l" using l(1) s by (cases l; simp)+
  have "no_space (to_lower ?w)" by (auto simp: no_space_def list_all_iff to_lower_def dest: set_takeWhileD)
  moreover have "hd (to_lower ?w) \<noteq> CHR ''#''" using w l(3) by (simp add: to_lower_def hd_map)
  ultimately have "sender_ok (to_lower ?w)" using w by (simp add: sender_ok_def)
  then show "sender_ok (to_lower (hd (py_words l)))" "sender_ok (to_lower (hd (py_split1 l)))"
    using first_word[OF l(1) s] by auto
qed

lemma target_no_space: "no_space t \<Longrightarrow> no_space (fst (parse_relay_target t))"
proof -
  assume t: "no_space t"
  have sub: "no_space v" if "set v \<subseteq> set t" for v using t that by (auto simp: no_space_def list_all_iff)
  have "set (fst (parse_relay_target t)) \<subseteq> set t"
    unfolding parse_relay_target_def no_space_strip[OF t] Let_def py_partition_def before_last_colon_def
    by (auto dest!: subsetD[OF set_strip] dest: in_set_dropD set_dropWhileD set_takeWhileD)
      (auto dest!: in_set_dropD set_dropWhileD)
  then show ?thesis by (rule sub)
qed

lemma relays_read:
  "\<forall>e \<in> set (parse_relaymap content). sender_ok (fst e) \<and> (\<forall>h p. snd e = Some (h, p) \<longrightarrow> h \<noteq> [] \<and> no_space h)"
  unfolding parse_relaymap_def
proof (rule foldl_keeps)
  fix d :: "(string \<times> relay_target) list" and l
  assume l: "l \<in> set (read_config_lines content)"
    and d: "\<forall>e \<in> set d. sender_ok (fst e) \<and> (\<forall>h p. snd e = Some (h, p) \<longrightarrow> h \<noteq> [] \<and> no_space h)"
  show "\<forall>e \<in> set (add_relay_line d l). sender_ok (fst e) \<and> (\<forall>h p. snd e = Some (h, p) \<longrightarrow> h \<noteq> [] \<and> no_space h)"
  proof (cases "length (py_words l) < 2")
    case True
    then have "add_relay_line d l = dict_set d (to_lower (hd (py_words l))) None"
      by (simp add: add_relay_line_def Let_def)
    then show ?thesis using d sender_read(1)[OF l] set_dict_set by (metis fst_conv option.distinct(1) snd_conv)
  next
    case False
    obtain h p where hp: "parse_relay_target (py_words l ! 1) = (h, p)"
      by (cases "parse_relay_target (py_words l ! 1)")
    have "no_space (fst (parse_relay_target (py_words l ! 1)))"
      using False by (intro target_no_space words_no_space[THEN conjunct1, OF nth_mem]) simp
    then have h: "no_space h" unfolding hp by simp
    have "add_relay_line d l = (if h \<noteq> [] then dict_set d (to_lower (hd (py_words l))) (Some (h, p)) else d)"
      using False hp by (simp add: add_relay_line_def Let_def)
    then show ?thesis using d h sender_read(1)[OF l] set_dict_set
      by (metis fst_conv option.inject prod.inject snd_conv)
  qed
qed simp

lemma set_lstrip: "set (py_lstrip s) \<subseteq> set s"
  by (auto simp: py_lstrip_def dest: set_dropWhileD)

lemma split1_second:
  assumes "\<not> length (py_split1 l) < 2"
  shows "set (py_split1 l ! 1) \<subseteq> set l"
proof -
  have "py_split1 l ! 1 = py_lstrip (dropWhile (\<lambda>c. \<not> py_space c) (py_lstrip l))"
  proof -
    have "(if a then [] else w # (if b then [] else [x])) ! 1 = x"
      if "\<not> length (if a then [] else w # (if b then [] else [x])) < 2" for a b and w x :: string
      using that by (cases a; cases b) simp_all
    then show ?thesis using assms unfolding py_split1_def Let_def by blast
  qed
  then show ?thesis using set_lstrip set_dropWhileD by (metis subset_iff)
qed

lemma partition_parts:
  assumes "py_partition (CHR '':'') s = (u, found, p)" and "list_all (\<lambda>c. \<not> py_break c) s"
  shows "one_line (py_strip u)" and "one_line (py_strip p)" and "CHR '':'' \<notin> set (py_strip u)"
proof -
  have u: "u = takeWhile (\<lambda>c. c \<noteq> CHR '':'') s" and p: "p = drop 1 (dropWhile (\<lambda>c. c \<noteq> CHR '':'') s)"
    using assms(1) by (simp_all add: py_partition_def)
  have su: "set (py_strip u) \<subseteq> set s \<inter> {c. c \<noteq> CHR '':''}"
    using set_strip[of u] set_takeWhileD unfolding u by fastforce
  have sp: "set (py_strip p) \<subseteq> set s"
    using set_strip[of p] in_set_dropD set_dropWhileD unfolding p by fast
  show "one_line (py_strip u)" "one_line (py_strip p)" "CHR '':'' \<notin> set (py_strip u)"
    using su sp assms(2) by (auto simp: one_line_def strip_strip list_all_iff)
qed

lemma sasl_read: "\<forall>e \<in> set (parse_sasl content). has_username (snd e) \<longrightarrow> sasl_entry_ok e"
  unfolding parse_sasl_def
proof (rule foldl_keeps)
  fix d :: "(string \<times> credential) list" and l
  assume l: "l \<in> set (read_config_lines content)" and d: "\<forall>e \<in> set d. has_username (snd e) \<longrightarrow> sasl_entry_ok e"
  show "\<forall>e \<in> set (add_sasl_line d l). has_username (snd e) \<longrightarrow> sasl_entry_ok e"
  proof (cases "length (py_split1 l) < 2")
    case True
    then show ?thesis using d by (simp add: add_sasl_line_def)
  next
    case False
    obtain u found p where part: "py_partition (CHR '':'') (py_split1 l ! 1) = (u, found, p)"
      by (cases "py_partition (CHR '':'') (py_split1 l ! 1)") auto
    have "list_all (\<lambda>c. \<not> py_break c) (py_split1 l ! 1)"
      using config_line(4)[OF l] split1_second[OF False] by (auto simp: list_all_iff)
    note ok = partition_parts[OF part this] sender_read(2)[OF l]
    let ?k = "to_lower (hd (py_split1 l))"
    have "add_sasl_line d l = dict_set d ?k (py_strip u, py_strip p)"
      using False part by (simp add: add_sasl_line_def)
    moreover have "has_username (py_strip u, py_strip p) \<longrightarrow> sasl_entry_ok (?k, (py_strip u, py_strip p))"
      using ok by (simp add: has_username_def)
    ultimately show ?thesis using d set_dict_set by (metis snd_conv)
  qed
qed simp

section \<open>Operations\<close>

record relay_files =
  rf_map :: string
  rf_sasl :: string

text \<open>The exceptions: \<open>BadRequestException\<close>, \<open>ConflictException\<close> and the two \<open>NotFoundException\<close>s.\<close>

datatype relay_error =
    Not_a_sender
  | Already_exists string
  | Relay_not_found string
  | Exclusion_not_found string

record relay_payload =
  ry_sender :: string
  ry_host :: string
  ry_port :: nat
  ry_username :: "string option"
  ry_password :: "string option"

definition text_or_empty :: "string option \<Rightarrow> string" where
  "text_or_empty v = (case v of None \<Rightarrow> [] | Some s \<Rightarrow> s)"

definition normalise_sender :: "string \<Rightarrow> string" where
  "normalise_sender sender = to_lower (py_strip sender)"

definition require_relay_sender :: "string \<Rightarrow> relay_error + string" where
  "require_relay_sender sender =
     (let key = normalise_sender sender
      in if CHR ''@'' \<notin> set key then Inl Not_a_sender else Inr key)"

definition shown_relay :: "string \<Rightarrow> string \<Rightarrow> nat \<Rightarrow> string \<Rightarrow> relay_host" where
  "shown_relay sender host port username =
     \<lparr>rh_sender = sender, rh_host = host, rh_port = int port, rh_username = or_null username,
      rh_has_credentials = (username \<noteq> [])\<rparr>"

definition list_relays :: "relay_files \<Rightarrow> relay_host list" where
  "list_relays f =
     (let creds = parse_sasl (rf_sasl f)
      in List.map_filter
           (\<lambda>(sender, target). case target of
              None \<Rightarrow> None
            | Some (host, port) \<Rightarrow>
                Some (shown_relay sender host port
                  (case map_of creds sender of None \<Rightarrow> [] | Some c \<Rightarrow> fst c)))
           (sort_key fst (parse_relaymap (rf_map f))))"

definition create_relay :: "relay_payload \<Rightarrow> relay_files \<Rightarrow> relay_error + relay_files \<times> relay_host" where
  "create_relay payload f =
     (case require_relay_sender (ry_sender payload) of
        Inl e \<Rightarrow> Inl e
      | Inr sender \<Rightarrow>
          (let d = parse_relaymap (rf_map f); host = py_strip (ry_host payload);
               username = py_strip (text_or_empty (ry_username payload));
               f1 = f\<lparr>rf_map := write_relaymap (dict_set d sender (Some (host, ry_port payload)))\<rparr>;
               f2 = (if username \<noteq> [] then
                       f1\<lparr>rf_sasl := write_sasl (dict_set (parse_sasl (rf_sasl f1)) sender
                              (username, text_or_empty (ry_password payload)))\<rparr>
                     else f1)
           in if map_of d sender \<noteq> None then Inl (Already_exists sender)
              else Inr (f2, shown_relay sender host (ry_port payload) username)))"

definition delete_relay :: "string \<Rightarrow> relay_files \<Rightarrow> relay_error + relay_files" where
  "delete_relay sender f =
     (let key = normalise_sender sender; d = parse_relaymap (rf_map f)
      in case map_of d key of
           Some (Some target) \<Rightarrow>
             (let f1 = f\<lparr>rf_map := write_relaymap (dict_pop d key)\<rparr>; creds = parse_sasl (rf_sasl f1)
              in Inr (if map_of creds key \<noteq> None then f1\<lparr>rf_sasl := write_sasl (dict_pop creds key)\<rparr> else f1))
         | _ \<Rightarrow> Inl (Relay_not_found key))"

definition list_relay_exclusions :: "relay_files \<Rightarrow> relay_exclusion list" where
  "list_relay_exclusions f =
     map (\<lambda>e. \<lparr>rx_sender = fst e\<rparr>) (filter (\<lambda>e. snd e = None) (sort_key fst (parse_relaymap (rf_map f))))"

definition create_relay_exclusion :: "string \<Rightarrow> relay_files \<Rightarrow> relay_error + relay_files \<times> relay_exclusion" where
  "create_relay_exclusion sender f =
     (case require_relay_sender sender of
        Inl e \<Rightarrow> Inl e
      | Inr key \<Rightarrow>
          (let d = parse_relaymap (rf_map f)
           in if map_of d key \<noteq> None then Inl (Already_exists key)
              else Inr (f\<lparr>rf_map := write_relaymap (dict_set d key None)\<rparr>, \<lparr>rx_sender = key\<rparr>)))"

definition delete_relay_exclusion :: "string \<Rightarrow> relay_files \<Rightarrow> relay_error + relay_files" where
  "delete_relay_exclusion sender f =
     (let key = normalise_sender sender; d = parse_relaymap (rf_map f)
      in case map_of d key of
           Some None \<Rightarrow> Inr (f\<lparr>rf_map := write_relaymap (dict_pop d key)\<rparr>)
         | _ \<Rightarrow> Inl (Exclusion_not_found key))"

section \<open>What the two files promise\<close>

text \<open>
  The abstract book: for every sender its relay or its exclusion, and its credentials. A
  removal of a relay takes the credentials with it.
\<close>

type_synonym relay_book = "(string \<Rightarrow> relay_target option) \<times> (string \<Rightarrow> credential option)"

definition book :: "relay_files \<Rightarrow> relay_book" where
  "book f = (map_of (parse_relaymap (rf_map f)), book_of has_username (parse_sasl (rf_sasl f)))"

datatype relay_op =
    Create_op relay_payload
  | Delete_op string
  | Exclude_op string
  | Include_op string

fun run_relay_op :: "relay_op \<Rightarrow> relay_files \<Rightarrow> relay_error + relay_files" where
  "run_relay_op (Create_op payload) f = map_sum id fst (create_relay payload f)"
| "run_relay_op (Delete_op sender) f = delete_relay sender f"
| "run_relay_op (Exclude_op sender) f = map_sum id fst (create_relay_exclusion sender f)"
| "run_relay_op (Include_op sender) f = delete_relay_exclusion sender f"

fun relay_op_key :: "relay_op \<Rightarrow> string" where
  "relay_op_key (Create_op payload) = normalise_sender (ry_sender payload)"
| "relay_op_key (Delete_op sender) = normalise_sender sender"
| "relay_op_key (Exclude_op sender) = normalise_sender sender"
| "relay_op_key (Include_op sender) = normalise_sender sender"

fun spec_relay_op :: "relay_op \<Rightarrow> relay_book \<Rightarrow> relay_error + relay_book" where
  "spec_relay_op (Create_op payload) (m, c) =
     (let k = normalise_sender (ry_sender payload); u = py_strip (text_or_empty (ry_username payload))
      in if CHR ''@'' \<notin> set k then Inl Not_a_sender
         else if m k \<noteq> None then Inl (Already_exists k)
         else Inr (m(k \<mapsto> Some (py_strip (ry_host payload), ry_port payload)),
                   if u = [] then c else c(k \<mapsto> (u, text_or_empty (ry_password payload)))))"
| "spec_relay_op (Delete_op sender) (m, c) =
     (let k = normalise_sender sender
      in case m k of Some (Some target) \<Rightarrow> Inr (m(k := None), c(k := None)) | _ \<Rightarrow> Inl (Relay_not_found k))"
| "spec_relay_op (Exclude_op sender) (m, c) =
     (let k = normalise_sender sender
      in if CHR ''@'' \<notin> set k then Inl Not_a_sender
         else if m k \<noteq> None then Inl (Already_exists k)
         else Inr (m(k \<mapsto> None), c))"
| "spec_relay_op (Include_op sender) (m, c) =
     (let k = normalise_sender sender
      in case m k of Some None \<Rightarrow> Inr (m(k := None), c) | _ \<Rightarrow> Inl (Exclusion_not_found k))"

text \<open>
  What the handlers do not check: a sender of one word that is not a comment, a host of one
  word without a closing bracket, a user name without a colon and a password without white
  space at its ends, both on one line.
\<close>

fun storable :: "relay_op \<Rightarrow> bool" where
  "storable (Create_op payload) =
     (let k = normalise_sender (ry_sender payload); u = py_strip (text_or_empty (ry_username payload))
      in relay_entry_ok (k, Some (py_strip (ry_host payload), ry_port payload)) \<and>
         (u \<noteq> [] \<longrightarrow> sasl_entry_ok (k, (u, text_or_empty (ry_password payload)))))"
| "storable (Exclude_op sender) = sender_ok (normalise_sender sender)"
| "storable _ = True"

text \<open>No host in the file has a closing bracket; an empty file is such a file.\<close>

definition files_ok :: "relay_files \<Rightarrow> bool" where
  "files_ok f = (\<forall>(k, target) \<in> set (parse_relaymap (rf_map f)). \<forall>h p. target = Some (h, p) \<longrightarrow> CHR '']'' \<notin> set h)"

lemma files_ok_sound: "files_ok f \<longleftrightarrow> relay_map.sound (rf_map f)"
proof -
  have "relay_entry_ok e \<longleftrightarrow> sender_ok (fst e) \<and> (\<forall>h p. snd e = Some (h, p) \<longrightarrow> h \<noteq> [] \<and> no_space h \<and> CHR '']'' \<notin> set h)" for e
    by (cases e; cases "snd e") auto
  then show ?thesis using relays_read[of "rf_map f"] by (auto simp: files_ok_def relay_map.sound_def)
qed

lemma sasl_sound: "sasl_file.sound content"
  using sasl_read by (simp add: sasl_file.sound_def)

lemma book_of_at: "distinct (map fst d) \<Longrightarrow>
    book_of kept d k = (case map_of d k of None \<Rightarrow> None | Some v \<Rightarrow> if kept v then Some v else None)"
proof (induction d)
  case (Cons e d)
  then have "map_of d (fst e) = None" by (simp add: map_of_eq_None_iff)
  with Cons show ?case by (auto simp: book_of_def split: option.splits)
qed (simp add: book_of_def)

lemma book_all [simp]: "book_of (\<lambda>_. True) d = map_of d"
  by (simp add: book_of_def)

lemma relay_put:
  assumes "files_ok f" and "relay_entry_ok (k, v)"
  shows "map_of (parse_relaymap (write_relaymap (dict_set (parse_relaymap (rf_map f)) k v))) =
      (map_of (parse_relaymap (rf_map f)))(k \<mapsto> v) \<and>
    relay_map.sound (write_relaymap (dict_set (parse_relaymap (rf_map f)) k v))"
  using relay_map.put[of "rf_map f" k v] assms by (simp add: files_ok_sound)

lemma relay_drop:
  assumes "files_ok f"
  shows "map_of (parse_relaymap (write_relaymap (dict_pop (parse_relaymap (rf_map f)) k))) =
      (map_of (parse_relaymap (rf_map f)))(k := None) \<and>
    relay_map.sound (write_relaymap (dict_pop (parse_relaymap (rf_map f)) k))"
  using relay_map.drop[of "rf_map f" k] assms by (simp add: files_ok_sound)

lemmas sasl_put = sasl_file.put[OF sasl_sound, THEN conjunct1]
lemmas sasl_drop = sasl_file.drop[OF sasl_sound, THEN conjunct1]

lemma no_credentials:
  "\<forall>u p. map_of (parse_sasl content) k \<noteq> Some (u, p) \<Longrightarrow>
    (book_of has_username (parse_sasl content))(k := None) = book_of has_username (parse_sasl content)"
  by (rule fun_upd_idem) (cases "map_of (parse_sasl content) k", auto simp: book_of_at[OF sasl_file.parse_distinct])

lemmas relay_op_defs =
  create_relay_def delete_relay_def create_relay_exclusion_def delete_relay_exclusion_def
  require_relay_sender_def book_def Let_def

lemma run_refines:
  assumes "files_ok f" and "storable op"
  shows "map_sum id book (run_relay_op op f) = spec_relay_op op (book f) \<and>
    (\<forall>f'. run_relay_op op f = Inr f' \<longrightarrow> files_ok f')"
proof (cases op)
  case (Create_op payload)
  let ?k = "normalise_sender (ry_sender payload)" and ?u = "py_strip (text_or_empty (ry_username payload))"
  have e: "relay_entry_ok (?k, Some (py_strip (ry_host payload), ry_port payload))"
    and c: "?u \<noteq> [] \<Longrightarrow> sasl_entry_ok (?k, (?u, text_or_empty (ry_password payload)))"
    using assms(2) by (simp_all add: Create_op Let_def del: relay_entry_ok.simps sasl_entry_ok.simps)
  show ?thesis
    using relay_put[OF assms(1) e] sasl_put[OF c, of "rf_sasl f"]
    by (auto simp: Create_op relay_op_defs files_ok_sound has_username_def)
next
  case (Delete_op sender)
  show ?thesis
    using relay_drop[OF assms(1)] sasl_drop[of "rf_sasl f"] no_credentials[of "rf_sasl f"] assms(1)
    by (auto simp: Delete_op relay_op_defs files_ok_sound split: option.splits)
next
  case (Exclude_op sender)
  have "relay_entry_ok (normalise_sender sender, None)" using assms(2) by (simp add: Exclude_op)
  from relay_put[OF assms(1) this] show ?thesis by (auto simp: Exclude_op relay_op_defs files_ok_sound)
next
  case (Include_op sender)
  show ?thesis
    using relay_drop[OF assms(1)] by (auto simp: Include_op relay_op_defs files_ok_sound split: option.splits)
qed

text \<open>A failed operation writes nothing.\<close>

definition do_relay_op :: "relay_op \<Rightarrow> relay_files \<Rightarrow> relay_files" where
  "do_relay_op op f = (case run_relay_op op f of Inl e \<Rightarrow> f | Inr f' \<Rightarrow> f')"

definition spec_do :: "relay_op \<Rightarrow> relay_book \<Rightarrow> relay_book" where
  "spec_do op b = (case spec_relay_op op b of Inl e \<Rightarrow> b | Inr b' \<Rightarrow> b')"

lemma do_refines:
  "files_ok f \<Longrightarrow> storable op \<Longrightarrow> book (do_relay_op op f) = spec_do op (book f) \<and> files_ok (do_relay_op op f)"
  using run_refines[of f op] by (cases "run_relay_op op f") (auto simp: do_relay_op_def spec_do_def dest: sym)

lemma ops_refine:
  "files_ok f \<Longrightarrow> list_all storable ops \<Longrightarrow>
    book (fold do_relay_op ops f) = fold spec_do ops (book f) \<and> files_ok (fold do_relay_op ops f)"
  by (induction ops arbitrary: f) (simp_all add: do_refines)

text \<open>The two lists read the book.\<close>

definition username_in :: "relay_book \<Rightarrow> string \<Rightarrow> string" where
  "username_in b k = (case snd b k of None \<Rightarrow> [] | Some c \<Rightarrow> fst c)"

lemma username_read:
  "(case map_of (parse_sasl (rf_sasl f)) k of None \<Rightarrow> [] | Some c \<Rightarrow> fst c) = username_in (book f) k"
  by (simp add: username_in_def book_def book_of_at[OF sasl_file.parse_distinct] has_username_def split: option.splits)

lemma in_map_filter: "y \<in> set (List.map_filter g xs) \<longleftrightarrow> (\<exists>x \<in> set xs. g x = Some y)"
  by (fastforce simp: List.map_filter_def image_iff)

lemma entry_read: "(k, v) \<in> set (parse_relaymap (rf_map f)) \<longleftrightarrow> fst (book f) k = Some v"
  using relay_map.parse_distinct by (simp add: book_def map_of_eq_Some_iff)

lemma listed_relays:
  "r \<in> set (list_relays f) \<longleftrightarrow>
    (\<exists>k h p. fst (book f) k = Some (Some (h, p)) \<and> r = shown_relay k h p (username_in (book f) k))"
proof -
  have "r \<in> set (list_relays f) \<longleftrightarrow>
      (\<exists>k target. (k, target) \<in> set (parse_relaymap (rf_map f)) \<and>
         (case target of None \<Rightarrow> None | Some (h, p) \<Rightarrow> Some (shown_relay k h p (username_in (book f) k))) = Some r)"
    unfolding list_relays_def Let_def username_read in_map_filter by (auto simp: Bex_def)
  also have "\<dots> \<longleftrightarrow> (\<exists>k h p. (k, Some (h, p)) \<in> set (parse_relaymap (rf_map f)) \<and>
      r = shown_relay k h p (username_in (book f) k))"
    by (auto split: option.splits prod.splits) blast
  finally show ?thesis unfolding entry_read .
qed

lemma listed_exclusions: "x \<in> set (list_relay_exclusions f) \<longleftrightarrow> fst (book f) (rx_sender x) = Some None"
  unfolding entry_read[symmetric] by (cases x) (force simp: list_relay_exclusions_def image_iff)

section \<open>Properties\<close>


text \<open>A relay that is stored is listed as it was returned.\<close>

lemma created_listed:
  assumes "files_ok f" and "storable (Create_op p)" and c: "create_relay p f = Inr (f', r)"
    and u: "py_strip (text_or_empty (ry_username p)) \<noteq> [] \<or> username_in (book f) (rh_sender r) = []"
  shows "r \<in> set (list_relays f')"
proof -
  let ?k = "normalise_sender (ry_sender p)" and ?u = "py_strip (text_or_empty (ry_username p))"
  have r: "r = shown_relay ?k (py_strip (ry_host p)) (ry_port p) ?u"
    using c by (auto simp: create_relay_def require_relay_sender_def Let_def split: if_splits)
  have "Inr (book f') = spec_relay_op (Create_op p) (book f)"
    using run_refines[OF assms(1,2)] c by simp
  then have b: "book f' = ((fst (book f))(?k \<mapsto> Some (py_strip (ry_host p), ry_port p)),
      if ?u = [] then snd (book f) else (snd (book f))(?k \<mapsto> (?u, text_or_empty (ry_password p))))"
    by (cases "book f") (auto simp: Let_def split: if_splits)
  have "username_in (book f') ?k = ?u"
    using u unfolding b by (auto simp: username_in_def r shown_relay_def)
  then show ?thesis unfolding listed_relays r b by auto
qed

definition no_files :: relay_files where
  "no_files = \<lparr>rf_map = [], rf_sasl = []\<rparr>"

lemma no_files_book: "parse_relaymap [] = []" "parse_sasl [] = []"
  by (simp_all add: parse_relaymap_def parse_sasl_def read_config_lines_def py_strip_def py_lstrip_def)

lemma no_files_ok: "files_ok no_files"
  by (simp add: files_ok_def no_files_def no_files_book)

lemmas plain_words = no_space_simps py_space_def to_lower_def lower_char_def


text \<open>
  Texts that cannot be stored are accepted and come back as something else: a host in
  brackets, as Postfix writes it, loses one of them and its port; a sender of two words
  becomes a relay of the first to the second; a sender that starts with a number sign is
  lost. The page sends all three.
\<close>

lemma read_one: "plain_line l \<Longrightarrow> parse_relaymap (write_managed [l]) = add_relay_line [] (py_strip l)"
  by (simp add: parse_relaymap_def managed_round_trip)

lemma bracketed_host:
  "\<exists>f' r. create_relay \<lparr>ry_sender = ''@a.org'', ry_host = ''[m.b.org]'', ry_port = 25, ry_username = None,
       ry_password = None\<rparr> no_files = Inr (f', r) \<and>
     rh_host r = ''[m.b.org]'' \<and> rh_port r = 25 \<and>
     list_relays f' = [shown_relay ''@a.org'' ''[m.b.org'' 587 []]"
proof -
  let ?l = "''@a.org'' @ tab # ''[[m.b.org]]:'' @ show_nat 25"
  have s: "show_nat 25 = ''25''" by (simp add: show_nat.simps[of 25] show_nat.simps[of 2] show_nat.simps[of 5])
  have l: "py_strip ?l = ?l" "py_lstrip ?l = ?l" unfolding s by (simp_all add: strip_id py_lstrip_def py_space_def)
  have "plain_line ?l" unfolding plain_line_def l unfolding s by (simp add: py_break_def tab_def)
  note read = read_one[OF this, unfolded l]
  have w: "py_words ?l = [''@a.org'', ''[[m.b.org]]:'' @ show_nat 25]"
    using words_append[of "''@a.org''" tab "''[[m.b.org]]:25''"] unfolding s by (simp add: plain_words tab_def)
  have t: "parse_relay_target (''[[m.b.org]]:'' @ show_nat 25) = (''[m.b.org'', 587)"
    unfolding s by (simp add: parse_relay_target_def plain_words py_partition_def port_of_def is_digit_def)
  have "add_relay_line [] ?l = [(''@a.org'', Some (''[m.b.org'', 587))]"
    unfolding add_relay_line_def w Let_def using t by (simp add: plain_words)
  then show ?thesis
    using read
    by (simp add: create_relay_def require_relay_sender_def normalise_sender_def plain_words no_files_def no_files_book
        text_or_empty_def write_relaymap_def list_relays_def shown_relay_def List.map_filter_def py_strip_def py_lstrip_def)
qed

lemma two_word_sender:
  "\<exists>f'. create_relay_exclusion ''a b@c.org'' no_files = Inr (f', \<lparr>rx_sender = ''a b@c.org''\<rparr>) \<and>
     list_relay_exclusions f' = [] \<and> list_relays f' = [shown_relay ''a'' ''b@c.org'' 587 []]"
proof -
  let ?l = "''a b@c.org''"
  have l: "py_strip ?l = ?l" "py_lstrip ?l = ?l" by (simp_all add: strip_id py_lstrip_def py_space_def)
  have "plain_line ?l" unfolding plain_line_def l by (simp add: py_break_def)
  note read = read_one[OF this, unfolded l]
  have w: "py_words ?l = [''a'', ''b@c.org'']"
    using words_append[of "''a''" "CHR '' ''" "''b@c.org''"] by (simp add: plain_words)
  have "add_relay_line [] ?l = [(''a'', Some (''b@c.org'', 587))]"
    unfolding add_relay_line_def w Let_def by (simp add: parse_relay_target_def plain_words)
  then show ?thesis
    using read l
    by (simp add: create_relay_exclusion_def require_relay_sender_def normalise_sender_def plain_words no_files_def
        no_files_book write_relaymap_def list_relays_def list_relay_exclusions_def shown_relay_def List.map_filter_def)
qed

lemma commented_sender:
  "\<exists>f'. create_relay_exclusion ''#@c.org'' no_files = Inr (f', \<lparr>rx_sender = ''#@c.org''\<rparr>) \<and>
     list_relay_exclusions f' = []"
proof -
  have l: "py_strip ''#@c.org'' = ''#@c.org''" by (simp add: plain_words)
  have "read_config_lines (write_managed [''#@c.org'']) = []"
    unfolding header_dropped
    by (simp add: read_config_lines_def newline_def py_break_def py_lstrip_def py_strip_def py_space_def)
  then have "parse_relaymap (write_managed [''#@c.org'']) = []" by (simp add: parse_relaymap_def)
  then show ?thesis
    by (simp add: l create_relay_exclusion_def require_relay_sender_def normalise_sender_def to_lower_def
        lower_char_def no_files_def no_files_book write_relaymap_def list_relay_exclusions_def)
qed

end
