(* ===== verification/Unit_Tests.thy ===== *)
theory Unit_Tests
  imports User_Multi_Select Theme App_Shell About_Page
begin

text \<open>
  The cases of the unit tests (\<open>*.spec.ts\<close>) that are about behaviour, on the definitions of
  the model: one lemma per case, with the events and the values of the test. The cases that
  look at the markup of a template are left out.
\<close>

section \<open>user-multi-select.spec.ts\<close>

definition spec_user :: "int \<Rightarrow> string \<Rightarrow> string \<Rightarrow> user" where
  "spec_user i name display =
     \<lparr>u_id = i, u_username = name, u_display_name = display, u_role = Guest, u_effective_role = Guest,
      u_provider = Local, u_is_active = True, u_created_at = ''2026-01-01T00:00:00Z'', u_last_login_at = None\<rparr>"

definition spec_select :: "int list \<Rightarrow> multi_select" where
  "spec_select ids =
     (select_start 0 [spec_user 1 ''alice'' ''Alice Martin'', spec_user 2 ''bob'' ''Bob Dupont'',
        spec_user 3 ''carol'' ''Carol Bernard''])\<lparr>ms_selectedIds := ids\<rparr>"

lemmas spec_select_defs =
  spec_select_def spec_user_def select_start_def select_defs optionRefs_def filtered_def Let_def at_index_def
  toggle_ids_def remove_ids_def js_rem_def

lemma spec_closed_until_focused:
  "optionRefs (spec_select []) = []" "length (optionRefs (select_step Focus_search (spec_select []))) = 3"
  by code_simp+

lemma spec_filters:
  "map u_username (optionRefs (onQueryInput ''bo'' (spec_select []))) = [''bob'']"
  "map u_username (optionRefs (onQueryInput ''bernard'' (spec_select []))) = [''carol'']"
  "optionRefs (onQueryInput ''zzz'' (spec_select [])) = []"
  by code_simp+

lemma spec_accumulates: "ms_selectedIds (toggle_user 3 (toggle_user 1 (onQueryInput [] (spec_select [])))) = [1, 3]"
  by code_simp

lemma spec_deselects: "isSelected 2 (spec_select [2])" "ms_selectedIds (toggle_user 2 (spec_select [2])) = []"
  by code_simp+

lemma spec_keyboard:
  "ms_selectedIds (fold select_step [Query [], Key ArrowDown, Key ArrowDown, Key Enter] (spec_select [])) = [2]"
  by code_simp

lemma spec_backspace: "ms_selectedIds (select_step (Key Backspace) (spec_select [1, 2])) = [1]"
  by code_simp

lemma spec_chip: "ms_selectedIds (remove_user 3 (spec_select [1, 3])) = [1]"
  by code_simp

lemma spec_click_outside: "optionRefs (onDocumentClick False (onQueryInput [] (spec_select []))) = []"
  by code_simp

section \<open>theme.service.spec.ts and theme-toggle.spec.ts\<close>

text \<open>The service of a test: the system preference, the stored mode, one render.\<close>

definition spec_theme :: "bool \<Rightarrow> string option \<Rightarrow> theme_state" where
  "spec_theme dark stored =
     run_effect (theme_service (Some (\<lambda>_. dark)) False ((\<lambda>_. None)(STORAGE_KEY := stored)) None None)"

lemmas spec_theme_defs =
  spec_theme_def theme_service_def theme_boot_def readStoredMode_def themeMode_of_def THEME_MODES_def theme_defs
  resolvedTheme_def isDarkMode_def

lemma spec_auto:
  "mode (spec_theme True None) = Auto" "isDarkMode (spec_theme True None)"
  "attribute (spec_theme True None) = Some ''dark''"
  by (simp_all add: spec_theme_defs)

lemma spec_follows_system:
  "resolvedTheme (spec_theme False None) = Light_theme"
  "let s = run_effect ((spec_theme False None)\<lparr>systemPrefersDark := True\<rparr>)
   in resolvedTheme s = Dark_theme \<and> attribute s = Some ''dark''"
  by (simp_all add: spec_theme_defs)

lemma spec_pinned:
  "let s = run_effect ((run_effect (setThemeMode False Light (spec_theme False None)))\<lparr>systemPrefersDark := True\<rparr>)
   in resolvedTheme s = Light_theme \<and> attribute s = Some ''light''"
  by (simp add: spec_theme_defs)

lemma spec_toggle:
  "let s = run_effect (theme_toggle False (spec_theme True None)) in mode s = Light \<and> attribute s = Some ''light''"
  by (simp add: spec_theme_defs)

lemma spec_restored:
  "mode (spec_theme False (Some ''dark'')) = Dark" "attribute (spec_theme False (Some ''dark'')) = Some ''dark''"
  "mode (spec_theme False (Some ''sepia'')) = Auto"
  by (simp_all add: spec_theme_defs)

lemma spec_trigger:
  "triggerIcon (spec_theme False None) = ''bi-sun-fill''"
  "map to_label THEME_OPTIONS = [''Light'', ''Dark'', ''System'']"
  "triggerIcon (run_effect (setThemeMode False Dark (spec_theme False None))) = ''bi-moon-stars-fill''"
  "storage (setThemeMode False Light (spec_theme False None)) = Some ''light''"
  by (simp_all add: spec_theme_defs triggerIcon_def THEME_OPTIONS_def)

section \<open>session-expired-modal.spec.ts\<close>

text \<open>A request that fails with 401, through the interceptor of the test.\<close>

definition spec_fail :: "string \<Rightarrow> modal_state \<Rightarrow> modal_state" where
  "spec_fail url s =
     fst (snd (withInterceptors [sessionExpiryInterceptor] \<lparr>og_request = Api GET url [] None, og_withCredentials = False\<rparr>)
       (Inl (HttpError 401 None)) s)"

definition spec_document :: "modal_state \<Rightarrow> modal_document" where
  "spec_document s = modal_effects s \<lparr>body_classes = [], focused = None\<rparr>"

lemmas spec_modal_defs =
  spec_fail_def spec_document_def sessionExpiryInterceptor_def req_url_def expiryCatchError_def isIgnored_def IGNORED_PATHS_def
  starts_with_def notifyExpired_def modal_start_def modal_effects_def modal_body_effect_def modal_focus_effect_def
  signInButton_def toggle_class_def BODY_MODAL_CLASS_def

lemma spec_no_dialog: "\<not> expired modal_start" "body_classes (spec_document modal_start) = []"
  by (simp_all add: spec_modal_defs)

lemma spec_dialog:
  "expired (spec_fail ''/api/mailboxes'' modal_start)"
  "body_classes (spec_document (spec_fail ''/api/mailboxes'' modal_start)) = [''modal-open'']"
  "focused (spec_document (spec_fail ''/api/mailboxes'' modal_start)) = Some ''signIn''"
  by (simp_all add: spec_modal_defs)

lemma spec_probes: "\<not> expired (spec_fail ''/api/auth/me'' (spec_fail ''/api/auth/login'' modal_start))"
  by (simp add: spec_modal_defs)

lemma spec_sign_in:
  "\<not> expired (fst (run_page modal_handle skip (spec_fail ''/api/mailboxes'' modal_start)
     [Event Sign_in, Answer 1 [] (ok P_Void), Answer 1 [] (ok P_Void)]))"
  by (simp add: spec_modal_defs run_defs modal_defs auth_defs endpoint_defs as_void_def)

section \<open>app.spec.ts\<close>

definition spec_app :: "string option \<Rightarrow> app_state" where
  "spec_app stored = app_component None (Some 1024) False ((\<lambda>_. None)(SIDEBAR_STORAGE_KEY := stored))"

lemmas spec_app_defs =
  spec_app_def app_component_def app_start_def readCollapsed_def DESKTOP_MIN_WIDTH_def sidebar_defs

lemma spec_sidebar:
  "\<not> sidebarCollapsed (spec_app None)"
  "sidebarCollapsed (toggleSidebar False (spec_app None))"
  "sidebarStorage (toggleSidebar False (spec_app None)) = Some ''true''"
  "map (\<lambda>sec. section_open sec (sections (spec_app None)))
     [Mailbox_section, Mailserver_section, Fail2ban_section, Settings_section] = [True, False, False, False]"
  "sidebarCollapsed (spec_app (Some ''true''))"
  by (simp_all add: spec_app_defs)

lemma spec_rail:
  "let s = toggleSection False Mailserver_section (toggleSidebar False (spec_app None))
   in \<not> sidebarCollapsed s \<and> section_open Mailserver_section (sections s)"
  "let s = toggleSection False Mailbox_section (spec_app None)
   in \<not> sidebarCollapsed s \<and> \<not> section_open Mailbox_section (sections s)"
  by (simp_all add: spec_app_defs)

section \<open>about.spec.ts and user-menu.spec.ts\<close>

lemma spec_about:
  "appVersion (fst (run_page checkForUpdate loadVersion about_start
     [Answer 0 [] (ok (P_Setting (V_Health (Some ''1.2.2''))))])) = ''1.2.2''"
  by (simp add: run_defs loadVersion_def health_endpoint_def about_start_def endpoint_defs)

lemma spec_menu:
  "outstanding (snd (deliver [] (ok P_Void) (snd (menu_onLogout modal_start)) modal_start)) = [Navigate ''/login'']"
  by (simp add: menu_onLogout_def auth_defs run_simps endpoint_defs as_void_def)

end
