(* ===== verification/Driver.thy ===== *)
theory Driver
  imports Pages Format
begin

text \<open>
  The script that drives the application in a browser
  (\<open>src/.agents/skills/run-mailserver-ui/driver.mjs\<close>): it reads its arguments, signs in, opens
  a page, clicks, and reports what it sees. The browser is any function from the actions so
  far and the next one to a reply; the file system, the paths of Node and \<open>Number\<close> are
  parameters. A module of Playwright that fails to load is not modelled.
\<close>

section \<open>Arguments and environment\<close>

datatype js_text = Null | Undefined | Str string

fun text_of :: "js_text \<Rightarrow> string" where
  "text_of Null = ''null''"
| "text_of Undefined = ''undefined''"
| "text_of (Str s) = s"

record host =
  hs_env :: "string \<Rightarrow> string option"
  hs_argv :: "string list"
  hs_file :: "string \<Rightarrow> string option"
  hs_join :: "string \<Rightarrow> string \<Rightarrow> string"
  hs_resolved :: "string \<Rightarrow> string"
  hs_exports_chromium :: "string \<Rightarrow> bool"
  hs_number :: "string \<Rightarrow> jsnum"

text \<open>An element of an array: \<open>undefined\<close> past its end.\<close>

definition element :: "string list \<Rightarrow> nat \<Rightarrow> js_text" where
  "element xs i = (if i < length xs then Str (xs ! i) else Undefined)"

definition flag :: "host \<Rightarrow> string \<Rightarrow> js_text \<Rightarrow> js_text" where
  "flag h name fallback =
     (let i = length (takeWhile (\<lambda>a. a \<noteq> name) (hs_argv h))
      in if i = length (hs_argv h) then fallback else element (hs_argv h) (i + 1))"

definition has_flag :: "host \<Rightarrow> string \<Rightarrow> bool" where
  "has_flag h name = (name \<in> set (hs_argv h))"

fun click_args :: "string list \<Rightarrow> js_text list" where
  "click_args [] = []"
| "click_args (a # as) = (if a = ''--click'' then [element as 0] else []) @ click_args as"

definition env_text :: "host \<Rightarrow> string \<Rightarrow> string option" where
  "env_text h name = (case hs_env h name of Some v \<Rightarrow> or_null v | None \<Rightarrow> None)"

definition RUN_DIR :: "host \<Rightarrow> string" where
  "RUN_DIR h = (case env_text h ''MSUI_RUN_DIR'' of Some d \<Rightarrow> d | None \<Rightarrow> ''/tmp/mailserver-ui-run'')"

text \<open>What the script writes to the standard error before it exits.\<close>

datatype complaint =
    Playwright_not_found string
  | No_chromium_export string
  | Missing_state string
  | Still_loading nat
  | Console_errors_present

definition playwrightPaths :: "host \<Rightarrow> string list" where
  "playwrightPaths h =
     [hs_join h (RUN_DIR h) ''node_modules/playwright/index.js'',
      hs_resolved h ''node_modules/playwright/index.js'']"

definition readState :: "host \<Rightarrow> string \<Rightarrow> string \<Rightarrow> complaint + string" where
  "readState h file envVar =
     (case env_text h envVar of
        Some v \<Rightarrow> Inr v
      | None \<Rightarrow>
          (let path = hs_join h (RUN_DIR h) file in
           case hs_file h path of None \<Rightarrow> Inl (Missing_state path) | Some text \<Rightarrow> Inr (trim text)))"

text \<open>\<open>/MSUI_BASE=(\S+)/\<close>\<close>

fun match_base :: "string \<Rightarrow> string option" where
  "match_base [] = None"
| "match_base (c # cs) =
     (let v = takeWhile (\<lambda>c. \<not> is_ws c) (drop 10 (c # cs))
      in if starts_with (c # cs) ''MSUI_BASE='' \<and> v \<noteq> [] then Some v else match_base cs)"

definition base_url :: "host \<Rightarrow> complaint + string" where
  "base_url h =
     (case env_text h ''MSUI_BASE'' of
        Some v \<Rightarrow> Inr v
      | None \<Rightarrow>
          (case readState h ''env'' ''__none'' of
             Inl c \<Rightarrow> Inl c
           | Inr text \<Rightarrow> Inr (case match_base text of Some v \<Rightarrow> v | None \<Rightarrow> ''http://127.0.0.1:4210'')))"

record settings =
  st_route :: js_text
  st_screenshot :: js_text
  st_theme :: js_text
  st_settleMs :: jsnum
  st_clicks :: "js_text list"
  st_password :: string
  st_base :: string

definition to_number :: "host \<Rightarrow> js_text \<Rightarrow> jsnum" where
  "to_number h v = (case v of Null \<Rightarrow> Num 0 | Undefined \<Rightarrow> NaN | Str s \<Rightarrow> hs_number h s)"

text \<open>Everything before the browser is launched.\<close>

definition set_up :: "host \<Rightarrow> complaint + settings" where
  "set_up h =
     (case find (\<lambda>p. hs_file h p \<noteq> None) (playwrightPaths h) of
        None \<Rightarrow> Inl (Playwright_not_found (RUN_DIR h))
      | Some playwrightPath \<Rightarrow>
          if \<not> hs_exports_chromium h playwrightPath then Inl (No_chromium_export playwrightPath)
          else
            (case readState h ''password'' ''MSUI_PASSWORD'' of
               Inl c \<Rightarrow> Inl c
             | Inr pass \<Rightarrow>
                 (case base_url h of
                    Inl c \<Rightarrow> Inl c
                  | Inr url \<Rightarrow>
                      Inr \<lparr>st_route = flag h ''--route'' (Str ''/dashboard''),
                           st_screenshot = flag h ''--screenshot'' Null,
                           st_theme = flag h ''--theme'' Null,
                           st_settleMs = to_number h (flag h ''--settle'' (Str ''2000'')),
                           st_clicks = click_args (hs_argv h),
                           st_password = pass, st_base = url\<rparr>)))"

section \<open>The browser\<close>

datatype action =
    Launch
  | New_page
  | Goto string
  | Fill string string
  | Click js_text
  | Wait_for_dashboard
  | Wait_idle
  | Wait_ms jsnum
  | Set_theme string
  | Inner_text
  | Count string
  | All_texts string
  | Screenshot string
  | Close

datatype page_message = Console string string | Page_error string

record reply =
  rp_ok :: bool
  rp_messages :: "page_message list"
  rp_text :: string
  rp_count :: nat
  rp_texts :: "string list"

type_synonym browser = "action list \<Rightarrow> action \<Rightarrow> reply"

text \<open>The handlers of the events \<open>console\<close> and \<open>pageerror\<close>.\<close>

fun error_of :: "page_message \<Rightarrow> string option" where
  "error_of (Console type text) = (if type = ''error'' then Some text else None)"
| "error_of (Page_error message) = Some (''PAGEERROR: '' @ message)"

datatype report =
    Clicked js_text
  | Page_text string
  | State js_text nat nat "string list" "string list"
  | Screenshot_taken string

record drive_state =
  dr_trace :: "action list"
  dr_listening :: bool
  consoleErrors :: "string list"
  dr_out :: "report list"
  dr_complaints :: "complaint list"

text \<open>
  A step of the script ends with a value or ends the process. An action that the browser
  refuses throws; nothing catches it, so the process ends with the code 1.
\<close>

datatype 'a ran = Go 'a drive_state | Exit nat drive_state

type_synonym 'a script = "drive_state \<Rightarrow> 'a ran"

definition andThen :: "'a script \<Rightarrow> ('a \<Rightarrow> 'b script) \<Rightarrow> 'b script" where
  "andThen m k s = (case m s of Go x s' \<Rightarrow> k x s' | Exit c s' \<Rightarrow> Exit c s')"

definition act :: "browser \<Rightarrow> action \<Rightarrow> reply script" where
  "act b a s =
     (let r = b (dr_trace s) a;
          heard = (if dr_listening s then List.map_filter error_of (rp_messages r) else []);
          s' = s\<lparr>dr_trace := dr_trace s @ [a], consoleErrors := consoleErrors s @ heard\<rparr>
      in if rp_ok r then Go r s' else Exit 1 s')"

definition update :: "(drive_state \<Rightarrow> drive_state) \<Rightarrow> unit script" where
  "update f s = Go () (f s)"

definition console_log :: "report \<Rightarrow> unit script" where
  "console_log line = update (\<lambda>s. s\<lparr>dr_out := dr_out s @ [line]\<rparr>)"

definition stop_with :: "complaint \<Rightarrow> nat \<Rightarrow> 'a script" where
  "stop_with c code s = Exit code (s\<lparr>dr_complaints := dr_complaints s @ [c]\<rparr>)"

fun act_all :: "browser \<Rightarrow> action list \<Rightarrow> unit script" where
  "act_all b [] = update id"
| "act_all b (a # as) = andThen (act b a) (\<lambda>_. act_all b as)"

section \<open>The script\<close>

definition user_field :: string where
  "user_field = ''input#username, input[name='' @ quoted ''username'' @ '']''"

definition password_field :: string where
  "password_field = ''input[type='' @ quoted ''password'' @ '']''"

definition submit_button :: string where
  "submit_button = ''button[type='' @ quoted ''submit'' @ '']''"

definition sign_in :: "browser \<Rightarrow> settings \<Rightarrow> unit script" where
  "sign_in b st =
     andThen (act_all b [Launch, New_page]) (\<lambda>_.
     andThen (update (\<lambda>s. s\<lparr>consoleErrors := [], dr_listening := True\<rparr>)) (\<lambda>_.
     act_all b
       [Goto (st_base st @ ''/login''), Fill user_field ''admin'', Fill password_field (st_password st),
        Click (Str submit_button), Wait_for_dashboard]))"

definition open_route :: "browser \<Rightarrow> settings \<Rightarrow> unit script" where
  "open_route b st =
     (if st_route st \<noteq> Str ''/dashboard'' then
        andThen (act_all b [Wait_idle, Goto (st_base st @ text_of (st_route st))]) (\<lambda>_.
        update (\<lambda>s. s\<lparr>consoleErrors := []\<rparr>))
      else update id)"

fun click_loop :: "browser \<Rightarrow> settings \<Rightarrow> js_text list \<Rightarrow> unit script" where
  "click_loop b st [] = update id"
| "click_loop b st (selector # selectors) =
     andThen (act b (Click selector)) (\<lambda>_.
     andThen (act b (Wait_ms (st_settleMs st))) (\<lambda>_.
     andThen (console_log (Clicked selector)) (\<lambda>_.
     click_loop b st selectors)))"

definition flip_theme :: "browser \<Rightarrow> settings \<Rightarrow> unit script" where
  "flip_theme b st =
     (if st_theme st = Str ''dark'' \<or> st_theme st = Str ''light'' then
        act_all b [Set_theme (text_of (st_theme st)), Wait_ms (Num 400)]
      else update id)"

definition dump_text :: "host \<Rightarrow> browser \<Rightarrow> unit script" where
  "dump_text h b =
     (if has_flag h ''--dump'' then andThen (act b Inner_text) (\<lambda>r. console_log (Page_text (rp_text r)))
      else update id)"

text \<open>\<open>t.replace(/\s+/g, ' ').trim()\<close>\<close>

fun squeeze :: "string \<Rightarrow> string" where
  "squeeze [] = []"
| "squeeze (c # cs) =
     (if is_ws c then (if cs \<noteq> [] \<and> is_ws (hd cs) then squeeze cs else CHR '' '' # squeeze cs)
      else c # squeeze cs)"

definition red_texts :: "string list \<Rightarrow> string list" where
  "red_texts ts = filter (\<lambda>t. t \<noteq> []) (map (\<lambda>t. trim (squeeze t)) ts)"

definition take_screenshot :: "browser \<Rightarrow> settings \<Rightarrow> unit script" where
  "take_screenshot b st =
     (case st_screenshot st of
        Str path \<Rightarrow>
          if path = [] then update id
          else andThen (act b (Screenshot path)) (\<lambda>_. console_log (Screenshot_taken path))
      | _ \<Rightarrow> update id)"

text \<open>The counts, the report, and the placeholders for the assertion that follows.\<close>

definition report_state :: "browser \<Rightarrow> settings \<Rightarrow> nat script" where
  "report_state b st =
     andThen (act b (Count ''.card'')) (\<lambda>cards.
     andThen (act b (Count ''.placeholder'')) (\<lambda>placeholders.
     andThen (act b (All_texts ''.text-danger'')) (\<lambda>texts s.
       andThen
         (console_log (State (st_route st) (rp_count cards) (rp_count placeholders)
           (red_texts (rp_texts texts)) (consoleErrors s)))
         (\<lambda>_. Go (rp_count placeholders)) s)))"

definition assertions :: "host \<Rightarrow> nat \<Rightarrow> unit script" where
  "assertions h placeholders s =
     (if has_flag h ''--assert-loaded'' \<and> 0 < placeholders then stop_with (Still_loading placeholders) 1 s
      else if has_flag h ''--assert-no-console-errors'' \<and> consoleErrors s \<noteq> [] then
        stop_with Console_errors_present 1 s
      else Exit 0 s)"

definition drive :: "host \<Rightarrow> browser \<Rightarrow> settings \<Rightarrow> unit script" where
  "drive h b st =
     andThen (sign_in b st) (\<lambda>_.
     andThen (open_route b st) (\<lambda>_.
     andThen (act_all b [Wait_idle, Wait_ms (st_settleMs st)]) (\<lambda>_.
     andThen (click_loop b st (st_clicks st)) (\<lambda>_.
     andThen (flip_theme b st) (\<lambda>_.
     andThen (dump_text h b) (\<lambda>_.
     andThen (report_state b st) (\<lambda>placeholders.
     andThen (take_screenshot b st) (\<lambda>_.
     andThen (act b Close) (\<lambda>_.
     assertions h placeholders)))))))))"

definition drive_start :: drive_state where
  "drive_start =
     \<lparr>dr_trace = [], dr_listening = False, consoleErrors = [], dr_out = [], dr_complaints = []\<rparr>"

definition run_driver :: "host \<Rightarrow> browser \<Rightarrow> unit ran" where
  "run_driver h b =
     (case set_up h of Inl c \<Rightarrow> stop_with c 2 drive_start | Inr st \<Rightarrow> drive h b st drive_start)"

section \<open>What a run does\<close>

text \<open>
  The reference: the list of actions that the settings ask for. A run performs it from the
  front, up to the first action that the browser refuses.
\<close>

definition plan_to_route :: "settings \<Rightarrow> action list" where
  "plan_to_route st =
     [Launch, New_page, Goto (st_base st @ ''/login''), Fill user_field ''admin'',
      Fill password_field (st_password st), Click (Str submit_button), Wait_for_dashboard] @
     (if st_route st = Str ''/dashboard'' then [] else [Wait_idle, Goto (st_base st @ text_of (st_route st))])"

definition plan_on_route :: "host \<Rightarrow> settings \<Rightarrow> action list" where
  "plan_on_route h st =
     [Wait_idle, Wait_ms (st_settleMs st)] @
     concat (map (\<lambda>c. [Click c, Wait_ms (st_settleMs st)]) (st_clicks st)) @
     (if st_theme st \<in> {Str ''dark'', Str ''light''} then [Set_theme (text_of (st_theme st)), Wait_ms (Num 400)] else []) @
     (if has_flag h ''--dump'' then [Inner_text] else []) @
     [Count ''.card'', Count ''.placeholder'', All_texts ''.text-danger'']"

definition plan_end :: "settings \<Rightarrow> action list" where
  "plan_end st =
     (case st_screenshot st of Str path \<Rightarrow> if path = [] then [] else [Screenshot path] | _ \<Rightarrow> []) @ [Close]"

definition plan :: "host \<Rightarrow> settings \<Rightarrow> action list" where
  "plan h st = plan_to_route st @ plan_on_route h st @ plan_end st"

fun performed :: "browser \<Rightarrow> action list \<Rightarrow> action list \<Rightarrow> action list" where
  "performed b h [] = []"
| "performed b h (a # as) = a # (if rp_ok (b h a) then performed b (h @ [a]) as else [])"

fun all_ok :: "browser \<Rightarrow> action list \<Rightarrow> action list \<Rightarrow> bool" where
  "all_ok b h [] = True"
| "all_ok b h (a # as) = (rp_ok (b h a) \<and> all_ok b (h @ [a]) as)"

fun heard :: "browser \<Rightarrow> action list \<Rightarrow> action list \<Rightarrow> string list" where
  "heard b h [] = []"
| "heard b h (a # as) = List.map_filter error_of (rp_messages (b h a)) @ heard b (h @ [a]) as"

lemma all_ok_append: "all_ok b h (as @ bs) = (all_ok b h as \<and> all_ok b (h @ as) bs)"
  by (induction as arbitrary: h) auto

lemma performed_append:
  "performed b h (as @ bs) = performed b h as @ (if all_ok b h as then performed b (h @ as) bs else [])"
  by (induction as arbitrary: h) auto

lemma performed_all: "all_ok b h as \<Longrightarrow> performed b h as = as"
  by (induction as arbitrary: h) auto

lemma heard_append: "heard b h (as @ bs) = heard b h as @ heard b (h @ as) bs"
  by (induction as arbitrary: h) auto

text \<open>
  A script that performs exactly the actions of a list, hears the errors of each once it
  listens, and ends with 1 when an action is refused.
\<close>

definition follows :: "bool \<Rightarrow> browser \<Rightarrow> 'a script \<Rightarrow> action list \<Rightarrow> bool" where
  "follows e b m as =
     (\<forall>s. case m s of
        Go x s' \<Rightarrow> all_ok b (dr_trace s) as \<and> dr_trace s' = dr_trace s @ as \<and>
          (e \<and> dr_listening s \<longrightarrow> dr_listening s' \<and> consoleErrors s' = consoleErrors s @ heard b (dr_trace s) as)
      | Exit c s' \<Rightarrow> c = 1 \<and> \<not> all_ok b (dr_trace s) as \<and> dr_trace s' = dr_trace s @ performed b (dr_trace s) as)"

lemma follows_go:
  "follows e b m as \<Longrightarrow> m s = Go x s' \<Longrightarrow> all_ok b (dr_trace s) as \<and> dr_trace s' = dr_trace s @ as \<and>
    (e \<and> dr_listening s \<longrightarrow> dr_listening s' \<and> consoleErrors s' = consoleErrors s @ heard b (dr_trace s) as)"
  unfolding follows_def by (drule spec[of _ s]) simp

lemma follows_exit:
  "follows e b m as \<Longrightarrow> m s = Exit c s' \<Longrightarrow>
    c = 1 \<and> \<not> all_ok b (dr_trace s) as \<and> dr_trace s' = dr_trace s @ performed b (dr_trace s) as"
  unfolding follows_def by (drule spec[of _ s]) simp

lemma followsI:
  assumes "\<And>s x s'. m s = Go x s' \<Longrightarrow> all_ok b (dr_trace s) as \<and> dr_trace s' = dr_trace s @ as \<and>
      (e \<and> dr_listening s \<longrightarrow> dr_listening s' \<and> consoleErrors s' = consoleErrors s @ heard b (dr_trace s) as)"
    and "\<And>s c s'. m s = Exit c s' \<Longrightarrow>
      c = 1 \<and> \<not> all_ok b (dr_trace s) as \<and> dr_trace s' = dr_trace s @ performed b (dr_trace s) as"
  shows "follows e b m as"
  unfolding follows_def using assms by (auto split: ran.split)

lemma follows_act: "follows e b (act b a) [a]"
  by (rule followsI) (auto simp: act_def Let_def split: if_splits)

lemma follows_update:
  "(\<And>s. dr_trace (f s) = dr_trace s \<and>
      (e \<longrightarrow> dr_listening (f s) = dr_listening s \<and> consoleErrors (f s) = consoleErrors s)) \<Longrightarrow>
    follows e b (update f) []"
  by (rule followsI) (auto simp: update_def)

lemma follows_then:
  assumes "follows e b m as" and "\<And>x. follows e b (k x) bs"
  shows "follows e b (andThen m k) (as @ bs)"
proof (rule followsI)
  fix s y s''
  assume "andThen m k s = Go y s''"
  then obtain x s' where m: "m s = Go x s'" and k: "k x s' = Go y s''" by (auto simp: andThen_def split: ran.splits)
  from follows_go[OF assms(1) m] follows_go[OF assms(2) k]
  show "all_ok b (dr_trace s) (as @ bs) \<and> dr_trace s'' = dr_trace s @ as @ bs \<and>
      (e \<and> dr_listening s \<longrightarrow> dr_listening s'' \<and> consoleErrors s'' = consoleErrors s @ heard b (dr_trace s) (as @ bs))"
    by (auto simp: all_ok_append heard_append)
next
  fix s c s''
  assume e: "andThen m k s = Exit c s''"
  show "c = 1 \<and> \<not> all_ok b (dr_trace s) (as @ bs) \<and> dr_trace s'' = dr_trace s @ performed b (dr_trace s) (as @ bs)"
  proof (cases "m s")
    case (Go x s')
    with e have "k x s' = Exit c s''" by (simp add: andThen_def)
    from follows_go[OF assms(1) Go] follows_exit[OF assms(2) this]
    show ?thesis by (auto simp: all_ok_append performed_append performed_all)
  next
    case (Exit c' s')
    with e follows_exit[OF assms(1) Exit] show ?thesis
      by (simp add: andThen_def all_ok_append performed_append)
  qed
qed

lemma follows_log: "follows e b (console_log line) []"
  unfolding console_log_def by (rule follows_update) simp

lemma follows_skip: "follows e b (update id) []"
  by (rule follows_update) simp

lemma follows_all: "follows e b (act_all b as) as"
proof (induction as)
  case (Cons a as)
  have "follows e b (andThen (act b a) (\<lambda>_. act_all b as)) ([a] @ as)"
    by (intro follows_then follows_act Cons)
  then show ?case by simp
qed (simp add: follows_skip)

lemma follows_clicks: "follows e b (click_loop b st cs) (concat (map (\<lambda>c. [Click c, Wait_ms (st_settleMs st)]) cs))"
proof (induction cs)
  case (Cons c cs)
  have "follows e b (click_loop b st (c # cs))
      ([Click c] @ [Wait_ms (st_settleMs st)] @ [] @ concat (map (\<lambda>c. [Click c, Wait_ms (st_settleMs st)]) cs))"
    unfolding click_loop.simps by (intro follows_then follows_act follows_log Cons)
  then show ?case by simp
qed (simp add: follows_skip)

lemma follows_theme:
  "follows e b (flip_theme b st)
     (if st_theme st \<in> {Str ''dark'', Str ''light''} then [Set_theme (text_of (st_theme st)), Wait_ms (Num 400)] else [])"
  using follows_all[of e b "[Set_theme (text_of (st_theme st)), Wait_ms (Num 400)]"] follows_skip
  by (auto simp: flip_theme_def simp del: act_all.simps)

lemma follows_dump: "follows e b (dump_text h b) (if has_flag h ''--dump'' then [Inner_text] else [])"
  using follows_then[OF follows_act follows_log, of e b Inner_text] follows_skip by (simp add: dump_text_def)

lemma follows_screenshot:
  "follows e b (take_screenshot b st)
     (case st_screenshot st of Str path \<Rightarrow> if path = [] then [] else [Screenshot path] | _ \<Rightarrow> [])"
  using follows_then[OF follows_act follows_log, of e b "Screenshot path" for path] follows_skip
  by (simp add: take_screenshot_def split: js_text.split)

lemma follows_report: "follows e b (report_state b st) [Count ''.card'', Count ''.placeholder'', All_texts ''.text-danger'']"
proof -
  have last: "follows e b (\<lambda>s. andThen (console_log (line s)) (\<lambda>_. Go v) s) []" for line and v :: nat
    by (rule followsI) (auto simp: andThen_def console_log_def update_def)
  have "follows e b (report_state b st) ([Count ''.card''] @ [Count ''.placeholder''] @ [All_texts ''.text-danger''] @ [])"
    unfolding report_state_def by (intro follows_then follows_act last)
  then show ?thesis by simp
qed

text \<open>The three parts of a run.\<close>

definition to_route :: "browser \<Rightarrow> settings \<Rightarrow> unit script" where
  "to_route b st = andThen (sign_in b st) (\<lambda>_. open_route b st)"

definition on_route :: "host \<Rightarrow> browser \<Rightarrow> settings \<Rightarrow> nat script" where
  "on_route h b st =
     andThen (act_all b [Wait_idle, Wait_ms (st_settleMs st)]) (\<lambda>_.
     andThen (click_loop b st (st_clicks st)) (\<lambda>_.
     andThen (flip_theme b st) (\<lambda>_.
     andThen (dump_text h b) (\<lambda>_.
     report_state b st))))"

definition to_end :: "browser \<Rightarrow> settings \<Rightarrow> unit script" where
  "to_end b st = andThen (take_screenshot b st) (\<lambda>_. andThen (act b Close) (\<lambda>_. update id))"

lemma andThen_assoc: "andThen (andThen m k) l = andThen m (\<lambda>x. andThen (k x) l)"
  by (rule ext) (simp add: andThen_def split: ran.split)

lemma andThen_skip: "andThen (update id) k = k ()"
  by (rule ext) (simp add: andThen_def update_def)

lemma drive_parts:
  "drive h b st = andThen (to_route b st) (\<lambda>_. andThen (on_route h b st) (\<lambda>n. andThen (to_end b st) (\<lambda>_. assertions h n)))"
  by (simp add: drive_def to_route_def on_route_def to_end_def andThen_assoc andThen_skip)

lemma follows_on_route: "follows e b (on_route h b st) (plan_on_route h st)"
  unfolding on_route_def plan_on_route_def
  by (intro follows_then follows_all follows_clicks follows_theme follows_dump follows_report)

lemma follows_to_end: "follows e b (to_end b st) (plan_end st)"
  using follows_then[OF follows_screenshot[of e b st] follows_then[OF follows_act[of e b Close] follows_skip[of e b]]]
  by (simp add: to_end_def plan_end_def)

text \<open>How many actions the errors of the console are counted from.\<close>

definition counted_from :: "settings \<Rightarrow> nat" where
  "counted_from st = (if st_route st = Str ''/dashboard'' then 2 else 9)"

definition errors_after :: "browser \<Rightarrow> nat \<Rightarrow> action list \<Rightarrow> string list" where
  "errors_after b n as = heard b (take n as) (drop n as)"

lemma follows_to_route: "follows False b (to_route b st) (plan_to_route st)"
proof -
  have sign: "follows False b (sign_in b st)
      ([Launch, New_page] @ [] @ [Goto (st_base st @ ''/login''), Fill user_field ''admin'',
        Fill password_field (st_password st), Click (Str submit_button), Wait_for_dashboard])"
    unfolding sign_in_def by (intro follows_then follows_all follows_update) simp
  have "follows False b (andThen (act_all b as) (\<lambda>_. update (\<lambda>s. s\<lparr>consoleErrors := []\<rparr>))) (as @ [])" for as
    by (intro follows_then follows_all follows_update) simp
  then have "follows False b (open_route b st)
      (if st_route st = Str ''/dashboard'' then [] else [Wait_idle, Goto (st_base st @ text_of (st_route st))])"
    using follows_skip by (simp add: open_route_def del: act_all.simps)
  from follows_then[OF sign this] show ?thesis by (simp add: to_route_def plan_to_route_def)
qed

lemma then_go: "andThen m k s = Go y s'' \<Longrightarrow> \<exists>x s'. m s = Go x s' \<and> k x s' = Go y s''"
  by (auto simp: andThen_def split: ran.splits)

lemma sign_in_go:
  assumes "sign_in b st drive_start = Go x s"
  shows "dr_listening s \<and> consoleErrors s = heard b [Launch, New_page] (drop 2 (take 7 (plan_to_route st)))"
proof -
  let ?five = "[Goto (st_base st @ ''/login''), Fill user_field ''admin'', Fill password_field (st_password st),
        Click (Str submit_button), Wait_for_dashboard]"
  let ?listen = "\<lambda>s. s\<lparr>consoleErrors := [], dr_listening := True\<rparr>"
  from assms obtain y s0 where a: "act_all b [Launch, New_page] drive_start = Go y s0"
    and c: "act_all b ?five (?listen s0) = Go x s"
    unfolding sign_in_def by (auto dest!: then_go simp: update_def simp del: act_all.simps)
  have "dr_trace s0 = [Launch, New_page]"
    using follows_go[OF follows_all[of True] a] by (simp add: drive_start_def)
  then show ?thesis
    using follows_go[OF follows_all[of True] c] by (simp add: plan_to_route_def)
qed

lemma to_route_go:
  assumes "to_route b st drive_start = Go x s"
  shows "dr_listening s \<and> consoleErrors s =
    (if st_route st = Str ''/dashboard'' then heard b [Launch, New_page] (drop 2 (plan_to_route st)) else [])"
proof -
  from assms obtain y s0 where a: "sign_in b st drive_start = Go y s0" and c: "open_route b st s0 = Go x s"
    unfolding to_route_def by (auto dest!: then_go)
  note signed = sign_in_go[OF a]
  show ?thesis
  proof (cases "st_route st = Str ''/dashboard''")
    case True
    then show ?thesis using signed c by (simp add: open_route_def update_def plan_to_route_def)
  next
    case False
    with c obtain z s1 where "act_all b [Wait_idle, Goto (st_base st @ text_of (st_route st))] s0 = Go z s1"
      and "s = s1\<lparr>consoleErrors := []\<rparr>"
      by (auto simp: open_route_def update_def dest!: then_go simp del: act_all.simps)
    then show ?thesis using signed False follows_go[OF follows_all[of True]] by fastforce
  qed
qed

definition before_report :: "host \<Rightarrow> browser \<Rightarrow> settings \<Rightarrow> unit script" where
  "before_report h b st =
     andThen (act_all b [Wait_idle, Wait_ms (st_settleMs st)]) (\<lambda>_.
     andThen (click_loop b st (st_clicks st)) (\<lambda>_.
     andThen (flip_theme b st) (\<lambda>_. dump_text h b)))"

lemma on_route_split: "on_route h b st = andThen (before_report h b st) (\<lambda>_. report_state b st)"
  by (simp add: on_route_def before_report_def andThen_assoc)

lemma follows_before: "follows e b (before_report h b st) (take (length (plan_on_route h st) - 3) (plan_on_route h st))"
proof -
  have "follows e b (before_report h b st)
     ([Wait_idle, Wait_ms (st_settleMs st)] @
      concat (map (\<lambda>c. [Click c, Wait_ms (st_settleMs st)]) (st_clicks st)) @
      (if st_theme st \<in> {Str ''dark'', Str ''light''} then [Set_theme (text_of (st_theme st)), Wait_ms (Num 400)] else []) @
      (if has_flag h ''--dump'' then [Inner_text] else []))"
    unfolding before_report_def by (intro follows_then follows_all follows_clicks follows_theme follows_dump)
  then show ?thesis by (simp add: plan_on_route_def)
qed

lemma on_route_value:
  assumes "on_route h b st s = Go n s'"
  shows "n = rp_count (b (dr_trace s @ take (length (plan_on_route h st) - 2) (plan_on_route h st)) (Count ''.placeholder''))"
proof -
  from then_go[OF assms[unfolded on_route_split]] obtain u s0
    where a: "before_report h b st s = Go u s0" and c: "report_state b st s0 = Go n s'" by blast
  have "n = rp_count (b (dr_trace s0 @ [Count ''.card'']) (Count ''.placeholder''))"
    using c by (auto simp: report_state_def andThen_def act_def Let_def console_log_def update_def split: if_splits)
  moreover have "take (length (plan_on_route h st) - 3) (plan_on_route h st) @ [Count ''.card''] =
      take (length (plan_on_route h st) - 2) (plan_on_route h st)"
    by (simp add: plan_on_route_def)
  ultimately show ?thesis using follows_go[OF follows_before[of True] a] by simp
qed

text \<open>The placeholders that the run counts, when it comes to it.\<close>

definition still_loading :: "host \<Rightarrow> browser \<Rightarrow> settings \<Rightarrow> nat" where
  "still_loading h b st =
     rp_count (b (plan_to_route st @ take (length (plan_on_route h st) - 2) (plan_on_route h st)) (Count ''.placeholder''))"

lemma driver_exit:
  assumes Inr: "set_up h = Inr st"
  shows "\<exists>s. run_driver h b =
         Exit (if all_ok b [] (plan h st) \<and> \<not> (has_flag h ''--assert-loaded'' \<and> 0 < still_loading h b st) \<and>
                 \<not> (has_flag h ''--assert-no-console-errors'' \<and> errors_after b (counted_from st) (plan h st) \<noteq> [])
               then 0 else 1) s \<and>
       dr_trace s = performed b [] (plan h st)"
proof -
  have start: "dr_trace drive_start = []" by (simp add: drive_start_def)
  show ?thesis
  proof (cases "to_route b st drive_start")
    case (Exit c s)
    with follows_exit[OF follows_to_route this] Inr show ?thesis
      by (simp add: run_driver_def drive_parts andThen_def start plan_def all_ok_append performed_append)
  next
    case (Go x s1)
    note first = follows_go[OF follows_to_route Go] to_route_go[OF Go]
    show ?thesis
    proof (cases "on_route h b st s1")
      case (Exit c s)
      with follows_exit[OF follows_on_route[of True] this] first Go Inr show ?thesis
        by (simp add: run_driver_def drive_parts andThen_def start plan_def all_ok_append performed_append performed_all)
    next
      case mid: (Go n s2)
      note second = follows_go[OF follows_on_route[of True] mid]
      have n: "n = still_loading h b st"
        using on_route_value[OF mid] first by (simp add: still_loading_def start)
      show ?thesis
      proof (cases "to_end b st s2")
        case (Exit c s)
        with follows_exit[OF follows_to_end[of True] this] first second Go mid Inr show ?thesis
          by (simp add: run_driver_def drive_parts andThen_def start plan_def all_ok_append performed_append performed_all)
      next
        case last: (Go u s3)
        note third = follows_go[OF follows_to_end[of True] last]
        have "consoleErrors s3 = errors_after b (counted_from st) (plan h st)"
          using first second third start
          by (auto simp: errors_after_def counted_from_def plan_def heard_append plan_to_route_def)
        then show ?thesis
          using first second third Go mid last Inr n
          by (simp add: run_driver_def drive_parts andThen_def start plan_def all_ok_append performed_append
              performed_all assertions_def stop_with_def)
      qed
    qed
  qed
qed


text \<open>
  An error that the requested page raises while it loads is dropped with those of the
  dashboard: the assertion that there are none still holds.
\<close>

definition error_on_load :: "settings \<Rightarrow> browser" where
  "error_on_load st done a =
     \<lparr>rp_ok = True,
      rp_messages = (if a = Goto (st_base st @ text_of (st_route st)) then [Console ''error'' ''broken''] else []),
      rp_text = [], rp_count = 0, rp_texts = []\<rparr>"

lemma load_errors_dropped:
  assumes "set_up h = Inr st" and "st_route st \<noteq> Str ''/dashboard''"
  shows "\<exists>s. run_driver h (error_on_load st) = Exit 0 s"
proof -
  have ok: "all_ok (error_on_load st) d as" for d as
    by (induction as arbitrary: d) (simp_all add: error_on_load_def)
  have quiet: "heard (error_on_load st) d as = []" if "Goto (st_base st @ text_of (st_route st)) \<notin> set as" for d as
    using that by (induction as arbitrary: d) (auto simp: error_on_load_def List.map_filter_def)
  have "drop 9 (plan h st) = plan_on_route h st @ plan_end st"
    using assms(2) by (simp add: plan_def plan_to_route_def)
  moreover have "Goto u \<notin> set (plan_on_route h st @ plan_end st)" for u
    by (auto simp: plan_on_route_def plan_end_def split: js_text.splits)
  ultimately have "errors_after (error_on_load st) (counted_from st) (plan h st) = []"
    using assms(2) quiet by (simp add: errors_after_def counted_from_def)
  moreover have "still_loading h (error_on_load st) st = 0"
    by (simp add: still_loading_def error_on_load_def)
  ultimately show ?thesis using driver_exit[OF assms(1), of "error_on_load st"] ok by auto
qed

end
