(* ===== verification/Spec2Isabelle.thy ===== *)
theory Spec2Isabelle
  imports App_Shell Theme Pending_Actions Dashboard_Page Users_Page Mailboxes_Page
    Profile_Page Login_Page Fail2ban_Page Logs_Page Audit_Page About_Page Settings_Pages
    Relay_Page Aliases_Page Postfix_Page Rspamd_Page Scoped_Editors Mailserver_Lists
    Mailserver_Views Page_Requests Session_Requests Removals Races Backend_Files Backend_Relays Unit_Tests Driver
begin

text \<open>
  \<^bold>\<open>Mailserver UI: a verification of the frontend.\<close>

  The program is a single-page application (Angular, under \<open>src/frontend/src/app\<close>) that
  administers a docker-mailserver container through a FastAPI backend. Its parts:
  \<^item> the \<^emph>\<open>services\<close> of \<open>core/\<close>: stateless clients of the HTTP API, and four services
    with state (session, session expiry, pending actions, theme);
  \<^item> the \<^emph>\<open>shell\<close> (\<open>app.ts\<close>, \<open>app.routes.ts\<close>, \<open>core/auth.guard.ts\<close>, the interceptors, the
    dialog of an expired session, the bell, the user menu), which decides which page a
    session reaches;
  \<^item> the \<^emph>\<open>pages\<close> of \<open>features/\<close>: components that keep their state in signals, check what
    is typed, send requests and put the answers on display;
  \<^item> \<^emph>\<open>pure code\<close> they share: table sorting, formatting, log parsing, version comparison.
  Components interact by calling services, through the session (which role is signed in)
  and through the event loop: every \<open>await\<close> of a method lets other handlers run.

  \<^bold>\<open>The model of execution.\<close> \<open>Async\<close> is the small language the methods are written in. A
  method is a function from the state of its component to the state where it first stops
  and a process: ended, failed, or waiting for requests with a continuation that reads the
  state as it is when the answer comes. There is one constant for each statement of the
  sources (\<open>seq\<close>, \<open>await\<close>, \<open>try_catch\<close>, \<open>try_finally\<close>, \<open>Promise.all\<close> as \<open>call2\<close> and
  \<open>all_of\<close>). \<open>reachable\<close> is the event loop: the constructor, then the events of the user and
  the answers of the backend in any order, the answers being any value at all, of any shape,
  or any error. So the properties of the pages quantify over every interleaving and every
  behaviour of the backend.

  \<^bold>\<open>The rules.\<close> \<open>Async_Rules\<close>, \<open>Busy_Flags\<close> and \<open>Async_Bounds\<close> hold one rule per statement
  for four kinds of facts: invariants and frames (\<open>segs\<close>), requests (\<open>sends\<close>), busy flags that
  are lowered again (\<open>tame\<close>, \<open>clears\<close>), and bounds on the answers a method can take (\<open>ends\<close>).
  The locales of \<open>Event_Loop\<close> and \<open>Async_Bounds\<close> (\<open>steady_page\<close>, \<open>quiet_page\<close>, \<open>guarded_page\<close>,
  \<open>steady_guarded\<close>, \<open>bounded_page\<close>, \<open>settling_page\<close>) lift them from the handlers of a page to its
  runs, and each page interprets them on its own handlers. \<open>Table_Sort.comparator\<close> and
  \<open>sortable_table\<close> are the contract of a comparison function, interpreted on the comparisons of
  the log pages and of the dashboard; \<open>Scoped_Editors.scoped_editor\<close> is the contract of the
  three pages that edit one file out of several.

  \<^bold>\<open>Theories and sources.\<close>
  \<^item> \<open>Prelude\<close>: the strings and numbers of JavaScript that the sources use (\<open>trim\<close>,
    \<open>toLowerCase\<close>, \<open>split\<close>, \<open>includes\<close>, \<open>Number.isInteger\<close>).
  \<^item> \<open>Api_Models\<close>, \<open>Mailserver_Models\<close>: the interfaces of \<open>core/*.models.ts\<close> as records and
    datatypes, and the value a response can hold.
  \<^item> \<open>Urls\<close>, \<open>Services\<close>, \<open>Mailserver_Service\<close>: \<open>core/*.service.ts\<close>, one definition per method,
    giving the request it sends and how the answer is read; \<open>mailserver.utils.ts\<close>.
  \<^item> \<open>Pages\<close>: \<open>submit\<close>, the try/catch/finally of the handlers, and the tools to run a page on
    given events and answers, which the witnesses use.
  \<^item> \<open>Auth_Session\<close>: \<open>auth.service.ts\<close>, \<open>auth.guard.ts\<close>, the two interceptors and their chain
    (\<open>app.config.ts\<close>), \<open>session-expiry.service.ts\<close>, the dialog, the user menu. \<open>App_Shell\<close>: \<open>app.ts\<close>, \<open>app.routes.ts\<close>.
    \<open>Theme\<close>: \<open>theme.service.ts\<close>, the theme switch, the script of \<open>index.html\<close>. \<open>Pending_Actions\<close>: its service and the bell.
  \<^item> \<open>Table_Sort\<close>, \<open>Format\<close>, \<open>User_Multi_Select\<close>: \<open>shared/\<close>. \<open>Log_Lines\<close>: the line parsers and
    comparisons of the two log views.
  \<^item> \<open>Mailboxes_Page\<close>, \<open>Users_Page\<close>, \<open>Dashboard_Page\<close>, \<open>Fail2ban_Page\<close>, \<open>Profile_Page\<close>,
    \<open>Login_Page\<close>, \<open>Audit_Page\<close>, \<open>About_Page\<close>: the page of that name under \<open>features/\<close>;
    \<open>Settings_Pages\<close>: \<open>settings/mail\<close> and \<open>settings/oidc\<close>.
  \<^item> \<open>Relay_Page\<close>, \<open>Aliases_Page\<close>, \<open>Postfix_Page\<close>, \<open>Rspamd_Page\<close>, \<open>Logs_Page\<close>, \<open>Scoped_Editors\<close>
    (sieve, spam, ldap), \<open>Mailserver_Lists\<close> (restrictions, dovecot, queue), \<open>Mailserver_Views\<close>
    (dkim, dns, tls, environment): \<open>features/mailserver/\<close>.
  \<^item> \<open>Data_Contracts\<close>: the request interfaces of \<open>core/*.models.ts\<close> and the request models of
    \<open>src/backend/app/models\<close>, both as schemas. \<open>Backend_Routes\<close>: the routes of
    \<open>src/backend/app/routers\<close> with the access they ask for (\<open>depends.py\<close>, \<open>auth.py\<close>).
    \<open>Request_Bodies\<close>: when the body of each method has the type its route reads.
    \<open>Backend_Files\<close>: how \<open>mailserver_service.py\<close> checks, writes and reads back the files of
    Postfix and Rspamd; \<open>Backend_Relays\<close>: its relays and exclusions, two files that hold a
    dictionary each. \<open>file_dict\<close> is the contract of such a file, interpreted on both.
  \<^item> \<open>Page_Requests\<close>: the requests of all pages against the routes of the backend;
    \<open>Session_Requests\<close>: the same requests through the interceptors;
    \<open>Removals\<close>: which handler answers a removal; \<open>Races\<close>: runs in which answers come late.
  \<^item> \<open>Unit_Tests\<close>: the cases of \<open>*.spec.ts\<close> on the model. \<open>Driver\<close>: the script \<open>driver.mjs\<close> that drives the application in a browser.
  The record of a page has one field per signal and per form model, under the name of the
  signal; a definition has the name of the method, with the page in front where two pages
  share the name. The event datatype of a page lists what its template can call; \<open>*_handle\<close>
  gives the method for each, \<open>*_start\<close> the initial values of the signals.

  \<^bold>\<open>What is shown.\<close>
  \<^item> Access: the route table gives every page only to the sessions it is meant for, guards
    decide as they say, redirections arrive, the dashboard only asks for what the role may read.
  \<^item> Requests (\<open>*_requests_valid\<close>): in every interleaving a page only ever sends requests that
    satisfy its checks; the predicate \<open>*_request\<close> is the abstract contract of the page.
  \<^item> Rest (\<open>*_settles\<close>): once the events stop only a bounded number of answers
    can come, and when none is left no spinner or locked button stays behind.
  \<^item> The two programs together: a request that a page can have in flight is written for a
    declared route, is authorised for everyone the guards let through, carries a body of the
    type that the route reads, and on the pages of \<open>checks_all\<close> is not refused for its values;
    what the Postfix and Rspamd forms accept is stored and read back as it was; the relay
    files refine an abstract book of relays, exclusions and credentials; a 401 to a request
    of a page always opens the dialog of an expired session.
  \<^item> The document: the script of \<open>index.html\<close> paints what the theme service paints, with the
    exception it proves; identifiers of the multiple choice never clash; the class of the
    body follows the dialog.
  \<^item> Limits: the interleavings and the names for which the program does not do what it means
    to do (\<open>expired_sign_in\<close>, \<open>removal_reaches\<close>, the runs of \<open>Races\<close>, the texts that
    \<open>Backend_Relays\<close> shows not to be storable).
  \<^item> Flows: what one method does on each answer, errors included.
  \<^item> Pure code: the parsers invert writers, sorting is the unique stable arrangement, checks
    written as loops or regular expressions decide what their declarative forms say, versions
    are compared by a strict order, byte counts are rounded to the decimals shown.

  \<^bold>\<open>Choices.\<close> Characters are those from U+0000 to U+00FF, which is what a HOL character holds;
  texts beyond them are not modelled. Numbers are exact rationals or \<open>NaN\<close>: rounding of floating
  point is not modelled, and \<open>Math.log\<close> is a parameter wherever its result matters, with the
  exact logarithm as instance. \<open>Number\<close> is modelled on the decimal texts the sources apply it to.
  \<open>confirm\<close> is a parameter of the handler that asks, the validity of a form, which Angular
  computes, a flag of \<open>submit\<close>; \<open>localeCompare\<close>, \<open>Date\<close> and the clock are parameters. A handler can run even if
  its button is disabled, so no property rests on a template. The later end of \<open>Promise.all\<close>
  over two methods is where it goes on, which is exact because those methods never reject. The
  assignments between the end of a call and the next stop run at once, as in JavaScript. The
  local storage may be blocked at any access. Loops are structural recursions, so no fuel is
  needed; the bounds of \<open>Async_Bounds\<close> are on answers, one for each \<open>await\<close> on a path.

  \<^bold>\<open>The backend.\<close> It is another program, and in the properties of the pages its answers are
  arbitrary. Of its code the part that decides whether a request is understood is modelled:
  the routes in their order, the required roles, the request models. That the framework takes
  the first declared route that fits the decoded path, that a body is checked against its
  model and a role before the handler runs, is the documented behaviour of FastAPI and
  Starlette, written out in \<open>answered_by\<close>, \<open>well_formed\<close> and \<open>authorised\<close>. The syntax of an
  e-mail address belongs to a library and is a parameter. Python strings are on the same
  characters as those of the frontend.

  \<^bold>\<open>Not modelled.\<close> The handlers of the backend, its database and the mail container, four
  files apart; the HTML templates and the style sheets; the focus that two forms of the
  users page take; the modules that \<open>app.config.ts\<close> and \<open>main.ts\<close> hand to Angular, and what
  Angular makes of them: the matching of a path to a route, the validity of a form,
  the moment an effect runs; look-ups that reach the prototype of an object; the test cases
  about markup, scripts, containers and documents. After \<open>loginWithOidc\<close> the application is gone: what it
  had in flight is never answered.
\<close>

section \<open>The preferences in the local storage\<close>

text \<open>
  The theme service and the sidebar share the local storage without disturbing each other:
  after a mode was chosen and the sidebar toggled, in either order, an application that
  starts on that storage, on a wide screen, finds both as they were left, and whatever
  else is stored is untouched.
\<close>

theorem preferences_survive:
  "let theme = setThemeMode False m t; sidebar = toggleSidebar False s;
       stored = localStorage(STORAGE_KEY := storage theme, SIDEBAR_STORAGE_KEY := sidebarStorage sidebar)
   in stored = localStorage(SIDEBAR_STORAGE_KEY := sidebarStorage sidebar, STORAGE_KEY := storage theme) \<and>
      mode (theme_service matchMedia False stored attr meta) = mode theme \<and>
      sidebarCollapsed (app_component user (Some (DESKTOP_MIN_WIDTH + w)) False stored) = sidebarCollapsed sidebar"
  by (auto simp: Let_def STORAGE_KEY_def SIDEBAR_STORAGE_KEY_def fun_upd_twist theme_service_def theme_boot_def
      setThemeMode_def persistMode_def stored_mode app_component_def app_start_def readCollapsed_def toggleSidebar_def
      persistCollapsed_def)

section \<open>The session and the routes\<close>

text \<open>
  C40. Signing out from the user menu ends the access to every page. The backend is asked to
  end the session; whatever it answers, the application forgets the user. Only when it
  agreed is the router sent to the login page, otherwise the error goes on to the caller.
  Without a user every guard on the way to a page other than the login sends the router to
  the login page, and the login page accepts.
\<close>

theorem sign_out_leaves:
  "outstanding (snd (menu_onLogout s)) = [Api POST ''/api/auth/logout'' [] (Some (JObj []))] \<and>
   (\<forall>r t. au_user (fst (deliver [] r (snd (menu_onLogout s)) t)) = None) \<and>
   (\<forall>e t. snd (deliver [] (Inl e) (snd (menu_onLogout s)) t) = Fail e) \<and>
   (\<forall>v t. outstanding (snd (deliver [] (ok v) (snd (menu_onLogout s)) t)) = [Navigate ''/login'']) \<and>
   list_all (\<lambda>(path, gs, c).
      if c = C_login then path = [''login''] \<and> list_all (\<lambda>g. guard_verdict g None = Allowed) gs
      else gs \<noteq> [] \<and> list_all (\<lambda>g. guard_verdict g None = Redirect ''/login'') gs) all_pages"
  by (auto simp: modal_defs auth_defs run_simps endpoint_defs skip_def throw_def as_void_def auth_logout_endpoint_def
      route_defs role_verdict_def split: sum.splits list.splits option.splits)

end
